(* ===== verification/Prelude.thy ===== *)
theory Prelude
  imports Main "HOL-Library.Word" "HOL-Library.List_Lexorder" "HOL-Library.Char_ord"
begin

text \<open>
  Shared material of the development: the result type that carries Go's error returns and
  panics, the ordered key-value store that stands for a module's prefix store, and the generic
  lemmas on both that the component theories rest on.

  A Go function that returns \<open>error\<close> and may panic becomes a function into \<open>'a res\<close>:
  \<open>Ok\<close> the normal return, \<open>Err\<close> a returned error, \<open>Panic\<close> a panic. A state-changing
  function returns the new state inside \<open>Ok\<close>; on \<open>Err\<close> and \<open>Panic\<close> no state is
  returned, because every caller in the SDK runs a message on a cached context and drops its
  writes when the message fails.
\<close>

section \<open>Results: errors and panics as values\<close>

text \<open>Addresses are byte strings and amounts unbounded integers, as \<open>sdk.AccAddress\<close> and
  \<open>sdkmath.Int\<close> are.\<close>

type_synonym AccAddress = string
type_synonym denom = string

record coin =
  Denom :: denom
  Amount :: int

type_synonym coins = "coin list"

text \<open>The errors the modelled code can return. \<open>ErrInsufficientFunds\<close> carries what its message
  prints: the spendable coins and the coin that was asked for.\<close>

datatype error =
    ErrUnauthorized
  | ErrUnknownAddress
  | ErrInvalidCoins
  | ErrInvalidAddress
  | ErrSendDisabled
  | ErrInsufficientFunds coins coin
  | ErrWrapped string error
  | ErrMsg string

datatype 'a res = Ok 'a | Err error | Panic error

fun res_bind :: "'a res \<Rightarrow> ('a \<Rightarrow> 'b res) \<Rightarrow> 'b res" where
  "res_bind (Ok x) f = f x"
| "res_bind (Err e) f = Err e"
| "res_bind (Panic e) f = Panic e"

lemma res_bind_assoc: "res_bind (res_bind r f) g = res_bind r (\<lambda>x. res_bind (f x) g)"
  by (cases r) auto

text \<open>An error of the callee that the caller rewrites before it returns it.\<close>

fun res_map_err :: "(error \<Rightarrow> error) \<Rightarrow> 'a res \<Rightarrow> 'a res" where
  "res_map_err g (Ok x) = Ok x"
| "res_map_err g (Err e) = Err (g e)"
| "res_map_err g (Panic e) = Panic e"

text \<open>An error of the callee that the caller turns into a panic.\<close>

fun res_must :: "(error \<Rightarrow> error) \<Rightarrow> 'a res \<Rightarrow> 'a res" where
  "res_must g (Ok x) = Ok x"
| "res_must g (Err e) = Panic (g e)"
| "res_must g (Panic e) = Panic e"

definition is_ok :: "'a res \<Rightarrow> bool" where
  "is_ok r = (case r of Ok _ \<Rightarrow> True | Err _ \<Rightarrow> False | Panic _ \<Rightarrow> False)"

definition is_panic :: "'a res \<Rightarrow> bool" where
  "is_panic r = (case r of Ok _ \<Rightarrow> False | Err _ \<Rightarrow> False | Panic _ \<Rightarrow> True)"

named_theorems res_eqs \<open>when a composed computation returns, fails or panics\<close>

lemma res_bind_Ok [res_eqs]: "res_bind r f = Ok y \<longleftrightarrow> (\<exists>x. r = Ok x \<and> f x = Ok y)"
  by (cases r) auto

lemma res_bind_Err [res_eqs]:
  "res_bind r f = Err e \<longleftrightarrow> r = Err e \<or> (\<exists>x. r = Ok x \<and> f x = Err e)"
  by (cases r) auto

lemma res_bind_Panic [res_eqs]:
  "res_bind r f = Panic e \<longleftrightarrow> r = Panic e \<or> (\<exists>x. r = Ok x \<and> f x = Panic e)"
  by (cases r) auto

lemma res_map_err_Ok [simp]: "res_map_err g r = Ok x \<longleftrightarrow> r = Ok x"
  by (cases r) auto

lemma res_map_err_Panic [simp]: "res_map_err g r = Panic e \<longleftrightarrow> r = Panic e"
  by (cases r) auto

lemma res_map_err_Err [res_eqs]: "res_map_err g r = Err e \<longleftrightarrow> (\<exists>e'. r = Err e' \<and> e = g e')"
  by (cases r) auto

lemma res_must_Ok [simp]: "res_must g r = Ok x \<longleftrightarrow> r = Ok x"
  by (cases r) auto

lemma res_must_Err [simp]: "res_must g r \<noteq> Err e"
  by (cases r) auto

lemma res_must_Panic [res_eqs]:
  "res_must g r = Panic e \<longleftrightarrow> r = Panic e \<or> (\<exists>e'. r = Err e' \<and> e = g e')"
  by (cases r) auto

lemma is_ok_iff [simp]: "is_ok r \<longleftrightarrow> (\<exists>x. r = Ok x)"
  by (cases r) (auto simp: is_ok_def)

lemma is_panic_iff [simp]: "is_panic r \<longleftrightarrow> (\<exists>e. r = Panic e)"
  by (cases r) (auto simp: is_panic_def)

section \<open>Integer division\<close>

text \<open>\<open>big.Int.Quo\<close> and \<open>sdkmath.Int.Quo\<close> truncate towards zero; \<open>Mod\<close> by a positive
  divisor is HOL's \<open>mod\<close>.\<close>

definition quo :: "int \<Rightarrow> int \<Rightarrow> int" where
  "quo a b = sgn a * sgn b * (\<bar>a\<bar> div \<bar>b\<bar>)"

lemma quo_nonneg [simp]: "0 \<le> a \<Longrightarrow> 0 < b \<Longrightarrow> quo a b = a div b"
  by (cases "a = 0") (auto simp: quo_def)

section \<open>Ordered key-value stores\<close>

text \<open>
  A prefix of a module's KVStore is an association list ordered by key: a lookup, a write that
  replaces or inserts, a delete that ignores an absent key, and an iteration in ascending key
  order, which is the list itself.
\<close>

type_synonym ('k, 'v) kv = "('k \<times> 'v) list"

definition kv_get :: "('k, 'v) kv \<Rightarrow> 'k \<Rightarrow> 'v option" where
  "kv_get kvs k = map_of kvs k"

fun kv_set :: "'k::linorder \<Rightarrow> 'v \<Rightarrow> ('k, 'v) kv \<Rightarrow> ('k, 'v) kv" where
  "kv_set k v [] = [(k, v)]"
| "kv_set k v (p # kvs) =
     (if fst p < k then p # kv_set k v kvs
      else if fst p = k then (k, v) # kvs
      else (k, v) # p # kvs)"

definition kv_delete :: "'k \<Rightarrow> ('k, 'v) kv \<Rightarrow> ('k, 'v) kv" where
  "kv_delete k kvs = filter (\<lambda>p. fst p \<noteq> k) kvs"

definition kv_wf :: "('k::linorder, 'v) kv \<Rightarrow> bool" where
  "kv_wf kvs = sorted_wrt (<) (map fst kvs)"

text \<open>Go reads an absent number as zero.\<close>

definition kv_num :: "('k, int) kv \<Rightarrow> 'k \<Rightarrow> int" where
  "kv_num kvs k = (case kv_get kvs k of None \<Rightarrow> 0 | Some n \<Rightarrow> n)"

definition kv_sum :: "('k, int) kv \<Rightarrow> int" where
  "kv_sum kvs = sum_list (map snd kvs)"

lemma kv_wf_Nil [simp]: "kv_wf []"
  by (simp add: kv_wf_def)

lemma kv_wf_Cons: "kv_wf (p # kvs) \<longleftrightarrow> (\<forall>q\<in>set kvs. fst p < fst q) \<and> kv_wf kvs"
  by (auto simp: kv_wf_def)

lemma kv_get_Nil [simp]: "kv_get [] k = None"
  by (simp add: kv_get_def)

lemma kv_get_Cons: "kv_get (p # kvs) k = (if fst p = k then Some (snd p) else kv_get kvs k)"
  by (cases p) (simp add: kv_get_def)

lemma kv_get_None: "(\<And>q. q \<in> set kvs \<Longrightarrow> fst q \<noteq> k) \<Longrightarrow> kv_get kvs k = None"
  by (induction kvs) (auto simp: kv_get_Cons)

lemma kv_get_SomeD: "kv_get kvs k = Some v \<Longrightarrow> (k, v) \<in> set kvs"
  by (simp add: kv_get_def map_of_SomeD)

lemma kv_wf_get: "kv_wf kvs \<Longrightarrow> (k, v) \<in> set kvs \<Longrightarrow> kv_get kvs k = Some v"
  by (induction kvs) (auto simp: kv_wf_Cons kv_get_Cons)

lemma kv_get_set [simp]:
  "kv_get (kv_set k v kvs) k' = (if k' = k then Some v else kv_get kvs k')"
  by (induction kvs) (auto simp: kv_get_Cons)

lemma kv_get_delete [simp]:
  "kv_get (kv_delete k kvs) k' = (if k' = k then None else kv_get kvs k')"
  by (induction kvs) (auto simp: kv_get_Cons kv_delete_def)

lemma kv_set_keys: "fst ` set (kv_set k v kvs) = insert k (fst ` set kvs)"
  by (induction kvs) auto

lemma kv_wf_set [simp, intro]: "kv_wf kvs \<Longrightarrow> kv_wf (kv_set k v kvs)"
proof (induction kvs)
  case (Cons p kvs)
  have "\<forall>q\<in>set (kv_set k v kvs). fst q = k \<or> fst q \<in> fst ` set kvs"
    using kv_set_keys [of k v kvs] by blast
  with Cons show ?case by (fastforce simp: kv_wf_Cons)
qed (simp add: kv_wf_Cons)

lemma kv_wf_delete [simp, intro]: "kv_wf kvs \<Longrightarrow> kv_wf (kv_delete k kvs)"
  by (induction kvs) (auto simp: kv_wf_Cons kv_delete_def)

lemma kv_delete_absent: "kv_get kvs k = None \<Longrightarrow> kv_delete k kvs = kvs"
  by (induction kvs) (auto simp: kv_get_Cons kv_delete_def split: if_splits)

lemma kv_num_set [simp]: "kv_num (kv_set k v kvs) k' = (if k' = k then v else kv_num kvs k')"
  by (simp add: kv_num_def)

lemma kv_num_delete [simp]: "kv_num (kv_delete k kvs) k' = (if k' = k then 0 else kv_num kvs k')"
  by (simp add: kv_num_def)

lemma kv_sum_Nil [simp]: "kv_sum [] = 0"
  by (simp add: kv_sum_def)

lemma kv_sum_Cons [simp]: "kv_sum (p # kvs) = snd p + kv_sum kvs"
  by (simp add: kv_sum_def)

lemma kv_sum_set [simp]: "kv_wf kvs \<Longrightarrow> kv_sum (kv_set k v kvs) = kv_sum kvs - kv_num kvs k + v"
proof (induction kvs)
  case (Cons p kvs)
  consider "fst p < k" | "fst p = k" | "k < fst p" by fastforce
  then show ?case
  proof cases
    case 3
    with Cons.prems have "kv_get kvs k = None"
      by (intro kv_get_None) (auto simp: kv_wf_Cons)
    moreover from 3 have "\<not> fst p < k" "fst p \<noteq> k" by auto
    ultimately show ?thesis by (simp add: kv_num_def kv_get_Cons)
  qed (use Cons in \<open>auto simp: kv_num_def kv_get_Cons kv_wf_Cons\<close>)
qed (simp add: kv_num_def)

lemma kv_sum_delete [simp]: "kv_wf kvs \<Longrightarrow> kv_sum (kv_delete k kvs) = kv_sum kvs - kv_num kvs k"
proof (induction kvs)
  case (Cons p kvs)
  show ?case
  proof (cases "fst p = k")
    case True
    with Cons.prems have absent: "kv_get kvs k = None"
      by (intro kv_get_None) (auto simp: kv_wf_Cons)
    then have "kv_delete k (p # kvs) = kvs"
      using True kv_delete_absent [OF absent] by (simp add: kv_delete_def)
    with True show ?thesis by (simp add: kv_num_def kv_get_Cons)
  qed (use Cons in \<open>auto simp: kv_num_def kv_get_Cons kv_wf_Cons kv_delete_def\<close>)
qed (simp add: kv_num_def kv_delete_def)

text \<open>Two ordered stores that answer every lookup alike are the same store.\<close>

lemma kv_eqI:
  assumes "kv_wf xs" "kv_wf ys" "\<And>k. kv_get xs k = kv_get ys k"
  shows "xs = ys"
proof -
  have sets: "set zs = {(k, v). kv_get zs k = Some v}" if "kv_wf zs" for zs :: "('a, 'b) kv"
    using that by (auto dest: kv_get_SomeD kv_wf_get)
  have "distinct zs \<and> sorted_wrt (\<lambda>p q. fst p < fst q) zs" if "kv_wf zs" for zs :: "('a, 'b) kv"
    using that by (induction zs) (auto simp: kv_wf_Cons)
  moreover have "set xs = set ys" using sets assms by auto
  ultimately show ?thesis
    using assms(1,2)
  proof (induction xs arbitrary: ys)
    case (Cons p xs)
    from Cons.prems obtain q ys' where ys: "ys = q # ys'"
      by (cases ys) auto
    have "p = q"
    proof (rule ccontr)
      assume "p \<noteq> q"
      with Cons.prems(2) ys have "p \<in> set ys'" and "q \<in> set xs" by auto
      with Cons.prems(3,4) ys show False by (fastforce simp: kv_wf_Cons)
    qed
    moreover have "set xs = set ys'"
      using Cons.prems(2-4) ys \<open>p = q\<close> by (fastforce simp: kv_wf_Cons)
    ultimately show ?case using Cons.IH [of ys'] Cons.prems ys by (auto simp: kv_wf_Cons)
  qed auto
qed

text \<open>The sum over a store of non-negative numbers bounds any two distinct entries.\<close>

lemma kv_sum_nonneg: "(\<And>p. p \<in> set kvs \<Longrightarrow> 0 \<le> snd p) \<Longrightarrow> 0 \<le> kv_sum kvs"
  by (induction kvs) (simp_all add: add_nonneg_nonneg)

lemma kv_num_nonneg: "(\<And>p. p \<in> set kvs \<Longrightarrow> 0 \<le> snd p) \<Longrightarrow> 0 \<le> kv_num kvs k"
  by (fastforce simp: kv_num_def dest: kv_get_SomeD split: option.splits)

lemma kv_num_le_sum:
  assumes "kv_wf kvs" "\<And>p. p \<in> set kvs \<Longrightarrow> 0 \<le> snd p"
  shows "kv_num kvs k \<le> kv_sum kvs"
proof -
  have "0 \<le> kv_sum (kv_delete k kvs)"
    using assms(2) by (intro kv_sum_nonneg) (auto simp: kv_delete_def)
  with assms(1) show ?thesis by simp
qed

lemma kv_num_add_le_sum:
  assumes "kv_wf kvs" "\<And>p. p \<in> set kvs \<Longrightarrow> 0 \<le> snd p" "k \<noteq> k'"
  shows "kv_num kvs k + kv_num kvs k' \<le> kv_sum kvs"
proof -
  have "kv_num (kv_delete k kvs) k' \<le> kv_sum (kv_delete k kvs)"
    using assms(1,2) by (intro kv_num_le_sum kv_wf_delete) (auto simp: kv_delete_def)
  with assms(1,3) show ?thesis by simp
qed

text \<open>Division that rounds up.\<close>

lemma ceil_div:
  fixes d m :: int
  assumes "0 < m"
  shows "(d + m - 1) div m = (if d mod m = 0 then d div m else d div m + 1)"
proof -
  let ?r = "d mod m"
  have "d + m - 1 = (?r + m - 1) + m * (d div m)" by simp
  then have e: "(d + m - 1) div m = d div m + (?r + m - 1) div m" using assms by (metis add.commute div_mult_self2 less_irrefl)
  have r: "0 \<le> ?r" "?r < m" using assms by simp_all
  show ?thesis
  proof (cases "?r = 0")
    case True
    then show ?thesis using e assms by (simp add: div_pos_pos_trivial)
  next
    case False
    with r have "(?r - 1) div m = 0" by (simp add: div_pos_pos_trivial)
    moreover have "(?r + m - 1) div m = (?r - 1) div m + 1" using assms div_add_self2 [of m "?r - 1"] by (simp add: algebra_simps)
    ultimately show ?thesis using e False by simp
  qed
qed

end
