(* ===== verification/SdkApi.thy ===== *)
theory SdkApi
  imports Prelude
begin

text \<open>
  The code the modules call but the repository does not contain: the methods of \<open>sdk.Coins\<close>,
  the x/bank and x/auth keepers (\<open>types.BankKeeper\<close> and \<open>types.AccountKeeper\<close> of
  \<open>src/x/precisebank/types/interfaces.go\<close>) and the rounding operations of
  \<open>sdkmath.LegacyDec\<close>. They are parameters of the model: records of functions that the
  definitions take as arguments. What the modules rely on is stated once, as the assumptions of
  the locales \<open>sdk_bank\<close> and \<open>legacy_dec\<close>, and a reference ledger shows that the
  assumptions can hold together.
\<close>

section \<open>Records of the external functions\<close>

text \<open>The EVM coin of the chain (\<open>EvmCoinInfo\<close> of x/vm): the bank denomination, the 18-decimals
  denomination and the number of decimals of the former.\<close>

type_synonym Decimals = "32 word"

record EvmCoinInfo =
  eciDenom :: denom
  eciExtendedDenom :: denom
  eciDisplayDenom :: denom
  eciDecimals :: Decimals

record coin_api =
  cValidDenom :: "denom \<Rightarrow> bool"
  cIsValid :: "coins \<Rightarrow> bool"
  cAmountOf :: "coins \<Rightarrow> denom \<Rightarrow> int"
  cSub :: "coins \<Rightarrow> coin \<Rightarrow> coins"
  cIsAllPositive :: "coins \<Rightarrow> bool"
  cIsZero :: "coins \<Rightarrow> bool"
  cSort :: "coins \<Rightarrow> coins"

record module_account =
  maAddress :: AccAddress
  maPermissions :: "string list"

record account_keeper =
  akGetModuleAddress :: "string \<Rightarrow> AccAddress option"
  akGetModuleAccount :: "string \<Rightarrow> module_account option"
  akStringToBytes :: "string \<Rightarrow> AccAddress option"

record 'b bank_keeper =
  bkGetBalance :: "'b \<Rightarrow> AccAddress \<Rightarrow> denom \<Rightarrow> int"
  bkSpendableCoin :: "'b \<Rightarrow> AccAddress \<Rightarrow> denom \<Rightarrow> int"
  bkGetSupply :: "'b \<Rightarrow> denom \<Rightarrow> int"
  bkBlockedAddr :: "AccAddress \<Rightarrow> bool"
  bkIsSendEnabledCoin :: "'b \<Rightarrow> coin \<Rightarrow> bool"
  bkSendCoins :: "'b \<Rightarrow> AccAddress \<Rightarrow> AccAddress \<Rightarrow> coins \<Rightarrow> 'b res"
  bkSendCoinsFromAccountToModule :: "'b \<Rightarrow> AccAddress \<Rightarrow> string \<Rightarrow> coins \<Rightarrow> 'b res"
  bkSendCoinsFromModuleToModule :: "'b \<Rightarrow> string \<Rightarrow> string \<Rightarrow> coins \<Rightarrow> 'b res"
  bkMintCoins :: "'b \<Rightarrow> string \<Rightarrow> coins \<Rightarrow> 'b res"
  bkBurnCoins :: "'b \<Rightarrow> string \<Rightarrow> coins \<Rightarrow> 'b res"

text \<open>\<open>Keeper\<close> of \<open>src/x/precisebank/keeper/keeper.go\<close>: its bank and account keepers, and
  the process-wide functions the module reads: the coin methods, the bech32 conversions of
  \<open>sdk.AccAddress\<close> and the EVM coin.\<close>

record 'b Keeper =
  bk :: "'b bank_keeper"
  ak :: account_keeper
  api :: coin_api
  accFromBech32 :: "string \<Rightarrow> AccAddress option"
  accString :: "AccAddress \<Rightarrow> string"
  info :: EvmCoinInfo

definition newCoin :: "denom \<Rightarrow> int \<Rightarrow> coin" where
  "newCoin d n = \<lparr>Denom = d, Amount = n\<rparr>"

lemma newCoin_sel [simp]: "Denom (newCoin d n) = d" "Amount (newCoin d n) = n"
  by (simp_all add: newCoin_def)

fun isInsufficientFunds :: "error \<Rightarrow> bool" where
  "isInsufficientFunds (ErrInsufficientFunds _ _) = True"
| "isInsufficientFunds (ErrWrapped _ e) = isInsufficientFunds e"
| "isInsufficientFunds _ = False"

abbreviation Minter :: string where "Minter \<equiv> ''minter''"
abbreviation Burner :: string where "Burner \<equiv> ''burner''"

definition has_perm :: "'b Keeper \<Rightarrow> string \<Rightarrow> string \<Rightarrow> bool" where
  "has_perm K m p =
     (case akGetModuleAccount (ak K) m of None \<Rightarrow> False | Some acc \<Rightarrow> p \<in> set (maPermissions acc))"

abbreviation bbal :: "'b Keeper \<Rightarrow> 'b \<Rightarrow> AccAddress \<Rightarrow> denom \<Rightarrow> int" where
  "bbal K \<equiv> bkGetBalance (bk K)"

abbreviation bspend :: "'b Keeper \<Rightarrow> 'b \<Rightarrow> AccAddress \<Rightarrow> denom \<Rightarrow> int" where
  "bspend K \<equiv> bkSpendableCoin (bk K)"

abbreviation amt_of :: "'b Keeper \<Rightarrow> coins \<Rightarrow> denom \<Rightarrow> int" where
  "amt_of K \<equiv> cAmountOf (api K)"

text \<open>The amount of \<open>d\<close> an account gains when \<open>cs\<close> reach it, as a function of the account.\<close>

definition at_addr :: "AccAddress \<Rightarrow> int \<Rightarrow> AccAddress \<Rightarrow> int" where
  "at_addr t n a = (if a = t then n else 0)"

lemma at_addr_simps [simp]: "at_addr t n t = n" "a \<noteq> t \<Longrightarrow> at_addr t n a = 0" "at_addr t 0 a = 0"
  by (simp_all add: at_addr_def)

section \<open>What the modules rely on\<close>

text \<open>
  The contract of \<open>sdk.Coins\<close>, x/bank and x/auth. A valid coin set has one positive amount per
  denomination. A transfer of a valid coin set succeeds exactly when the sender's spendable
  balance covers it, moves the coins and leaves the supply alone; its only error is
  \<open>ErrInsufficientFunds\<close> (no send restriction is installed). Minting to a module account with
  the minter permission always succeeds; burning from one with the burner permission succeeds
  exactly when its balance covers the coins. The module-account variants resolve the address and
  panic when there is none. Module accounts have no locked coins, and different modules have
  different addresses.
\<close>

locale sdk_bank =
  fixes K :: "'b Keeper"
  assumes coins_single: "cAmountOf (api K) [newCoin d n] d' = (if d' = d then n else 0)"
    and coins_single_valid: "cIsValid (api K) [newCoin d n] \<longleftrightarrow> cValidDenom (api K) d \<and> 0 < n"
    and coins_nil: "cAmountOf (api K) [] d = 0"
    and coins_nonneg: "cIsValid (api K) cs \<Longrightarrow> 0 \<le> cAmountOf (api K) cs d"
    and coins_sub: "cIsValid (api K) cs \<Longrightarrow> cAmountOf (api K) cs d = n \<Longrightarrow> 0 < n \<Longrightarrow>
      cAmountOf (api K) (cSub (api K) cs (newCoin d n)) d' =
        (if d' = d then 0 else cAmountOf (api K) cs d')"
    and coins_sub_valid: "cIsValid (api K) cs \<Longrightarrow> cAmountOf (api K) cs d = n \<Longrightarrow> 0 < n \<Longrightarrow>
      cIsValid (api K) (cSub (api K) cs (newCoin d n))"
    and coins_all_positive: "cIsValid (api K) cs \<Longrightarrow> cIsAllPositive (api K) cs \<longleftrightarrow> cs \<noteq> []"
    and spend_le_bal: "0 \<le> bspend K b a d \<and> bspend K b a d \<le> bbal K b a d"
    and module_spend: "akGetModuleAddress (ak K) m = Some a \<Longrightarrow> bspend K b a d = bbal K b a d"
    and module_account_address: "akGetModuleAccount (ak K) m = Some acc \<Longrightarrow>
      akGetModuleAddress (ak K) m = Some (maAddress acc)"
    and module_addr_nonempty: "akGetModuleAddress (ak K) m = Some a \<Longrightarrow> a \<noteq> []"
    and module_addr_inj: "akGetModuleAddress (ak K) m = Some a \<Longrightarrow>
      akGetModuleAddress (ak K) m' = Some a \<Longrightarrow> m = m'"
    and send_ok_iff: "cIsValid (api K) cs \<Longrightarrow>
      is_ok (bkSendCoins (bk K) b f t cs) \<longleftrightarrow> (\<forall>d. amt_of K cs d \<le> bspend K b f d)"
    and send_err: "cIsValid (api K) cs \<Longrightarrow> bkSendCoins (bk K) b f t cs = Err e \<Longrightarrow>
      isInsufficientFunds e"
    and send_no_panic: "cIsValid (api K) cs \<Longrightarrow> bkSendCoins (bk K) b f t cs \<noteq> Panic e"
    and send_bal: "cIsValid (api K) cs \<Longrightarrow> bkSendCoins (bk K) b f t cs = Ok b' \<Longrightarrow>
      bbal K b' a d = bbal K b a d - at_addr f (amt_of K cs d) a + at_addr t (amt_of K cs d) a"
    and send_spend: "cIsValid (api K) cs \<Longrightarrow> bkSendCoins (bk K) b f t cs = Ok b' \<Longrightarrow> f \<noteq> t \<Longrightarrow>
      a \<noteq> t \<Longrightarrow> bspend K b' a d = bspend K b a d - at_addr f (amt_of K cs d) a"
    and send_supply: "cIsValid (api K) cs \<Longrightarrow> bkSendCoins (bk K) b f t cs = Ok b' \<Longrightarrow>
      bkGetSupply (bk K) b' d = bkGetSupply (bk K) b d"
    and send_to_module: "bkSendCoinsFromAccountToModule (bk K) b f m cs =
      (case akGetModuleAccount (ak K) m of None \<Rightarrow> Panic ErrUnknownAddress
       | Some acc \<Rightarrow> bkSendCoins (bk K) b f (maAddress acc) cs)"
    and send_module_to_module: "bkSendCoinsFromModuleToModule (bk K) b m m' cs =
      (case akGetModuleAddress (ak K) m of None \<Rightarrow> Panic ErrUnknownAddress
       | Some a \<Rightarrow> (case akGetModuleAccount (ak K) m' of None \<Rightarrow> Panic ErrUnknownAddress
           | Some acc \<Rightarrow> bkSendCoins (bk K) b a (maAddress acc) cs))"
    and mint_ok: "has_perm K m Minter \<Longrightarrow> cIsValid (api K) cs \<Longrightarrow> is_ok (bkMintCoins (bk K) b m cs)"
    and mint_bal: "bkMintCoins (bk K) b m cs = Ok b' \<Longrightarrow> cIsValid (api K) cs \<Longrightarrow>
      akGetModuleAddress (ak K) m = Some t \<Longrightarrow>
      bbal K b' a d = bbal K b a d + at_addr t (amt_of K cs d) a"
    and mint_supply: "bkMintCoins (bk K) b m cs = Ok b' \<Longrightarrow> cIsValid (api K) cs \<Longrightarrow>
      bkGetSupply (bk K) b' d = bkGetSupply (bk K) b d + amt_of K cs d"
    and burn_ok_iff: "has_perm K m Burner \<Longrightarrow> cIsValid (api K) cs \<Longrightarrow>
      akGetModuleAddress (ak K) m = Some f \<Longrightarrow>
      is_ok (bkBurnCoins (bk K) b m cs) \<longleftrightarrow> (\<forall>d. amt_of K cs d \<le> bbal K b f d)"
    and burn_err: "has_perm K m Burner \<Longrightarrow> cIsValid (api K) cs \<Longrightarrow>
      bkBurnCoins (bk K) b m cs = Err e \<Longrightarrow> isInsufficientFunds e"
    and burn_no_panic: "has_perm K m Burner \<Longrightarrow> cIsValid (api K) cs \<Longrightarrow>
      bkBurnCoins (bk K) b m cs \<noteq> Panic e"
    and burn_bal: "bkBurnCoins (bk K) b m cs = Ok b' \<Longrightarrow> cIsValid (api K) cs \<Longrightarrow>
      akGetModuleAddress (ak K) m = Some f \<Longrightarrow>
      bbal K b' a d = bbal K b a d - at_addr f (amt_of K cs d) a"
    and burn_supply: "bkBurnCoins (bk K) b m cs = Ok b' \<Longrightarrow> cIsValid (api K) cs \<Longrightarrow>
      bkGetSupply (bk K) b' d = bkGetSupply (bk K) b d - amt_of K cs d"
begin

lemma bal_nonneg: "0 \<le> bbal K b a d"
  using spend_le_bal [of b a d] by linarith

text \<open>Single-coin instances: every internal transfer of x/precisebank is one of these.\<close>

lemma send1_ok_iff:
  assumes "cValidDenom (api K) d" "0 < n"
  shows "is_ok (bkSendCoins (bk K) b f t [newCoin d n]) \<longleftrightarrow> n \<le> bspend K b f d"
proof -
  have "is_ok (bkSendCoins (bk K) b f t [newCoin d n]) \<longleftrightarrow>
      (\<forall>d'. amt_of K [newCoin d n] d' \<le> bspend K b f d')"
    using assms by (intro send_ok_iff) (simp add: coins_single_valid)
  also have "\<dots> \<longleftrightarrow> n \<le> bspend K b f d"
    using spend_le_bal by (auto simp: coins_single)
  finally show ?thesis .
qed

lemma send1_bal:
  assumes "cValidDenom (api K) d" "0 < n" "bkSendCoins (bk K) b f t [newCoin d n] = Ok b'"
  shows "bbal K b' a d' =
    bbal K b a d' - at_addr f (if d' = d then n else 0) a + at_addr t (if d' = d then n else 0) a"
  using send_bal [OF _ assms(3)] assms(1,2) by (simp add: coins_single_valid coins_single)

lemma burn1_ok_iff:
  assumes "has_perm K m Burner" "cValidDenom (api K) d" "0 < n"
    "akGetModuleAddress (ak K) m = Some f"
  shows "is_ok (bkBurnCoins (bk K) b m [newCoin d n]) \<longleftrightarrow> n \<le> bbal K b f d"
proof -
  have "is_ok (bkBurnCoins (bk K) b m [newCoin d n]) \<longleftrightarrow>
      (\<forall>d'. amt_of K [newCoin d n] d' \<le> bbal K b f d')"
    using assms by (intro burn_ok_iff) (simp_all add: coins_single_valid)
  also have "\<dots> \<longleftrightarrow> n \<le> bbal K b f d"
    using bal_nonneg by (auto simp: coins_single)
  finally show ?thesis .
qed

lemma perm_account:
  "has_perm K m p \<Longrightarrow> \<exists>acc. akGetModuleAccount (ak K) m = Some acc \<and>
     akGetModuleAddress (ak K) m = Some (maAddress acc) \<and> maAddress acc \<noteq> []"
  using module_addr_nonempty
  by (auto simp: has_perm_def dest: module_account_address split: option.splits)

end

section \<open>Fixed-point decimals\<close>

text \<open>
  A \<open>sdkmath.LegacyDec\<close> is an integer number of \<open>10\<^sup>-\<^sup>1\<^sup>8\<close> units and is modelled by it; a nil decimal
  is \<open>None\<close>. Addition, subtraction, comparison and the embedding of integers are exact. The operations
  that round are parameters. The laws: multiplication by a whole number is exact, division by a whole
  number and truncation round towards zero.
\<close>

abbreviation decOne :: int where "decOne \<equiv> 1000000000000000000"

definition LegacyNewDec :: "int \<Rightarrow> int" where
  "LegacyNewDec n = n * decOne"

record dec_ops =
  decMul :: "int \<Rightarrow> int \<Rightarrow> int"
  decMulInt :: "int \<Rightarrow> int \<Rightarrow> int"
  decQuoInt :: "int \<Rightarrow> int \<Rightarrow> int"
  decTruncateInt :: "int \<Rightarrow> int"
  decCeilInt :: "int \<Rightarrow> int"

locale legacy_dec =
  fixes D :: dec_ops
  assumes dec_mul_whole: "0 \<le> n \<Longrightarrow> 0 \<le> d \<Longrightarrow> decMul D (LegacyNewDec n) d = n * d"
    and dec_mul_commute: "decMul D c d = decMul D d c"
    and dec_mul_int: "decMulInt D d n = d * n"
    and dec_quo_int: "0 \<le> d \<Longrightarrow> 0 < n \<Longrightarrow> decQuoInt D d n = d div n"
    and dec_truncate: "0 \<le> d \<Longrightarrow> decTruncateInt D d = d div decOne"
    and dec_ceil: "0 \<le> d \<Longrightarrow> decCeilInt D d = (d + decOne - 1) div decOne"
begin

lemma truncate_whole: "0 \<le> n \<Longrightarrow> decTruncateInt D (LegacyNewDec n) = n"
  by (simp add: dec_truncate LegacyNewDec_def)

end

text \<open>The decimals as the SDK computes them: multiplication rounds half to even on the magnitude.\<close>

definition roundHalfEven :: "int \<Rightarrow> int" where
  "roundHalfEven x =
     (let q = x div decOne; r = x mod decOne in
      if 2 * r < decOne then q else if decOne < 2 * r then q + 1 else if even q then q else q + 1)"

definition legacyDec :: dec_ops where
  "legacyDec = \<lparr>decMul = (\<lambda>a b. if a * b < 0 then - roundHalfEven (- (a * b)) else roundHalfEven (a * b)),
     decMulInt = (\<lambda>d n. d * n), decQuoInt = quo, decTruncateInt = (\<lambda>d. quo d decOne),
     decCeilInt = (\<lambda>d. if 0 < d \<and> d mod decOne \<noteq> 0 then quo d decOne + 1 else quo d decOne)\<rparr>"

interpretation legacyDec: legacy_dec legacyDec
proof unfold_locales
  fix n d :: int
  assume nn: "0 \<le> n" "0 \<le> d"
  have e: "LegacyNewDec n * d = (n * d) * decOne" by (simp add: LegacyNewDec_def)
  from nn have "\<not> LegacyNewDec n * d < 0" by (simp add: LegacyNewDec_def not_less)
  moreover have "roundHalfEven ((n * d) * decOne) = n * d" by (simp add: roundHalfEven_def Let_def)
  ultimately show "decMul legacyDec (LegacyNewDec n) d = n * d" by (simp add: legacyDec_def e)
next
  fix d :: int
  assume "0 \<le> d"
  then show "decCeilInt legacyDec d = (d + decOne - 1) div decOne" using ceil_div [of decOne d] by (cases "d = 0") (simp_all add: legacyDec_def)
qed (simp_all add: legacyDec_def mult.commute)

end
