(* ===== verification/EvmDenom.thy ===== *)
theory EvmDenom
  imports SdkApi
begin

text \<open>
  The EVM coin of the chain: \<open>src/x/vm/types/denom.go\<close> (decimals and their conversion factor to
  18 decimals), \<open>src/x/vm/types/denom_config.go\<close> (the process-wide coin info and its one-time
  configuration) and \<open>src/x/vm/types/scaling.go\<close> (amount and denomination conversions).
\<close>

section \<open>Decimals (denom.go)\<close>

definition EighteenDecimals :: Decimals where "EighteenDecimals = 18"

text \<open>The package-level map from decimals to factor, entry by entry.\<close>

definition ConversionFactorMap :: "(Decimals \<times> int) list" where
  "ConversionFactorMap =
    [(1, 100000000000000000), (2, 10000000000000000), (3, 1000000000000000),
     (4, 100000000000000), (5, 10000000000000), (6, 1000000000000),
     (7, 100000000000), (8, 10000000000), (9, 1000000000),
     (10, 100000000), (11, 10000000), (12, 1000000),
     (13, 100000), (14, 10000), (15, 1000),
     (16, 100), (17, 10), (18, 1)]"

definition Decimals_Validate :: "Decimals \<Rightarrow> error option" where
  "Decimals_Validate d =
     (if 0 < d \<and> d \<le> EighteenDecimals then None else Some (ErrMsg ''received unsupported decimals''))"

text \<open>A Go map read of an absent key gives the zero value, here the nil \<open>math.Int\<close>: \<open>None\<close>.\<close>

definition Decimals_ConversionFactor :: "Decimals \<Rightarrow> int option" where
  "Decimals_ConversionFactor d = map_of ConversionFactorMap d"

section \<open>The process-wide coin info (denom\_config.go)\<close>

record coin_globals =
  evmCoinInfo :: "EvmCoinInfo option"
  defaultEvmCoinInfo :: "EvmCoinInfo option"

definition SetDefaultEvmCoinInfo :: "EvmCoinInfo \<Rightarrow> coin_globals \<Rightarrow> coin_globals" where
  "SetDefaultEvmCoinInfo ci g = g\<lparr>defaultEvmCoinInfo := Some ci\<rparr>"

definition getEvmCoinInfo :: "coin_globals \<Rightarrow> EvmCoinInfo option" where
  "getEvmCoinInfo g = (case evmCoinInfo g of None \<Rightarrow> defaultEvmCoinInfo g | Some i \<Rightarrow> Some i)"

text \<open>The setters return the error and the globals, which an error leaves as they are so far.\<close>

definition setEVMCoinDecimals :: "Decimals \<Rightarrow> coin_globals \<Rightarrow> error option \<times> coin_globals" where
  "setEVMCoinDecimals d g =
     (case Decimals_Validate d of
        Some e \<Rightarrow> (Some (ErrWrapped ''setting EVM coin decimals'' e), g)
      | None \<Rightarrow> (None, g\<lparr>evmCoinInfo := map_option (\<lambda>i. i\<lparr>eciDecimals := d\<rparr>) (evmCoinInfo g)\<rparr>))"

definition setEVMCoinDenom ::
    "coin_api \<Rightarrow> denom \<Rightarrow> coin_globals \<Rightarrow> error option \<times> coin_globals" where
  "setEVMCoinDenom C d g =
     (if cValidDenom C d
      then (None, g\<lparr>evmCoinInfo := map_option (\<lambda>i. i\<lparr>eciDenom := d\<rparr>) (evmCoinInfo g)\<rparr>)
      else (Some (ErrWrapped ''setting EVM coin denom'' (ErrMsg ''invalid denom'')), g))"

definition setEVMCoinExtendedDenom ::
    "coin_api \<Rightarrow> denom \<Rightarrow> coin_globals \<Rightarrow> error option \<times> coin_globals" where
  "setEVMCoinExtendedDenom C d g =
     (if cValidDenom C d
      then (None, g\<lparr>evmCoinInfo := map_option (\<lambda>i. i\<lparr>eciExtendedDenom := d\<rparr>) (evmCoinInfo g)\<rparr>)
      else (Some (ErrMsg ''invalid denom''), g))"

definition setDisplayDenom ::
    "coin_api \<Rightarrow> denom \<Rightarrow> coin_globals \<Rightarrow> error option \<times> coin_globals" where
  "setDisplayDenom C d g =
     (if cValidDenom C d
      then (None, g\<lparr>evmCoinInfo := map_option (\<lambda>i. i\<lparr>eciDisplayDenom := d\<rparr>) (evmCoinInfo g)\<rparr>)
      else (Some (ErrWrapped ''setting EVM coin display denom'' (ErrMsg ''invalid denom'')), g))"

text \<open>The getters dereference the coin info: \<open>None\<close> is the nil dereference.\<close>

definition GetEVMCoinDecimals :: "coin_globals \<Rightarrow> Decimals option" where
  "GetEVMCoinDecimals g = map_option eciDecimals (getEvmCoinInfo g)"

definition GetEVMCoinDenom :: "coin_globals \<Rightarrow> denom option" where
  "GetEVMCoinDenom g = map_option eciDenom (getEvmCoinInfo g)"

definition GetEVMCoinExtendedDenom :: "coin_globals \<Rightarrow> denom option" where
  "GetEVMCoinExtendedDenom g = map_option eciExtendedDenom (getEvmCoinInfo g)"

definition GetEVMCoinDisplayDenom :: "coin_globals \<Rightarrow> denom option" where
  "GetEVMCoinDisplayDenom g = map_option eciDisplayDenom (getEvmCoinInfo g)"

definition emptyCoinInfo :: EvmCoinInfo where
  "emptyCoinInfo = \<lparr>eciDenom = [], eciExtendedDenom = [], eciDisplayDenom = [], eciDecimals = 0\<rparr>"

definition setEVMCoinInfo ::
    "coin_api \<Rightarrow> EvmCoinInfo \<Rightarrow> coin_globals \<Rightarrow> error option \<times> coin_globals" where
  "setEVMCoinInfo C eci g =
     (if evmCoinInfo g \<noteq> None then (Some (ErrMsg ''EVM coin info already set''), g)
      else if eciDecimals eci = EighteenDecimals \<and> eciDenom eci \<noteq> eciExtendedDenom eci
      then (Some (ErrMsg ''EVM coin denom and extended denom must be the same for 18 decimals''), g)
      else
        (case setEVMCoinDenom C (eciDenom eci) (g\<lparr>evmCoinInfo := Some emptyCoinInfo\<rparr>) of
           (Some e, g1) \<Rightarrow> (Some e, g1)
         | (None, g1) \<Rightarrow>
        (case setEVMCoinExtendedDenom C (eciExtendedDenom eci) g1 of
           (Some e, g2) \<Rightarrow> (Some e, g2)
         | (None, g2) \<Rightarrow>
        (case setDisplayDenom C (eciDisplayDenom eci) g2 of
           (Some e, g3) \<Rightarrow> (Some e, g3)
         | (None, g3) \<Rightarrow> setEVMCoinDecimals (eciDecimals eci) g3))))"

section \<open>Scaling (scaling.go)\<close>

definition ConvertAmountTo18DecimalsBigInt :: "EvmCoinInfo \<Rightarrow> int \<Rightarrow> int option" where
  "ConvertAmountTo18DecimalsBigInt ci amt =
     map_option (\<lambda>f. amt * f) (Decimals_ConversionFactor (eciDecimals ci))"

text \<open>\<open>uint256.Int.Mul\<close> wraps at 256 bits; the factor passes through a \<open>uint64\<close>.\<close>

definition ConvertAmountTo18Decimals256Int :: "EvmCoinInfo \<Rightarrow> 256 word \<Rightarrow> 256 word option" where
  "ConvertAmountTo18Decimals256Int ci amt =
     map_option (\<lambda>f. amt * ucast (word_of_int f :: 64 word))
       (Decimals_ConversionFactor (eciDecimals ci))"

definition ConvertEvmCoinDenomToExtendedDenom :: "EvmCoinInfo \<Rightarrow> coin \<Rightarrow> coin res" where
  "ConvertEvmCoinDenomToExtendedDenom ci c =
     (if Denom c \<noteq> eciDenom ci then Err (ErrMsg ''expected coin denom'')
      else Ok \<lparr>Denom = eciExtendedDenom ci, Amount = Amount c\<rparr>)"

text \<open>The per-coin step of the two coin-set conversions: the error of the single-coin conversion
  is ignored, which cannot happen under the denomination test.\<close>

definition convertDenom :: "denom \<Rightarrow> denom \<Rightarrow> coin \<Rightarrow> coin" where
  "convertDenom evmDenom extDenom c =
     (if Denom c = evmDenom then \<lparr>Denom = extDenom, Amount = Amount c\<rparr> else c)"

definition ConvertCoinsDenomToExtendedDenom :: "coin_api \<Rightarrow> EvmCoinInfo \<Rightarrow> coins \<Rightarrow> coins" where
  "ConvertCoinsDenomToExtendedDenom C ci cs =
     cSort C (map (\<lambda>c. if Denom c = eciDenom ci
                       then (case ConvertEvmCoinDenomToExtendedDenom ci c of
                               Ok c' \<Rightarrow> c' | Err _ \<Rightarrow> \<lparr>Denom = [], Amount = 0\<rparr>
                             | Panic _ \<Rightarrow> \<lparr>Denom = [], Amount = 0\<rparr>)
                       else c) cs)"

definition ConvertCoinsDenomToExtendedDenomWithEvmParams ::
    "coin_api \<Rightarrow> denom \<Rightarrow> denom \<Rightarrow> coins \<Rightarrow> coins" where
  "ConvertCoinsDenomToExtendedDenomWithEvmParams C evmDenom extDenom cs =
     cSort C (map (convertDenom evmDenom extDenom) cs)"

section \<open>Lemmas\<close>

lemma ConversionFactor_pow:
  assumes "Decimals_Validate d = None"
  shows "Decimals_ConversionFactor d = Some (10 ^ (18 - unat d))"
proof -
  from assms have "0 < d \<and> d \<le> 18"
    by (simp add: Decimals_Validate_def EighteenDecimals_def split: if_splits)
  then have "0 < unat d \<and> unat d \<le> 18"
    by (simp add: word_less_nat_alt word_le_nat_alt)
  then have n: "unat d \<in> set [1..<19]" by simp
  have "\<forall>n\<in>set [1..<19]. Decimals_ConversionFactor (word_of_nat n) = Some (10 ^ (18 - n))"
    by (simp add: upt_rec Decimals_ConversionFactor_def ConversionFactorMap_def)
  then have "Decimals_ConversionFactor (word_of_nat (unat d)) = Some (10 ^ (18 - unat d))"
    using n by blast
  then show ?thesis by simp
qed

lemma ConversionFactor_bounds:
  assumes "Decimals_Validate d = None" "Decimals_ConversionFactor d = Some f"
  shows "1 \<le> f" "f \<le> 10 ^ 17"
proof -
  from assms have f: "f = 10 ^ (18 - unat d)" by (simp add: ConversionFactor_pow)
  then show "1 \<le> f" by simp
  from assms(1) have "0 < unat d"
    by (simp add: Decimals_Validate_def word_less_nat_alt split: if_splits)
  then have "18 - unat d \<le> 17" by simp
  then show "f \<le> 10 ^ 17" unfolding f by (intro power_increasing) auto
qed

lemma ConvertCoinsDenom_eq:
  "ConvertCoinsDenomToExtendedDenom C ci cs =
   cSort C (map (convertDenom (eciDenom ci) (eciExtendedDenom ci)) cs)"
  unfolding ConvertCoinsDenomToExtendedDenom_def convertDenom_def
  by (rule arg_cong [where f = "cSort C"], rule map_cong)
    (simp_all add: ConvertEvmCoinDenomToExtendedDenom_def)

end
