(* ===== verification/PreciseBank.thy ===== *)
theory PreciseBank
  imports EvmDenom
begin

text \<open>
  x/precisebank (\<open>src/x/precisebank\<close>): balances in the 18-decimals extended denomination on top
  of x/bank's integer denomination. An account's extended balance is its integer balance times
  the conversion factor plus a fractional balance this module stores; the module account is the
  reserve that backs all fractional balances, and the remainder is what the reserve holds beyond
  them. The definitions follow the keeper file by file: \<open>types/fractional_balance.go\<close>,
  \<open>keeper/fractional_balance.go\<close>, \<open>keeper/remainder_amount.go\<close>, \<open>keeper/view.go\<close>,
  \<open>keeper/send.go\<close>, \<open>keeper/mint.go\<close>, \<open>keeper/burn.go\<close>, \<open>types/genesis.go\<close>,
  \<open>genesis.go\<close>. Events are not modelled.
\<close>

section \<open>Types and constants (types/)\<close>

definition ModuleName :: string where "ModuleName = ''precisebank''"

text \<open>The nil \<open>Int\<close> of an unsupported number of decimals is read as 0; configuration refuses
  such decimals (\<open>setEVMCoinInfo\<close>).\<close>

definition ConversionFactor :: "'b Keeper \<Rightarrow> int" where
  "ConversionFactor K =
     (case Decimals_ConversionFactor (eciDecimals (info K)) of None \<Rightarrow> 0 | Some f \<Rightarrow> f)"

definition IntegerCoinDenom :: "'b Keeper \<Rightarrow> denom" where
  "IntegerCoinDenom K = eciDenom (info K)"

definition ExtendedCoinDenom :: "'b Keeper \<Rightarrow> denom" where
  "ExtendedCoinDenom K = eciExtendedDenom (info K)"

definition IsExtendedDenomSameAsIntegerDenom :: "'b Keeper \<Rightarrow> bool" where
  "IsExtendedDenomSameAsIntegerDenom K = (IntegerCoinDenom K = ExtendedCoinDenom K)"

text \<open>An \<open>sdkmath.Int\<close> read from genesis may be nil, here \<open>None\<close>.\<close>

definition ValidateFractionalAmount :: "'b Keeper \<Rightarrow> int option \<Rightarrow> error option" where
  "ValidateFractionalAmount K amt =
     (case amt of
        None \<Rightarrow> Some (ErrMsg ''nil amount'')
      | Some n \<Rightarrow>
          if \<not> 0 < n then Some (ErrMsg ''non-positive amount'')
          else if ConversionFactor K \<le> n then Some (ErrMsg ''amount exceeds max'')
          else None)"

definition SumExtendedCoin :: "'b Keeper \<Rightarrow> coins \<Rightarrow> coin" where
  "SumExtendedCoin K amt =
     newCoin (ExtendedCoinDenom K)
       (amt_of K amt (IntegerCoinDenom K) * ConversionFactor K + amt_of K amt (ExtendedCoinDenom K))"

section \<open>State (keeper/fractional\_balance.go, keeper/remainder\_amount.go)\<close>

text \<open>The stores the keeper reads and writes: x/bank's, the fractional balances by address under
  their prefix, and the remainder key, absent when zero.\<close>

record 'b pstate =
  bank :: 'b
  fractional :: "(AccAddress, int) kv"
  remainderKey :: "int option"

definition GetFractionalBalance :: "'b pstate \<Rightarrow> AccAddress \<Rightarrow> int" where
  "GetFractionalBalance s a = (case kv_get (fractional s) a of None \<Rightarrow> 0 | Some n \<Rightarrow> n)"

definition DeleteFractionalBalance :: "'b pstate \<Rightarrow> AccAddress \<Rightarrow> 'b pstate" where
  "DeleteFractionalBalance s a = s\<lparr>fractional := kv_delete a (fractional s)\<rparr>"

definition SetFractionalBalance ::
    "'b Keeper \<Rightarrow> 'b pstate \<Rightarrow> AccAddress \<Rightarrow> int \<Rightarrow> 'b pstate res" where
  "SetFractionalBalance K s a amount =
     (if a = [] then Panic (ErrMsg ''address cannot be empty'')
      else if amount = 0 then Ok (DeleteFractionalBalance s a)
      else (case ValidateFractionalAmount K (Some amount) of
              Some e \<Rightarrow> Panic (ErrWrapped ''amount is invalid'' e)
            | None \<Rightarrow> Ok (s\<lparr>fractional := kv_set a amount (fractional s)\<rparr>)))"

text \<open>The iterator visits the store in key order until the callback asks to stop. A callback is a
  function of the accumulated result that also returns the stop flag.\<close>

fun IterateFractionalBalances ::
    "(AccAddress, int) kv \<Rightarrow> (AccAddress \<Rightarrow> int \<Rightarrow> 'a \<Rightarrow> 'a \<times> bool) \<Rightarrow> 'a \<Rightarrow> 'a" where
  "IterateFractionalBalances [] cb acc = acc"
| "IterateFractionalBalances ((a, n) # kvs) cb acc =
     (case cb a n acc of (acc', stop) \<Rightarrow>
        if stop then acc' else IterateFractionalBalances kvs cb acc')"

definition GetTotalSumFractionalBalances :: "'b pstate \<Rightarrow> int" where
  "GetTotalSumFractionalBalances s =
     IterateFractionalBalances (fractional s) (\<lambda>_ n acc. (acc + n, False)) 0"

definition GetRemainderAmount :: "'b pstate \<Rightarrow> int" where
  "GetRemainderAmount s = (case remainderKey s of None \<Rightarrow> 0 | Some n \<Rightarrow> n)"

definition DeleteRemainderAmount :: "'b pstate \<Rightarrow> 'b pstate" where
  "DeleteRemainderAmount s = s\<lparr>remainderKey := None\<rparr>"

definition SetRemainderAmount :: "'b Keeper \<Rightarrow> 'b pstate \<Rightarrow> int \<Rightarrow> 'b pstate res" where
  "SetRemainderAmount K s amount =
     (if amount = 0 then Ok (DeleteRemainderAmount s)
      else (case ValidateFractionalAmount K (Some amount) of
              Some e \<Rightarrow> Panic (ErrWrapped ''remainder amount is invalid'' e)
            | None \<Rightarrow> Ok (s\<lparr>remainderKey := Some amount\<rparr>)))"

text \<open>A call into the bank keeper: its new state replaces the bank's part of the state.\<close>

definition on_bank :: "'b pstate \<Rightarrow> 'b res \<Rightarrow> 'b pstate res" where
  "on_bank s r = res_bind r (\<lambda>b. Ok (s\<lparr>bank := b\<rparr>))"

section \<open>Views (keeper/view.go)\<close>

text \<open>\<open>GetModuleAddress\<close> returns nil for an unknown module, the empty byte string.\<close>

definition moduleAddress :: "'b Keeper \<Rightarrow> string \<Rightarrow> AccAddress" where
  "moduleAddress K m = (case akGetModuleAddress (ak K) m of None \<Rightarrow> [] | Some a \<Rightarrow> a)"

definition GetBalance :: "'b Keeper \<Rightarrow> 'b pstate \<Rightarrow> AccAddress \<Rightarrow> denom \<Rightarrow> coin" where
  "GetBalance K s a d =
     (if d = ExtendedCoinDenom K \<and> a = moduleAddress K ModuleName then newCoin d 0
      else if d \<noteq> ExtendedCoinDenom K then newCoin d (bbal K (bank s) a d)
      else newCoin (ExtendedCoinDenom K)
        (bbal K (bank s) a (IntegerCoinDenom K) * ConversionFactor K + GetFractionalBalance s a))"

definition SpendableCoin :: "'b Keeper \<Rightarrow> 'b pstate \<Rightarrow> AccAddress \<Rightarrow> denom \<Rightarrow> coin" where
  "SpendableCoin K s a d =
     (if d = ExtendedCoinDenom K \<and> a = moduleAddress K ModuleName then newCoin d 0
      else if d \<noteq> ExtendedCoinDenom K then newCoin d (bspend K (bank s) a d)
      else newCoin (ExtendedCoinDenom K)
        (bspend K (bank s) a (IntegerCoinDenom K) * ConversionFactor K + GetFractionalBalance s a))"

definition updateInsufficientFundsError ::
    "'b Keeper \<Rightarrow> 'b pstate \<Rightarrow> AccAddress \<Rightarrow> int \<Rightarrow> error \<Rightarrow> error" where
  "updateInsufficientFundsError K s a amt e =
     (if \<not> isInsufficientFunds e then e
      else ErrInsufficientFunds [SpendableCoin K s a (ExtendedCoinDenom K)]
             (newCoin (ExtendedCoinDenom K) amt))"

section \<open>Transfers (keeper/send.go)\<close>

definition IsSendEnabledCoin :: "'b Keeper \<Rightarrow> 'b pstate \<Rightarrow> coin \<Rightarrow> bool" where
  "IsSendEnabledCoin K s c =
     (if Denom c = ExtendedCoinDenom K
      then bkIsSendEnabledCoin (bk K) (bank s)
             (newCoin (IntegerCoinDenom K) (quo (Amount c) (ConversionFactor K)))
      else bkIsSendEnabledCoin (bk K) (bank s) c)"

fun IsSendEnabledCoins :: "'b Keeper \<Rightarrow> 'b pstate \<Rightarrow> coins \<Rightarrow> error option" where
  "IsSendEnabledCoins K s [] = None"
| "IsSendEnabledCoins K s (c # cs) =
     (if \<not> IsSendEnabledCoin K s c then Some ErrSendDisabled else IsSendEnabledCoins K s cs)"

definition subFromFractionalBalance :: "'b Keeper \<Rightarrow> int \<Rightarrow> int \<Rightarrow> (int \<times> bool) res" where
  "subFromFractionalBalance K currentFractionalBalance amountToSub =
     (if ConversionFactor K \<le> currentFractionalBalance
      then Panic (ErrMsg ''currentFractionalBalance must be less than ConversionFactor'')
      else if ConversionFactor K \<le> amountToSub
      then Panic (ErrMsg ''amountToSub must be less than ConversionFactor'')
      else let newFractionalBalance = currentFractionalBalance - amountToSub;
               borrowRequired = newFractionalBalance < 0
           in Ok (if borrowRequired then newFractionalBalance + ConversionFactor K
                  else newFractionalBalance, borrowRequired))"

definition addToFractionalBalance :: "'b Keeper \<Rightarrow> int \<Rightarrow> int \<Rightarrow> (int \<times> bool) res" where
  "addToFractionalBalance K currentFractionalBalance amountToAdd =
     (if ConversionFactor K \<le> currentFractionalBalance
      then Panic (ErrMsg ''currentFractionalBalance must be less than ConversionFactor'')
      else if ConversionFactor K \<le> amountToAdd
      then Panic (ErrMsg ''amountToAdd must be less than ConversionFactor'')
      else let newFractionalBalance = currentFractionalBalance + amountToAdd;
               carryRequired = ConversionFactor K \<le> newFractionalBalance
           in Ok (if carryRequired then newFractionalBalance - ConversionFactor K
                  else newFractionalBalance, carryRequired))"

definition sendExtendedCoins ::
    "'b Keeper \<Rightarrow> 'b pstate \<Rightarrow> AccAddress \<Rightarrow> AccAddress \<Rightarrow> int \<Rightarrow> 'b pstate res" where
  "sendExtendedCoins K s from to amt =
     (let reserve = moduleAddress K ModuleName in
      if from = reserve \<or> to = reserve then
        (let integerAmt = quo amt (ConversionFactor K) in
         if 0 < integerAmt
         then res_map_err (updateInsufficientFundsError K s from amt)
                (on_bank s (bkSendCoins (bk K) (bank s) from to
                   [newCoin (IntegerCoinDenom K) integerAmt]))
         else Ok s)
      else if from = to then Ok s
      else
        let senderFracBal = GetFractionalBalance s from;
            recipientFracBal = GetFractionalBalance s to;
            integerAmt = quo amt (ConversionFactor K);
            fractionalAmt = amt mod ConversionFactor K
        in
        res_bind (subFromFractionalBalance K senderFracBal fractionalAmt)
          (\<lambda>(senderNewFracBal, senderNeedsBorrow).
        res_bind (addToFractionalBalance K recipientFracBal fractionalAmt)
          (\<lambda>(recipientNewFracBal, recipientNeedsCarry).
        let integerAmt = (if senderNeedsBorrow \<and> recipientNeedsCarry
                          then integerAmt + 1 else integerAmt)
        in
        res_bind
          (if 0 < integerAmt
           then res_map_err (updateInsufficientFundsError K s from amt)
                  (on_bank s (bkSendCoins (bk K) (bank s) from to
                     [newCoin (IntegerCoinDenom K) integerAmt]))
           else Ok s) (\<lambda>s1.
        res_bind
          (if senderNeedsBorrow \<and> \<not> recipientNeedsCarry
           then res_map_err (updateInsufficientFundsError K s1 from amt)
                  (on_bank s1 (bkSendCoinsFromAccountToModule (bk K) (bank s1) from ModuleName
                     [newCoin (IntegerCoinDenom K) 1]))
           else Ok s1) (\<lambda>s2.
        res_bind
          (if \<not> senderNeedsBorrow \<and> recipientNeedsCarry
           then res_must (ErrWrapped ''failed to carry fractional coins'')
                  (on_bank s2 (bkSendCoins (bk K) (bank s2) reserve to
                     [newCoin (IntegerCoinDenom K) 1]))
           else Ok s2) (\<lambda>s3.
        res_bind (SetFractionalBalance K s3 from senderNewFracBal) (\<lambda>s4.
        SetFractionalBalance K s4 to recipientNewFracBal)))))))"

definition SendCoins ::
    "'b Keeper \<Rightarrow> 'b pstate \<Rightarrow> AccAddress \<Rightarrow> AccAddress \<Rightarrow> coins \<Rightarrow> 'b pstate res" where
  "SendCoins K s from to amt =
     (if \<not> cIsValid (api K) amt then Err ErrInvalidCoins
      else
        let extendedCoinAmount = amt_of K amt (ExtendedCoinDenom K);
            passthroughCoins =
              (if 0 < extendedCoinAmount
               then cSub (api K) amt (newCoin (ExtendedCoinDenom K) extendedCoinAmount) else amt)
        in
        res_bind
          (if cIsAllPositive (api K) passthroughCoins
           then on_bank s (bkSendCoins (bk K) (bank s) from to passthroughCoins)
           else Ok s) (\<lambda>s1.
        if 0 < extendedCoinAmount then sendExtendedCoins K s1 from to extendedCoinAmount
        else Ok s1))"

definition SendCoinsFromAccountToModule ::
    "'b Keeper \<Rightarrow> 'b pstate \<Rightarrow> AccAddress \<Rightarrow> string \<Rightarrow> coins \<Rightarrow> 'b pstate res" where
  "SendCoinsFromAccountToModule K s senderAddr recipientModule amt =
     (case akGetModuleAccount (ak K) recipientModule of
        None \<Rightarrow> Panic ErrUnknownAddress
      | Some recipientAcc \<Rightarrow>
          if recipientModule = ModuleName then Err ErrUnauthorized
          else SendCoins K s senderAddr (maAddress recipientAcc) amt)"

definition SendCoinsFromModuleToAccount ::
    "'b Keeper \<Rightarrow> 'b pstate \<Rightarrow> string \<Rightarrow> AccAddress \<Rightarrow> coins \<Rightarrow> 'b pstate res" where
  "SendCoinsFromModuleToAccount K s senderModule recipientAddr amt =
     (case akGetModuleAddress (ak K) senderModule of
        None \<Rightarrow> Panic ErrUnknownAddress
      | Some senderAddr \<Rightarrow>
          if senderModule = ModuleName then Err ErrUnauthorized
          else if bkBlockedAddr (bk K) recipientAddr then Err ErrUnauthorized
          else SendCoins K s senderAddr recipientAddr amt)"

definition SendCoinsFromModuleToModule ::
    "'b Keeper \<Rightarrow> 'b pstate \<Rightarrow> string \<Rightarrow> string \<Rightarrow> coins \<Rightarrow> 'b pstate res" where
  "SendCoinsFromModuleToModule K s senderModule recipientModule amt =
     (case akGetModuleAddress (ak K) senderModule of
        None \<Rightarrow> Panic ErrUnknownAddress
      | Some senderAddr \<Rightarrow>
          (case akGetModuleAccount (ak K) recipientModule of
             None \<Rightarrow> Panic ErrUnknownAddress
           | Some recipientAcc \<Rightarrow>
               if recipientModule = ModuleName then Err ErrUnauthorized
               else SendCoins K s senderAddr (maAddress recipientAcc) amt))"

record MsgSend =
  FromAddress :: string
  ToAddress :: string
  MsgAmount :: coins

definition BlockedAddr :: "'b Keeper \<Rightarrow> AccAddress \<Rightarrow> bool" where
  "BlockedAddr K a = bkBlockedAddr (bk K) a"

definition Send :: "'b Keeper \<Rightarrow> 'b pstate \<Rightarrow> MsgSend \<Rightarrow> 'b pstate res" where
  "Send K s msg =
     (case akStringToBytes (ak K) (FromAddress msg) of
        None \<Rightarrow> Err ErrInvalidAddress
      | Some from \<Rightarrow>
     (case akStringToBytes (ak K) (ToAddress msg) of
        None \<Rightarrow> Err ErrInvalidAddress
      | Some to \<Rightarrow>
          if \<not> cIsValid (api K) (MsgAmount msg) then Err ErrInvalidCoins
          else if \<not> cIsAllPositive (api K) (MsgAmount msg) then Err ErrInvalidCoins
          else (case IsSendEnabledCoins K s (MsgAmount msg) of
                  Some e \<Rightarrow> Err e
                | None \<Rightarrow>
                    if BlockedAddr K to then Err ErrUnauthorized
                    else SendCoins K s from to (MsgAmount msg))))"

section \<open>Minting (keeper/mint.go)\<close>

definition mintExtendedCoin ::
    "'b Keeper \<Rightarrow> 'b pstate \<Rightarrow> string \<Rightarrow> int \<Rightarrow> 'b pstate res" where
  "mintExtendedCoin K s recipientModuleName amt =
     (let moduleAddr = moduleAddress K recipientModuleName in
      if recipientModuleName = ModuleName then
        (let integerMintAmount = quo amt (ConversionFactor K) in
         if 0 < integerMintAmount
         then on_bank s (bkMintCoins (bk K) (bank s) recipientModuleName
                [newCoin (IntegerCoinDenom K) integerMintAmount])
         else Ok s)
      else
        let fractionalAmount = GetFractionalBalance s moduleAddr;
            integerMintAmount = quo amt (ConversionFactor K);
            fractionalMintAmount = amt mod ConversionFactor K;
            prevRemainder = GetRemainderAmount s;
            newRemainder = prevRemainder - fractionalMintAmount;
            newFractionalBalance = fractionalAmount + fractionalMintAmount
        in
        res_bind
          (if ConversionFactor K \<le> newFractionalBalance \<and> 0 \<le> newRemainder
           then on_bank s (bkSendCoinsFromModuleToModule (bk K) (bank s) ModuleName
                  recipientModuleName [newCoin (IntegerCoinDenom K) 1])
           else Ok s) (\<lambda>s1.
        let integerMintAmount =
              (if ConversionFactor K \<le> newFractionalBalance \<and> newRemainder < 0
               then integerMintAmount + 1 else integerMintAmount);
            newFractionalBalance =
              (if ConversionFactor K \<le> newFractionalBalance
               then newFractionalBalance - ConversionFactor K else newFractionalBalance)
        in
        res_bind
          (if 0 < integerMintAmount
           then on_bank s1 (bkMintCoins (bk K) (bank s1) recipientModuleName
                  [newCoin (IntegerCoinDenom K) integerMintAmount])
           else Ok s1) (\<lambda>s2.
        res_bind (SetFractionalBalance K s2 moduleAddr newFractionalBalance) (\<lambda>s3.
        let wasCarried = ConversionFactor K \<le> fractionalAmount + fractionalMintAmount in
        res_bind
          (if prevRemainder < fractionalMintAmount \<and> \<not> wasCarried
           then res_map_err (ErrWrapped ''failed to mint for reserve'')
                  (on_bank s3 (bkMintCoins (bk K) (bank s3) ModuleName
                     [newCoin (IntegerCoinDenom K) 1]))
           else Ok s3) (\<lambda>s4.
        SetRemainderAmount K s4
          (if newRemainder < 0 then newRemainder + ConversionFactor K else newRemainder))))))"

definition MintCoins :: "'b Keeper \<Rightarrow> 'b pstate \<Rightarrow> string \<Rightarrow> coins \<Rightarrow> 'b pstate res" where
  "MintCoins K s moduleName amt =
     (if moduleName = ModuleName then Panic ErrUnauthorized
      else (case akGetModuleAccount (ak K) moduleName of
              None \<Rightarrow> Panic ErrUnknownAddress
            | Some acc \<Rightarrow>
                if Minter \<notin> set (maPermissions acc) then Panic ErrUnauthorized
                else if \<not> cIsValid (api K) amt then Err ErrInvalidCoins
                else
                  let extendedAmount = amt_of K amt (ExtendedCoinDenom K);
                      passthroughCoins =
                        (if 0 < extendedAmount
                         then cSub (api K) amt (newCoin (ExtendedCoinDenom K) extendedAmount)
                         else amt)
                  in
                  res_bind
                    (if passthroughCoins \<noteq> []
                     then on_bank s (bkMintCoins (bk K) (bank s) moduleName passthroughCoins)
                     else Ok s) (\<lambda>s1.
                  if 0 < extendedAmount then mintExtendedCoin K s1 moduleName extendedAmount
                  else Ok s1)))"

section \<open>Burning (keeper/burn.go)\<close>

definition burnExtendedCoin ::
    "'b Keeper \<Rightarrow> 'b pstate \<Rightarrow> string \<Rightarrow> int \<Rightarrow> 'b pstate res" where
  "burnExtendedCoin K s moduleName amt =
     (let moduleAddr = moduleAddress K moduleName in
      if moduleName = ModuleName then
        (let integerBurnAmount = quo amt (ConversionFactor K) in
         if 0 < integerBurnAmount
         then on_bank s (bkBurnCoins (bk K) (bank s) moduleName
                [newCoin (IntegerCoinDenom K) integerBurnAmount])
         else Ok s)
      else
        let prevFractionalBalance = GetFractionalBalance s moduleAddr;
            prevRemainder = GetRemainderAmount s;
            integerBurnAmount = quo amt (ConversionFactor K);
            fractionalBurnAmount = amt mod ConversionFactor K;
            newFractionalBalance = prevFractionalBalance - fractionalBurnAmount;
            requiresBorrow = newFractionalBalance < 0;
            newRemainder = prevRemainder + fractionalBurnAmount;
            overflowingRemainder = ConversionFactor K \<le> newRemainder;
            \<comment> \<open>case 1: direct burn instead of borrow and reserve burn\<close>
            direct = (requiresBorrow \<and> overflowingRemainder);
            newFractionalBalance =
              (if direct then newFractionalBalance + ConversionFactor K else newFractionalBalance);
            newRemainder = (if direct then newRemainder - ConversionFactor K else newRemainder);
            integerBurnAmount = (if direct then integerBurnAmount + 1 else integerBurnAmount);
            \<comment> \<open>case 2: borrow by a transfer to the reserve\<close>
            borrow = (requiresBorrow \<and> \<not> overflowingRemainder);
            newFractionalBalance =
              (if borrow then newFractionalBalance + ConversionFactor K else newFractionalBalance)
        in
        res_bind
          (if borrow
           then res_map_err (updateInsufficientFundsError K s moduleAddr amt)
                  (on_bank s (bkSendCoinsFromModuleToModule (bk K) (bank s) moduleName ModuleName
                     [newCoin (IntegerCoinDenom K) 1]))
           else Ok s) (\<lambda>s1.
        \<comment> \<open>case 3: the remainder has grown to a whole coin, which the reserve burns\<close>
        let reserveBurn = (\<not> requiresBorrow \<and> overflowingRemainder) in
        res_bind
          (if reserveBurn
           then res_map_err (ErrWrapped ''failed to burn for reserve'')
                  (on_bank s1 (bkBurnCoins (bk K) (bank s1) ModuleName
                     [newCoin (IntegerCoinDenom K) 1]))
           else Ok s1) (\<lambda>s2.
        let newRemainder = (if reserveBurn then newRemainder - ConversionFactor K else newRemainder)
        in
        res_bind
          (if integerBurnAmount \<noteq> 0
           then res_map_err (updateInsufficientFundsError K s2 moduleAddr amt)
                  (on_bank s2 (bkBurnCoins (bk K) (bank s2) moduleName
                     [newCoin (IntegerCoinDenom K) integerBurnAmount]))
           else Ok s2) (\<lambda>s3.
        res_bind (SetFractionalBalance K s3 moduleAddr newFractionalBalance) (\<lambda>s4.
        SetRemainderAmount K s4 newRemainder)))))"

definition BurnCoins :: "'b Keeper \<Rightarrow> 'b pstate \<Rightarrow> string \<Rightarrow> coins \<Rightarrow> 'b pstate res" where
  "BurnCoins K s moduleName amt =
     (if moduleName = ModuleName then Panic ErrUnauthorized
      else (case akGetModuleAccount (ak K) moduleName of
              None \<Rightarrow> Panic ErrUnknownAddress
            | Some acc \<Rightarrow>
                if Burner \<notin> set (maPermissions acc) then Panic ErrUnauthorized
                else if \<not> cIsValid (api K) amt then Err ErrInvalidCoins
                else
                  let extendedAmount = amt_of K amt (ExtendedCoinDenom K);
                      passthroughCoins =
                        (if 0 < extendedAmount
                         then cSub (api K) amt (newCoin (ExtendedCoinDenom K) extendedAmount)
                         else amt)
                  in
                  res_bind
                    (if passthroughCoins \<noteq> []
                     then on_bank s (bkBurnCoins (bk K) (bank s) moduleName passthroughCoins)
                     else Ok s) (\<lambda>s1.
                  if 0 < extendedAmount then burnExtendedCoin K s1 moduleName extendedAmount
                  else Ok s1)))"

section \<open>Genesis (types/fractional\_balances.go, types/genesis.go, genesis.go)\<close>

record FractionalBalance =
  fbAddress :: string
  fbAmount :: "int option"

record GenesisState =
  gsBalances :: "FractionalBalance list"
  gsRemainder :: "int option"

definition NewFractionalBalance :: "string \<Rightarrow> int \<Rightarrow> FractionalBalance" where
  "NewFractionalBalance address amount = \<lparr>fbAddress = address, fbAmount = Some amount\<rparr>"

definition FractionalBalance_Validate :: "'b Keeper \<Rightarrow> FractionalBalance \<Rightarrow> error option" where
  "FractionalBalance_Validate K fb =
     (case accFromBech32 K (fbAddress fb) of
        None \<Rightarrow> Some ErrInvalidAddress
      | Some _ \<Rightarrow> ValidateFractionalAmount K (fbAmount fb))"

text \<open>\<open>strings.ToLower\<close> on the ASCII letters of a bech32 address.\<close>

definition lowerChar :: "char \<Rightarrow> char" where
  "lowerChar c =
     (let n = (of_char c :: nat) in if 65 \<le> n \<and> n \<le> 90 then char_of (n + 32) else c)"

definition toLower :: "string \<Rightarrow> string" where
  "toLower = map lowerChar"

fun FractionalBalances_validate_loop ::
    "'b Keeper \<Rightarrow> string list \<Rightarrow> FractionalBalance list \<Rightarrow> error option" where
  "FractionalBalances_validate_loop K seen [] = None"
| "FractionalBalances_validate_loop K seen (fb # fbs) =
     (case FractionalBalance_Validate K fb of
        Some e \<Rightarrow> Some (ErrWrapped ''invalid fractional balance'' e)
      | None \<Rightarrow>
          (let lowerAddr = toLower (fbAddress fb) in
           if lowerAddr \<in> set seen then Some (ErrMsg ''duplicate address'')
           else FractionalBalances_validate_loop K (lowerAddr # seen) fbs))"

definition FractionalBalances_Validate ::
    "'b Keeper \<Rightarrow> FractionalBalance list \<Rightarrow> error option" where
  "FractionalBalances_Validate K fbs = FractionalBalances_validate_loop K [] fbs"

text \<open>Adding a nil amount is a nil dereference: \<open>None\<close>.\<close>

fun sumAmount_loop :: "int \<Rightarrow> FractionalBalance list \<Rightarrow> int option" where
  "sumAmount_loop acc [] = Some acc"
| "sumAmount_loop acc (fb # fbs) =
     (case fbAmount fb of None \<Rightarrow> None | Some n \<Rightarrow> sumAmount_loop (acc + n) fbs)"

definition SumAmount :: "FractionalBalance list \<Rightarrow> int option" where
  "SumAmount fbs = sumAmount_loop 0 fbs"

definition NewGenesisState :: "FractionalBalance list \<Rightarrow> int \<Rightarrow> GenesisState" where
  "NewGenesisState balances remainder = \<lparr>gsBalances = balances, gsRemainder = Some remainder\<rparr>"

definition DefaultGenesisState :: GenesisState where
  "DefaultGenesisState = NewGenesisState [] 0"

definition GenesisState_Validate :: "'b Keeper \<Rightarrow> GenesisState \<Rightarrow> unit res" where
  "GenesisState_Validate K gs =
     (case FractionalBalances_Validate K (gsBalances gs) of
        Some e \<Rightarrow> Err (ErrWrapped ''invalid balances'' e)
      | None \<Rightarrow>
     (case gsRemainder gs of
        None \<Rightarrow> Err (ErrMsg ''nil remainder amount'')
      | Some r \<Rightarrow>
          if r < 0 then Err (ErrMsg ''negative remainder amount'')
          else if ConversionFactor K \<le> r then Err (ErrMsg ''remainder exceeds max'')
          else (case SumAmount (gsBalances gs) of
                  None \<Rightarrow> Panic (ErrMsg ''nil dereference'')
                | Some totalBal \<Rightarrow>
                    if (totalBal + r) mod ConversionFactor K \<noteq> 0
                    then Err (ErrMsg ''sum of fractional balances and remainder is not a multiple'')
                    else Ok ())))"

definition TotalAmountWithRemainder :: "GenesisState \<Rightarrow> int option" where
  "TotalAmountWithRemainder gs =
     (case SumAmount (gsBalances gs) of
        None \<Rightarrow> None
      | Some totalBal \<Rightarrow> (case gsRemainder gs of None \<Rightarrow> None | Some r \<Rightarrow> Some (totalBal + r)))"

text \<open>A nil amount reaches \<open>SetFractionalBalance\<close>'s \<open>IsZero\<close>, a nil dereference.\<close>

fun initBalances_loop ::
    "'b Keeper \<Rightarrow> 'b pstate \<Rightarrow> FractionalBalance list \<Rightarrow> 'b pstate res" where
  "initBalances_loop K s [] = Ok s"
| "initBalances_loop K s (fb # fbs) =
     (case accFromBech32 K (fbAddress fb) of
        None \<Rightarrow> Panic ErrInvalidAddress
      | Some a \<Rightarrow>
          (case fbAmount fb of
             None \<Rightarrow> Panic (ErrMsg ''nil dereference'')
           | Some n \<Rightarrow> res_bind (SetFractionalBalance K s a n) (\<lambda>s'. initBalances_loop K s' fbs)))"

definition InitGenesis :: "'b Keeper \<Rightarrow> 'b pstate \<Rightarrow> GenesisState \<Rightarrow> 'b pstate res" where
  "InitGenesis K s gs =
     res_bind (res_must (ErrWrapped ''failed to validate genesis state'') (GenesisState_Validate K gs))
       (\<lambda>_.
     (case akGetModuleAccount (ak K) ModuleName of
        None \<Rightarrow> Panic (ErrMsg ''module account has not been set'')
      | Some _ \<Rightarrow>
     (case (TotalAmountWithRemainder gs, gsRemainder gs) of
        (Some totalAmt, Some r) \<Rightarrow>
          (let moduleBal = bbal K (bank s) (moduleAddress K ModuleName) (IntegerCoinDenom K);
               moduleBalExtended = moduleBal * ConversionFactor K
           in
           if totalAmt \<noteq> moduleBalExtended \<and> \<not> (gsBalances gs = [] \<and> r = 0)
           then Panic (ErrMsg ''module account balance does not match'')
           else res_bind (initBalances_loop K s (gsBalances gs)) (\<lambda>s1. SetRemainderAmount K s1 r))
      | _ \<Rightarrow> Panic (ErrMsg ''nil dereference''))))"

definition ExportGenesis :: "'b Keeper \<Rightarrow> 'b pstate \<Rightarrow> GenesisState" where
  "ExportGenesis K s =
     NewGenesisState
       (IterateFractionalBalances (fractional s)
          (\<lambda>a n balances. (balances @ [NewFractionalBalance (accString K a) n], False)) [])
       (GetRemainderAmount s)"

section \<open>Queries (keeper/grpc\_query.go)\<close>

definition Query_Remainder :: "'b Keeper \<Rightarrow> 'b pstate \<Rightarrow> coin" where
  "Query_Remainder K s = newCoin (ExtendedCoinDenom K) (GetRemainderAmount s)"

definition Query_FractionalBalance :: "'b Keeper \<Rightarrow> 'b pstate \<Rightarrow> string \<Rightarrow> coin res" where
  "Query_FractionalBalance K s address =
     (case accFromBech32 K address of
        None \<Rightarrow> Err ErrInvalidAddress
      | Some a \<Rightarrow> Ok (newCoin (ExtendedCoinDenom K) (GetFractionalBalance s a)))"

end
