(* ===== verification/PreciseBankProps.thy ===== *)
theory PreciseBankProps
  imports PreciseBank
begin

text \<open>
  What x/precisebank promises: the reserve backs the fractional balances exactly, whatever is
  sent, minted or burned (\<open>pb_inv\<close>); the extended balances behave as a plain ledger
  (\<open>extBalance\<close>); an operation fails only for want of funds, never for want of reserve. The
  lemmas are proved once, in the locale \<open>precisebank\<close>, for every bank that keeps the contract
  \<open>sdk_bank\<close> and every supported number of decimals.
\<close>

section \<open>The specification: exact backing and the extended ledger\<close>

abbreviation reserveAddr :: "'b Keeper \<Rightarrow> AccAddress" where
  "reserveAddr K \<equiv> moduleAddress K ModuleName"

definition extBalance :: "'b Keeper \<Rightarrow> 'b pstate \<Rightarrow> AccAddress \<Rightarrow> int" where
  "extBalance K s a =
     bbal K (bank s) a (IntegerCoinDenom K) * ConversionFactor K + GetFractionalBalance s a"

definition extSpendable :: "'b Keeper \<Rightarrow> 'b pstate \<Rightarrow> AccAddress \<Rightarrow> int" where
  "extSpendable K s a =
     bspend K (bank s) a (IntegerCoinDenom K) * ConversionFactor K + GetFractionalBalance s a"

definition extSupply :: "'b Keeper \<Rightarrow> 'b pstate \<Rightarrow> int" where
  "extSupply K s =
     bkGetSupply (bk K) (bank s) (IntegerCoinDenom K) * ConversionFactor K - GetRemainderAmount s"

definition frac_ok :: "'b Keeper \<Rightarrow> 'b pstate \<Rightarrow> bool" where
  "frac_ok K s \<longleftrightarrow>
     kv_wf (fractional s) \<and>
     (\<forall>p\<in>set (fractional s).
        0 < snd p \<and> snd p < ConversionFactor K \<and> fst p \<noteq> [] \<and> fst p \<noteq> reserveAddr K) \<and>
     0 \<le> GetRemainderAmount s \<and> GetRemainderAmount s < ConversionFactor K \<and>
     remainderKey s \<noteq> Some 0"

definition pb_inv :: "'b Keeper \<Rightarrow> 'b pstate \<Rightarrow> bool" where
  "pb_inv K s \<longleftrightarrow>
     frac_ok K s \<and>
     bbal K (bank s) (reserveAddr K) (IntegerCoinDenom K) * ConversionFactor K =
       GetTotalSumFractionalBalances s + GetRemainderAmount s"

text \<open>Writing a fractional balance: zero deletes the entry.\<close>

definition frac_put :: "AccAddress \<Rightarrow> int \<Rightarrow> (AccAddress, int) kv \<Rightarrow> (AccAddress, int) kv" where
  "frac_put a n kvs = (if n = 0 then kv_delete a kvs else kv_set a n kvs)"

lemma frac_put_num [simp]: "kv_num (frac_put a n kvs) a' = (if a' = a then n else kv_num kvs a')"
  by (simp add: frac_put_def)

lemma frac_put_wf [simp]: "kv_wf kvs \<Longrightarrow> kv_wf (frac_put a n kvs)"
  by (simp add: frac_put_def)

lemma frac_put_sum [simp]: "kv_wf kvs \<Longrightarrow> kv_sum (frac_put a n kvs) = kv_sum kvs - kv_num kvs a + n"
  by (simp add: frac_put_def)

lemma frac_put_set: "p \<in> set (frac_put a n kvs) \<Longrightarrow> p = (a, n) \<and> n \<noteq> 0 \<or> p \<in> set kvs"
  by (induction kvs) (auto simp: frac_put_def kv_delete_def split: if_splits)

lemma GetFractionalBalance_num: "GetFractionalBalance s a = kv_num (fractional s) a"
  by (simp add: GetFractionalBalance_def kv_num_def)

lemma iterate_sum:
  "IterateFractionalBalances kvs (\<lambda>_ n acc. (acc + n, False)) acc = acc + kv_sum kvs"
  by (induction kvs arbitrary: acc) auto

lemma total_sum_eq: "GetTotalSumFractionalBalances s = kv_sum (fractional s)"
  by (simp add: GetTotalSumFractionalBalances_def iterate_sum)

lemmas pb_views = GetFractionalBalance_num total_sum_eq extBalance_def extSpendable_def extSupply_def

section \<open>The keeper over any bank that keeps its contract\<close>

locale precisebank = sdk_bank K for K :: "'b Keeper" +
  assumes decimals_valid: "Decimals_Validate (eciDecimals (info K)) = None"
    and integer_denom_valid: "cValidDenom (api K) (eciDenom (info K))"
    and reserve_minter: "has_perm K ModuleName ''minter''"
    and reserve_burner: "has_perm K ModuleName ''burner''"
begin

lemma CF_pos [simp]: "0 < ConversionFactor K"
  using decimals_valid ConversionFactor_bounds [OF decimals_valid]
  by (force simp: ConversionFactor_def ConversionFactor_pow)

lemma denom_valid [simp]: "cValidDenom (api K) (IntegerCoinDenom K)"
  using integer_denom_valid by (simp add: IntegerCoinDenom_def)

lemma module_addr:
  assumes "has_perm K m p"
  shows "akGetModuleAddress (ak K) m = Some (moduleAddress K m)" "moduleAddress K m \<noteq> []"
    "\<exists>acc. akGetModuleAccount (ak K) m = Some acc \<and> maAddress acc = moduleAddress K m"
proof -
  from perm_account [OF assms] obtain acc where
    "akGetModuleAccount (ak K) m = Some acc" "akGetModuleAddress (ak K) m = Some (maAddress acc)"
    "maAddress acc \<noteq> []" by blast
  then show "akGetModuleAddress (ak K) m = Some (moduleAddress K m)" "moduleAddress K m \<noteq> []"
    "\<exists>acc. akGetModuleAccount (ak K) m = Some acc \<and> maAddress acc = moduleAddress K m"
    by (simp_all add: moduleAddress_def)
qed

lemma reserve_addr:
  "akGetModuleAddress (ak K) ModuleName = Some (reserveAddr K)" "reserveAddr K \<noteq> []"
  "\<exists>acc. akGetModuleAccount (ak K) ModuleName = Some acc \<and> maAddress acc = reserveAddr K"
  by (rule module_addr [OF reserve_minter])+

lemma module_not_reserve:
  assumes "has_perm K m p" "m \<noteq> ModuleName"
  shows "moduleAddress K m \<noteq> reserveAddr K"
  using module_addr(1) [OF assms(1)] reserve_addr(1) assms(2) module_addr_inj by metis

text \<open>Setting a fractional balance or the remainder within range cannot panic.\<close>

lemma set_frac [simp]:
  assumes "a \<noteq> []" "0 \<le> n" "n < ConversionFactor K"
  shows "SetFractionalBalance K s a n = Ok (s\<lparr>fractional := frac_put a n (fractional s)\<rparr>)"
  using assms
  by (auto simp: SetFractionalBalance_def DeleteFractionalBalance_def frac_put_def
      ValidateFractionalAmount_def)

lemma set_remainder [simp]:
  assumes "0 \<le> n" "n < ConversionFactor K"
  shows "SetRemainderAmount K s n = Ok (s\<lparr>remainderKey := (if n = 0 then None else Some n)\<rparr>)"
  using assms
  by (auto simp: SetRemainderAmount_def DeleteRemainderAmount_def ValidateFractionalAmount_def)

lemma frac_range:
  assumes "frac_ok K s"
  shows "0 \<le> kv_num (fractional s) a" "kv_num (fractional s) a < ConversionFactor K"
  using assms by (force simp: frac_ok_def kv_num_def dest: kv_get_SomeD split: option.splits)+

lemma frac_reserve: "frac_ok K s \<Longrightarrow> kv_num (fractional s) (reserveAddr K) = 0"
  by (fastforce simp: frac_ok_def kv_num_def dest: kv_get_SomeD split: option.splits)

text \<open>The four bank calls on one integer coin, as the keeper makes them.\<close>

lemma on_bank_Ok: "on_bank s r = Ok s' \<longleftrightarrow> (\<exists>b. r = Ok b \<and> s' = s\<lparr>bank := b\<rparr>)"
  by (auto simp: on_bank_def res_eqs)

lemma on_bank_Err: "on_bank s r = Err e \<longleftrightarrow> r = Err e"
  by (auto simp: on_bank_def res_eqs)

lemma on_bank_Panic: "on_bank s r = Panic e \<longleftrightarrow> r = Panic e"
  by (auto simp: on_bank_def res_eqs)

lemmas on_bank_eqs = on_bank_Ok on_bank_Err on_bank_Panic

definition int_delta :: "'b \<Rightarrow> 'b \<Rightarrow> (AccAddress \<Rightarrow> int) \<Rightarrow> bool" where
  "int_delta b b' g \<longleftrightarrow>
     (\<forall>a. bbal K b' a (IntegerCoinDenom K) = bbal K b a (IntegerCoinDenom K) + g a) \<and>
     (\<forall>a d. d \<noteq> IntegerCoinDenom K \<longrightarrow> bbal K b' a d = bbal K b a d)"

lemma int_delta_refl: "int_delta b b (\<lambda>_. 0)"
  by (simp add: int_delta_def)

lemma int_delta_trans: "int_delta b b' g \<Longrightarrow> int_delta b' b'' h \<Longrightarrow> int_delta b b'' (\<lambda>a. g a + h a)"
  by (simp add: int_delta_def)

lemma int_delta_send:
  assumes "bkSendCoins (bk K) b f t [newCoin (IntegerCoinDenom K) n] = Ok b'" "0 < n"
  shows "int_delta b b' (\<lambda>a. at_addr t n a - at_addr f n a)"
    "bkGetSupply (bk K) b' d = bkGetSupply (bk K) b d"
  using send1_bal [OF denom_valid assms(2,1)] assms(2) send_supply [OF _ assms(1)]
  by (simp_all add: int_delta_def coins_single_valid)

lemma int_delta_mint:
  assumes "bkMintCoins (bk K) b m [newCoin (IntegerCoinDenom K) n] = Ok b'" "0 < n"
    "akGetModuleAddress (ak K) m = Some t"
  shows "int_delta b b' (at_addr t n)"
    "bkGetSupply (bk K) b' d = bkGetSupply (bk K) b d + (if d = IntegerCoinDenom K then n else 0)"
  using mint_bal [OF assms(1) _ assms(3)] mint_supply [OF assms(1)] assms(2)
  by (simp_all add: int_delta_def coins_single_valid coins_single)

lemma int_delta_burn:
  assumes "bkBurnCoins (bk K) b m [newCoin (IntegerCoinDenom K) n] = Ok b'" "0 < n"
    "akGetModuleAddress (ak K) m = Some f"
  shows "int_delta b b' (\<lambda>a. - at_addr f n a)"
    "bkGetSupply (bk K) b' d = bkGetSupply (bk K) b d - (if d = IntegerCoinDenom K then n else 0)"
  using burn_bal [OF assms(1) _ assms(3)] burn_supply [OF assms(1)] assms(2)
  by (simp_all add: int_delta_def coins_single_valid coins_single)

text \<open>A step of the keeper that only calls the bank: \<open>g\<close> is what each account gains in the integer
  denomination, \<open>h\<close> what the supply gains.\<close>

definition bank_step :: "'b pstate \<Rightarrow> 'b pstate \<Rightarrow> (AccAddress \<Rightarrow> int) \<Rightarrow> int \<Rightarrow> bool" where
  "bank_step s s' g h \<longleftrightarrow>
     int_delta (bank s) (bank s') g \<and>
     (\<forall>d. bkGetSupply (bk K) (bank s') d =
        bkGetSupply (bk K) (bank s) d + (if d = IntegerCoinDenom K then h else 0)) \<and>
     fractional s' = fractional s \<and> remainderKey s' = remainderKey s"

lemma bank_step_refl: "bank_step s s (\<lambda>_. 0) 0"
  by (simp add: bank_step_def int_delta_refl)

lemma bank_step_trans:
  "bank_step s s1 g h \<Longrightarrow> bank_step s1 s2 g' h' \<Longrightarrow> bank_step s s2 (\<lambda>a. g a + g' a) (h + h')"
  by (auto simp: bank_step_def dest: int_delta_trans)

lemma bank_step_cong: "bank_step s s' g h \<Longrightarrow> (\<And>a. g a = g' a) \<Longrightarrow> h = h' \<Longrightarrow> bank_step s s' g' h'"
  by (metis ext)

lemma bank_step_send:
  assumes "P \<Longrightarrow> on_bank s (bkSendCoins (bk K) (bank s) f t [newCoin (IntegerCoinDenom K) n]) = Ok s1"
    and "\<not> P \<Longrightarrow> s1 = s" and "P \<Longrightarrow> 0 < n"
  shows "bank_step s s1 (\<lambda>a. of_bool P * (at_addr t n a - at_addr f n a)) 0"
proof (cases P)
  case True
  with assms(1) obtain b where
    "bkSendCoins (bk K) (bank s) f t [newCoin (IntegerCoinDenom K) n] = Ok b" "s1 = s\<lparr>bank := b\<rparr>"
    by (auto simp: on_bank_Ok)
  with int_delta_send [OF this(1)] assms(3) True show ?thesis by (simp add: bank_step_def)
qed (use assms bank_step_refl in \<open>auto simp: bank_step_def\<close>)

lemma bank_step_mint:
  assumes "P \<Longrightarrow> on_bank s (bkMintCoins (bk K) (bank s) m [newCoin (IntegerCoinDenom K) n]) = Ok s1"
    and "\<not> P \<Longrightarrow> s1 = s" and "P \<Longrightarrow> 0 < n"
    and "akGetModuleAddress (ak K) m = Some t"
  shows "bank_step s s1 (\<lambda>a. of_bool P * at_addr t n a) (of_bool P * n)"
proof (cases P)
  case True
  with assms(1) obtain b where
    "bkMintCoins (bk K) (bank s) m [newCoin (IntegerCoinDenom K) n] = Ok b" "s1 = s\<lparr>bank := b\<rparr>"
    by (auto simp: on_bank_Ok)
  with int_delta_mint [OF this(1) _ assms(4)] assms(3) True show ?thesis by (simp add: bank_step_def)
qed (use assms bank_step_refl in \<open>auto simp: bank_step_def\<close>)

lemma bank_step_burn:
  assumes "P \<Longrightarrow> on_bank s (bkBurnCoins (bk K) (bank s) m [newCoin (IntegerCoinDenom K) n]) = Ok s1"
    and "\<not> P \<Longrightarrow> s1 = s" and "P \<Longrightarrow> 0 < n"
    and "akGetModuleAddress (ak K) m = Some f"
  shows "bank_step s s1 (\<lambda>a. - of_bool P * at_addr f n a) (- of_bool P * n)"
proof (cases P)
  case True
  with assms(1) obtain b where
    "bkBurnCoins (bk K) (bank s) m [newCoin (IntegerCoinDenom K) n] = Ok b" "s1 = s\<lparr>bank := b\<rparr>"
    by (auto simp: on_bank_Ok)
  with int_delta_burn [OF this(1) _ assms(4)] assms(3) True show ?thesis by (simp add: bank_step_def)
qed (use assms bank_step_refl in \<open>auto simp: bank_step_def\<close>)

text \<open>Transfers between two accounts other than the reserve: the arithmetic of the borrow and the
  carry, and what a successful transfer does to the bank and to the fractional store.\<close>

lemma sub_frac:
  assumes "0 \<le> c" "c < ConversionFactor K" "0 \<le> n" "n < ConversionFactor K"
  shows "subFromFractionalBalance K c n = Ok (c - n + of_bool (c < n) * ConversionFactor K, c < n)"
  using assms by (simp add: subFromFractionalBalance_def Let_def)

lemma add_frac:
  assumes "0 \<le> c" "c < ConversionFactor K" "0 \<le> n" "n < ConversionFactor K"
  shows "addToFractionalBalance K c n =
    Ok (c + n - of_bool (ConversionFactor K \<le> c + n) * ConversionFactor K, ConversionFactor K \<le> c + n)"
  using assms by (simp add: addToFractionalBalance_def Let_def)

lemma frac_amt: "0 \<le> amt mod ConversionFactor K" "amt mod ConversionFactor K < ConversionFactor K"
  by simp_all

lemma send_ok_steps:
  fixes s f t amt
  defines "i \<equiv> amt div ConversionFactor K" and "a \<equiv> amt mod ConversionFactor K"
    and "ff \<equiv> kv_num (fractional s) f" and "ft \<equiv> kv_num (fractional s) t"
  defines "borrow \<equiv> ff < a" and "carry \<equiv> ConversionFactor K \<le> ft + a"
  assumes inv: "frac_ok K s" and ne: "f \<noteq> t" "f \<noteq> reserveAddr K" "t \<noteq> reserveAddr K" "f \<noteq> []" "t \<noteq> []"
    and amt: "0 < amt"
  shows "sendExtendedCoins K s f t amt =
    res_bind
      (if 0 < i + of_bool (borrow \<and> carry)
       then res_map_err (updateInsufficientFundsError K s f amt)
              (on_bank s (bkSendCoins (bk K) (bank s) f t
                 [newCoin (IntegerCoinDenom K) (i + of_bool (borrow \<and> carry))]))
       else Ok s) (\<lambda>s1.
    res_bind
      (if borrow \<and> \<not> carry
       then res_map_err (updateInsufficientFundsError K s1 f amt)
              (on_bank s1 (bkSendCoins (bk K) (bank s1) f (reserveAddr K)
                 [newCoin (IntegerCoinDenom K) 1]))
       else Ok s1) (\<lambda>s2.
    res_bind
      (if \<not> borrow \<and> carry
       then res_must (ErrWrapped ''failed to carry fractional coins'')
              (on_bank s2 (bkSendCoins (bk K) (bank s2) (reserveAddr K) t
                 [newCoin (IntegerCoinDenom K) 1]))
       else Ok s2) (\<lambda>s3.
    Ok (s3\<lparr>fractional :=
      frac_put t (ft + a - of_bool carry * ConversionFactor K)
        (frac_put f (ff - a + of_bool borrow * ConversionFactor K) (fractional s3))\<rparr>))))"
proof -
  have r: "0 \<le> ff" "ff < ConversionFactor K" "0 \<le> ft" "ft < ConversionFactor K" "0 \<le> a" "a < ConversionFactor K"
    using frac_range [OF inv] frac_amt by (auto simp: ff_def ft_def a_def)
  have nf: "0 \<le> ff - a + of_bool borrow * ConversionFactor K"
    "ff - a + of_bool borrow * ConversionFactor K < ConversionFactor K"
    "0 \<le> ft + a - of_bool carry * ConversionFactor K"
    "ft + a - of_bool carry * ConversionFactor K < ConversionFactor K"
    using r by (auto simp: borrow_def carry_def of_bool_def)
  have i: "quo amt (ConversionFactor K) = i" using amt by (simp add: i_def)
  from reserve_addr(3) obtain acc where acc: "akGetModuleAccount (ak K) ModuleName = Some acc"
    "maAddress acc = reserveAddr K" by blast
  have two: "(if borrow \<and> carry then i + 1 else i) = i + of_bool (borrow \<and> carry)" by simp
  have fin: "res_bind (SetFractionalBalance K s3 f (ff - a + of_bool borrow * ConversionFactor K))
      (\<lambda>s4. SetFractionalBalance K s4 t (ft + a - of_bool carry * ConversionFactor K)) =
    Ok (s3\<lparr>fractional := frac_put t (ft + a - of_bool carry * ConversionFactor K)
      (frac_put f (ff - a + of_bool borrow * ConversionFactor K) (fractional s3))\<rparr>)" for s3
    by (simp only: set_frac [OF ne(4) nf(1,2)] set_frac [OF ne(5) nf(3,4)] res_bind.simps) simp
  have sub: "subFromFractionalBalance K (GetFractionalBalance s f) (amt mod ConversionFactor K) =
      Ok (ff - a + of_bool borrow * ConversionFactor K, borrow)"
    using sub_frac [of ff a] r by (simp add: GetFractionalBalance_num ff_def a_def borrow_def)
  have add: "addToFractionalBalance K (GetFractionalBalance s t) (amt mod ConversionFactor K) =
      Ok (ft + a - of_bool carry * ConversionFactor K, carry)"
    using add_frac [of ft a] r by (simp add: GetFractionalBalance_num ft_def a_def carry_def)
  show ?thesis
    unfolding sendExtendedCoins_def Let_def sub add i send_to_module acc
    by (simp only: ne res_bind.simps prod.case option.case acc two fin if_False if_True simp_thms)
qed

lemma send_effect:
  fixes s s' f t amt
  defines "i \<equiv> amt div ConversionFactor K" and "a \<equiv> amt mod ConversionFactor K"
    and "ff \<equiv> kv_num (fractional s) f" and "ft \<equiv> kv_num (fractional s) t"
  defines "borrow \<equiv> ff < a" and "carry \<equiv> ConversionFactor K \<le> ft + a"
  assumes inv: "frac_ok K s" and ne: "f \<noteq> t" "f \<noteq> reserveAddr K" "t \<noteq> reserveAddr K" "f \<noteq> []" "t \<noteq> []"
    and amt: "0 < amt" and ok: "sendExtendedCoins K s f t amt = Ok s'"
  shows "\<exists>s3. bank_step s s3 (\<lambda>x. at_addr t (i + of_bool carry) x - at_addr f (i + of_bool borrow) x +
            at_addr (reserveAddr K) (of_bool borrow - of_bool carry) x) 0 \<and>
      s' = s3\<lparr>fractional := frac_put t (ft + a - of_bool carry * ConversionFactor K)
        (frac_put f (ff - a + of_bool borrow * ConversionFactor K) (fractional s3))\<rparr>"
proof -
  note steps = send_ok_steps [OF inv ne amt, folded i_def a_def ff_def ft_def,
      folded borrow_def carry_def]
  let ?n = "i + of_bool (borrow \<and> carry)"
  from ok [unfolded steps] obtain s1 s2 s3 where
    h1: "(if 0 < ?n then res_map_err (updateInsufficientFundsError K s f amt)
           (on_bank s (bkSendCoins (bk K) (bank s) f t [newCoin (IntegerCoinDenom K) ?n]))
         else Ok s) = Ok s1" and
    h2: "(if borrow \<and> \<not> carry then res_map_err (updateInsufficientFundsError K s1 f amt)
           (on_bank s1 (bkSendCoins (bk K) (bank s1) f (reserveAddr K) [newCoin (IntegerCoinDenom K) 1]))
         else Ok s1) = Ok s2" and
    h3: "(if \<not> borrow \<and> carry then res_must (ErrWrapped ''failed to carry fractional coins'')
           (on_bank s2 (bkSendCoins (bk K) (bank s2) (reserveAddr K) t [newCoin (IntegerCoinDenom K) 1]))
         else Ok s2) = Ok s3" and
    h4: "s' = s3\<lparr>fractional := frac_put t (ft + a - of_bool carry * ConversionFactor K)
        (frac_put f (ff - a + of_bool borrow * ConversionFactor K) (fractional s3))\<rparr>"
    by (auto simp only: res_bind_Ok res.inject)
  have "0 \<le> i" using amt by (simp add: i_def pos_imp_zdiv_nonneg_iff)
  have "bank_step s s1 (\<lambda>x. of_bool (0 < ?n) * (at_addr t ?n x - at_addr f ?n x)) 0"
    using h1 by (intro bank_step_send) (auto split: if_splits)
  moreover have "bank_step s1 s2
      (\<lambda>x. of_bool (borrow \<and> \<not> carry) * (at_addr (reserveAddr K) 1 x - at_addr f 1 x)) 0"
    using h2 by (intro bank_step_send) (auto split: if_splits)
  moreover have "bank_step s2 s3
      (\<lambda>x. of_bool (\<not> borrow \<and> carry) * (at_addr t 1 x - at_addr (reserveAddr K) 1 x)) 0"
    using h3 by (intro bank_step_send) (auto split: if_splits)
  ultimately have "bank_step s s3 (\<lambda>x. of_bool (0 < ?n) * (at_addr t ?n x - at_addr f ?n x) +
      of_bool (borrow \<and> \<not> carry) * (at_addr (reserveAddr K) 1 x - at_addr f 1 x) +
      of_bool (\<not> borrow \<and> carry) * (at_addr t 1 x - at_addr (reserveAddr K) 1 x)) (0 + 0 + 0)"
    by (intro bank_step_trans)
  then have "bank_step s s3 (\<lambda>x. at_addr t (i + of_bool carry) x - at_addr f (i + of_bool borrow) x +
            at_addr (reserveAddr K) (of_bool borrow - of_bool carry) x) 0"
    by (rule bank_step_cong) (use \<open>0 \<le> i\<close> in \<open>auto simp: at_addr_def\<close>)
  with h4 show ?thesis by blast
qed

text \<open>A transfer keeps the invariant, moves the amount between the two extended balances, and
  touches no other account, no other denomination and no supply.\<close>

lemma frac_ok_put2:
  assumes "frac_ok K s" "fractional s' = frac_put t n (frac_put f m (fractional s))"
    "remainderKey s' = remainderKey s"
    "0 \<le> n" "n < ConversionFactor K" "0 \<le> m" "m < ConversionFactor K"
    "f \<noteq> []" "t \<noteq> []" "f \<noteq> reserveAddr K" "t \<noteq> reserveAddr K"
  shows "frac_ok K s'"
  using assms by (auto simp: frac_ok_def GetRemainderAmount_def dest!: frac_put_set)

lemma send_refines:
  assumes inv: "pb_inv K s" and ne: "f \<noteq> t" "f \<noteq> reserveAddr K" "t \<noteq> reserveAddr K" "f \<noteq> []" "t \<noteq> []"
    and amt: "0 < amt" and ok: "sendExtendedCoins K s f t amt = Ok s'"
  shows "pb_inv K s'"
    "x \<noteq> reserveAddr K \<Longrightarrow> extBalance K s' x = extBalance K s x - at_addr f amt x + at_addr t amt x"
    "d \<noteq> IntegerCoinDenom K \<Longrightarrow> bbal K (bank s') x d = bbal K (bank s) x d"
    "extSupply K s' = extSupply K s"
proof -
  define i a ff ft where "i = amt div ConversionFactor K" and "a = amt mod ConversionFactor K"
    and "ff = kv_num (fractional s) f" and "ft = kv_num (fractional s) t"
  define borrow carry where "borrow \<longleftrightarrow> ff < a" and "carry \<longleftrightarrow> ConversionFactor K \<le> ft + a"
  note defs = i_def a_def ff_def ft_def
  from inv have fok: "frac_ok K s" and wf: "kv_wf (fractional s)" by (auto simp: pb_inv_def frac_ok_def)
  from send_effect [OF fok ne amt ok, folded defs, folded borrow_def carry_def]
  obtain s3 where st: "bank_step s s3 (\<lambda>x. at_addr t (i + of_bool carry) x -
        at_addr f (i + of_bool borrow) x + at_addr (reserveAddr K) (of_bool borrow - of_bool carry) x) 0"
    and s': "s' = s3\<lparr>fractional := frac_put t (ft + a - of_bool carry * ConversionFactor K)
        (frac_put f (ff - a + of_bool borrow * ConversionFactor K) (fractional s3))\<rparr>" by blast
  have r: "0 \<le> ff" "ff < ConversionFactor K" "0 \<le> ft" "ft < ConversionFactor K" "0 \<le> a" "a < ConversionFactor K"
    using frac_range [OF fok] frac_amt by (auto simp: defs)
  have amt_split: "amt = i * ConversionFactor K + a" by (simp add: defs)
  have bal: "bbal K (bank s') x (IntegerCoinDenom K) = bbal K (bank s) x (IntegerCoinDenom K) +
      at_addr t (i + of_bool carry) x - at_addr f (i + of_bool borrow) x +
      at_addr (reserveAddr K) (of_bool borrow - of_bool carry) x" for x
    using st by (simp add: bank_step_def int_delta_def s')
  have fr: "fractional s' = frac_put t (ft + a - of_bool carry * ConversionFactor K)
        (frac_put f (ff - a + of_bool borrow * ConversionFactor K) (fractional s))"
    and rem: "remainderKey s' = remainderKey s"
    using st by (simp_all add: bank_step_def s')
  have num: "kv_num (fractional s') x = kv_num (fractional s) x +
      at_addr t (a - of_bool carry * ConversionFactor K) x -
      at_addr f (a - of_bool borrow * ConversionFactor K) x" for x
    using ne(1) by (simp add: fr at_addr_def ff_def ft_def)
  have "kv_sum (fractional s') = kv_sum (fractional s) +
      (of_bool borrow - of_bool carry) * ConversionFactor K"
    using wf ne(1) by (simp add: fr ff_def ft_def algebra_simps)
  moreover have "frac_ok K s'"
    using fok fr rem r ne by (intro frac_ok_put2 [OF fok fr rem]) (auto simp: borrow_def carry_def of_bool_def)
  moreover have "bbal K (bank s') (reserveAddr K) (IntegerCoinDenom K) * ConversionFactor K =
      bbal K (bank s) (reserveAddr K) (IntegerCoinDenom K) * ConversionFactor K +
      (of_bool borrow - of_bool carry) * ConversionFactor K"
    using ne bal [of "reserveAddr K"] by (simp add: distrib_right)
  ultimately show "pb_inv K s'"
    using inv rem by (simp add: pb_inv_def total_sum_eq GetRemainderAmount_def)
  show "extBalance K s' x = extBalance K s x - at_addr f amt x + at_addr t amt x" if "x \<noteq> reserveAddr K"
    using that by (simp add: pb_views bal num amt_split at_addr_def algebra_simps)
  show "bbal K (bank s') x d = bbal K (bank s) x d" if "d \<noteq> IntegerCoinDenom K"
    using st that by (simp add: bank_step_def int_delta_def s')
  show "extSupply K s' = extSupply K s"
    using st rem by (simp add: bank_step_def s' pb_views GetRemainderAmount_def)
qed

text \<open>A transfer succeeds exactly when the sender's spendable extended balance covers it. It never
  panics: when the recipient's fraction carries without a borrow, the two fractional balances
  alone make up a whole coin, so the reserve holds one.\<close>

lemma cover_iff:
  assumes "0 \<le> ff" "ff < c" "0 \<le> a" "a < (c::int)"
  shows "i * c + a \<le> S * c + ff \<longleftrightarrow> i + of_bool (ff < a) \<le> S"
proof (cases "i + of_bool (ff < a) \<le> S")
  case True
  then have "(i + of_bool (ff < a)) * c \<le> S * c"
    using assms by (intro mult_right_mono) auto
  then have "i * c + of_bool (ff < a) * c \<le> S * c" by (simp only: distrib_right)
  moreover have "a \<le> of_bool (ff < a) * c + ff" using assms by simp
  ultimately have "i * c + a \<le> S * c + ff" by linarith
  with True show ?thesis by blast
next
  case False
  then have "(S + of_bool (\<not> ff < a)) * c \<le> i * c"
    using assms by (intro mult_right_mono) auto
  then have "S * c + of_bool (\<not> ff < a) * c \<le> i * c" by (simp only: distrib_right)
  moreover have "ff < of_bool (\<not> ff < a) * c + a" using assms by simp
  ultimately have "\<not> i * c + a \<le> S * c + ff" by linarith
  with False show ?thesis by blast
qed

lemma send1_total:
  assumes "0 < n"
  shows "n \<le> bspend K b f (IntegerCoinDenom K) \<Longrightarrow>
      \<exists>b'. bkSendCoins (bk K) b f t [newCoin (IntegerCoinDenom K) n] = Ok b'"
    and "\<not> n \<le> bspend K b f (IntegerCoinDenom K) \<Longrightarrow>
      \<exists>e. bkSendCoins (bk K) b f t [newCoin (IntegerCoinDenom K) n] = Err e \<and> isInsufficientFunds e"
proof -
  let ?r = "bkSendCoins (bk K) b f t [newCoin (IntegerCoinDenom K) n]"
  have v: "cIsValid (api K) [newCoin (IntegerCoinDenom K) n]"
    using assms by (simp add: coins_single_valid)
  note iff = send1_ok_iff [OF denom_valid assms, of b f t]
  show "n \<le> bspend K b f (IntegerCoinDenom K) \<Longrightarrow> \<exists>b'. ?r = Ok b'" using iff by simp
  show "\<not> n \<le> bspend K b f (IntegerCoinDenom K) \<Longrightarrow> \<exists>e. ?r = Err e \<and> isInsufficientFunds e"
    using iff send_err [OF v] send_no_panic [OF v] by (cases ?r) auto
qed

lemma reserve_covers:
  assumes inv: "pb_inv K s" and le: "ConversionFactor K \<le> kv_sum (fractional s) + GetRemainderAmount s"
  shows "1 \<le> bbal K (bank s) (reserveAddr K) (IntegerCoinDenom K)"
proof (rule ccontr)
  assume "\<not> ?thesis"
  then have "bbal K (bank s) (reserveAddr K) (IntegerCoinDenom K) * ConversionFactor K \<le> 0 * ConversionFactor K"
    by (intro mult_right_mono) (auto intro: less_imp_le)
  with inv le CF_pos show False by (simp add: pb_inv_def total_sum_eq)
qed

lemma frac_sum2:
  assumes "frac_ok K s" "f \<noteq> t"
  shows "kv_num (fractional s) f + kv_num (fractional s) t \<le> kv_sum (fractional s)"
  using assms by (intro kv_num_add_le_sum) (auto simp: frac_ok_def intro: less_imp_le)

lemma frac_sum1:
  assumes "frac_ok K s"
  shows "kv_num (fractional s) f \<le> kv_sum (fractional s)"
  using assms by (intro kv_num_le_sum) (auto simp: frac_ok_def intro: less_imp_le)

lemma insufficient_update:
  "isInsufficientFunds e \<Longrightarrow> isInsufficientFunds (updateInsufficientFundsError K s f amt e)"
  by (simp add: updateInsufficientFundsError_def)

lemma send_opt:
  assumes "0 \<le> n" "n \<le> bspend K b f (IntegerCoinDenom K)"
    and ne: "f \<noteq> t" "f \<noteq> reserveAddr K" "t \<noteq> reserveAddr K"
  obtains b1 where "0 < n \<Longrightarrow> bkSendCoins (bk K) b f t [newCoin (IntegerCoinDenom K) n] = Ok b1"
    and "\<not> 0 < n \<Longrightarrow> b1 = b"
    and "bspend K b1 f (IntegerCoinDenom K) = bspend K b f (IntegerCoinDenom K) - n"
    and "bbal K b1 (reserveAddr K) (IntegerCoinDenom K) = bbal K b (reserveAddr K) (IntegerCoinDenom K)"
proof (cases "0 < n")
  case True
  then obtain b1 where b1: "bkSendCoins (bk K) b f t [newCoin (IntegerCoinDenom K) n] = Ok b1"
    using send1_total(1) assms(2) by blast
  have v: "cIsValid (api K) [newCoin (IntegerCoinDenom K) n]"
    using True by (simp add: coins_single_valid)
  have "bspend K b1 f (IntegerCoinDenom K) = bspend K b f (IntegerCoinDenom K) - n"
    using send_spend [OF v b1 ne(1), of f "IntegerCoinDenom K"] ne(1) by (simp add: coins_single)
  moreover have "bbal K b1 (reserveAddr K) (IntegerCoinDenom K) = bbal K b (reserveAddr K) (IntegerCoinDenom K)"
    using send1_bal [OF denom_valid True b1, of "reserveAddr K"] ne by (simp add: at_addr_def)
  ultimately show thesis using that True b1 by blast
next
  case False
  then show thesis using that [of b] assms(1) by simp
qed

lemma send_total:
  assumes inv: "pb_inv K s" and ne: "f \<noteq> t" "f \<noteq> reserveAddr K" "t \<noteq> reserveAddr K" "f \<noteq> []" "t \<noteq> []"
    and amt: "0 < amt"
  shows "amt \<le> extSpendable K s f \<Longrightarrow> \<exists>s'. sendExtendedCoins K s f t amt = Ok s'"
    and "\<not> amt \<le> extSpendable K s f \<Longrightarrow>
      \<exists>e. sendExtendedCoins K s f t amt = Err e \<and> isInsufficientFunds e"
proof -
  define i a ff ft where "i = amt div ConversionFactor K" and "a = amt mod ConversionFactor K"
    and "ff = kv_num (fractional s) f" and "ft = kv_num (fractional s) t"
  define borrow carry where "borrow \<longleftrightarrow> ff < a" and "carry \<longleftrightarrow> ConversionFactor K \<le> ft + a"
  note defs = i_def a_def ff_def ft_def
  from inv have fok: "frac_ok K s" by (simp add: pb_inv_def)
  let ?D = "IntegerCoinDenom K"
  have r: "0 \<le> ff" "ff < ConversionFactor K" "0 \<le> a" "a < ConversionFactor K"
    using frac_range [OF fok] frac_amt by (auto simp: defs)
  have i0: "0 \<le> i" using amt by (simp add: i_def pos_imp_zdiv_nonneg_iff)
  have "amt = i * ConversionFactor K + a" by (simp add: defs)
  then have cover: "amt \<le> extSpendable K s f \<longleftrightarrow> i + of_bool borrow \<le> bspend K (bank s) f ?D"
    using cover_iff [OF r, of i "bspend K (bank s) f ?D"] by (simp add: pb_views ff_def borrow_def)
  note steps = send_ok_steps [OF fok ne amt, folded defs, folded borrow_def carry_def]
  have spend0: "0 \<le> bspend K b x d" for b x d using spend_le_bal by blast
  have rsv: "1 \<le> bspend K b' (reserveAddr K) ?D"
    if "\<not> borrow" "carry" "bbal K b' (reserveAddr K) ?D = bbal K (bank s) (reserveAddr K) ?D" for b'
  proof -
    have "ConversionFactor K \<le> kv_sum (fractional s) + GetRemainderAmount s"
      using frac_sum2 [OF fok ne(1)] that(1,2) fok
      by (simp add: defs borrow_def carry_def frac_ok_def)
    from reserve_covers [OF inv this] show ?thesis
      using that(3) module_spend [OF reserve_addr(1)] by simp
  qed
  let ?n = "i + of_bool (borrow \<and> carry)"
  let ?r1 = "bkSendCoins (bk K) (bank s) f t [newCoin ?D ?n]"
  have n0: "0 \<le> ?n" using i0 by simp
  show "\<exists>s'. sendExtendedCoins K s f t amt = Ok s'" if "amt \<le> extSpendable K s f"
  proof -
    have le: "i + of_bool borrow \<le> bspend K (bank s) f ?D" using that cover by simp
    have "?n \<le> bspend K (bank s) f ?D" using le by (cases borrow; cases carry; simp)
    with n0 obtain b1 where b1: "0 < ?n \<Longrightarrow> ?r1 = Ok b1" "\<not> 0 < ?n \<Longrightarrow> b1 = bank s"
      and s1: "bspend K b1 f ?D = bspend K (bank s) f ?D - ?n"
      "bbal K b1 (reserveAddr K) ?D = bbal K (bank s) (reserveAddr K) ?D"
      using send_opt [OF _ _ ne(1-3)] by blast
    have "borrow \<and> \<not> carry \<Longrightarrow> 1 \<le> bspend K b1 f ?D" using le s1 by simp
    then obtain b2 where b2: "borrow \<and> \<not> carry \<Longrightarrow>
        bkSendCoins (bk K) b1 f (reserveAddr K) [newCoin ?D 1] = Ok b2"
      using send1_total(1) [OF zero_less_one] by blast
    obtain b3 where b3: "\<not> borrow \<and> carry \<Longrightarrow>
        bkSendCoins (bk K) b1 (reserveAddr K) t [newCoin ?D 1] = Ok b3"
      using send1_total(1) [OF zero_less_one] rsv s1(2) by blast
    show ?thesis unfolding steps using b1 b2 b3
      by (cases "0 < ?n"; cases borrow; cases carry; simp add: on_bank_def)
  qed
  show "\<exists>e. sendExtendedCoins K s f t amt = Err e \<and> isInsufficientFunds e"
    if "\<not> amt \<le> extSpendable K s f"
  proof -
    have gt: "\<not> i + of_bool borrow \<le> bspend K (bank s) f ?D" using that cover by simp
    show ?thesis
    proof (cases "0 < ?n \<and> \<not> ?n \<le> bspend K (bank s) f ?D")
      case True
      then obtain e where "?r1 = Err e" "isInsufficientFunds e"
        using send1_total(2) [of ?n] by blast
      with True show ?thesis unfolding steps by (simp add: on_bank_def insufficient_update)
    next
      case False
      have bc: "borrow \<and> \<not> carry" using False gt i0 spend0 [of "bank s" f ?D]
        by (cases borrow; cases carry) auto
      from False n0 spend0 [of "bank s" f ?D] have "?n \<le> bspend K (bank s) f ?D" by linarith
      with n0 obtain b1 where b1: "0 < ?n \<Longrightarrow> ?r1 = Ok b1" "\<not> 0 < ?n \<Longrightarrow> b1 = bank s"
        and "bspend K b1 f ?D = bspend K (bank s) f ?D - ?n"
        using send_opt [OF _ _ ne(1-3)] by blast
      with gt bc have "\<not> 1 \<le> bspend K b1 f ?D" by simp
      then obtain e where
        "bkSendCoins (bk K) b1 f (reserveAddr K) [newCoin ?D 1] = Err e" "isInsufficientFunds e"
        using send1_total(2) [OF zero_less_one] by blast
      with b1 bc show ?thesis unfolding steps
        by (cases "0 < ?n"; simp add: on_bank_def insufficient_update)
    qed
  qed
qed

end

end
