(* ===== verification/PreciseBankMintBurn.thy ===== *)
theory PreciseBankMintBurn
  imports PreciseBankProps
begin

text \<open>
  Minting and burning of x/precisebank (keeper/mint.go, keeper/burn.go) over any bank that keeps the
  contract of the SDK bank: both keep the reserve invariant, change the module's extended balance and
  the extended supply by exactly the amount, minting always succeeds, and burning succeeds exactly
  when the module's extended balance covers the amount.
\<close>

context precisebank
begin

lemma on_bank_fractional:
  "res_map_err w (on_bank (s\<lparr>fractional := F\<rparr>) r) =
     res_bind (res_map_err w (on_bank s r)) (\<lambda>s'. Ok (s'\<lparr>fractional := F\<rparr>))"
  by (cases r) (simp_all add: on_bank_def)

text \<open>What the books of one module account and of the reserve have to satisfy for a step on them to
  keep the invariant.\<close>

lemma ledger_step:
  assumes inv: "pb_inv K s" and ne: "M \<noteq> reserveAddr K" "M \<noteq> []"
    and st: "bank_step s s3 (\<lambda>x. at_addr M p x + at_addr (reserveAddr K) q x) h"
    and s': "s' = s3\<lparr>fractional := frac_put M n (fractional s3),
      remainderKey := (if r = 0 then None else Some r)\<rparr>"
    and rng: "0 \<le> n" "n < ConversionFactor K" "0 \<le> r" "r < ConversionFactor K"
    and books: "q * ConversionFactor K = n - kv_num (fractional s) M + (r - GetRemainderAmount s)"
  shows "pb_inv K s'"
    "x \<noteq> reserveAddr K \<Longrightarrow> extBalance K s' x =
      extBalance K s x + at_addr M (p * ConversionFactor K + n - kv_num (fractional s) M) x"
    "d \<noteq> IntegerCoinDenom K \<Longrightarrow> bbal K (bank s') x d = bbal K (bank s) x d"
    "extSupply K s' = extSupply K s + h * ConversionFactor K - (r - GetRemainderAmount s)"
proof -
  from inv have fok: "frac_ok K s" and wf: "kv_wf (fractional s)" by (auto simp: pb_inv_def frac_ok_def)
  have fr: "fractional s' = frac_put M n (fractional s)" and r: "GetRemainderAmount s' = r"
    using st by (simp_all add: bank_step_def s' GetRemainderAmount_def)
  have rk: "remainderKey s' \<noteq> Some 0" by (simp add: s')
  have bal: "bbal K (bank s') x (IntegerCoinDenom K) = bbal K (bank s) x (IntegerCoinDenom K) +
      at_addr M p x + at_addr (reserveAddr K) q x" for x
    using st by (simp add: bank_step_def int_delta_def s')
  have "kv_sum (fractional s') = kv_sum (fractional s) + n - kv_num (fractional s) M"
    using wf by (simp add: fr)
  moreover have "bbal K (bank s') (reserveAddr K) (IntegerCoinDenom K) * ConversionFactor K =
      bbal K (bank s) (reserveAddr K) (IntegerCoinDenom K) * ConversionFactor K + q * ConversionFactor K"
    using ne bal [of "reserveAddr K"] by (simp add: distrib_right)
  moreover have "frac_ok K s'"
    using fok rng ne rk by (auto simp: frac_ok_def fr r dest!: frac_put_set)
  ultimately show "pb_inv K s'"
    using inv books by (simp add: pb_inv_def total_sum_eq r)
  show "extBalance K s' x =
      extBalance K s x + at_addr M (p * ConversionFactor K + n - kv_num (fractional s) M) x"
    if "x \<noteq> reserveAddr K"
    using that by (simp add: pb_views bal fr at_addr_def algebra_simps)
  show "bbal K (bank s') x d = bbal K (bank s) x d" if "d \<noteq> IntegerCoinDenom K"
    using st that by (simp add: bank_step_def int_delta_def s')
  show "extSupply K s' = extSupply K s + h * ConversionFactor K - (r - GetRemainderAmount s)"
    using st by (simp add: bank_step_def s' pb_views GetRemainderAmount_def algebra_simps)
qed

lemma remainder_range: "frac_ok K s \<Longrightarrow> 0 \<le> GetRemainderAmount s \<and> GetRemainderAmount s < ConversionFactor K"
  by (simp add: frac_ok_def)

section \<open>Minting\<close>

lemma mint_steps:
  fixes s m amt
  defines "M \<equiv> moduleAddress K m" and "i \<equiv> amt div ConversionFactor K" and "a \<equiv> amt mod ConversionFactor K"
  defines "f \<equiv> kv_num (fractional s) M" and "r \<equiv> GetRemainderAmount s"
  defines "carry \<equiv> ConversionFactor K \<le> f + a" and "neg \<equiv> r < a"
  assumes fok: "frac_ok K s" and m: "has_perm K m p" "m \<noteq> ModuleName" and amt: "0 < amt"
  shows "mintExtendedCoin K s m amt =
    res_bind
      (if carry \<and> \<not> neg
       then on_bank s (bkSendCoins (bk K) (bank s) (reserveAddr K) M [newCoin (IntegerCoinDenom K) 1])
       else Ok s) (\<lambda>s1.
    res_bind
      (if 0 < i + of_bool (carry \<and> neg)
       then on_bank s1 (bkMintCoins (bk K) (bank s1) m
              [newCoin (IntegerCoinDenom K) (i + of_bool (carry \<and> neg))])
       else Ok s1) (\<lambda>s2.
    res_bind
      (if neg \<and> \<not> carry
       then res_map_err (ErrWrapped ''failed to mint for reserve'')
              (on_bank s2 (bkMintCoins (bk K) (bank s2) ModuleName [newCoin (IntegerCoinDenom K) 1]))
       else Ok s2) (\<lambda>s3.
    Ok (s3\<lparr>fractional := frac_put M (f + a - of_bool carry * ConversionFactor K) (fractional s2),
           remainderKey := (if r - a + of_bool neg * ConversionFactor K = 0 then None
             else Some (r - a + of_bool neg * ConversionFactor K))\<rparr>))))"
proof -
  have rng: "0 \<le> f" "f < ConversionFactor K" "0 \<le> a" "a < ConversionFactor K" "0 \<le> r" "r < ConversionFactor K"
    using frac_range [OF fok] frac_amt remainder_range [OF fok] by (auto simp: f_def a_def r_def)
  have nf: "0 \<le> f + a - of_bool carry * ConversionFactor K"
    "f + a - of_bool carry * ConversionFactor K < ConversionFactor K"
    "0 \<le> r - a + of_bool neg * ConversionFactor K"
    "r - a + of_bool neg * ConversionFactor K < ConversionFactor K"
    using rng by (auto simp: carry_def neg_def of_bool_def)
  have i: "quo amt (ConversionFactor K) = i" using amt by (simp add: i_def)
  from module_addr [OF m(1)] obtain acc where acc: "akGetModuleAccount (ak K) m = Some acc"
    "maAddress acc = M" "M \<noteq> []" by (auto simp: M_def)
  have cond: "r < a \<longleftrightarrow> neg" "a \<le> r \<longleftrightarrow> \<not> neg" by (auto simp: neg_def)
  have ifs: "(if carry \<and> neg then i + 1 else i) = i + of_bool (carry \<and> neg)"
    "(if carry then f + a - ConversionFactor K else f + a) = f + a - of_bool carry * ConversionFactor K"
    "(if neg then r - a + ConversionFactor K else r - a) = r - a + of_bool neg * ConversionFactor K"
    by simp_all
  have carry: "ConversionFactor K \<le> GetFractionalBalance s M + amt mod ConversionFactor K \<longleftrightarrow> carry"
    by (simp add: carry_def GetFractionalBalance_num f_def a_def)
  have fa: "GetFractionalBalance s M + amt mod ConversionFactor K = f + a"
    by (simp add: GetFractionalBalance_num f_def a_def)
  show ?thesis
    unfolding mintExtendedCoin_def Let_def M_def [symmetric] a_def [symmetric] r_def [symmetric]
      fa [folded a_def] carry [folded a_def fa] carry_def [symmetric] i send_module_to_module
    using m acc reserve_addr(1) nf
    by (cases carry; cases neg; simp add: cond on_bank_fractional res_bind_assoc cong: if_cong)
qed

lemma mint1_total:
  assumes "has_perm K m Minter" "0 < n"
  shows "\<exists>b'. bkMintCoins (bk K) b m [newCoin (IntegerCoinDenom K) n] = Ok b'"
  using mint_ok [OF assms(1)] assms(2) by (simp add: coins_single_valid)

lemma mint_total:
  assumes inv: "pb_inv K s" and m: "has_perm K m Minter" "m \<noteq> ModuleName" and amt: "0 < amt"
  shows "\<exists>s'. mintExtendedCoin K s m amt = Ok s'"
proof -
  let ?M = "moduleAddress K m" and ?D = "IntegerCoinDenom K"
  define i a f r where "i = amt div ConversionFactor K" and "a = amt mod ConversionFactor K"
    and "f = kv_num (fractional s) ?M" and "r = GetRemainderAmount s"
  define carry neg where "carry \<longleftrightarrow> ConversionFactor K \<le> f + a" and "neg \<longleftrightarrow> r < a"
  from inv have fok: "frac_ok K s" by (simp add: pb_inv_def)
  note steps = mint_steps [OF fok m amt, folded i_def a_def f_def r_def, folded carry_def neg_def]
  let ?n = "i + of_bool (carry \<and> neg)"
  have "1 \<le> bspend K (bank s) (reserveAddr K) ?D" if "carry \<and> \<not> neg"
  proof -
    have "ConversionFactor K \<le> kv_sum (fractional s) + GetRemainderAmount s"
      using frac_sum1 [OF fok, of ?M] that by (simp add: carry_def neg_def f_def r_def)
    from reserve_covers [OF inv this] show ?thesis
      using module_spend [OF reserve_addr(1)] by simp
  qed
  then obtain b1 where b1: "carry \<and> \<not> neg \<Longrightarrow>
      bkSendCoins (bk K) (bank s) (reserveAddr K) ?M [newCoin ?D 1] = Ok b1"
    using send1_total(1) [OF zero_less_one] by blast
  define s1 where "s1 = (if carry \<and> \<not> neg then s\<lparr>bank := b1\<rparr> else s)"
  obtain b2 where b2: "0 < ?n \<Longrightarrow> bkMintCoins (bk K) (bank s1) m [newCoin ?D ?n] = Ok b2"
    using mint1_total [OF m(1)] by blast
  define s2 where "s2 = (if 0 < ?n then s1\<lparr>bank := b2\<rparr> else s1)"
  obtain b3 where b3: "bkMintCoins (bk K) (bank s2) ModuleName [newCoin ?D 1] = Ok b3"
    using mint1_total [OF reserve_minter zero_less_one] by blast
  have "(if carry \<and> \<not> neg
       then on_bank s (bkSendCoins (bk K) (bank s) (reserveAddr K) ?M [newCoin ?D 1]) else Ok s) = Ok s1"
    using b1 by (simp add: s1_def on_bank_def)
  moreover have "(if 0 < ?n then on_bank s1 (bkMintCoins (bk K) (bank s1) m [newCoin ?D ?n])
      else Ok s1) = Ok s2" using b2 by (simp add: s2_def on_bank_def)
  ultimately show ?thesis unfolding steps using b3 by (simp add: on_bank_def)
qed

lemma mint_refines:
  assumes inv: "pb_inv K s" and m: "has_perm K m p" "m \<noteq> ModuleName" and amt: "0 < amt"
    and ok: "mintExtendedCoin K s m amt = Ok s'"
  shows "pb_inv K s'"
    "x \<noteq> reserveAddr K \<Longrightarrow> extBalance K s' x = extBalance K s x + at_addr (moduleAddress K m) amt x"
    "d \<noteq> IntegerCoinDenom K \<Longrightarrow> bbal K (bank s') x d = bbal K (bank s) x d"
    "extSupply K s' = extSupply K s + amt"
proof -
  let ?M = "moduleAddress K m" and ?D = "IntegerCoinDenom K"
  define i a f r where "i = amt div ConversionFactor K" and "a = amt mod ConversionFactor K"
    and "f = kv_num (fractional s) ?M" and "r = GetRemainderAmount s"
  define carry neg where "carry \<longleftrightarrow> ConversionFactor K \<le> f + a" and "neg \<longleftrightarrow> r < a"
  from inv have fok: "frac_ok K s" by (simp add: pb_inv_def)
  have rng: "0 \<le> f" "f < ConversionFactor K" "0 \<le> a" "a < ConversionFactor K" "0 \<le> r" "r < ConversionFactor K"
    using frac_range [OF fok] frac_amt remainder_range [OF fok] by (auto simp: f_def a_def r_def)
  let ?n = "i + of_bool (carry \<and> neg)"
  from ok [unfolded mint_steps [OF fok m amt, folded i_def a_def f_def r_def, folded carry_def neg_def]]
  obtain s1 s2 s3 where
    h1: "(if carry \<and> \<not> neg then on_bank s (bkSendCoins (bk K) (bank s) (reserveAddr K) ?M [newCoin ?D 1])
         else Ok s) = Ok s1" and
    h2: "(if 0 < ?n then on_bank s1 (bkMintCoins (bk K) (bank s1) m [newCoin ?D ?n]) else Ok s1) = Ok s2" and
    h3: "(if neg \<and> \<not> carry then res_map_err (ErrWrapped ''failed to mint for reserve'')
           (on_bank s2 (bkMintCoins (bk K) (bank s2) ModuleName [newCoin ?D 1])) else Ok s2) = Ok s3" and
    h4: "s' = s3\<lparr>fractional := frac_put ?M (f + a - of_bool carry * ConversionFactor K) (fractional s2),
           remainderKey := (if r - a + of_bool neg * ConversionFactor K = 0 then None
             else Some (r - a + of_bool neg * ConversionFactor K))\<rparr>"
    by (auto simp only: res_bind_Ok res.inject)
  have i0: "0 \<le> i" using amt by (simp add: i_def pos_imp_zdiv_nonneg_iff)
  have "bank_step s s1 (\<lambda>x. of_bool (carry \<and> \<not> neg) * (at_addr ?M 1 x - at_addr (reserveAddr K) 1 x)) 0"
    using h1 by (intro bank_step_send) (auto split: if_splits)
  moreover have "bank_step s1 s2 (\<lambda>x. of_bool (0 < ?n) * at_addr ?M ?n x) (of_bool (0 < ?n) * ?n)"
    using h2 module_addr(1) [OF m(1)] by (intro bank_step_mint) (auto split: if_splits)
  moreover have s23: "bank_step s2 s3
      (\<lambda>x. of_bool (neg \<and> \<not> carry) * at_addr (reserveAddr K) 1 x) (of_bool (neg \<and> \<not> carry) * 1)"
    using h3 reserve_addr(1) by (intro bank_step_mint) (auto split: if_splits)
  ultimately have "bank_step s s3 (\<lambda>x. of_bool (carry \<and> \<not> neg) * (at_addr ?M 1 x - at_addr (reserveAddr K) 1 x)
      + of_bool (0 < ?n) * at_addr ?M ?n x + of_bool (neg \<and> \<not> carry) * at_addr (reserveAddr K) 1 x)
      (0 + of_bool (0 < ?n) * ?n + of_bool (neg \<and> \<not> carry) * 1)"
    by (intro bank_step_trans)
  then have st: "bank_step s s3 (\<lambda>x. at_addr ?M (i + of_bool carry) x +
      at_addr (reserveAddr K) (of_bool neg - of_bool carry) x) (i + of_bool neg)"
    by (rule bank_step_cong) (use i0 in \<open>auto simp: at_addr_def\<close>)
  have amt_split: "amt = i * ConversionFactor K + a" by (simp add: i_def a_def)
  have s': "s' = s3\<lparr>fractional := frac_put ?M (f + a - of_bool carry * ConversionFactor K) (fractional s3),
      remainderKey := (if r - a + of_bool neg * ConversionFactor K = 0 then None
        else Some (r - a + of_bool neg * ConversionFactor K))\<rparr>"
    using h4 s23 by (simp add: bank_step_def)
  have nf: "0 \<le> f + a - of_bool carry * ConversionFactor K"
    "f + a - of_bool carry * ConversionFactor K < ConversionFactor K"
    "0 \<le> r - a + of_bool neg * ConversionFactor K"
    "r - a + of_bool neg * ConversionFactor K < ConversionFactor K"
    using rng by (auto simp: carry_def neg_def of_bool_def)
  have books: "(of_bool neg - of_bool carry) * ConversionFactor K =
      f + a - of_bool carry * ConversionFactor K - kv_num (fractional s) ?M +
      (r - a + of_bool neg * ConversionFactor K - GetRemainderAmount s)"
    by (simp add: f_def r_def left_diff_distrib)
  note led = ledger_step [OF inv module_not_reserve [OF m] module_addr(2) [OF m(1)] st s' nf books]
  show "pb_inv K s'" by (rule led(1))
  show "extBalance K s' x = extBalance K s x + at_addr ?M amt x" if "x \<noteq> reserveAddr K"
    using led(2) [OF that] by (simp add: amt_split f_def [symmetric] distrib_right)
  show "bbal K (bank s') x d = bbal K (bank s) x d" if "d \<noteq> ?D" using led(3) that .
  show "extSupply K s' = extSupply K s + amt"
    using led(4) by (simp add: amt_split r_def [symmetric] distrib_right)
qed

section \<open>Burning\<close>

lemma burn_steps:
  fixes s m amt
  defines "M \<equiv> moduleAddress K m" and "i \<equiv> amt div ConversionFactor K" and "a \<equiv> amt mod ConversionFactor K"
  defines "f \<equiv> kv_num (fractional s) M" and "r \<equiv> GetRemainderAmount s"
  defines "borrow \<equiv> f < a" and "over \<equiv> ConversionFactor K \<le> r + a"
  assumes fok: "frac_ok K s" and m: "has_perm K m p" "m \<noteq> ModuleName" and amt: "0 < amt"
  shows "burnExtendedCoin K s m amt =
    res_bind
      (if borrow \<and> \<not> over
       then res_map_err (updateInsufficientFundsError K s M amt)
              (on_bank s (bkSendCoins (bk K) (bank s) M (reserveAddr K) [newCoin (IntegerCoinDenom K) 1]))
       else Ok s) (\<lambda>s1.
    res_bind
      (if \<not> borrow \<and> over
       then res_map_err (ErrWrapped ''failed to burn for reserve'')
              (on_bank s1 (bkBurnCoins (bk K) (bank s1) ModuleName [newCoin (IntegerCoinDenom K) 1]))
       else Ok s1) (\<lambda>s2.
    res_bind
      (if i + of_bool (borrow \<and> over) \<noteq> 0
       then res_map_err (updateInsufficientFundsError K s2 M amt)
              (on_bank s2 (bkBurnCoins (bk K) (bank s2) m
                 [newCoin (IntegerCoinDenom K) (i + of_bool (borrow \<and> over))]))
       else Ok s2) (\<lambda>s3.
    Ok (s3\<lparr>fractional := frac_put M (f - a + of_bool borrow * ConversionFactor K) (fractional s3),
           remainderKey := (if r + a - of_bool over * ConversionFactor K = 0 then None
             else Some (r + a - of_bool over * ConversionFactor K))\<rparr>))))"
proof -
  have rng: "0 \<le> f" "f < ConversionFactor K" "0 \<le> a" "a < ConversionFactor K" "0 \<le> r" "r < ConversionFactor K"
    using frac_range [OF fok] frac_amt remainder_range [OF fok] by (auto simp: f_def a_def r_def)
  have nf: "0 \<le> f - a + of_bool borrow * ConversionFactor K"
    "f - a + of_bool borrow * ConversionFactor K < ConversionFactor K"
    "0 \<le> r + a - of_bool over * ConversionFactor K"
    "r + a - of_bool over * ConversionFactor K < ConversionFactor K"
    using rng by (auto simp: borrow_def over_def of_bool_def)
  have i: "quo amt (ConversionFactor K) = i" using amt by (simp add: i_def)
  from module_addr [OF m(1)] obtain acc where acc: "akGetModuleAddress (ak K) m = Some M" "M \<noteq> []"
    by (auto simp: M_def)
  from reserve_addr(3) obtain racc where racc: "akGetModuleAccount (ak K) ModuleName = Some racc"
    "maAddress racc = reserveAddr K" by blast
  have cond: "f < a \<longleftrightarrow> borrow" "a \<le> f \<longleftrightarrow> \<not> borrow" "ConversionFactor K \<le> r + a \<longleftrightarrow> over"
    by (auto simp: borrow_def over_def)
  have f: "GetFractionalBalance s M = f" by (simp add: GetFractionalBalance_num f_def)
  show ?thesis
    unfolding burnExtendedCoin_def Let_def M_def [symmetric] a_def [symmetric] r_def [symmetric]
      f i send_module_to_module
    using m acc racc nf
    by (cases borrow; cases over; simp add: cond res_bind_assoc cong: if_cong)
qed

lemma burn1_total:
  assumes "has_perm K m Burner" "0 < n" and M: "akGetModuleAddress (ak K) m = Some M"
  shows "n \<le> bbal K b M (IntegerCoinDenom K) \<Longrightarrow>
      \<exists>b'. bkBurnCoins (bk K) b m [newCoin (IntegerCoinDenom K) n] = Ok b'"
    and "\<not> n \<le> bbal K b M (IntegerCoinDenom K) \<Longrightarrow>
      \<exists>e. bkBurnCoins (bk K) b m [newCoin (IntegerCoinDenom K) n] = Err e \<and> isInsufficientFunds e"
proof -
  let ?r = "bkBurnCoins (bk K) b m [newCoin (IntegerCoinDenom K) n]"
  have v: "cIsValid (api K) [newCoin (IntegerCoinDenom K) n]"
    using assms by (simp add: coins_single_valid)
  note iff = burn1_ok_iff [OF assms(1) denom_valid assms(2) M, of b]
  show "n \<le> bbal K b M (IntegerCoinDenom K) \<Longrightarrow> \<exists>b'. ?r = Ok b'" using iff by simp
  show "\<not> n \<le> bbal K b M (IntegerCoinDenom K) \<Longrightarrow> \<exists>e. ?r = Err e \<and> isInsufficientFunds e"
    using iff burn_err [OF assms(1) v] burn_no_panic [OF assms(1) v] by (cases ?r) auto
qed

lemma burn_refines:
  assumes inv: "pb_inv K s" and m: "has_perm K m p" "m \<noteq> ModuleName" and amt: "0 < amt"
    and ok: "burnExtendedCoin K s m amt = Ok s'"
  shows "pb_inv K s'"
    "x \<noteq> reserveAddr K \<Longrightarrow> extBalance K s' x = extBalance K s x - at_addr (moduleAddress K m) amt x"
    "d \<noteq> IntegerCoinDenom K \<Longrightarrow> bbal K (bank s') x d = bbal K (bank s) x d"
    "extSupply K s' = extSupply K s - amt"
proof -
  let ?M = "moduleAddress K m" and ?D = "IntegerCoinDenom K"
  define i a f r where "i = amt div ConversionFactor K" and "a = amt mod ConversionFactor K"
    and "f = kv_num (fractional s) ?M" and "r = GetRemainderAmount s"
  define borrow over where "borrow \<longleftrightarrow> f < a" and "over \<longleftrightarrow> ConversionFactor K \<le> r + a"
  from inv have fok: "frac_ok K s" by (simp add: pb_inv_def)
  have rng: "0 \<le> f" "f < ConversionFactor K" "0 \<le> a" "a < ConversionFactor K" "0 \<le> r" "r < ConversionFactor K"
    using frac_range [OF fok] frac_amt remainder_range [OF fok] by (auto simp: f_def a_def r_def)
  let ?n = "i + of_bool (borrow \<and> over)"
  from ok [unfolded burn_steps [OF fok m amt, folded i_def a_def f_def r_def, folded borrow_def over_def]]
  obtain s1 s2 s3 where
    h1: "(if borrow \<and> \<not> over then res_map_err (updateInsufficientFundsError K s ?M amt)
           (on_bank s (bkSendCoins (bk K) (bank s) ?M (reserveAddr K) [newCoin ?D 1])) else Ok s) = Ok s1" and
    h2: "(if \<not> borrow \<and> over then res_map_err (ErrWrapped ''failed to burn for reserve'')
           (on_bank s1 (bkBurnCoins (bk K) (bank s1) ModuleName [newCoin ?D 1])) else Ok s1) = Ok s2" and
    h3: "(if ?n \<noteq> 0 then res_map_err (updateInsufficientFundsError K s2 ?M amt)
           (on_bank s2 (bkBurnCoins (bk K) (bank s2) m [newCoin ?D ?n])) else Ok s2) = Ok s3" and
    s': "s' = s3\<lparr>fractional := frac_put ?M (f - a + of_bool borrow * ConversionFactor K) (fractional s3),
           remainderKey := (if r + a - of_bool over * ConversionFactor K = 0 then None
             else Some (r + a - of_bool over * ConversionFactor K))\<rparr>"
    by (auto simp only: res_bind_Ok res.inject)
  have i0: "0 \<le> i" using amt by (simp add: i_def pos_imp_zdiv_nonneg_iff)
  have "bank_step s s1 (\<lambda>x. of_bool (borrow \<and> \<not> over) * (at_addr (reserveAddr K) 1 x - at_addr ?M 1 x)) 0"
    using h1 by (intro bank_step_send) (auto split: if_splits)
  moreover have "bank_step s1 s2
      (\<lambda>x. - of_bool (\<not> borrow \<and> over) * at_addr (reserveAddr K) 1 x) (- of_bool (\<not> borrow \<and> over) * 1)"
    using h2 reserve_addr(1) by (intro bank_step_burn) (auto split: if_splits)
  moreover have "bank_step s2 s3 (\<lambda>x. - of_bool (?n \<noteq> 0) * at_addr ?M ?n x) (- of_bool (?n \<noteq> 0) * ?n)"
    using h3 module_addr(1) [OF m(1)] i0 by (intro bank_step_burn) (auto split: if_splits)
  ultimately have "bank_step s s3
      (\<lambda>x. of_bool (borrow \<and> \<not> over) * (at_addr (reserveAddr K) 1 x - at_addr ?M 1 x)
        + - of_bool (\<not> borrow \<and> over) * at_addr (reserveAddr K) 1 x + - of_bool (?n \<noteq> 0) * at_addr ?M ?n x)
      (0 + - of_bool (\<not> borrow \<and> over) * 1 + - of_bool (?n \<noteq> 0) * ?n)"
    by (intro bank_step_trans)
  then have st: "bank_step s s3 (\<lambda>x. at_addr ?M (- (i + of_bool borrow)) x +
      at_addr (reserveAddr K) (of_bool borrow - of_bool over) x) (- (i + of_bool over))"
    by (rule bank_step_cong) (use i0 in \<open>auto simp: at_addr_def\<close>)
  have amt_split: "amt = i * ConversionFactor K + a" by (simp add: i_def a_def)
  have nf: "0 \<le> f - a + of_bool borrow * ConversionFactor K"
    "f - a + of_bool borrow * ConversionFactor K < ConversionFactor K"
    "0 \<le> r + a - of_bool over * ConversionFactor K"
    "r + a - of_bool over * ConversionFactor K < ConversionFactor K"
    using rng by (auto simp: borrow_def over_def of_bool_def)
  have books: "(of_bool borrow - of_bool over) * ConversionFactor K =
      f - a + of_bool borrow * ConversionFactor K - kv_num (fractional s) ?M +
      (r + a - of_bool over * ConversionFactor K - GetRemainderAmount s)"
    by (simp add: f_def r_def left_diff_distrib)
  note led = ledger_step [OF inv module_not_reserve [OF m] module_addr(2) [OF m(1)] st s' nf books]
  show "pb_inv K s'" by (rule led(1))
  show "extBalance K s' x = extBalance K s x - at_addr ?M amt x" if "x \<noteq> reserveAddr K"
    using led(2) [OF that] by (simp add: amt_split f_def [symmetric] at_addr_def distrib_right left_diff_distrib)
  show "bbal K (bank s') x d = bbal K (bank s) x d" if "d \<noteq> ?D" using led(3) that .
  show "extSupply K s' = extSupply K s - amt"
    using led(4) by (simp add: amt_split r_def [symmetric] distrib_right left_diff_distrib)
qed

text \<open>The two preliminary steps of a burn, the borrow from the module and the burn in the reserve,
  never block: the borrow needs the coin that the amount needs anyway, and a remainder that
  overflows without a borrow makes up a whole coin of the reserve.\<close>

lemma burn_prepare:
  assumes P: "P \<Longrightarrow> 1 \<le> bbal K (bank s) M (IntegerCoinDenom K)"
    and Q: "Q \<Longrightarrow> 1 \<le> bbal K (bank s) (reserveAddr K) (IntegerCoinDenom K)" and PQ: "\<not> (P \<and> Q)"
    and M: "akGetModuleAddress (ak K) m = Some M" "M \<noteq> reserveAddr K"
  shows "\<exists>s1 s2.
    (if P then res_map_err h (on_bank s (bkSendCoins (bk K) (bank s) M (reserveAddr K)
        [newCoin (IntegerCoinDenom K) 1])) else Ok s) = Ok s1 \<and>
    (if Q then res_map_err g (on_bank s1 (bkBurnCoins (bk K) (bank s1) ModuleName
        [newCoin (IntegerCoinDenom K) 1])) else Ok s1) = Ok s2 \<and>
    bbal K (bank s2) M (IntegerCoinDenom K) = bbal K (bank s) M (IntegerCoinDenom K) - of_bool P"
proof -
  let ?D = "IntegerCoinDenom K"
  consider "P" "\<not> Q" | "\<not> P" "Q" | "\<not> P" "\<not> Q" using PQ by blast
  then show ?thesis
  proof cases
    case 1
    then obtain b where b: "bkSendCoins (bk K) (bank s) M (reserveAddr K) [newCoin ?D 1] = Ok b"
      using send1_total(1) [OF zero_less_one] P module_spend [OF M(1)] by metis
    with 1 show ?thesis
      using int_delta_send(1) [OF b zero_less_one] M(2)
      by (simp add: on_bank_def int_delta_def)
  next
    case 2
    then obtain b where b: "bkBurnCoins (bk K) (bank s) ModuleName [newCoin ?D 1] = Ok b"
      using burn1_total(1) [OF reserve_burner zero_less_one reserve_addr(1)] Q by blast
    with 2 show ?thesis
      using int_delta_burn(1) [OF b zero_less_one reserve_addr(1)] M(2)
      by (simp add: on_bank_def int_delta_def)
  qed simp
qed

lemma burn_total:
  assumes inv: "pb_inv K s" and m: "has_perm K m Burner" "m \<noteq> ModuleName" and amt: "0 < amt"
  shows "amt \<le> extBalance K s (moduleAddress K m) \<Longrightarrow> \<exists>s'. burnExtendedCoin K s m amt = Ok s'"
    and "\<not> amt \<le> extBalance K s (moduleAddress K m) \<Longrightarrow>
      \<exists>e. burnExtendedCoin K s m amt = Err e \<and> isInsufficientFunds e"
proof -
  let ?M = "moduleAddress K m" and ?D = "IntegerCoinDenom K"
  define i a f r where "i = amt div ConversionFactor K" and "a = amt mod ConversionFactor K"
    and "f = kv_num (fractional s) ?M" and "r = GetRemainderAmount s"
  define borrow over where "borrow \<longleftrightarrow> f < a" and "over \<longleftrightarrow> ConversionFactor K \<le> r + a"
  from inv have fok: "frac_ok K s" by (simp add: pb_inv_def)
  note M = module_addr(1) [OF m(1)] module_not_reserve [OF m]
  note steps = burn_steps [OF fok m amt, folded i_def a_def f_def r_def, folded borrow_def over_def]
  have rng: "0 \<le> f" "f < ConversionFactor K" "0 \<le> a" "a < ConversionFactor K"
    using frac_range [OF fok] frac_amt by (auto simp: f_def a_def)
  let ?n = "i + of_bool (borrow \<and> over)" and ?B = "bbal K (bank s) ?M ?D"
  have i0: "0 \<le> i" using amt by (simp add: i_def pos_imp_zdiv_nonneg_iff)
  have "amt = i * ConversionFactor K + a" by (simp add: i_def a_def)
  then have cover: "amt \<le> extBalance K s ?M \<longleftrightarrow> i + of_bool borrow \<le> ?B"
    using cover_iff [OF rng, of i ?B] by (simp add: pb_views f_def borrow_def)
  have Q: "1 \<le> bbal K (bank s) (reserveAddr K) ?D" if "\<not> borrow \<and> over"
    using frac_sum1 [OF fok, of ?M] that
    by (intro reserve_covers [OF inv]) (simp add: borrow_def over_def f_def r_def)
  have prep: "\<exists>s1 s2.
      (if borrow \<and> \<not> over then res_map_err (updateInsufficientFundsError K s ?M amt)
         (on_bank s (bkSendCoins (bk K) (bank s) ?M (reserveAddr K) [newCoin ?D 1])) else Ok s) = Ok s1 \<and>
      (if \<not> borrow \<and> over then res_map_err (ErrWrapped ''failed to burn for reserve'')
         (on_bank s1 (bkBurnCoins (bk K) (bank s1) ModuleName [newCoin ?D 1])) else Ok s1) = Ok s2 \<and>
      bbal K (bank s2) ?M ?D = ?B - of_bool (borrow \<and> \<not> over)"
    if "borrow \<and> \<not> over \<Longrightarrow> 1 \<le> ?B"
    by (rule burn_prepare [OF that Q _ M]) auto
  have split: "?n + of_bool (borrow \<and> \<not> over) = i + of_bool borrow" by simp
  show "\<exists>s'. burnExtendedCoin K s m amt = Ok s'" if "amt \<le> extBalance K s ?M"
  proof -
    have le: "i + of_bool borrow \<le> ?B" using that cover by simp
    with i0 have "borrow \<and> \<not> over \<Longrightarrow> 1 \<le> ?B" by simp
    from prep [OF this] obtain s1 s2 where st:
      "(if borrow \<and> \<not> over then res_map_err (updateInsufficientFundsError K s ?M amt)
         (on_bank s (bkSendCoins (bk K) (bank s) ?M (reserveAddr K) [newCoin ?D 1])) else Ok s) = Ok s1"
      "(if \<not> borrow \<and> over then res_map_err (ErrWrapped ''failed to burn for reserve'')
         (on_bank s1 (bkBurnCoins (bk K) (bank s1) ModuleName [newCoin ?D 1])) else Ok s1) = Ok s2"
      "bbal K (bank s2) ?M ?D = ?B - of_bool (borrow \<and> \<not> over)" by blast
    have "?n \<le> bbal K (bank s2) ?M ?D" using le st(3) split by linarith
    then have "0 < ?n \<Longrightarrow> \<exists>b. bkBurnCoins (bk K) (bank s2) m [newCoin ?D ?n] = Ok b"
      using burn1_total(1) [OF m(1) _ M(1)] by blast
    moreover have "0 < ?n \<longleftrightarrow> ?n \<noteq> 0" using i0 by auto
    ultimately show ?thesis unfolding steps st(1) res_bind.simps st(2) by (auto simp: on_bank_def)
  qed
  show "\<exists>e. burnExtendedCoin K s m amt = Err e \<and> isInsufficientFunds e" if "\<not> amt \<le> extBalance K s ?M"
  proof (cases "borrow \<and> \<not> over \<and> \<not> 1 \<le> ?B")
    case True
    then obtain e where "bkSendCoins (bk K) (bank s) ?M (reserveAddr K) [newCoin ?D 1] = Err e"
      "isInsufficientFunds e"
      using send1_total(2) [OF zero_less_one] module_spend [OF M(1)] by metis
    with True show ?thesis unfolding steps by (simp add: on_bank_def insufficient_update)
  next
    case False
    then have "borrow \<and> \<not> over \<Longrightarrow> 1 \<le> ?B" by blast
    from prep [OF this] obtain s1 s2 where st:
      "(if borrow \<and> \<not> over then res_map_err (updateInsufficientFundsError K s ?M amt)
         (on_bank s (bkSendCoins (bk K) (bank s) ?M (reserveAddr K) [newCoin ?D 1])) else Ok s) = Ok s1"
      "(if \<not> borrow \<and> over then res_map_err (ErrWrapped ''failed to burn for reserve'')
         (on_bank s1 (bkBurnCoins (bk K) (bank s1) ModuleName [newCoin ?D 1])) else Ok s1) = Ok s2"
      "bbal K (bank s2) ?M ?D = ?B - of_bool (borrow \<and> \<not> over)" by blast
    have "\<not> ?n \<le> bbal K (bank s2) ?M ?D" using that cover st(3) split by linarith
    moreover from this have "0 < ?n" using bal_nonneg [of "bank s2" ?M ?D] by linarith
    ultimately obtain e where "bkBurnCoins (bk K) (bank s2) m [newCoin ?D ?n] = Err e" "isInsufficientFunds e"
      using burn1_total(2) [OF m(1) _ M(1)] by blast
    with \<open>0 < ?n\<close> show ?thesis unfolding steps st(1) res_bind.simps st(2)
      by (auto simp: on_bank_def insufficient_update)
  qed
qed

end

end
