(* ===== verification/PreciseBankHandlers.thy ===== *)
theory PreciseBankHandlers
  imports PreciseBankMintBurn
begin

text \<open>
  The exported operations of x/precisebank on whole coin sets: \<open>SendCoins\<close>, \<open>MintCoins\<close>,
  \<open>BurnCoins\<close>, the module-account variants and the \<open>MsgSend\<close> handler. A coin set may carry
  the integer denomination and the extended one at once; \<open>coinsValue\<close> is what the two together
  are worth in the extended denomination, and every operation moves exactly that.
\<close>

definition coinsValue :: "'b Keeper \<Rightarrow> coins \<Rightarrow> int" where
  "coinsValue K cs =
     (if ExtendedCoinDenom K = IntegerCoinDenom K then 0
      else amt_of K cs (IntegerCoinDenom K) * ConversionFactor K) + amt_of K cs (ExtendedCoinDenom K)"

text \<open>The coins that go straight to x/bank: all but the extended denomination.\<close>

definition passthrough :: "'b Keeper \<Rightarrow> coins \<Rightarrow> coins" where
  "passthrough K amt =
     (if 0 < amt_of K amt (ExtendedCoinDenom K)
      then cSub (api K) amt (newCoin (ExtendedCoinDenom K) (amt_of K amt (ExtendedCoinDenom K)))
      else amt)"

context precisebank
begin

lemma passthrough_valid: "cIsValid (api K) cs \<Longrightarrow> cIsValid (api K) (passthrough K cs)"
  by (simp add: passthrough_def coins_sub_valid)

lemma passthrough_amt:
  "cIsValid (api K) cs \<Longrightarrow>
    amt_of K (passthrough K cs) d = (if d = ExtendedCoinDenom K then 0 else amt_of K cs d)"
  using coins_nonneg [of cs "ExtendedCoinDenom K"] by (auto simp: passthrough_def coins_sub)

lemma coinsValue_split:
  assumes "cIsValid (api K) cs"
  shows "coinsValue K cs = amt_of K (passthrough K cs) (IntegerCoinDenom K) * ConversionFactor K +
    amt_of K cs (ExtendedCoinDenom K)"
  using assms by (simp add: coinsValue_def passthrough_amt)

lemma SendCoins_pass:
  "cIsValid (api K) cs \<Longrightarrow> SendCoins K s f t cs =
    res_bind (if passthrough K cs \<noteq> []
              then on_bank s (bkSendCoins (bk K) (bank s) f t (passthrough K cs)) else Ok s) (\<lambda>s1.
    if 0 < amt_of K cs (ExtendedCoinDenom K)
    then sendExtendedCoins K s1 f t (amt_of K cs (ExtendedCoinDenom K)) else Ok s1)"
  using coins_all_positive [OF passthrough_valid]
  by (simp add: SendCoins_def Let_def passthrough_def [symmetric])

text \<open>The bank leg of a transfer.\<close>

lemma pass_send:
  fixes s f t cs
  defines "r \<equiv> (if cs \<noteq> [] then on_bank s (bkSendCoins (bk K) (bank s) f t cs) else Ok s)"
  assumes v: "cIsValid (api K) cs"
  shows "is_ok r \<longleftrightarrow> (\<forall>d. amt_of K cs d \<le> bspend K (bank s) f d)"
    "r = Err e \<Longrightarrow> isInsufficientFunds e" "r \<noteq> Panic e"
    "r = Ok s1 \<Longrightarrow> fractional s1 = fractional s \<and> remainderKey s1 = remainderKey s"
    "r = Ok s1 \<Longrightarrow> bbal K (bank s1) a d =
       bbal K (bank s) a d - at_addr f (amt_of K cs d) a + at_addr t (amt_of K cs d) a"
    "r = Ok s1 \<Longrightarrow> f \<noteq> t \<Longrightarrow> a \<noteq> t \<Longrightarrow>
       bspend K (bank s1) a d = bspend K (bank s) a d - at_addr f (amt_of K cs d) a"
    "r = Ok s1 \<Longrightarrow> bkGetSupply (bk K) (bank s1) d = bkGetSupply (bk K) (bank s) d"
proof -
  have nil: "cs = [] \<Longrightarrow> r = Ok s" "cs = [] \<Longrightarrow> amt_of K cs d = 0" for d
    by (simp_all add: r_def coins_nil)
  have r: "cs \<noteq> [] \<Longrightarrow> r = on_bank s (bkSendCoins (bk K) (bank s) f t cs)" by (simp add: r_def)
  have ok: "is_ok (on_bank s q) = is_ok q" for q by (cases q) (simp_all add: on_bank_def)
  show "is_ok r \<longleftrightarrow> (\<forall>d. amt_of K cs d \<le> bspend K (bank s) f d)"
    using nil r send_ok_iff [OF v, of "bank s" f t] spend_le_bal ok by (cases "cs = []") simp_all
  show "r = Err e \<Longrightarrow> isInsufficientFunds e"
    using nil r send_err [OF v, of "bank s" f t] by (cases "cs = []") (simp_all add: on_bank_Err)
  show "r \<noteq> Panic e"
    using nil r send_no_panic [OF v, of "bank s" f t] by (cases "cs = []") (simp_all add: on_bank_Panic)
  have b: "\<exists>b. bkSendCoins (bk K) (bank s) f t cs = Ok b \<and> s1 = s\<lparr>bank := b\<rparr>" if "r = Ok s1" "cs \<noteq> []"
    using that r by (simp add: on_bank_Ok)
  show "r = Ok s1 \<Longrightarrow> fractional s1 = fractional s \<and> remainderKey s1 = remainderKey s"
    using b nil by (cases "cs = []") auto
  show "r = Ok s1 \<Longrightarrow> bbal K (bank s1) a d =
       bbal K (bank s) a d - at_addr f (amt_of K cs d) a + at_addr t (amt_of K cs d) a"
    using b nil send_bal [OF v, of "bank s" f t] by (cases "cs = []") auto
  show "r = Ok s1 \<Longrightarrow> f \<noteq> t \<Longrightarrow> a \<noteq> t \<Longrightarrow>
       bspend K (bank s1) a d = bspend K (bank s) a d - at_addr f (amt_of K cs d) a"
    using b nil send_spend [OF v, of "bank s" f t] by (cases "cs = []") auto
  show "r = Ok s1 \<Longrightarrow> bkGetSupply (bk K) (bank s1) d = bkGetSupply (bk K) (bank s) d"
    using b nil send_supply [OF v, of "bank s" f t] by (cases "cs = []") auto
qed

lemma pb_inv_bank:
  assumes "pb_inv K s" "fractional s1 = fractional s \<and> remainderKey s1 = remainderKey s"
    "bbal K (bank s1) (reserveAddr K) (IntegerCoinDenom K) =
     bbal K (bank s) (reserveAddr K) (IntegerCoinDenom K)"
  shows "pb_inv K s1"
  using assms by (simp add: pb_inv_def frac_ok_def total_sum_eq GetRemainderAmount_def)

lemma SendCoins_refines:
  assumes inv: "pb_inv K s" and v: "cIsValid (api K) cs"
    and ne: "f \<noteq> t" "f \<noteq> reserveAddr K" "t \<noteq> reserveAddr K" "f \<noteq> []" "t \<noteq> []"
    and ok: "SendCoins K s f t cs = Ok s'"
  shows "pb_inv K s'"
    "x \<noteq> reserveAddr K \<Longrightarrow> extBalance K s' x =
      extBalance K s x - at_addr f (coinsValue K cs) x + at_addr t (coinsValue K cs) x"
    "extSupply K s' = extSupply K s"
proof -
  let ?e = "amt_of K cs (ExtendedCoinDenom K)" and ?p = "passthrough K cs"
  note pv = passthrough_valid [OF v]
  from ok obtain s1 where
    r1: "(if ?p \<noteq> [] then on_bank s (bkSendCoins (bk K) (bank s) f t ?p) else Ok s) = Ok s1"
    and r2: "(if 0 < ?e then sendExtendedCoins K s1 f t ?e else Ok s1) = Ok s'"
    by (auto simp only: SendCoins_pass [OF v] res_bind_Ok)
  note p = pass_send(4) [OF pv r1] pass_send(5) [OF pv r1] pass_send(7) [OF pv r1]
  have inv1: "pb_inv K s1" using ne by (intro pb_inv_bank [OF inv]) (simp_all add: p)
  have b1: "extBalance K s1 x = extBalance K s x -
      at_addr f (amt_of K ?p (IntegerCoinDenom K) * ConversionFactor K) x +
      at_addr t (amt_of K ?p (IntegerCoinDenom K) * ConversionFactor K) x" for x
    by (simp add: pb_views p at_addr_def distrib_right left_diff_distrib)
  have s1: "extSupply K s1 = extSupply K s"
    using p by (simp add: extSupply_def GetRemainderAmount_def)
  have e0: "\<not> 0 < ?e \<Longrightarrow> ?e = 0" using coins_nonneg [OF v] by (meson order_antisym not_less)
  note se = send_refines [OF inv1 ne]
  show "pb_inv K s'" using inv1 se(1) r2 by (auto split: if_splits)
  show "extSupply K s' = extSupply K s" using s1 se(4) r2 by (auto split: if_splits)
  show "extBalance K s' x =
      extBalance K s x - at_addr f (coinsValue K cs) x + at_addr t (coinsValue K cs) x"
    if "x \<noteq> reserveAddr K"
  proof -
    have "extBalance K s' x = extBalance K s1 x - at_addr f ?e x + at_addr t ?e x"
      using se(2) [OF _ _ that] r2 e0 by (auto split: if_splits)
    then show ?thesis by (simp add: b1 coinsValue_split [OF v] at_addr_def)
  qed
qed

text \<open>When a transfer of a whole coin set succeeds.\<close>

lemma value_cover:
  assumes "frac_ok K s"
  shows "n * ConversionFactor K \<le> extSpendable K s f \<longleftrightarrow> n \<le> bspend K (bank s) f (IntegerCoinDenom K)"
  using cover_iff [OF frac_range [OF assms], of 0 n "bspend K (bank s) f (IntegerCoinDenom K)" f]
    frac_range(1) [OF assms, of f] by (simp add: pb_views not_less [symmetric])

lemma SendCoins_total:
  assumes inv: "pb_inv K s" and v: "cIsValid (api K) cs"
    and ne: "f \<noteq> t" "f \<noteq> reserveAddr K" "t \<noteq> reserveAddr K" "f \<noteq> []" "t \<noteq> []"
  shows "is_ok (SendCoins K s f t cs) \<longleftrightarrow>
      (\<forall>d. d \<noteq> IntegerCoinDenom K \<longrightarrow> d \<noteq> ExtendedCoinDenom K \<longrightarrow> amt_of K cs d \<le> bspend K (bank s) f d) \<and>
      coinsValue K cs \<le> extSpendable K s f"
    and "\<not> is_ok (SendCoins K s f t cs) \<Longrightarrow>
      \<exists>e. SendCoins K s f t cs = Err e \<and> isInsufficientFunds e"
proof -
  let ?e = "amt_of K cs (ExtendedCoinDenom K)" and ?p = "passthrough K cs" and ?D = "IntegerCoinDenom K"
  define r where "r = (if ?p \<noteq> [] then on_bank s (bkSendCoins (bk K) (bank s) f t ?p) else Ok s)"
  note pv = passthrough_valid [OF v]
  from inv have fok: "frac_ok K s" by (simp add: pb_inv_def)
  have e0: "0 \<le> ?e" by (rule coins_nonneg [OF v])
  have all: "(\<forall>d. amt_of K ?p d \<le> bspend K (bank s) f d) \<longleftrightarrow>
      (\<forall>d. d \<noteq> ?D \<longrightarrow> d \<noteq> ExtendedCoinDenom K \<longrightarrow> amt_of K cs d \<le> bspend K (bank s) f d) \<and>
      amt_of K ?p ?D * ConversionFactor K \<le> extSpendable K s f"
  proof -
    have "(\<forall>d. Q d) \<longleftrightarrow> (\<forall>d. d \<noteq> ?D \<longrightarrow> Q d) \<and> Q ?D" for Q by metis
    from this [of "\<lambda>d. amt_of K ?p d \<le> bspend K (bank s) f d"] show ?thesis
      using spend_le_bal by (auto simp: value_cover [OF fok] passthrough_amt [OF v])
  qed
  have S: "SendCoins K s f t cs = res_bind r (\<lambda>s1. if 0 < ?e then sendExtendedCoins K s1 f t ?e else Ok s1)"
    by (simp add: SendCoins_pass [OF v] r_def)
  have ok: "is_ok (SendCoins K s f t cs) \<longleftrightarrow> coinsValue K cs \<le> extSpendable K s f"
    "\<not> is_ok (SendCoins K s f t cs) \<Longrightarrow> \<exists>e. SendCoins K s f t cs = Err e \<and> isInsufficientFunds e"
    if r1: "r = Ok s1" for s1
  proof -
    note p = pass_send(4) [OF pv r1 [unfolded r_def]] pass_send(5) [OF pv r1 [unfolded r_def]]
      pass_send(6) [OF pv r1 [unfolded r_def] ne(1)]
    have inv1: "pb_inv K s1" using ne by (intro pb_inv_bank [OF inv]) (simp_all add: p)
    have sp: "extSpendable K s1 f = extSpendable K s f - amt_of K ?p ?D * ConversionFactor K"
      using ne(1) by (simp add: pb_views p left_diff_distrib)
    have le: "amt_of K ?p ?D * ConversionFactor K \<le> extSpendable K s f"
      using pass_send(1) [OF pv, of s f t] r1 all by (simp add: r_def)
    note tot = send_total [OF inv1 ne]
    show "is_ok (SendCoins K s f t cs) \<longleftrightarrow> coinsValue K cs \<le> extSpendable K s f"
      using tot(1,2) [of ?e] e0 sp le
      by (cases "0 < ?e"; cases "?e \<le> extSpendable K s1 f"; auto simp: S r1 coinsValue_split [OF v])
    show "\<exists>e. SendCoins K s f t cs = Err e \<and> isInsufficientFunds e" if "\<not> is_ok (SendCoins K s f t cs)"
      using that tot(1,2) [of ?e] by (cases "0 < ?e"; cases "?e \<le> extSpendable K s1 f"; auto simp: S r1)
  qed
  show "is_ok (SendCoins K s f t cs) \<longleftrightarrow>
      (\<forall>d. d \<noteq> ?D \<longrightarrow> d \<noteq> ExtendedCoinDenom K \<longrightarrow> amt_of K cs d \<le> bspend K (bank s) f d) \<and>
      coinsValue K cs \<le> extSpendable K s f"
  proof (cases "is_ok r")
    case True
    then obtain s1 where "r = Ok s1" by auto
    with ok(1) [OF this] pass_send(1) [OF pv, of s f t] all True show ?thesis by (simp add: r_def)
  next
    case False
    then have "\<not> is_ok (SendCoins K s f t cs)" by (cases r) (auto simp: S)
    moreover have "coinsValue K cs \<le> extSpendable K s f \<Longrightarrow>
        amt_of K ?p ?D * ConversionFactor K \<le> extSpendable K s f"
      using e0 coinsValue_split [OF v] by linarith
    ultimately show ?thesis using pass_send(1) [OF pv, of s f t] all False by (simp add: r_def) blast
  qed
  show "\<exists>e. SendCoins K s f t cs = Err e \<and> isInsufficientFunds e" if "\<not> is_ok (SendCoins K s f t cs)"
    using ok(2) [OF _ that] pass_send(2,3) [OF pv, of s f t] that by (cases r) (auto simp: S r_def)
qed

text \<open>Minting and burning of whole coin sets: the checks of the handler pass, and the bank leg and
  the extended leg compose.\<close>

lemma MintCoins_pass:
  assumes "has_perm K m Minter" "m \<noteq> ModuleName" "cIsValid (api K) cs"
  shows "MintCoins K s m cs =
    res_bind (if passthrough K cs \<noteq> [] then on_bank s (bkMintCoins (bk K) (bank s) m (passthrough K cs))
              else Ok s) (\<lambda>s1.
    if 0 < amt_of K cs (ExtendedCoinDenom K)
    then mintExtendedCoin K s1 m (amt_of K cs (ExtendedCoinDenom K)) else Ok s1)"
  using assms unfolding MintCoins_def Let_def passthrough_def [symmetric]
  by (cases "akGetModuleAccount (ak K) m") (simp_all add: has_perm_def)

lemma BurnCoins_pass:
  assumes "has_perm K m Burner" "m \<noteq> ModuleName" "cIsValid (api K) cs"
  shows "BurnCoins K s m cs =
    res_bind (if passthrough K cs \<noteq> [] then on_bank s (bkBurnCoins (bk K) (bank s) m (passthrough K cs))
              else Ok s) (\<lambda>s1.
    if 0 < amt_of K cs (ExtendedCoinDenom K)
    then burnExtendedCoin K s1 m (amt_of K cs (ExtendedCoinDenom K)) else Ok s1)"
  using assms unfolding BurnCoins_def Let_def passthrough_def [symmetric]
  by (cases "akGetModuleAccount (ak K) m") (simp_all add: has_perm_def)

lemma MintCoins_refines:
  assumes inv: "pb_inv K s" and m: "has_perm K m Minter" "m \<noteq> ModuleName" and v: "cIsValid (api K) cs"
  shows "\<exists>s'. MintCoins K s m cs = Ok s' \<and> pb_inv K s' \<and>
    (\<forall>x. x \<noteq> reserveAddr K \<longrightarrow>
       extBalance K s' x = extBalance K s x + at_addr (moduleAddress K m) (coinsValue K cs) x) \<and>
    extSupply K s' = extSupply K s + coinsValue K cs"
proof -
  let ?e = "amt_of K cs (ExtendedCoinDenom K)" and ?p = "passthrough K cs" and ?M = "moduleAddress K m"
  note pv = passthrough_valid [OF v] and M = module_addr(1) [OF m(1)] module_not_reserve [OF m]
  obtain b where b: "bkMintCoins (bk K) (bank s) m ?p = Ok b" using mint_ok [OF m(1) pv] by auto
  define s1 where "s1 = (if ?p \<noteq> [] then s\<lparr>bank := b\<rparr> else s)"
  have bal: "bbal K (bank s1) a d = bbal K (bank s) a d + at_addr ?M (amt_of K ?p d) a" for a d
    using mint_bal [OF b pv M(1)] by (simp add: s1_def coins_nil)
  have sup: "bkGetSupply (bk K) (bank s1) d = bkGetSupply (bk K) (bank s) d + amt_of K ?p d" for d
    using mint_supply [OF b pv] by (simp add: s1_def coins_nil)
  have same: "fractional s1 = fractional s \<and> remainderKey s1 = remainderKey s" by (simp add: s1_def)
  have inv1: "pb_inv K s1" using M(2) by (intro pb_inv_bank [OF inv]) (simp_all add: bal same)
  have e1: "extBalance K s1 x =
      extBalance K s x + at_addr ?M (amt_of K ?p (IntegerCoinDenom K) * ConversionFactor K) x" for x
    by (simp add: pb_views same bal at_addr_def distrib_right)
  have e2: "extSupply K s1 = extSupply K s + amt_of K ?p (IntegerCoinDenom K) * ConversionFactor K"
    by (simp add: extSupply_def GetRemainderAmount_def same sup distrib_right)
  have H: "MintCoins K s m cs = (if 0 < ?e then mintExtendedCoin K s1 m ?e else Ok s1)"
    using b by (simp add: MintCoins_pass [OF m v] s1_def on_bank_def)
  have e0: "0 \<le> ?e" by (rule coins_nonneg [OF v])
  show ?thesis
  proof (cases "0 < ?e")
    case True
    from mint_total [OF inv1 m True] obtain s' where s': "mintExtendedCoin K s1 m ?e = Ok s'" by blast
    with True mint_refines [OF inv1 m True s'] show ?thesis
      by (intro exI [of _ s']) (simp add: H e1 e2 coinsValue_split [OF v] at_addr_def)
  next
    case False
    with e0 inv1 show ?thesis
      by (intro exI [of _ s1]) (simp add: H e1 e2 coinsValue_split [OF v])
  qed
qed

lemma pass_burn:
  fixes s m cs
  defines "r \<equiv> (if cs \<noteq> [] then on_bank s (bkBurnCoins (bk K) (bank s) m cs) else Ok s)"
  assumes m: "has_perm K m Burner" and v: "cIsValid (api K) cs"
  shows "is_ok r \<longleftrightarrow> (\<forall>d. amt_of K cs d \<le> bbal K (bank s) (moduleAddress K m) d)"
    "r = Err e \<Longrightarrow> isInsufficientFunds e" "r \<noteq> Panic e"
    "r = Ok s1 \<Longrightarrow> fractional s1 = fractional s \<and> remainderKey s1 = remainderKey s"
    "r = Ok s1 \<Longrightarrow> bbal K (bank s1) a d =
       bbal K (bank s) a d - at_addr (moduleAddress K m) (amt_of K cs d) a"
    "r = Ok s1 \<Longrightarrow> bkGetSupply (bk K) (bank s1) d = bkGetSupply (bk K) (bank s) d - amt_of K cs d"
proof -
  note M = module_addr(1) [OF m]
  have nil: "cs = [] \<Longrightarrow> r = Ok s" "cs = [] \<Longrightarrow> amt_of K cs d = 0" for d
    by (simp_all add: r_def coins_nil)
  have r: "cs \<noteq> [] \<Longrightarrow> r = on_bank s (bkBurnCoins (bk K) (bank s) m cs)" by (simp add: r_def)
  have ok: "is_ok (on_bank s q) = is_ok q" for q by (cases q) (simp_all add: on_bank_def)
  show "is_ok r \<longleftrightarrow> (\<forall>d. amt_of K cs d \<le> bbal K (bank s) (moduleAddress K m) d)"
    using nil r burn_ok_iff [OF m v M, of "bank s"] bal_nonneg ok by (cases "cs = []") simp_all
  show "r = Err e \<Longrightarrow> isInsufficientFunds e"
    using nil r burn_err [OF m v] by (cases "cs = []") (simp_all add: on_bank_Err)
  show "r \<noteq> Panic e"
    using nil r burn_no_panic [OF m v] by (cases "cs = []") (simp_all add: on_bank_Panic)
  have b: "\<exists>b. bkBurnCoins (bk K) (bank s) m cs = Ok b \<and> s1 = s\<lparr>bank := b\<rparr>" if "r = Ok s1" "cs \<noteq> []"
    using that r by (simp add: on_bank_Ok)
  show "r = Ok s1 \<Longrightarrow> fractional s1 = fractional s \<and> remainderKey s1 = remainderKey s"
    using b nil by (cases "cs = []") auto
  show "r = Ok s1 \<Longrightarrow> bbal K (bank s1) a d =
       bbal K (bank s) a d - at_addr (moduleAddress K m) (amt_of K cs d) a"
    using b nil burn_bal [OF _ v M] by (cases "cs = []") auto
  show "r = Ok s1 \<Longrightarrow> bkGetSupply (bk K) (bank s1) d = bkGetSupply (bk K) (bank s) d - amt_of K cs d"
    using b nil burn_supply [OF _ v] by (cases "cs = []") auto
qed

lemma BurnCoins_refines:
  assumes inv: "pb_inv K s" and m: "has_perm K m Burner" "m \<noteq> ModuleName" and v: "cIsValid (api K) cs"
    and ok: "BurnCoins K s m cs = Ok s'"
  shows "pb_inv K s'"
    "x \<noteq> reserveAddr K \<Longrightarrow>
       extBalance K s' x = extBalance K s x - at_addr (moduleAddress K m) (coinsValue K cs) x"
    "extSupply K s' = extSupply K s - coinsValue K cs"
proof -
  let ?e = "amt_of K cs (ExtendedCoinDenom K)" and ?p = "passthrough K cs" and ?M = "moduleAddress K m"
  note pv = passthrough_valid [OF v] and M = module_not_reserve [OF m]
  from ok obtain s1 where
    r1: "(if ?p \<noteq> [] then on_bank s (bkBurnCoins (bk K) (bank s) m ?p) else Ok s) = Ok s1"
    and r2: "(if 0 < ?e then burnExtendedCoin K s1 m ?e else Ok s1) = Ok s'"
    by (auto simp only: BurnCoins_pass [OF m v] res_bind_Ok)
  note p = pass_burn(4) [OF m(1) pv r1] pass_burn(5) [OF m(1) pv r1] pass_burn(6) [OF m(1) pv r1]
  have inv1: "pb_inv K s1" using M by (intro pb_inv_bank [OF inv]) (simp_all add: p)
  have b1: "extBalance K s1 x = extBalance K s x -
      at_addr ?M (amt_of K ?p (IntegerCoinDenom K) * ConversionFactor K) x" for x
    by (simp add: pb_views p at_addr_def left_diff_distrib)
  have s1: "extSupply K s1 = extSupply K s - amt_of K ?p (IntegerCoinDenom K) * ConversionFactor K"
    by (simp add: extSupply_def GetRemainderAmount_def p left_diff_distrib)
  have e0: "\<not> 0 < ?e \<Longrightarrow> ?e = 0" using coins_nonneg [OF v] by (meson order_antisym not_less)
  note be = burn_refines [OF inv1 m]
  show "pb_inv K s'" using inv1 be(1) r2 by (auto split: if_splits)
  have "extSupply K s' = extSupply K s1 - ?e" using be(4) r2 e0 by (auto split: if_splits)
  then show "extSupply K s' = extSupply K s - coinsValue K cs" by (simp add: s1 coinsValue_split [OF v])
  show "extBalance K s' x = extBalance K s x - at_addr ?M (coinsValue K cs) x" if "x \<noteq> reserveAddr K"
  proof -
    have "extBalance K s' x = extBalance K s1 x - at_addr ?M ?e x"
      using be(2) [OF _ _ that] r2 e0 by (auto split: if_splits)
    then show ?thesis by (simp add: b1 coinsValue_split [OF v] at_addr_def)
  qed
qed

lemma module_ext_spendable:
  "has_perm K m p \<Longrightarrow> extSpendable K s (moduleAddress K m) = extBalance K s (moduleAddress K m)"
  using module_spend [OF module_addr(1)] by (simp add: extSpendable_def extBalance_def)

lemma BurnCoins_total:
  assumes inv: "pb_inv K s" and m: "has_perm K m Burner" "m \<noteq> ModuleName" and v: "cIsValid (api K) cs"
  shows "is_ok (BurnCoins K s m cs) \<longleftrightarrow>
      (\<forall>d. d \<noteq> IntegerCoinDenom K \<longrightarrow> d \<noteq> ExtendedCoinDenom K \<longrightarrow>
         amt_of K cs d \<le> bbal K (bank s) (moduleAddress K m) d) \<and>
      coinsValue K cs \<le> extBalance K s (moduleAddress K m)"
    and "\<not> is_ok (BurnCoins K s m cs) \<Longrightarrow> \<exists>e. BurnCoins K s m cs = Err e \<and> isInsufficientFunds e"
proof -
  let ?e = "amt_of K cs (ExtendedCoinDenom K)" and ?p = "passthrough K cs" and ?D = "IntegerCoinDenom K"
    and ?M = "moduleAddress K m"
  define r where "r = (if ?p \<noteq> [] then on_bank s (bkBurnCoins (bk K) (bank s) m ?p) else Ok s)"
  note pv = passthrough_valid [OF v] and M = module_not_reserve [OF m]
  from inv have fok: "frac_ok K s" by (simp add: pb_inv_def)
  have e0: "0 \<le> ?e" by (rule coins_nonneg [OF v])
  have cov: "n * ConversionFactor K \<le> extBalance K s ?M \<longleftrightarrow> n \<le> bbal K (bank s) ?M ?D" for n
    using value_cover [OF fok, of n ?M] module_ext_spendable [OF m(1)] module_spend [OF module_addr(1) [OF m(1)]]
    by simp
  have all: "(\<forall>d. amt_of K ?p d \<le> bbal K (bank s) ?M d) \<longleftrightarrow>
      (\<forall>d. d \<noteq> ?D \<longrightarrow> d \<noteq> ExtendedCoinDenom K \<longrightarrow> amt_of K cs d \<le> bbal K (bank s) ?M d) \<and>
      amt_of K ?p ?D * ConversionFactor K \<le> extBalance K s ?M"
  proof -
    have "(\<forall>d. Q d) \<longleftrightarrow> (\<forall>d. d \<noteq> ?D \<longrightarrow> Q d) \<and> Q ?D" for Q by metis
    from this [of "\<lambda>d. amt_of K ?p d \<le> bbal K (bank s) ?M d"] show ?thesis
      using bal_nonneg by (auto simp: cov passthrough_amt [OF v])
  qed
  have S: "BurnCoins K s m cs = res_bind r (\<lambda>s1. if 0 < ?e then burnExtendedCoin K s1 m ?e else Ok s1)"
    by (simp add: BurnCoins_pass [OF m v] r_def)
  have ok: "is_ok (BurnCoins K s m cs) \<longleftrightarrow> coinsValue K cs \<le> extBalance K s ?M"
    "\<not> is_ok (BurnCoins K s m cs) \<Longrightarrow> \<exists>e. BurnCoins K s m cs = Err e \<and> isInsufficientFunds e"
    if r1: "r = Ok s1" for s1
  proof -
    note p = pass_burn(4) [OF m(1) pv r1 [unfolded r_def]] pass_burn(5) [OF m(1) pv r1 [unfolded r_def]]
    have inv1: "pb_inv K s1" using M by (intro pb_inv_bank [OF inv]) (simp_all add: p)
    have sp: "extBalance K s1 ?M = extBalance K s ?M - amt_of K ?p ?D * ConversionFactor K"
      by (simp add: pb_views p left_diff_distrib)
    have le: "amt_of K ?p ?D * ConversionFactor K \<le> extBalance K s ?M"
      using pass_burn(1) [OF m(1) pv, of s] r1 all by (simp add: r_def)
    note tot = burn_total [OF inv1 m]
    show "is_ok (BurnCoins K s m cs) \<longleftrightarrow> coinsValue K cs \<le> extBalance K s ?M"
      using tot(1,2) [of ?e] e0 sp le
      by (cases "0 < ?e"; cases "?e \<le> extBalance K s1 ?M"; auto simp: S r1 coinsValue_split [OF v])
    show "\<exists>e. BurnCoins K s m cs = Err e \<and> isInsufficientFunds e" if "\<not> is_ok (BurnCoins K s m cs)"
      using that tot(1,2) [of ?e] by (cases "0 < ?e"; cases "?e \<le> extBalance K s1 ?M"; auto simp: S r1)
  qed
  show "is_ok (BurnCoins K s m cs) \<longleftrightarrow>
      (\<forall>d. d \<noteq> ?D \<longrightarrow> d \<noteq> ExtendedCoinDenom K \<longrightarrow> amt_of K cs d \<le> bbal K (bank s) ?M d) \<and>
      coinsValue K cs \<le> extBalance K s ?M"
  proof (cases "is_ok r")
    case True
    then obtain s1 where "r = Ok s1" by auto
    with ok(1) [OF this] pass_burn(1) [OF m(1) pv, of s] all True show ?thesis by (simp add: r_def)
  next
    case False
    then have "\<not> is_ok (BurnCoins K s m cs)" by (cases r) (auto simp: S)
    moreover have "coinsValue K cs \<le> extBalance K s ?M \<Longrightarrow>
        amt_of K ?p ?D * ConversionFactor K \<le> extBalance K s ?M"
      using e0 coinsValue_split [OF v] by linarith
    ultimately show ?thesis using pass_burn(1) [OF m(1) pv, of s] all False by (simp add: r_def) blast
  qed
  show "\<exists>e. BurnCoins K s m cs = Err e \<and> isInsufficientFunds e" if "\<not> is_ok (BurnCoins K s m cs)"
    using ok(2) [OF _ that] pass_burn(2,3) [OF m(1) pv, of s] that by (cases r) (auto simp: S r_def)
qed

text \<open>A transfer to oneself passes the bank leg through and skips the extended leg, so the books are
  unchanged.\<close>

lemma SendCoins_self:
  assumes inv: "pb_inv K s" and v: "cIsValid (api K) cs" and ne: "f \<noteq> reserveAddr K"
    and ok: "SendCoins K s f f cs = Ok s'"
  shows "pb_inv K s'" "extBalance K s' x = extBalance K s x" "extSupply K s' = extSupply K s"
proof -
  let ?e = "amt_of K cs (ExtendedCoinDenom K)" and ?p = "passthrough K cs"
  note pv = passthrough_valid [OF v]
  from ok obtain s1 where
    r1: "(if ?p \<noteq> [] then on_bank s (bkSendCoins (bk K) (bank s) f f ?p) else Ok s) = Ok s1"
    and r2: "(if 0 < ?e then sendExtendedCoins K s1 f f ?e else Ok s1) = Ok s'"
    by (auto simp only: SendCoins_pass [OF v] res_bind_Ok)
  have s': "s' = s1" using r2 ne by (auto simp: sendExtendedCoins_def Let_def split: if_splits)
  note p = pass_send(4) [OF pv r1] pass_send(5) [OF pv r1] pass_send(7) [OF pv r1]
  show "pb_inv K s'" unfolding s' by (intro pb_inv_bank [OF inv]) (simp_all add: p)
  show "extBalance K s' x = extBalance K s x" by (simp add: s' pb_views p)
  show "extSupply K s' = extSupply K s" by (simp add: s' extSupply_def p GetRemainderAmount_def)
qed

lemma SendCoins_keeps:
  assumes "pb_inv K s" "f \<noteq> reserveAddr K" "t \<noteq> reserveAddr K" "f \<noteq> []" "t \<noteq> []" "SendCoins K s f t cs = Ok s'"
  shows "pb_inv K s' \<and> extSupply K s' = extSupply K s"
proof -
  have v: "cIsValid (api K) cs" using assms(6) by (simp add: SendCoins_def split: if_splits)
  show ?thesis
    using SendCoins_refines(1,3) [OF assms(1) v _ assms(2-6)]
      SendCoins_self(1,3) [OF assms(1) v assms(2)] assms(6) by (cases "f = t") auto
qed

end

end
