(* ===== verification/PreciseBankRun.thy ===== *)
theory PreciseBankRun
  imports PreciseBankHandlers
begin

text \<open>
  Histories of x/precisebank: the state machine whose steps are the exported operations of the
  keeper, the states it reaches from an initial one, and the genesis import and export that start
  and end a history.
\<close>

section \<open>The operations as steps\<close>

datatype pb_op =
    OpSendCoins AccAddress AccAddress coins
  | OpAccountToModule AccAddress string coins
  | OpModuleToAccount string AccAddress coins
  | OpModuleToModule string string coins
  | OpMsgSend MsgSend
  | OpMintCoins string coins
  | OpBurnCoins string coins

fun exec_op :: "'b Keeper \<Rightarrow> 'b pstate \<Rightarrow> pb_op \<Rightarrow> 'b pstate res" where
  "exec_op K s (OpSendCoins f t cs) = SendCoins K s f t cs"
| "exec_op K s (OpAccountToModule f m cs) = SendCoinsFromAccountToModule K s f m cs"
| "exec_op K s (OpModuleToAccount m t cs) = SendCoinsFromModuleToAccount K s m t cs"
| "exec_op K s (OpModuleToModule m m' cs) = SendCoinsFromModuleToModule K s m m' cs"
| "exec_op K s (OpMsgSend msg) = Send K s msg"
| "exec_op K s (OpMintCoins m cs) = MintCoins K s m cs"
| "exec_op K s (OpBurnCoins m cs) = BurnCoins K s m cs"

text \<open>Nobody spends from or pays into the reserve account: it has no key, it is a blocked address, and
  no module of the chain names it as the sender of a module-to-module transfer (the one case the
  keeper does not refuse itself).\<close>

definition plain :: "'b Keeper \<Rightarrow> AccAddress \<Rightarrow> bool" where
  "plain K a \<longleftrightarrow> a \<noteq> reserveAddr K \<and> a \<noteq> []"

fun op_guard :: "'b Keeper \<Rightarrow> pb_op \<Rightarrow> bool" where
  "op_guard K (OpSendCoins f t cs) \<longleftrightarrow> plain K f \<and> plain K t"
| "op_guard K (OpAccountToModule f m cs) \<longleftrightarrow> plain K f"
| "op_guard K (OpModuleToAccount m t cs) \<longleftrightarrow> plain K t"
| "op_guard K (OpModuleToModule m m' cs) \<longleftrightarrow> m \<noteq> ModuleName"
| "op_guard K (OpMsgSend msg) \<longleftrightarrow>
     (\<forall>a. akStringToBytes (ak K) (FromAddress msg) = Some a \<longrightarrow> plain K a) \<and>
     (\<forall>a. akStringToBytes (ak K) (ToAddress msg) = Some a \<longrightarrow> plain K a)"
| "op_guard K (OpMintCoins m cs) \<longleftrightarrow> True"
| "op_guard K (OpBurnCoins m cs) \<longleftrightarrow> True"

text \<open>What an operation adds to the supply of the extended coin when it succeeds.\<close>

fun op_issues :: "'b Keeper \<Rightarrow> pb_op \<Rightarrow> int" where
  "op_issues K (OpMintCoins m cs) = coinsValue K cs"
| "op_issues K (OpBurnCoins m cs) = - coinsValue K cs"
| "op_issues K _ = 0"

text \<open>One transaction: an operation that fails is discarded with its cached context.\<close>

inductive pb_step :: "'b Keeper \<Rightarrow> 'b pstate \<Rightarrow> int \<Rightarrow> 'b pstate \<Rightarrow> bool" for K :: "'b Keeper" where
  step_ok: "op_guard K opr \<Longrightarrow> exec_op K s opr = Ok s' \<Longrightarrow> pb_step K s (op_issues K opr) s'"
| step_fail: "op_guard K opr \<Longrightarrow> \<not> is_ok (exec_op K s opr) \<Longrightarrow> pb_step K s 0 s"

inductive pb_reach :: "'b Keeper \<Rightarrow> 'b pstate \<Rightarrow> int \<Rightarrow> 'b pstate \<Rightarrow> bool" for K :: "'b Keeper" where
  reach_refl: "pb_reach K s 0 s"
| reach_step: "pb_reach K s n s1 \<Longrightarrow> pb_step K s1 n' s2 \<Longrightarrow> pb_reach K s (n + n') s2"

inductive_cases pb_stepE: "pb_step K s n s'"

text \<open>Every transfer handler that succeeds has passed its checks and made one call of \<open>SendCoins\<close>.\<close>

lemma AccountToModule_Ok:
  "SendCoinsFromAccountToModule K s f m cs = Ok s' \<Longrightarrow>
    \<exists>acc. akGetModuleAccount (ak K) m = Some acc \<and> m \<noteq> ModuleName \<and> SendCoins K s f (maAddress acc) cs = Ok s'"
  by (auto simp: SendCoinsFromAccountToModule_def split: option.splits if_splits)

lemma ModuleToAccount_Ok:
  "SendCoinsFromModuleToAccount K s m t cs = Ok s' \<Longrightarrow>
    \<exists>a. akGetModuleAddress (ak K) m = Some a \<and> m \<noteq> ModuleName \<and> \<not> bkBlockedAddr (bk K) t \<and>
      SendCoins K s a t cs = Ok s'"
  by (auto simp: SendCoinsFromModuleToAccount_def split: option.splits if_splits)

lemma ModuleToModule_Ok:
  "SendCoinsFromModuleToModule K s m m' cs = Ok s' \<Longrightarrow>
    \<exists>a acc. akGetModuleAddress (ak K) m = Some a \<and> akGetModuleAccount (ak K) m' = Some acc \<and>
      m' \<noteq> ModuleName \<and> SendCoins K s a (maAddress acc) cs = Ok s'"
  by (auto simp: SendCoinsFromModuleToModule_def split: option.splits if_splits)

lemma Send_Ok:
  "Send K s msg = Ok s' \<Longrightarrow>
    \<exists>f t. akStringToBytes (ak K) (FromAddress msg) = Some f \<and> akStringToBytes (ak K) (ToAddress msg) = Some t \<and>
      \<not> bkBlockedAddr (bk K) t \<and> SendCoins K s f t (MsgAmount msg) = Ok s'"
  by (auto simp: Send_def BlockedAddr_def split: option.splits if_splits)

context precisebank
begin

lemma plain_module:
  assumes "akGetModuleAddress (ak K) m = Some a" "m \<noteq> ModuleName"
  shows "plain K a"
  using assms module_addr_inj [OF assms(1), of ModuleName] reserve_addr(1) module_addr_nonempty [OF assms(1)]
  by (auto simp: plain_def)

lemma plain_send: "plain K f \<Longrightarrow> plain K t \<Longrightarrow> pb_inv K s \<Longrightarrow> SendCoins K s f t cs = Ok s' \<Longrightarrow>
    pb_inv K s' \<and> extSupply K s' = extSupply K s"
  unfolding plain_def using SendCoins_keeps by blast

lemma minter_checked:
  "MintCoins K s m cs = Ok s' \<Longrightarrow> has_perm K m Minter \<and> m \<noteq> ModuleName \<and> cIsValid (api K) cs"
  by (auto simp: MintCoins_def has_perm_def split: if_splits option.splits)

lemma burner_checked:
  "BurnCoins K s m cs = Ok s' \<Longrightarrow> has_perm K m Burner \<and> m \<noteq> ModuleName \<and> cIsValid (api K) cs"
  by (auto simp: BurnCoins_def has_perm_def split: if_splits option.splits)

lemma exec_keeps:
  assumes "pb_inv K s" "op_guard K opr" "exec_op K s opr = Ok s'"
  shows "pb_inv K s' \<and> extSupply K s' = extSupply K s + op_issues K opr"
proof (cases opr)
  case (OpSendCoins f t cs)
  with assms show ?thesis using plain_send [of f t s cs s'] by simp
next
  case (OpAccountToModule f m cs)
  with assms(3) obtain acc where h: "akGetModuleAccount (ak K) m = Some acc" "m \<noteq> ModuleName"
    "SendCoins K s f (maAddress acc) cs = Ok s'" using AccountToModule_Ok by fastforce
  from assms(2) OpAccountToModule have "plain K f" by simp
  from plain_send [OF this plain_module [OF module_account_address [OF h(1)] h(2)] assms(1) h(3)]
    OpAccountToModule show ?thesis by simp
next
  case (OpModuleToAccount m t cs)
  with assms(3) obtain a where h: "akGetModuleAddress (ak K) m = Some a" "m \<noteq> ModuleName"
    "SendCoins K s a t cs = Ok s'" using ModuleToAccount_Ok by fastforce
  from assms(2) OpModuleToAccount have "plain K t" by simp
  from plain_send [OF plain_module [OF h(1,2)] this assms(1) h(3)] OpModuleToAccount
  show ?thesis by simp
next
  case (OpModuleToModule m m' cs)
  with assms(3) obtain a acc where h: "akGetModuleAddress (ak K) m = Some a"
    "akGetModuleAccount (ak K) m' = Some acc" "m' \<noteq> ModuleName"
    "SendCoins K s a (maAddress acc) cs = Ok s'" using ModuleToModule_Ok by fastforce
  from assms(2) OpModuleToModule have "plain K a" using plain_module [OF h(1)] by simp
  from plain_send [OF this plain_module [OF module_account_address [OF h(2)] h(3)] assms(1) h(4)]
    OpModuleToModule show ?thesis by simp
next
  case (OpMsgSend msg)
  with assms(3) obtain f t where h: "akStringToBytes (ak K) (FromAddress msg) = Some f"
    "akStringToBytes (ak K) (ToAddress msg) = Some t" "SendCoins K s f t (MsgAmount msg) = Ok s'"
    using Send_Ok by fastforce
  from assms(2) OpMsgSend h have "plain K f" "plain K t" by simp_all
  from plain_send [OF this assms(1) h(3)] OpMsgSend show ?thesis by simp
next
  case (OpMintCoins m cs)
  with assms minter_checked have "has_perm K m Minter" "m \<noteq> ModuleName" "cIsValid (api K) cs" by auto
  from MintCoins_refines [OF assms(1) this] assms(3) OpMintCoins show ?thesis by auto
next
  case (OpBurnCoins m cs)
  with assms burner_checked have "has_perm K m Burner" "m \<noteq> ModuleName" "cIsValid (api K) cs" by auto
  from BurnCoins_refines(1,3) [OF assms(1) this] assms(3) OpBurnCoins show ?thesis by auto
qed

lemma reach_keeps:
  "pb_reach K s n s' \<Longrightarrow> pb_inv K s \<Longrightarrow> pb_inv K s' \<and> extSupply K s' = extSupply K s + n"
proof (induction rule: pb_reach.induct)
  case (reach_step s n s1 n' s2)
  from reach_step.hyps(2) show ?case
    by (cases rule: pb_stepE) (use exec_keeps reach_step in auto)
qed simp

end

end
