(* ===== verification/PreciseBankGenesis.thy ===== *)
theory PreciseBankGenesis
  imports PreciseBankRun
begin

text \<open>
  Genesis of x/precisebank (genesis.go, types/genesis.go): importing a validated genesis state
  establishes the reserve invariant, and importing an exported state restores it. The bech32
  conversions of \<open>sdk.AccAddress\<close> are parameters; the locale \<open>bech32\<close> states what the code
  relies on.
\<close>

locale bech32 =
  fixes K :: "'b Keeper"
  assumes bech32_round: "a \<noteq> [] \<Longrightarrow> length a \<le> 255 \<Longrightarrow> accFromBech32 K (accString K a) = Some a"
    and bech32_unique: "accFromBech32 K x = Some a \<Longrightarrow> a \<noteq> [] \<and> length a \<le> 255 \<and> toLower x = accString K a"

locale precisebank_genesis = precisebank K + bech32 K for K :: "'b Keeper"

lemma sumAmount_acc: "sumAmount_loop acc fbs = map_option (\<lambda>n. acc + n) (sumAmount_loop 0 fbs)"
proof (induction fbs arbitrary: acc)
  case (Cons fb fbs)
  show ?case
  proof (cases "fbAmount fb")
    case (Some n)
    from Cons [of "acc + n"] Cons [of n] show ?thesis
      by (cases "sumAmount_loop 0 fbs") (simp_all add: Some)
  qed simp
qed simp

lemma kv_set_append: "kv_wf (kvs @ [(k, v)]) \<Longrightarrow> kv_set k v kvs = kvs @ [(k, v)]"
  by (induction kvs) (auto simp: kv_wf_Cons)

lemma kv_wf_append: "kv_wf (xs @ ys) \<Longrightarrow> kv_wf xs \<and> kv_wf ys"
  by (simp add: kv_wf_def sorted_wrt_append)

context precisebank_genesis
begin

lemma accString_inj:
  assumes "a \<noteq> []" "length a \<le> 255" "b \<noteq> []" "length b \<le> 255" "accString K a = accString K b"
  shows "a = b"
  by (rule option.inject [THEN iffD1])
    (simp only: bech32_round [OF assms(1,2), symmetric] bech32_round [OF assms(3,4), symmetric] assms(5))

lemma accString_lower: "a \<noteq> [] \<Longrightarrow> length a \<le> 255 \<Longrightarrow> toLower (accString K a) = accString K a"
  using bech32_round bech32_unique by blast

lemma init_loop:
  assumes "FractionalBalances_validate_loop K seen fbs = None" "frac_ok K s"
    "\<forall>p\<in>set (fractional s). accString K (fst p) \<in> set seen"
    "\<forall>fb\<in>set fbs. accFromBech32 K (fbAddress fb) \<noteq> Some (reserveAddr K)"
  shows "\<exists>s' n. initBalances_loop K s fbs = Ok s' \<and> sumAmount_loop 0 fbs = Some n \<and> frac_ok K s' \<and>
    bank s' = bank s \<and> remainderKey s' = remainderKey s \<and>
    kv_sum (fractional s') = kv_sum (fractional s) + n"
  using assms
proof (induction fbs arbitrary: s seen)
  case (Cons fb fbs)
  from Cons.prems(1) obtain a n where a: "accFromBech32 K (fbAddress fb) = Some a"
    and n: "fbAmount fb = Some n" "0 < n" "n < ConversionFactor K"
    and fresh: "toLower (fbAddress fb) \<notin> set seen"
    and rest: "FractionalBalances_validate_loop K (toLower (fbAddress fb) # seen) fbs = None"
    by (auto simp: FractionalBalance_Validate_def ValidateFractionalAmount_def Let_def
        split: option.splits if_splits)
  from bech32_unique [OF a] have a1: "a \<noteq> []" "toLower (fbAddress fb) = accString K a" by auto
  have a2: "a \<noteq> reserveAddr K" using Cons.prems(4) a by auto
  have absent: "kv_num (fractional s) a = 0"
    using fresh a1(2) Cons.prems(3) by (force simp: kv_num_def dest: kv_get_SomeD split: option.splits)
  define s1 where "s1 = s\<lparr>fractional := frac_put a n (fractional s)\<rparr>"
  have set: "SetFractionalBalance K s a n = Ok s1" using n a1 by (simp add: s1_def)
  have ok1: "frac_ok K s1" using Cons.prems(2) n a1 a2
    by (auto simp: s1_def frac_ok_def GetRemainderAmount_def dest!: frac_put_set)
  have seen1: "\<forall>p\<in>set (fractional s1). accString K (fst p) \<in> set (toLower (fbAddress fb) # seen)"
    using Cons.prems(3) a1(2) by (auto simp: s1_def dest!: frac_put_set)
  have sum1: "kv_sum (fractional s1) = kv_sum (fractional s) + n"
    using Cons.prems(2) absent by (simp add: s1_def frac_ok_def)
  from Cons.IH [OF rest ok1 seen1] Cons.prems(4) obtain s' m where
    "initBalances_loop K s1 fbs = Ok s'" "sumAmount_loop 0 fbs = Some m" "frac_ok K s'"
    "bank s' = bank s1" "remainderKey s' = remainderKey s1"
    "kv_sum (fractional s') = kv_sum (fractional s1) + m" by auto
  then show ?case
    using a n(1) set sum1 sumAmount_acc [of n fbs] by (simp add: s1_def)
qed simp

lemma init_inv:
  assumes fresh: "fractional s = []" "remainderKey s = None"
    and ok: "InitGenesis K s gs = Ok s'"
    and res: "\<forall>fb\<in>set (gsBalances gs). accFromBech32 K (fbAddress fb) \<noteq> Some (reserveAddr K)"
    and nd: "gsBalances gs \<noteq> [] \<or> gsRemainder gs \<noteq> Some 0"
  shows "pb_inv K s' \<and> bank s' = bank s"
proof -
  from ok have val: "GenesisState_Validate K gs = Ok ()"
    by (auto simp: InitGenesis_def res_bind_Ok res_must_Ok)
  from val obtain r where loop: "FractionalBalances_validate_loop K [] (gsBalances gs) = None"
    and r: "gsRemainder gs = Some r" "0 \<le> r" "r < ConversionFactor K"
    by (auto simp: GenesisState_Validate_def FractionalBalances_Validate_def split: option.splits if_splits)
  have "frac_ok K s" using fresh by (simp add: frac_ok_def GetRemainderAmount_def)
  from init_loop [OF loop this _ res] fresh obtain s1 n where
    l: "initBalances_loop K s (gsBalances gs) = Ok s1" "sumAmount_loop 0 (gsBalances gs) = Some n"
    "frac_ok K s1" "bank s1 = bank s" "kv_sum (fractional s1) = n" by auto
  from ok r l val have bal: "n + r = bbal K (bank s) (reserveAddr K) (IntegerCoinDenom K) * ConversionFactor K"
    and s': "s' = s1\<lparr>remainderKey := (if r = 0 then None else Some r)\<rparr>"
    using nd by (auto simp: InitGenesis_def TotalAmountWithRemainder_def SumAmount_def Let_def
        split: option.splits if_splits)
  from l(3) r(2,3) have "frac_ok K s'" by (auto simp: s' frac_ok_def GetRemainderAmount_def)
  with bal l(4,5) show ?thesis by (simp add: pb_inv_def s' total_sum_eq GetRemainderAmount_def)
qed

text \<open>Export then import: the exported list validates, its sum is the one the store had, and writing it
  back in key order rebuilds the store.\<close>

lemma export_balances:
  "IterateFractionalBalances kvs (\<lambda>a n balances. (balances @ [NewFractionalBalance (accString K a) n], False)) acc =
    acc @ map (\<lambda>(a, n). NewFractionalBalance (accString K a) n) kvs"
  by (induction kvs arbitrary: acc) auto

lemma import_validates:
  assumes "kv_wf kvs"
    "\<forall>p\<in>set kvs. 0 < snd p \<and> snd p < ConversionFactor K \<and> fst p \<noteq> [] \<and> length (fst p) \<le> 255"
    "\<forall>p\<in>set kvs. accString K (fst p) \<notin> set seen"
  shows "FractionalBalances_validate_loop K seen (map (\<lambda>(a, n). NewFractionalBalance (accString K a) n) kvs) = None \<and>
    sumAmount_loop 0 (map (\<lambda>(a, n). NewFractionalBalance (accString K a) n) kvs) = Some (kv_sum kvs)"
  using assms
proof (induction kvs arbitrary: seen)
  case (Cons p kvs)
  obtain a n where p: "p = (a, n)" by (cases p)
  have a: "a \<noteq> []" "length a \<le> 255" "accString K a \<notin> set seen" "0 < n" "n < ConversionFactor K"
    using Cons.prems p by auto
  have fresh: "\<forall>q\<in>set kvs. accString K (fst q) \<notin> set (accString K a # seen)"
  proof
    fix q assume q: "q \<in> set kvs"
    with Cons.prems p have "fst q \<noteq> a" "fst q \<noteq> []" "length (fst q) \<le> 255" "accString K (fst q) \<notin> set seen"
      by (auto simp: kv_wf_Cons)
    with accString_inj [of "fst q" a] a show "accString K (fst q) \<notin> set (accString K a # seen)" by auto
  qed
  from Cons.prems have "kv_wf kvs"
    "\<forall>p\<in>set kvs. 0 < snd p \<and> snd p < ConversionFactor K \<and> fst p \<noteq> [] \<and> length (fst p) \<le> 255"
    by (simp_all add: kv_wf_Cons)
  from Cons.IH [OF this fresh] a show ?case
    using sumAmount_acc [of n]
    by (simp add: p NewFractionalBalance_def FractionalBalance_Validate_def ValidateFractionalAmount_def
        bech32_round accString_lower Let_def)
qed simp

lemma import_rebuilds:
  assumes "kv_wf (fractional s @ kvs)"
    "\<forall>p\<in>set kvs. 0 < snd p \<and> snd p < ConversionFactor K \<and> fst p \<noteq> [] \<and> length (fst p) \<le> 255"
  shows "initBalances_loop K s (map (\<lambda>(a, n). NewFractionalBalance (accString K a) n) kvs) =
    Ok (s\<lparr>fractional := fractional s @ kvs\<rparr>)"
  using assms
proof (induction kvs arbitrary: s)
  case (Cons p kvs)
  obtain a n where p: "p = (a, n)" by (cases p)
  have a: "a \<noteq> []" "length a \<le> 255" "0 < n" "n < ConversionFactor K" using Cons.prems p by auto
  have "kv_wf (fractional s @ [(a, n)])"
    using Cons.prems(1) p kv_wf_append [of "fractional s @ [(a, n)]" kvs] by simp
  then have "frac_put a n (fractional s) = fractional s @ [(a, n)]"
    using a by (simp add: frac_put_def kv_set_append)
  with a Cons.IH [of "s\<lparr>fractional := fractional s @ [(a, n)]\<rparr>"] Cons.prems show ?case
    by (simp add: p NewFractionalBalance_def bech32_round)
qed simp

lemma export_import:
  assumes inv: "pb_inv K s" and len: "\<forall>p\<in>set (fractional s). length (fst p) \<le> 255"
  shows "InitGenesis K (s\<lparr>fractional := [], remainderKey := None\<rparr>) (ExportGenesis K s) = Ok s"
proof -
  let ?fbs = "map (\<lambda>(a, n). NewFractionalBalance (accString K a) n) (fractional s)"
  let ?s0 = "s\<lparr>fractional := [], remainderKey := None\<rparr>" and ?r = "GetRemainderAmount s"
  from inv have wf: "kv_wf (fractional s)" and r: "0 \<le> ?r" "?r < ConversionFactor K" "remainderKey s \<noteq> Some 0"
    and rng: "\<forall>p\<in>set (fractional s). 0 < snd p \<and> snd p < ConversionFactor K \<and> fst p \<noteq> [] \<and> length (fst p) \<le> 255"
    and bal: "kv_sum (fractional s) + ?r =
      bbal K (bank s) (reserveAddr K) (IntegerCoinDenom K) * ConversionFactor K"
    using len by (auto simp: pb_inv_def frac_ok_def total_sum_eq)
  have ex: "ExportGenesis K s = \<lparr>gsBalances = ?fbs, gsRemainder = Some ?r\<rparr>"
    by (simp add: ExportGenesis_def export_balances NewGenesisState_def)
  have v: "FractionalBalances_Validate K ?fbs = None"
    unfolding FractionalBalances_Validate_def using import_validates [OF wf rng, of "[]"] by simp
  have sum: "SumAmount ?fbs = Some (kv_sum (fractional s))"
    unfolding SumAmount_def using import_validates [OF wf rng, of "[]"] by simp
  have val: "GenesisState_Validate K (ExportGenesis K s) = Ok ()"
    using r bal v sum by (simp add: GenesisState_Validate_def ex)
  have load: "initBalances_loop K ?s0 ?fbs = Ok (?s0\<lparr>fractional := fractional s\<rparr>)"
    using import_rebuilds [of ?s0 "fractional s"] wf rng by simp
  have rem: "(if ?r = 0 then None else Some ?r) = remainderKey s"
    using r(3) by (cases "remainderKey s") (auto simp: GetRemainderAmount_def)
  from reserve_addr(3) obtain acc where acc: "akGetModuleAccount (ak K) ModuleName = Some acc" by blast
  show ?thesis
    unfolding InitGenesis_def val using bal load sum rem r acc
    by (simp add: ex TotalAmountWithRemainder_def Let_def)
qed

end

end
