(* ===== verification/RefLedger.thy ===== *)
theory RefLedger
  imports PreciseBankGenesis
begin

text \<open>
  A concrete ledger that keeps every law of \<open>sdk_bank\<close>: balances and locked coins per account and
  denomination, a supply per denomination, the coin-set functions on sorted coin lists, two module
  accounts, and an address codec over lower-case letters. It shows that the laws the modules rely on
  can hold together, and it is the bank on which the concrete instances of the properties run.
\<close>

record ref_bank =
  rbBal :: "AccAddress \<Rightarrow> denom \<Rightarrow> nat"
  rbLocked :: "AccAddress \<Rightarrow> denom \<Rightarrow> nat"
  rbSupply :: "denom \<Rightarrow> int"

definition refModules :: "(string \<times> string list) list" where
  "refModules = [(''precisebank'', [Minter, Burner]), (''evm'', [Minter, Burner]), (''erc20'', [Minter, Burner]),
     (''gov'', []), (''fee_collector'', [])]"

definition refModuleAddress :: "string \<Rightarrow> AccAddress option" where
  "refModuleAddress m = (if m \<in> set (map fst refModules) then Some m else None)"

definition refModuleAccount :: "string \<Rightarrow> module_account option" where
  "refModuleAccount m = map_option (\<lambda>ps. \<lparr>maAddress = m, maPermissions = ps\<rparr>) (map_of refModules m)"

section \<open>Coin sets\<close>

definition refValidDenom :: "denom \<Rightarrow> bool" where
  "refValidDenom d \<longleftrightarrow> 3 \<le> length d \<and> length d \<le> 128"

definition refIsValid :: "coins \<Rightarrow> bool" where
  "refIsValid cs \<longleftrightarrow> sorted_wrt (<) (map Denom cs) \<and> (\<forall>c\<in>set cs. refValidDenom (Denom c) \<and> 0 < Amount c)"

fun refAmountOf :: "coins \<Rightarrow> denom \<Rightarrow> int" where
  "refAmountOf [] d = 0"
| "refAmountOf (c # cs) d = (if Denom c = d then Amount c else refAmountOf cs d)"

fun refSub :: "coins \<Rightarrow> coin \<Rightarrow> coins" where
  "refSub [] c = []"
| "refSub (x # xs) c =
     (if Denom x = Denom c
      then (if Amount x = Amount c then xs else newCoin (Denom x) (Amount x - Amount c) # xs)
      else x # refSub xs c)"

definition refApi :: coin_api where
  "refApi = \<lparr>cValidDenom = refValidDenom, cIsValid = refIsValid, cAmountOf = refAmountOf, cSub = refSub,
     cIsAllPositive = (\<lambda>cs. cs \<noteq> [] \<and> (\<forall>c\<in>set cs. 0 < Amount c)),
     cIsZero = (\<lambda>cs. \<forall>c\<in>set cs. Amount c = 0), cSort = sort_key Denom\<rparr>"

lemma refAmountOf_absent: "d \<notin> Denom ` set cs \<Longrightarrow> refAmountOf cs d = 0"
  by (induction cs) auto

lemma refAmountOf_in:
  assumes "refIsValid cs" "c \<in> set cs"
  shows "refAmountOf cs (Denom c) = Amount c"
proof -
  from assms(1) have "distinct (map Denom cs)" by (simp add: refIsValid_def strict_sorted_iff)
  then show ?thesis using assms(2) by (induction cs) (auto simp: image_iff)
qed

lemma refIsValid_Cons: "refIsValid (c # cs) \<longleftrightarrow>
    refIsValid cs \<and> refValidDenom (Denom c) \<and> 0 < Amount c \<and> (\<forall>x\<in>set cs. Denom c < Denom x)"
  by (auto simp: refIsValid_def)

lemma refAmountOf_nonneg: "refIsValid cs \<Longrightarrow> 0 \<le> refAmountOf cs d"
  by (induction cs) (auto simp: refIsValid_Cons)

lemma refAmountOf_le:
  assumes "refIsValid cs" "\<And>d. 0 \<le> (g d :: int)"
  shows "(\<forall>c\<in>set cs. Amount c \<le> g (Denom c)) \<longleftrightarrow> (\<forall>d. refAmountOf cs d \<le> g d)"
proof
  assume "\<forall>d. refAmountOf cs d \<le> g d"
  then show "\<forall>c\<in>set cs. Amount c \<le> g (Denom c)" using refAmountOf_in [OF assms(1)] by metis
next
  assume a: "\<forall>c\<in>set cs. Amount c \<le> g (Denom c)"
  show "\<forall>d. refAmountOf cs d \<le> g d"
  proof
    fix d show "refAmountOf cs d \<le> g d"
      using a assms(2) [of d] by (induction cs) auto
  qed
qed

lemma refSub_set: "x \<in> set (refSub cs (newCoin d n)) \<Longrightarrow> refAmountOf cs d = n \<Longrightarrow> x \<in> set cs"
  by (induction cs) (auto split: if_splits)

lemma refSub_valid: "refIsValid cs \<Longrightarrow> refAmountOf cs d = n \<Longrightarrow> refIsValid (refSub cs (newCoin d n))"
  by (induction cs) (auto simp: refIsValid_Cons dest: refSub_set)

lemma refSub_amount:
  assumes "refIsValid cs" "refAmountOf cs d = n"
  shows "refAmountOf (refSub cs (newCoin d n)) d' = (if d' = d then 0 else refAmountOf cs d')"
  using assms
proof (induction cs)
  case (Cons c cs)
  then have "Denom c \<notin> Denom ` set cs" by (auto simp: refIsValid_Cons)
  with Cons show ?case by (auto simp: refIsValid_Cons refAmountOf_absent)
qed simp

section \<open>The bank\<close>

definition refSpendable :: "ref_bank \<Rightarrow> AccAddress \<Rightarrow> denom \<Rightarrow> nat" where
  "refSpendable b a d = (if a \<in> set (map fst refModules) then rbBal b a d else rbBal b a d - rbLocked b a d)"

definition refMove :: "ref_bank \<Rightarrow> (AccAddress \<Rightarrow> denom \<Rightarrow> int) \<Rightarrow> (denom \<Rightarrow> int) \<Rightarrow> ref_bank" where
  "refMove b g h = b\<lparr>rbBal := (\<lambda>a d. nat (int (rbBal b a d) + g a d)),
     rbSupply := (\<lambda>d. rbSupply b d + h d)\<rparr>"

definition refSend :: "ref_bank \<Rightarrow> AccAddress \<Rightarrow> AccAddress \<Rightarrow> coins \<Rightarrow> ref_bank res" where
  "refSend b f t cs =
     (if \<not> refIsValid cs then Err ErrInvalidCoins
      else if \<forall>c\<in>set cs. Amount c \<le> int (refSpendable b f (Denom c))
      then Ok (refMove b (\<lambda>a d. at_addr t (refAmountOf cs d) a - at_addr f (refAmountOf cs d) a) (\<lambda>_. 0))
      else Err (ErrInsufficientFunds (map (\<lambda>c. newCoin (Denom c) (int (refSpendable b f (Denom c)))) cs) (hd cs)))"

definition refMint :: "ref_bank \<Rightarrow> string \<Rightarrow> coins \<Rightarrow> ref_bank res" where
  "refMint b m cs =
     (case refModuleAccount m of
        None \<Rightarrow> Panic ErrUnknownAddress
      | Some acc \<Rightarrow>
          if Minter \<notin> set (maPermissions acc) then Panic ErrUnauthorized
          else if \<not> refIsValid cs then Err ErrInvalidCoins
          else Ok (refMove b (\<lambda>a d. at_addr (maAddress acc) (refAmountOf cs d) a) (refAmountOf cs)))"

definition refBurn :: "ref_bank \<Rightarrow> string \<Rightarrow> coins \<Rightarrow> ref_bank res" where
  "refBurn b m cs =
     (case refModuleAccount m of
        None \<Rightarrow> Panic ErrUnknownAddress
      | Some acc \<Rightarrow>
          if Burner \<notin> set (maPermissions acc) then Panic ErrUnauthorized
          else if \<not> refIsValid cs then Err ErrInvalidCoins
          else if \<forall>c\<in>set cs. Amount c \<le> int (rbBal b (maAddress acc) (Denom c))
          then Ok (refMove b (\<lambda>a d. - at_addr (maAddress acc) (refAmountOf cs d) a) (\<lambda>d. - refAmountOf cs d))
          else Err (ErrInsufficientFunds [] (hd cs)))"

definition refBank :: "ref_bank bank_keeper" where
  "refBank = \<lparr>bkGetBalance = (\<lambda>b a d. int (rbBal b a d)), bkSpendableCoin = (\<lambda>b a d. int (refSpendable b a d)),
     bkGetSupply = rbSupply, bkBlockedAddr = (\<lambda>a. a \<in> set (map fst refModules)),
     bkIsSendEnabledCoin = (\<lambda>_ _. True), bkSendCoins = refSend,
     bkSendCoinsFromAccountToModule = (\<lambda>b f m cs.
       case refModuleAccount m of None \<Rightarrow> Panic ErrUnknownAddress | Some acc \<Rightarrow> refSend b f (maAddress acc) cs),
     bkSendCoinsFromModuleToModule = (\<lambda>b m m' cs.
       case refModuleAddress m of None \<Rightarrow> Panic ErrUnknownAddress
       | Some a \<Rightarrow> (case refModuleAccount m' of None \<Rightarrow> Panic ErrUnknownAddress
           | Some acc \<Rightarrow> refSend b a (maAddress acc) cs)),
     bkMintCoins = refMint, bkBurnCoins = refBurn\<rparr>"

section \<open>Addresses as strings\<close>

definition encNib :: "nat \<Rightarrow> char" where "encNib n = char_of (97 + n)"

fun refString :: "AccAddress \<Rightarrow> string" where
  "refString [] = []"
| "refString (c # cs) = encNib (of_char c div 16) # encNib (of_char c mod 16) # refString cs"

definition decNib :: "char \<Rightarrow> nat option" where
  "decNib c = (let n = (of_char c :: nat) in if 97 \<le> n \<and> n \<le> 112 then Some (n - 97) else None)"

fun refDecode :: "string \<Rightarrow> AccAddress option" where
  "refDecode [] = Some []"
| "refDecode [c] = None"
| "refDecode (c # c' # cs) =
     (case (decNib c, decNib c', refDecode cs) of
        (Some h, Some l, Some a) \<Rightarrow> Some (char_of (16 * h + l) # a)
      | _ \<Rightarrow> None)"

definition refFromBech32 :: "string \<Rightarrow> AccAddress option" where
  "refFromBech32 x =
     (case refDecode (toLower x) of
        None \<Rightarrow> None
      | Some a \<Rightarrow> if a = [] \<or> 255 < length a then None else Some a)"

definition ref_keeper :: "EvmCoinInfo \<Rightarrow> ref_bank Keeper" where
  "ref_keeper ci = \<lparr>bk = refBank,
     ak = \<lparr>akGetModuleAddress = refModuleAddress, akGetModuleAccount = refModuleAccount,
           akStringToBytes = refFromBech32\<rparr>,
     api = refApi, accFromBech32 = refFromBech32, accString = refString, info = ci\<rparr>"

section \<open>The laws hold\<close>

lemma refModuleAccount_address:
  "refModuleAccount m = Some acc \<Longrightarrow> refModuleAddress m = Some m \<and> maAddress acc = m"
  by (force simp: refModuleAccount_def refModuleAddress_def dest: map_of_SomeD)

lemma refModuleAddress_Some: "refModuleAddress m = Some a \<Longrightarrow> a = m \<and> m \<in> set (map fst refModules) \<and> m \<noteq> []"
  by (auto simp: refModuleAddress_def refModules_def split: if_splits)

lemma refSend_cases:
  assumes "refIsValid cs"
  shows "is_ok (refSend b f t cs) \<longleftrightarrow> (\<forall>d. refAmountOf cs d \<le> int (refSpendable b f d))"
    "refSend b f t cs = Err e \<Longrightarrow> isInsufficientFunds e" "refSend b f t cs \<noteq> Panic e"
    "refSend b f t cs = Ok b' \<Longrightarrow> b' =
      refMove b (\<lambda>a d. at_addr t (refAmountOf cs d) a - at_addr f (refAmountOf cs d) a) (\<lambda>_. 0) \<and>
      (\<forall>d. refAmountOf cs d \<le> int (refSpendable b f d))"
proof -
  have le: "(\<forall>c\<in>set cs. Amount c \<le> int (refSpendable b f (Denom c))) \<longleftrightarrow>
      (\<forall>d. refAmountOf cs d \<le> int (refSpendable b f d))"
    by (rule refAmountOf_le [OF assms]) simp
  show "is_ok (refSend b f t cs) \<longleftrightarrow> (\<forall>d. refAmountOf cs d \<le> int (refSpendable b f d))"
    "refSend b f t cs = Err e \<Longrightarrow> isInsufficientFunds e" "refSend b f t cs \<noteq> Panic e"
    "refSend b f t cs = Ok b' \<Longrightarrow> b' =
      refMove b (\<lambda>a d. at_addr t (refAmountOf cs d) a - at_addr f (refAmountOf cs d) a) (\<lambda>_. 0) \<and>
      (\<forall>d. refAmountOf cs d \<le> int (refSpendable b f d))"
    using assms unfolding refSend_def le by (auto split: if_splits)
qed

lemma refSpendable_le: "refSpendable b a d \<le> rbBal b a d"
  by (simp add: refSpendable_def)

lemma refMove_sel [simp]:
  "rbBal (refMove b g h) a d = nat (int (rbBal b a d) + g a d)"
  "rbLocked (refMove b g h) = rbLocked b" "rbSupply (refMove b g h) d = rbSupply b d + h d"
  by (simp_all add: refMove_def)

lemma refSend_effect:
  assumes "refIsValid cs" "refSend b f t cs = Ok b'"
  shows "int (rbBal b' a d) = int (rbBal b a d) - at_addr f (refAmountOf cs d) a + at_addr t (refAmountOf cs d) a"
    "f \<noteq> t \<Longrightarrow> a \<noteq> t \<Longrightarrow>
      int (refSpendable b' a d) = int (refSpendable b a d) - at_addr f (refAmountOf cs d) a"
    "rbSupply b' d = rbSupply b d"
proof -
  from refSend_cases(4) [OF assms] have b': "b' =
      refMove b (\<lambda>a d. at_addr t (refAmountOf cs d) a - at_addr f (refAmountOf cs d) a) (\<lambda>_. 0)"
    and le: "refAmountOf cs d \<le> int (refSpendable b f d)" for d by auto
  have nn: "0 \<le> refAmountOf cs d" by (rule refAmountOf_nonneg [OF assms(1)])
  have le': "refAmountOf cs d \<le> int (rbBal b f d)" using le [of d] refSpendable_le [of b f d] by linarith
  show "int (rbBal b' a d) = int (rbBal b a d) - at_addr f (refAmountOf cs d) a + at_addr t (refAmountOf cs d) a"
    using nn le' by (cases "a = f"; cases "a = t"; simp add: b')
  show "int (refSpendable b' a d) = int (refSpendable b a d) - at_addr f (refAmountOf cs d) a"
    if "f \<noteq> t" "a \<noteq> t"
    using that nn le [of d] by (cases "a = f"; auto simp: b' refSpendable_def split: if_splits)
  show "rbSupply b' d = rbSupply b d" by (simp add: b')
qed

lemma refBurn_cases:
  assumes v: "refIsValid cs" and p: "refModuleAccount m = Some acc" "Burner \<in> set (maPermissions acc)"
  shows "is_ok (refBurn b m cs) \<longleftrightarrow> (\<forall>d. refAmountOf cs d \<le> int (rbBal b m d))"
    "refBurn b m cs = Err e \<Longrightarrow> isInsufficientFunds e" "refBurn b m cs \<noteq> Panic e"
proof -
  have le: "(\<forall>c\<in>set cs. Amount c \<le> int (rbBal b m (Denom c))) \<longleftrightarrow>
      (\<forall>d. refAmountOf cs d \<le> int (rbBal b m d))"
    by (rule refAmountOf_le [OF v]) simp
  have m: "maAddress acc = m" using refModuleAccount_address [OF p(1)] by simp
  show "is_ok (refBurn b m cs) \<longleftrightarrow> (\<forall>d. refAmountOf cs d \<le> int (rbBal b m d))"
    "refBurn b m cs = Err e \<Longrightarrow> isInsufficientFunds e" "refBurn b m cs \<noteq> Panic e"
    using v p unfolding refBurn_def by (auto simp: m le split: if_splits)
qed

lemma refBurn_effect:
  assumes v: "refIsValid cs" and ok: "refBurn b m cs = Ok b'"
  shows "int (rbBal b' a d) = int (rbBal b a d) - at_addr m (refAmountOf cs d) a"
    "rbSupply b' d = rbSupply b d - refAmountOf cs d"
proof -
  from ok obtain acc where acc: "refModuleAccount m = Some acc" by (auto simp: refBurn_def split: option.splits)
  have m: "maAddress acc = m" using refModuleAccount_address [OF acc] by simp
  have "(\<forall>c\<in>set cs. Amount c \<le> int (rbBal b m (Denom c))) \<longleftrightarrow>
      (\<forall>d. refAmountOf cs d \<le> int (rbBal b m d))"
    by (rule refAmountOf_le [OF v]) simp
  with ok acc m have le: "refAmountOf cs d \<le> int (rbBal b m d)"
    and b': "b' = refMove b (\<lambda>a d. - at_addr m (refAmountOf cs d) a) (\<lambda>d. - refAmountOf cs d)"
    by (auto simp: refBurn_def split: if_splits)
  show "int (rbBal b' a d) = int (rbBal b a d) - at_addr m (refAmountOf cs d) a"
    using le by (cases "a = m"; simp add: b')
  show "rbSupply b' d = rbSupply b d - refAmountOf cs d" by (simp add: b')
qed

lemma refMint_effect:
  assumes v: "refIsValid cs" and ok: "refMint b m cs = Ok b'"
  shows "int (rbBal b' a d) = int (rbBal b a d) + at_addr m (refAmountOf cs d) a"
    "rbSupply b' d = rbSupply b d + refAmountOf cs d"
proof -
  from ok obtain acc where acc: "refModuleAccount m = Some acc" by (auto simp: refMint_def split: option.splits)
  have m: "maAddress acc = m" using refModuleAccount_address [OF acc] by simp
  with ok acc have b': "b' = refMove b (\<lambda>a d. at_addr m (refAmountOf cs d) a) (refAmountOf cs)"
    by (auto simp: refMint_def split: if_splits)
  show "int (rbBal b' a d) = int (rbBal b a d) + at_addr m (refAmountOf cs d) a"
    using refAmountOf_nonneg [OF v, of d] by (cases "a = m"; simp add: b')
  show "rbSupply b' d = rbSupply b d + refAmountOf cs d" by (simp add: b')
qed

lemma ref_sel [simp]:
  "cValidDenom (api (ref_keeper ci)) = refValidDenom" "cIsValid (api (ref_keeper ci)) = refIsValid"
  "cAmountOf (api (ref_keeper ci)) = refAmountOf" "cSub (api (ref_keeper ci)) = refSub"
  "cIsAllPositive (api (ref_keeper ci)) cs = (cs \<noteq> [] \<and> (\<forall>c\<in>set cs. 0 < Amount c))"
  "akGetModuleAddress (ak (ref_keeper ci)) = refModuleAddress"
  "akGetModuleAccount (ak (ref_keeper ci)) = refModuleAccount"
  "akStringToBytes (ak (ref_keeper ci)) = refFromBech32"
  "accFromBech32 (ref_keeper ci) = refFromBech32" "accString (ref_keeper ci) = refString"
  "info (ref_keeper ci) = ci"
  "bkGetBalance (bk (ref_keeper ci)) b x d = int (rbBal b x d)"
  "bkSpendableCoin (bk (ref_keeper ci)) b x d = int (refSpendable b x d)"
  "bkGetSupply (bk (ref_keeper ci)) = rbSupply"
  "bkBlockedAddr (bk (ref_keeper ci)) x = (x \<in> set (map fst refModules))"
  "bkIsSendEnabledCoin (bk (ref_keeper ci)) b c"
  "bkSendCoins (bk (ref_keeper ci)) = refSend"
  "bkMintCoins (bk (ref_keeper ci)) = refMint" "bkBurnCoins (bk (ref_keeper ci)) = refBurn"
  by (simp_all add: ref_keeper_def refBank_def refApi_def)

lemma ref_perm: "has_perm (ref_keeper ci) m p \<longleftrightarrow>
    (\<exists>acc. refModuleAccount m = Some acc \<and> p \<in> set (maPermissions acc))"
  by (simp add: has_perm_def split: option.splits)

interpretation ref: sdk_bank "ref_keeper ci" for ci
proof (unfold_locales, unfold ref_sel)
  fix m m' :: string and cs :: coins and b b' :: ref_bank and e :: error and f t a :: AccAddress
    and d d' :: denom and n :: int and acc :: module_account
  show "refAmountOf [newCoin d n] d' = (if d' = d then n else 0)" by simp
  show "refIsValid [newCoin d n] \<longleftrightarrow> refValidDenom d \<and> 0 < n" by (simp add: refIsValid_def)
  show "refAmountOf [] d = 0" by simp
  show "refIsValid cs \<Longrightarrow> 0 \<le> refAmountOf cs d" by (rule refAmountOf_nonneg)
  show "refAmountOf (refSub cs (newCoin d n)) d' = (if d' = d then 0 else refAmountOf cs d')"
    if "refIsValid cs" "refAmountOf cs d = n" using that by (rule refSub_amount)
  show "refIsValid cs \<Longrightarrow> refAmountOf cs d = n \<Longrightarrow> refIsValid (refSub cs (newCoin d n))"
    by (rule refSub_valid)
  show "refIsValid cs \<Longrightarrow> (cs \<noteq> [] \<and> (\<forall>c\<in>set cs. 0 < Amount c)) \<longleftrightarrow> cs \<noteq> []"
    by (auto simp: refIsValid_def)
  show "0 \<le> int (refSpendable b a d) \<and> int (refSpendable b a d) \<le> int (rbBal b a d)"
    by (simp add: refSpendable_le)
  show "refModuleAddress m = Some a \<Longrightarrow> int (refSpendable b a d) = int (rbBal b a d)"
    using refModuleAddress_Some [of m a] by (simp add: refSpendable_def)
  show "refModuleAccount m = Some acc \<Longrightarrow> refModuleAddress m = Some (maAddress acc)"
    using refModuleAccount_address by simp
  show "refModuleAddress m = Some a \<Longrightarrow> a \<noteq> []" using refModuleAddress_Some by blast
  show "refModuleAddress m = Some a \<Longrightarrow> refModuleAddress m' = Some a \<Longrightarrow> m = m'"
    using refModuleAddress_Some by blast
  show "refIsValid cs \<Longrightarrow> is_ok (refSend b f t cs) \<longleftrightarrow> (\<forall>d. refAmountOf cs d \<le> int (refSpendable b f d))"
    "refIsValid cs \<Longrightarrow> refSend b f t cs = Err e \<Longrightarrow> isInsufficientFunds e"
    "refIsValid cs \<Longrightarrow> refSend b f t cs \<noteq> Panic e"
    by (fact refSend_cases)+
  show "int (rbBal b' a d) =
      int (rbBal b a d) - at_addr f (refAmountOf cs d) a + at_addr t (refAmountOf cs d) a"
    "f \<noteq> t \<Longrightarrow> a \<noteq> t \<Longrightarrow> int (refSpendable b' a d) = int (refSpendable b a d) - at_addr f (refAmountOf cs d) a"
    "rbSupply b' d = rbSupply b d"
    if "refIsValid cs" "refSend b f t cs = Ok b'" using refSend_effect [OF that] by blast+
  show "bkSendCoinsFromAccountToModule (bk (ref_keeper ci)) b f m cs =
      (case refModuleAccount m of None \<Rightarrow> Panic ErrUnknownAddress | Some acc \<Rightarrow> refSend b f (maAddress acc) cs)"
    by (simp add: ref_keeper_def refBank_def)
  show "bkSendCoinsFromModuleToModule (bk (ref_keeper ci)) b m m' cs =
      (case refModuleAddress m of None \<Rightarrow> Panic ErrUnknownAddress
       | Some a \<Rightarrow> (case refModuleAccount m' of None \<Rightarrow> Panic ErrUnknownAddress
           | Some acc \<Rightarrow> refSend b a (maAddress acc) cs))"
    by (simp add: ref_keeper_def refBank_def)
  show "has_perm (ref_keeper ci) m Minter \<Longrightarrow> refIsValid cs \<Longrightarrow> is_ok (refMint b m cs)"
    by (auto simp: ref_perm refMint_def)
  show "int (rbBal b' a d) = int (rbBal b a d) + at_addr t (refAmountOf cs d) a"
    if "refMint b m cs = Ok b'" "refIsValid cs" "refModuleAddress m = Some t"
    using refMint_effect(1) [OF that(2,1)] refModuleAddress_Some [OF that(3)] by simp
  show "refMint b m cs = Ok b' \<Longrightarrow> refIsValid cs \<Longrightarrow> rbSupply b' d = rbSupply b d + refAmountOf cs d"
    by (rule refMint_effect(2))
  show "is_ok (refBurn b m cs) \<longleftrightarrow> (\<forall>d. refAmountOf cs d \<le> int (rbBal b f d))"
    if "has_perm (ref_keeper ci) m Burner" "refIsValid cs" "refModuleAddress m = Some f"
    using that(1) refBurn_cases(1) [OF that(2)] refModuleAddress_Some [OF that(3)]
    unfolding ref_perm by blast
  show "isInsufficientFunds e"
    if "has_perm (ref_keeper ci) m Burner" "refIsValid cs" "refBurn b m cs = Err e"
    using that refBurn_cases(2) [OF that(2)] unfolding ref_perm by blast
  show "refBurn b m cs \<noteq> Panic e" if "has_perm (ref_keeper ci) m Burner" "refIsValid cs"
    using that refBurn_cases(3) [OF that(2)] unfolding ref_perm by blast
  show "int (rbBal b' a d) = int (rbBal b a d) - at_addr f (refAmountOf cs d) a"
    if "refBurn b m cs = Ok b'" "refIsValid cs" "refModuleAddress m = Some f"
    using refBurn_effect(1) [OF that(2,1)] refModuleAddress_Some [OF that(3)] by simp
  show "refBurn b m cs = Ok b' \<Longrightarrow> refIsValid cs \<Longrightarrow> rbSupply b' d = rbSupply b d - refAmountOf cs d"
    by (rule refBurn_effect(2))
qed

lemma ref_precisebank:
  assumes "Decimals_Validate (eciDecimals ci) = None" "refValidDenom (eciDenom ci)"
  shows "precisebank (ref_keeper ci)"
proof unfold_locales
  show "has_perm (ref_keeper ci) ModuleName ''minter''" "has_perm (ref_keeper ci) ModuleName ''burner''"
    by (simp_all add: ref_perm refModuleAccount_def refModules_def ModuleName_def)
qed (use assms in simp_all)

lemma decNib_encNib: "n < 16 \<Longrightarrow> decNib (encNib n) = Some n"
  by (simp add: decNib_def encNib_def Let_def)

lemma encNib_decNib: "decNib c = Some n \<Longrightarrow> n < 16 \<and> encNib n = c"
  by (auto simp: decNib_def encNib_def Let_def split: if_splits)

lemma lower_encNib: "n < 16 \<Longrightarrow> lowerChar (encNib n) = encNib n"
  by (simp add: lowerChar_def encNib_def Let_def)

lemma byte_lt: "(of_char (c::char) :: nat) < 256"
proof -
  have "(of_char c :: nat) = of_char c mod 256" by (metis char_of_char of_char_of)
  then show ?thesis by (metis mod_less_divisor zero_less_numeral)
qed

lemma toLower_refString: "toLower (refString a) = refString a"
  using byte_lt by (induction a) (simp_all add: toLower_def lower_encNib less_mult_imp_div_less)

lemma refDecode_refString: "refDecode (refString a) = Some a"
  using byte_lt by (induction a) (simp_all add: decNib_encNib less_mult_imp_div_less)

lemma refString_refDecode: "refDecode x = Some a \<Longrightarrow> refString a = x"
  by (induction x arbitrary: a rule: refDecode.induct)
    (auto split: option.splits dest!: encNib_decNib)

interpretation ref: bech32 "ref_keeper ci" for ci
proof (unfold_locales, unfold ref_sel)
  fix a :: AccAddress and x :: string
  show "refFromBech32 (refString a) = Some a" if "a \<noteq> []" "length a \<le> 255"
    using that by (simp add: refFromBech32_def toLower_refString refDecode_refString)
  show "a \<noteq> [] \<and> length a \<le> 255 \<and> toLower x = refString a" if "refFromBech32 x = Some a"
    using that refString_refDecode [of "toLower x"]
    by (auto simp: refFromBech32_def split: option.splits if_splits)
qed

text \<open>The coin of a chain with six decimals.\<close>

definition sixDecimals :: EvmCoinInfo where
  "sixDecimals = \<lparr>eciDenom = ''utoken'', eciExtendedDenom = ''atoken'', eciDisplayDenom = ''token'',
     eciDecimals = 6\<rparr>"

interpretation ref6: precisebank_genesis "ref_keeper sixDecimals"
  by (intro precisebank_genesis.intro ref_precisebank ref.bech32_axioms) (simp_all add: sixDecimals_def refValidDenom_def Decimals_Validate_def EighteenDecimals_def)

end
