(* ===== verification/PreciseBankTheorems.thy ===== *)
theory PreciseBankTheorems
  imports RefLedger
begin

text \<open>
  The properties of x/precisebank, for every bank and account keeper that keeps the contract
  \<open>sdk_bank\<close> and every coin with a supported number of decimals (together the hypothesis
  \<open>precisebank K\<close>), each with an instance on the reference ledger: a chain whose coin has six
  decimals, where alice holds 5 coins and 0.4, bob 0.5, and the reserve one coin.
\<close>

abbreviation K6 :: "ref_bank Keeper" where "K6 \<equiv> ref_keeper sixDecimals"

definition exBank :: ref_bank where
  "exBank = \<lparr>
     rbBal = (\<lambda>a d. if d = ''utoken'' then (if a = ''alice'' then 5 else if a = ''precisebank'' then 1 else 0) else 0),
     rbLocked = (\<lambda>_ _. 0), rbSupply = (\<lambda>d. if d = ''utoken'' then 6 else 0)\<rparr>"

definition exState :: "ref_bank pstate" where
  "exState = \<lparr>bank = exBank, fractional = [(''alice'', 400000000000), (''bob'', 500000000000)],
     remainderKey = Some 100000000000\<rparr>"

fun res_val :: "'a res \<Rightarrow> 'a option" where
  "res_val (Ok x) = Some x"
| "res_val _ = None"

lemma K6_simps [simp]:
  "ConversionFactor K6 = 1000000000000" "IntegerCoinDenom K6 = ''utoken''"
  "ExtendedCoinDenom K6 = ''atoken''" "reserveAddr K6 = ''precisebank''"
  "refModuleAddress ''evm'' = Some ''evm''" "moduleAddress K6 ''evm'' = ''evm''"
  "moduleAddress K6 ''precisebank'' = ''precisebank''"
  by (simp_all add: ConversionFactor_def Decimals_ConversionFactor_def ConversionFactorMap_def sixDecimals_def
      IntegerCoinDenom_def ExtendedCoinDenom_def moduleAddress_def refModuleAddress_def refModules_def ModuleName_def)

lemma ex_inv: "pb_inv K6 exState"
  by (simp add: pb_inv_def frac_ok_def exState_def exBank_def kv_wf_def total_sum_eq GetRemainderAmount_def)

lemma GetBalance_ext:
  "Amount (GetBalance K s x (ExtendedCoinDenom K)) = (if x = reserveAddr K then 0 else extBalance K s x)"
  by (simp add: GetBalance_def extBalance_def)


lemmas pb_eval = exState_def exBank_def SendCoins_def sendExtendedCoins_def MintCoins_def mintExtendedCoin_def
  BurnCoins_def burnExtendedCoin_def Let_def on_bank_def refSend_def refMint_def refBurn_def refMove_def
  refIsValid_def refValidDenom_def refSpendable_def refModules_def refModuleAccount_def at_addr_def
  GetFractionalBalance_def GetRemainderAmount_def kv_get_def subFromFractionalBalance_def
  addToFractionalBalance_def SetFractionalBalance_def SetRemainderAmount_def ValidateFractionalAmount_def
  DeleteFractionalBalance_def DeleteRemainderAmount_def ModuleName_def quo_def
  ref.send_module_to_module ref.send_to_module

lemma K6_precisebank: "precisebank K6" and K6_genesis: "precisebank_genesis K6"
  by (fact ref6.precisebank_axioms ref6.precisebank_genesis_axioms)+

section \<open>Histories\<close>



section \<open>Transfers\<close>

text \<open>C2: A successful \<open>SendCoins\<close> between two accounts keeps the reserve invariant, moves exactly the
  value of the coins (integer and extended denomination together) from the sender's extended balance
  to the recipient's, changes nobody else's extended balance, and leaves the supply alone, whichever
  of the borrow and carry cases applies.\<close>

theorem SendCoins_moves_value:
  assumes "precisebank K" "pb_inv K s" "f \<noteq> t" "plain K f" "plain K t" "SendCoins K s f t cs = Ok s'"
  shows "pb_inv K s' \<and> extSupply K s' = extSupply K s \<and>
    (\<forall>x. Amount (GetBalance K s' x (ExtendedCoinDenom K)) =
       Amount (GetBalance K s x (ExtendedCoinDenom K)) - at_addr f (coinsValue K cs) x +
       at_addr t (coinsValue K cs) x)"
proof -
  have v: "cIsValid (api K) cs" using assms(6) by (simp add: SendCoins_def split: if_splits)
  from assms(4,5) have ne: "f \<noteq> reserveAddr K" "t \<noteq> reserveAddr K" "f \<noteq> []" "t \<noteq> []"
    by (simp_all add: plain_def)
  note r = precisebank.SendCoins_refines [OF assms(1,2) v assms(3) ne assms(6)]
  show ?thesis using r ne by (auto simp: GetBalance_ext at_addr_def)
qed

theorem SendCoins_moves_value_witness:
  "\<exists>s'. SendCoins K6 exState ''alice'' ''bob'' [newCoin ''atoken'' 1700000000000] = Ok s' \<and>
     Amount (GetBalance K6 s' ''bob'' ''atoken'') = 2200000000000"
proof -
  have "is_ok (SendCoins K6 exState ''alice'' ''bob'' [newCoin ''atoken'' 1700000000000])" by (simp add: pb_eval)
  then obtain s' where s': "SendCoins K6 exState ''alice'' ''bob'' [newCoin ''atoken'' 1700000000000] = Ok s'"
    unfolding is_ok_iff by blast
  have p: "plain K6 ''alice''" "plain K6 ''bob''" by (simp_all add: plain_def)
  from SendCoins_moves_value [OF K6_precisebank ex_inv _ p s'] have
    "Amount (GetBalance K6 s' ''bob'' ''atoken'') =
     Amount (GetBalance K6 exState ''bob'' ''atoken'') + coinsValue K6 [newCoin ''atoken'' 1700000000000]"
    by (simp add: at_addr_def)
  then show ?thesis
    using s' by (simp add: GetBalance_def exState_def exBank_def GetFractionalBalance_def kv_get_def coinsValue_def)
qed



section \<open>Minting and burning\<close>


lemma evm_perm: "has_perm K6 ''evm'' Minter" "has_perm K6 ''evm'' Burner" "''evm'' \<noteq> ModuleName"
  by (simp_all add: ref_perm refModuleAccount_def refModules_def ModuleName_def)


text \<open>C5: A successful \<open>BurnCoins\<close> keeps the reserve invariant, takes exactly the value of the coins from
  the module's extended balance and from the extended supply, and changes nobody else's balance.\<close>

theorem BurnCoins_debits_value:
  assumes "precisebank K" "pb_inv K s" "BurnCoins K s m cs = Ok s'"
  shows "pb_inv K s' \<and> extSupply K s' = extSupply K s - coinsValue K cs \<and>
    (\<forall>x. Amount (GetBalance K s' x (ExtendedCoinDenom K)) =
       Amount (GetBalance K s x (ExtendedCoinDenom K)) - at_addr (moduleAddress K m) (coinsValue K cs) x)"
proof -
  from precisebank.burner_checked [OF assms(1,3)] have
    m: "has_perm K m Burner" "m \<noteq> ModuleName" and v: "cIsValid (api K) cs" by auto
  note r = precisebank.BurnCoins_refines [OF assms(1,2) m v assms(3)]
  have "moduleAddress K m \<noteq> reserveAddr K" by (rule precisebank.module_not_reserve [OF assms(1) m])
  with r show ?thesis by (auto simp: GetBalance_ext at_addr_def)
qed

definition exFunded :: "ref_bank pstate" where
  "exFunded = exState\<lparr>bank := exBank\<lparr>rbBal := (\<lambda>a d. if a = ''evm'' \<and> d = ''utoken'' then 3 else rbBal exBank a d)\<rparr>\<rparr>"

lemma exFunded_inv: "pb_inv K6 exFunded"
  by (simp add: pb_inv_def frac_ok_def exFunded_def exState_def exBank_def kv_wf_def total_sum_eq GetRemainderAmount_def)

theorem BurnCoins_debits_value_witness:
  "\<exists>s'. BurnCoins K6 exFunded ''evm'' [newCoin ''atoken'' 1700000000000] = Ok s' \<and>
     Amount (GetBalance K6 s' ''evm'' ''atoken'') = 1300000000000"
proof -
  have "is_ok (BurnCoins K6 exFunded ''evm'' [newCoin ''atoken'' 1700000000000])"
    by (simp add: exFunded_def pb_eval)
  then obtain s' where s': "BurnCoins K6 exFunded ''evm'' [newCoin ''atoken'' 1700000000000] = Ok s'"
    unfolding is_ok_iff by blast
  from BurnCoins_debits_value [OF K6_precisebank exFunded_inv s'] have
    "Amount (GetBalance K6 s' ''evm'' ''atoken'') =
     Amount (GetBalance K6 exFunded ''evm'' ''atoken'') - coinsValue K6 [newCoin ''atoken'' 1700000000000]" by simp
  with s' show ?thesis
    by (simp add: GetBalance_def exFunded_def exState_def exBank_def GetFractionalBalance_def kv_get_def coinsValue_def)
qed

text \<open>\<open>BurnCoins\<close> of valid coins from a module with the burner permission succeeds exactly when the
  module's extended balance covers their value and its bank balances cover the other denominations.
  Otherwise it returns an insufficient-funds error: the reserve never lacks the coin that an
  overflowing remainder burns, and nothing panics.\<close>

theorem BurnCoins_succeeds_iff:
  assumes "precisebank K" "pb_inv K s" "has_perm K m Burner" "m \<noteq> ModuleName" "cIsValid (api K) cs"
  shows "(is_ok (BurnCoins K s m cs) \<longleftrightarrow>
      (\<forall>d. d \<noteq> IntegerCoinDenom K \<longrightarrow> d \<noteq> ExtendedCoinDenom K \<longrightarrow>
         amt_of K cs d \<le> bbal K (bank s) (moduleAddress K m) d) \<and>
      coinsValue K cs \<le> Amount (GetBalance K s (moduleAddress K m) (ExtendedCoinDenom K))) \<and>
    (\<not> is_ok (BurnCoins K s m cs) \<longrightarrow> (\<exists>e. BurnCoins K s m cs = Err e \<and> isInsufficientFunds e))"
proof -
  note r = precisebank.BurnCoins_total [OF assms]
  have "moduleAddress K m \<noteq> reserveAddr K" by (rule precisebank.module_not_reserve [OF assms(1,3,4)])
  then have "Amount (GetBalance K s (moduleAddress K m) (ExtendedCoinDenom K)) = extBalance K s (moduleAddress K m)"
    by (simp add: GetBalance_ext)
  with r show ?thesis by simp
qed

theorem BurnCoins_succeeds_iff_witness:
  "is_ok (BurnCoins K6 exFunded ''evm'' [newCoin ''atoken'' 3000000000000]) \<and>
   \<not> is_ok (BurnCoins K6 exFunded ''evm'' [newCoin ''atoken'' 3000000000001])"
proof -
  have bal: "Amount (GetBalance K6 exFunded ''evm'' ''atoken'') = 3000000000000"
    by (simp add: GetBalance_def exFunded_def exState_def exBank_def GetFractionalBalance_def kv_get_def)
  have "is_ok (BurnCoins K6 exFunded ''evm'' [newCoin ''atoken'' n]) \<longleftrightarrow> n \<le> 3000000000000" if "0 < n" for n
    using BurnCoins_succeeds_iff [OF K6_precisebank exFunded_inv evm_perm(2,3), of "[newCoin ''atoken'' n]"] that bal
    by (simp add: refIsValid_def refValidDenom_def coinsValue_def)
  then show ?thesis by simp
qed

section \<open>Genesis\<close>


definition exEmpty :: "ref_bank pstate" where
  "exEmpty = exState\<lparr>fractional := [], remainderKey := None\<rparr>"





text \<open>C7: Exporting the module and importing the result next to the same bank restores exactly the state
  that was exported, for every state that keeps the reserve invariant.\<close>

theorem genesis_round_trip:
  assumes "precisebank_genesis K" "pb_inv K s" "\<forall>p\<in>set (fractional s). length (fst p) \<le> 255"
  shows "InitGenesis K (s\<lparr>fractional := [], remainderKey := None\<rparr>) (ExportGenesis K s) = Ok s"
  using precisebank_genesis.export_import [OF assms] .

theorem genesis_round_trip_witness: "InitGenesis K6 exEmpty (ExportGenesis K6 exState) = Ok exState"
  using genesis_round_trip [OF K6_genesis ex_inv] by (simp add: exEmpty_def exState_def)

section \<open>The reported balance of a failed transfer\<close>

text \<open>A transfer that borrows without a carry first moves the integer part and then fails; the error it
  returns reports what was spendable after that first move. Alice can spend 5.4 coins and tries to send
  6.2: the error says that 5.4 are spendable when the first leg fails, but for 5.45 it says 0.4.\<close>

lemma insufficient_error_reports_partial:
  "SendCoins K6 exState ''alice'' ''carol'' [newCoin ''atoken'' 5450000000000] =
     Err (ErrInsufficientFunds [newCoin ''atoken'' 400000000000] (newCoin ''atoken'' 5450000000000)) \<and>
   Amount (SpendableCoin K6 exState ''alice'' ''atoken'') = 5400000000000"
  by (simp add: pb_eval updateInsufficientFundsError_def SpendableCoin_def)

end
