(* ===== verification/FeeMarket.thy ===== *)
theory FeeMarket
  imports EvmDenom
begin

text \<open>
  x/feemarket: the EIP-1559 base fee of the chain (\<open>src/x/feemarket\<close>) and the wrapper that shows it to
  the EVM with 18 decimals (\<open>src/x/vm/wrappers/feemarket.go\<close>). The state is the module's two persistent
  keys and its transient one; gas amounts are 64-bit words and the transient counter wraps as in Go.
  Decimals are mantissas (theory SdkApi); a nil decimal is \<open>None\<close> and using one panics.
  The constants that go-ethereum provides, the rounding operations and the EVM coin are fields of
  \<open>fm_env\<close>. Events, telemetry and logging are left out.
\<close>

section \<open>Parameters (types/params.go)\<close>

record Params =
  NoBaseFee :: bool
  BaseFeeChangeDenominator :: "32 word"
  ElasticityMultiplier :: "32 word"
  BaseFee :: "int option"
  EnableHeight :: int
  MinGasPrice :: "int option"
  MinGasMultiplier :: "int option"

record fm_env =
  fmDec :: dec_ops
  gethBaseFeeChangeDenominator :: "32 word"
  gethElasticityMultiplier :: "32 word"
  fmAuthority :: string
  fmAccFromBech32 :: "string \<Rightarrow> AccAddress option"
  fmCoin :: EvmCoinInfo

definition NewParams ::
    "bool \<Rightarrow> 32 word \<Rightarrow> 32 word \<Rightarrow> int option \<Rightarrow> int \<Rightarrow> int option \<Rightarrow> int option \<Rightarrow> Params" where
  "NewParams noBaseFee baseFeeChangeDenom elasticityMultiplier baseFee enableHeight minGasPrice
     minGasPriceMultiplier =
     \<lparr>NoBaseFee = noBaseFee, BaseFeeChangeDenominator = baseFeeChangeDenom,
      ElasticityMultiplier = elasticityMultiplier, BaseFee = baseFee, EnableHeight = enableHeight,
      MinGasPrice = minGasPrice, MinGasMultiplier = minGasPriceMultiplier\<rparr>"

definition DefaultParams :: "fm_env \<Rightarrow> Params" where
  "DefaultParams E =
     \<lparr>NoBaseFee = False, BaseFeeChangeDenominator = gethBaseFeeChangeDenominator E,
      ElasticityMultiplier = gethElasticityMultiplier E, BaseFee = Some (LegacyNewDec 1000000000),
      EnableHeight = 0, MinGasPrice = Some 0, MinGasMultiplier = Some 500000000000000000\<rparr>"

definition validateMinGasPrice :: "int option \<Rightarrow> error option" where
  "validateMinGasPrice gasPrice =
     (case gasPrice of
        None \<Rightarrow> Some (ErrMsg ''invalid parameter: nil'')
      | Some p \<Rightarrow> if p < 0 then Some (ErrMsg ''value cannot be negative'') else None)"

definition validateMinGasMultiplier :: "int option \<Rightarrow> error option" where
  "validateMinGasMultiplier multiplier =
     (case multiplier of
        None \<Rightarrow> Some (ErrMsg ''invalid parameter: nil'')
      | Some m \<Rightarrow>
          if m < 0 then Some (ErrMsg ''value cannot be negative'')
          else if decOne < m then Some (ErrMsg ''value cannot be greater than 1'')
          else None)"

text \<open>The sign of a nil base fee is a nil dereference.\<close>

definition Params_Validate :: "Params \<Rightarrow> unit res" where
  "Params_Validate p =
     (if BaseFeeChangeDenominator p = 0 then Err (ErrMsg ''base fee change denominator cannot be 0'')
      else
        (case BaseFee p of
           None \<Rightarrow> Panic (ErrMsg ''nil dereference'')
         | Some bf \<Rightarrow>
             if bf < 0 then Err (ErrMsg ''initial base fee cannot be negative'')
             else if EnableHeight p < 0 then Err (ErrMsg ''enable height cannot be negative'')
             else if ElasticityMultiplier p = 0 then Err (ErrMsg ''elasticity multiplier cannot be zero'')
             else
               (case validateMinGasMultiplier (MinGasMultiplier p) of
                  Some e \<Rightarrow> Err e
                | None \<Rightarrow>
                    (case validateMinGasPrice (MinGasPrice p) of Some e \<Rightarrow> Err e | None \<Rightarrow> Ok ()))))"

definition IsBaseFeeEnabled :: "Params \<Rightarrow> int \<Rightarrow> bool" where
  "IsBaseFeeEnabled p height \<longleftrightarrow> \<not> NoBaseFee p \<and> EnableHeight p \<le> height"

section \<open>The base fee formula (types/utils.go)\<close>

definition CalcGasBaseFee ::
    "dec_ops \<Rightarrow> 64 word \<Rightarrow> 64 word \<Rightarrow> 64 word \<Rightarrow> int \<Rightarrow> int \<Rightarrow> int option \<Rightarrow> int res" where
  "CalcGasBaseFee D gasUsed gasTarget baseFeeChangeDenom baseFee minUnitGas minGasPrice =
     (if gasUsed = gasTarget then Ok baseFee
      else if gasTarget = 0 then Ok 0
      else
        let num = LegacyNewDec \<bar>uint gasUsed - uint gasTarget\<bar>;
            num = decMul D num baseFee;
            num = decQuoInt D num (uint gasTarget)
        in
        if baseFeeChangeDenom = 0 then Panic (ErrMsg ''division by zero'')
        else
          let num = decQuoInt D num (uint baseFeeChangeDenom) in
          if gasUsed > gasTarget
          then (let baseFeeDelta = max num minUnitGas in Ok (baseFee + baseFeeDelta))
          else (case minGasPrice of
                  None \<Rightarrow> Panic (ErrMsg ''nil dereference'')
                | Some mgp \<Rightarrow> Ok (max (baseFee - num) mgp)))"

section \<open>State (keeper/keeper.go, keeper/params.go)\<close>

record fm_state =
  fmParams :: "Params option"
  fmBlockGasWanted :: "64 word option"
  fmTransientGasWanted :: "64 word option"

definition word_or_zero :: "64 word option \<Rightarrow> 64 word" where
  "word_or_zero w = (case w of None \<Rightarrow> 0 | Some x \<Rightarrow> x)"

definition GetParams :: "fm_env \<Rightarrow> fm_state \<Rightarrow> Params" where
  "GetParams E s = (case fmParams s of None \<Rightarrow> DefaultParams E | Some p \<Rightarrow> p)"

definition SetParams :: "fm_state \<Rightarrow> Params \<Rightarrow> fm_state" where
  "SetParams s p = s\<lparr>fmParams := Some p\<rparr>"

definition GetBaseFee :: "fm_env \<Rightarrow> fm_state \<Rightarrow> int option" where
  "GetBaseFee E s = (let params = GetParams E s in if NoBaseFee params then None else BaseFee params)"

definition SetBaseFee :: "fm_env \<Rightarrow> fm_state \<Rightarrow> int \<Rightarrow> fm_state" where
  "SetBaseFee E s baseFee = (let params = GetParams E s in SetParams s (params\<lparr>BaseFee := Some baseFee\<rparr>))"

definition SetBlockGasWanted :: "fm_state \<Rightarrow> 64 word \<Rightarrow> fm_state" where
  "SetBlockGasWanted s gas = s\<lparr>fmBlockGasWanted := Some gas\<rparr>"

definition GetBlockGasWanted :: "fm_state \<Rightarrow> 64 word" where
  "GetBlockGasWanted s = word_or_zero (fmBlockGasWanted s)"

definition GetTransientGasWanted :: "fm_state \<Rightarrow> 64 word" where
  "GetTransientGasWanted s = word_or_zero (fmTransientGasWanted s)"

definition SetTransientBlockGasWanted :: "fm_state \<Rightarrow> 64 word \<Rightarrow> fm_state" where
  "SetTransientBlockGasWanted s gasWanted = s\<lparr>fmTransientGasWanted := Some gasWanted\<rparr>"

definition AddTransientGasWanted :: "fm_state \<Rightarrow> 64 word \<Rightarrow> 64 word \<times> fm_state" where
  "AddTransientGasWanted s gasWanted =
     (let result = GetTransientGasWanted s + gasWanted in (result, SetTransientBlockGasWanted s result))"

section \<open>Block hooks (keeper/eip1559.go, keeper/abci.go)\<close>

text \<open>The context: the height, the consensus parameters' maximum block gas (absent when there are no
  block parameters) and the gas the block meter has consumed (absent when there is no meter).\<close>

record block_ctx =
  BlockHeight :: int
  MaxGas :: "int option"
  GasConsumedToLimit :: "64 word option"

definition CalculateBaseFee :: "fm_env \<Rightarrow> block_ctx \<Rightarrow> fm_state \<Rightarrow> int option res" where
  "CalculateBaseFee E ctx s =
     (let params = GetParams E s in
      if \<not> IsBaseFeeEnabled params (BlockHeight ctx) then Ok None
      else if BlockHeight ctx = EnableHeight params then Ok (BaseFee params)
      else
        (case BaseFee params of
           None \<Rightarrow> Ok None
         | Some parentBaseFee \<Rightarrow>
             let parentGasUsed = GetBlockGasWanted s;
                 gasLimit = (case MaxGas ctx of
                               Some maxGas \<Rightarrow> if - 1 < maxGas then maxGas else 2 ^ 64 - 1
                             | None \<Rightarrow> 2 ^ 64 - 1)
             in
             if ElasticityMultiplier params = 0 then Panic (ErrMsg ''division by zero'')
             else
               let parentGasTarget = quo gasLimit (uint (ElasticityMultiplier params)) in
               if \<not> (0 \<le> parentGasTarget \<and> parentGasTarget < 2 ^ 64) then Ok None
               else
                 (case Decimals_ConversionFactor (eciDecimals (fmCoin E)) of
                    None \<Rightarrow> Panic (ErrMsg ''nil dereference'')
                  | Some factor \<Rightarrow>
                      res_bind
                        (CalcGasBaseFee (fmDec E) parentGasUsed (word_of_int parentGasTarget)
                           (ucast (BaseFeeChangeDenominator params)) parentBaseFee
                           (decQuoInt (fmDec E) decOne factor) (MinGasPrice params))
                        (\<lambda>fee. Ok (Some fee)))))"

definition BeginBlock :: "fm_env \<Rightarrow> block_ctx \<Rightarrow> fm_state \<Rightarrow> fm_state res" where
  "BeginBlock E ctx s =
     res_bind (CalculateBaseFee E ctx s) (\<lambda>baseFee.
       case baseFee of None \<Rightarrow> Ok s | Some fee \<Rightarrow> Ok (SetBaseFee E s fee))"

definition EndBlock :: "fm_env \<Rightarrow> block_ctx \<Rightarrow> fm_state \<Rightarrow> fm_state res" where
  "EndBlock E ctx s =
     (case GasConsumedToLimit ctx of
        None \<Rightarrow> Err (ErrMsg ''block gas meter is nil when setting block gas wanted'')
      | Some consumed \<Rightarrow>
          let gasWanted = uint (GetTransientGasWanted s);
              gasUsed = uint consumed
          in
          if \<not> gasWanted < 2 ^ 63 then Err (ErrMsg ''integer overflow: gas wanted > MaxInt64'')
          else if \<not> gasUsed < 2 ^ 63 then Err (ErrMsg ''integer overflow: gas used > MaxInt64'')
          else
            (case MinGasMultiplier (GetParams E s) of
               None \<Rightarrow> Panic (ErrMsg ''nil dereference'')
             | Some minGasMultiplier \<Rightarrow>
                 let limitedGasWanted = decMul (fmDec E) (LegacyNewDec gasWanted) minGasMultiplier;
                     updated = decTruncateInt (fmDec E) (max limitedGasWanted (LegacyNewDec gasUsed))
                 in
                 if 0 \<le> updated \<and> updated < 2 ^ 64 then Ok (SetBlockGasWanted s (word_of_int updated))
                 else Panic (ErrMsg ''Uint64() out of bounds'')))"

section \<open>Messages, genesis and queries\<close>

record MsgUpdateParams =
  mupAuthority :: string
  mupParams :: Params

definition MsgUpdateParams_ValidateBasic :: "fm_env \<Rightarrow> MsgUpdateParams \<Rightarrow> unit res" where
  "MsgUpdateParams_ValidateBasic E m =
     (case fmAccFromBech32 E (mupAuthority m) of
        None \<Rightarrow> Err (ErrWrapped ''invalid authority address'' ErrInvalidAddress)
      | Some _ \<Rightarrow> Params_Validate (mupParams m))"

definition UpdateParams :: "fm_env \<Rightarrow> fm_state \<Rightarrow> MsgUpdateParams \<Rightarrow> fm_state res" where
  "UpdateParams E s req =
     (if fmAuthority E \<noteq> mupAuthority req then Err (ErrMsg ''invalid authority'')
      else Ok (SetParams s (mupParams req)))"

record fm_GenesisState =
  fmgParams :: Params
  fmgBlockGas :: "64 word"

definition fm_DefaultGenesisState :: "fm_env \<Rightarrow> fm_GenesisState" where
  "fm_DefaultGenesisState E = \<lparr>fmgParams = DefaultParams E, fmgBlockGas = 0\<rparr>"

definition fm_NewGenesisState :: "Params \<Rightarrow> 64 word \<Rightarrow> fm_GenesisState" where
  "fm_NewGenesisState params blockGas = \<lparr>fmgParams = params, fmgBlockGas = blockGas\<rparr>"

definition fm_GenesisState_Validate :: "fm_GenesisState \<Rightarrow> unit res" where
  "fm_GenesisState_Validate gs = Params_Validate (fmgParams gs)"

definition fm_InitGenesis :: "fm_state \<Rightarrow> fm_GenesisState \<Rightarrow> fm_state" where
  "fm_InitGenesis s gs = SetBlockGasWanted (SetParams s (fmgParams gs)) (fmgBlockGas gs)"

definition fm_ExportGenesis :: "fm_env \<Rightarrow> fm_state \<Rightarrow> fm_GenesisState" where
  "fm_ExportGenesis E s = \<lparr>fmgParams = GetParams E s, fmgBlockGas = GetBlockGasWanted s\<rparr>"

definition Query_Params :: "fm_env \<Rightarrow> fm_state \<Rightarrow> Params" where
  "Query_Params E s = GetParams E s"

definition Query_BaseFee :: "fm_env \<Rightarrow> fm_state \<Rightarrow> int option" where
  "Query_BaseFee E s = GetBaseFee E s"

definition Query_BlockGas :: "fm_state \<Rightarrow> int res" where
  "Query_BlockGas s =
     (let gas = uint (GetBlockGasWanted s) in
      if \<not> gas < 2 ^ 63 then Err (ErrMsg ''block gas is higher than MaxInt64'') else Ok gas)"

section \<open>The 18-decimals view (x/vm/wrappers/feemarket.go, x/vm/types/scaling.go)\<close>

text \<open>\<open>MulInt\<close> by a nil conversion factor is a nil dereference.\<close>

definition ConvertAmountTo18DecimalsLegacy :: "fm_env \<Rightarrow> int \<Rightarrow> int res" where
  "ConvertAmountTo18DecimalsLegacy E amt =
     (case Decimals_ConversionFactor (eciDecimals (fmCoin E)) of
        None \<Rightarrow> Panic (ErrMsg ''nil dereference'')
      | Some factor \<Rightarrow> Ok (decMulInt (fmDec E) amt factor))"

definition ConvertBigIntFrom18DecimalsToLegacyDec :: "fm_env \<Rightarrow> int \<Rightarrow> int res" where
  "ConvertBigIntFrom18DecimalsToLegacyDec E amt =
     (case Decimals_ConversionFactor (eciDecimals (fmCoin E)) of
        None \<Rightarrow> Panic (ErrMsg ''nil dereference'')
      | Some factor \<Rightarrow> Ok (decQuoInt (fmDec E) (LegacyNewDec amt) factor))"

definition Wrapper_GetBaseFee :: "fm_env \<Rightarrow> fm_state \<Rightarrow> Decimals \<Rightarrow> int" where
  "Wrapper_GetBaseFee E s decimals =
     (case GetBaseFee E s of
        None \<Rightarrow> 0
      | Some baseFee \<Rightarrow>
          (case Decimals_Validate decimals of
             Some _ \<Rightarrow> 0
           | None \<Rightarrow>
               (case Decimals_ConversionFactor decimals of
                  None \<Rightarrow> 0
                | Some conv \<Rightarrow> decTruncateInt (fmDec E) (decMulInt (fmDec E) baseFee conv))))"

definition Wrapper_CalculateBaseFee :: "fm_env \<Rightarrow> block_ctx \<Rightarrow> fm_state \<Rightarrow> int option res" where
  "Wrapper_CalculateBaseFee E ctx s =
     res_bind (CalculateBaseFee E ctx s) (\<lambda>baseFee.
       case baseFee of
         None \<Rightarrow> Ok None
       | Some fee \<Rightarrow> res_bind (ConvertAmountTo18DecimalsLegacy E fee)
           (\<lambda>c. Ok (Some (decTruncateInt (fmDec E) c))))"

definition Wrapper_GetParams :: "fm_env \<Rightarrow> fm_state \<Rightarrow> Params res" where
  "Wrapper_GetParams E s =
     (let params = GetParams E s in
      res_bind
        (case BaseFee params of
           None \<Rightarrow> Ok params
         | Some fee \<Rightarrow> res_bind (ConvertAmountTo18DecimalsLegacy E fee) (\<lambda>c. Ok (params\<lparr>BaseFee := Some c\<rparr>)))
        (\<lambda>params.
           case MinGasPrice params of
             None \<Rightarrow> Panic (ErrMsg ''nil dereference'')
           | Some p \<Rightarrow> res_bind (ConvertAmountTo18DecimalsLegacy E p) (\<lambda>c. Ok (params\<lparr>MinGasPrice := Some c\<rparr>))))"

end
