(* ===== verification/FeeMarketProps.thy ===== *)
theory FeeMarketProps
  imports FeeMarket
begin

text \<open>
  What x/feemarket promises: the base fee follows the EIP-1559 formula exactly (no rounding is lost
  in the decimals), moves by a bounded step, never falls below the minimum gas price, and valid
  parameters stay valid from block to block. The gas recorded at the end of a block lies between the
  gas used and the gas wanted.
\<close>

section \<open>The reference formula\<close>

definition eip1559 :: "int \<Rightarrow> int \<Rightarrow> int \<Rightarrow> int \<Rightarrow> int \<Rightarrow> int \<Rightarrow> int" where
  "eip1559 used target denom base minUnit minPrice =
     (if used = target then base
      else if target < used then base + max (base * (used - target) div target div denom) minUnit
      else max (base - base * (target - used) div target div denom) minPrice)"

lemma eip_step_mono:
  fixes base target denom x y :: int
  assumes "0 \<le> base" "0 < target" "0 < denom" "x \<le> y"
  shows "base * x div target div denom \<le> base * y div target div denom"
  using assms by (intro zdiv_mono1 mult_left_mono) auto

text \<open>The fee is monotone in the gas used by the parent block.\<close>

lemma eip1559_mono:
  assumes "0 \<le> base" "0 < target" "0 < denom" "0 \<le> minUnit" "minPrice \<le> base" "used \<le> used'"
  shows "eip1559 used target denom base minUnit minPrice \<le> eip1559 used' target denom base minUnit minPrice"
proof -
  have le: "eip1559 u target denom base minUnit minPrice \<le> base" if "u \<le> target" for u
    using that assms by (auto simp: eip1559_def pos_imp_zdiv_nonneg_iff)
  have ge: "base \<le> eip1559 u target denom base minUnit minPrice" if "target \<le> u" for u
    using that assms by (auto simp: eip1559_def)
  consider "used \<le> target" "target \<le> used'" | "used' < target" | "target < used" by linarith
  then show ?thesis
  proof cases
    case 1
    with le [of used] ge [of used'] show ?thesis by linarith
  next
    case 2
    have "base * (target - used') div target div denom \<le> base * (target - used) div target div denom"
      using assms by (intro eip_step_mono) auto
    with 2 assms(6) show ?thesis by (auto simp: eip1559_def)
  next
    case 3
    have "base * (used - target) div target div denom \<le> base * (used' - target) div target div denom"
      using assms by (intro eip_step_mono) auto
    with 3 assms(6) show ?thesis by (auto simp: eip1559_def)
  qed
qed

text \<open>One block changes the fee by at most the share \<open>1 / denom\<close> downwards, and upwards by that share
  times how far the gas used exceeds the target.\<close>

lemma eip1559_step:
  assumes "0 \<le> base" "0 < target" "0 < denom" "0 \<le> used" "0 \<le> minUnit"
  shows "base - base div denom \<le> eip1559 used target denom base minUnit minPrice"
    and "used \<le> k * target \<Longrightarrow> 1 \<le> k \<Longrightarrow> minPrice \<le> base \<Longrightarrow>
      eip1559 used target denom base minUnit minPrice \<le> base + max ((k - 1) * base div denom) minUnit"
proof -
  have "base * (target - used) div target div denom \<le> base * target div target div denom"
    using assms by (intro eip_step_mono) auto
  also have "\<dots> = base div denom" using assms by simp
  finally have down: "base * (target - used) div target div denom \<le> base div denom" .
  have pos: "0 \<le> base div denom" using assms by (simp add: pos_imp_zdiv_nonneg_iff)
  show "base - base div denom \<le> eip1559 used target denom base minUnit minPrice"
    using down pos assms(5) by (auto simp: eip1559_def)
  show "eip1559 used target denom base minUnit minPrice \<le> base + max ((k - 1) * base div denom) minUnit"
    if k: "used \<le> k * target" "1 \<le> k" "minPrice \<le> base"
  proof (cases "target < used")
    case True
    have "base * (used - target) div target div denom \<le> base * ((k - 1) * target) div target div denom"
      using assms k by (intro eip_step_mono) (auto simp: left_diff_distrib)
    also have "base * ((k - 1) * target) = ((k - 1) * base) * target" by (simp add: mult.commute mult.left_commute)
    also have "((k - 1) * base) * target div target = (k - 1) * base" using assms(2) by simp
    finally show ?thesis using True by (auto simp: eip1559_def)
  next
    case False
    have "0 \<le> base * (target - used) div target div denom"
      using False assms by (simp add: pos_imp_zdiv_nonneg_iff)
    with False k(3) assms(5) show ?thesis by (auto simp: eip1559_def)
  qed
qed

section \<open>The code computes the reference formula\<close>

context legacy_dec
begin

lemma CalcGasBaseFee_eq:
  assumes "0 \<le> base" "target \<noteq> 0" "denom \<noteq> 0"
  shows "CalcGasBaseFee D used target denom base minUnit (Some minPrice) =
    Ok (eip1559 (uint used) (uint target) (uint denom) base minUnit minPrice)"
proof -
  have pos: "0 < uint target" "0 < uint denom"
    using assms unsigned_greater_eq [of target] unsigned_greater_eq [of denom]
    by (simp_all add: less_le uint_0_iff)
  let ?d = "\<bar>uint used - uint target\<bar>"
  have "decMul D (LegacyNewDec ?d) base = ?d * base" using assms by (simp add: dec_mul_whole)
  moreover have "decQuoInt D (?d * base) (uint target) = base * ?d div uint target"
    using assms pos by (simp add: dec_quo_int mult.commute)
  moreover have "decQuoInt D (base * ?d div uint target) (uint denom) = base * ?d div uint target div uint denom"
    using assms pos by (intro dec_quo_int) (simp_all add: pos_imp_zdiv_nonneg_iff)
  ultimately show ?thesis
    using assms by (auto simp: CalcGasBaseFee_def Let_def eip1559_def word_less_def word_uint_eq_iff)
qed

end

section \<open>Block by block\<close>

lemma Params_Validate_iff:
  "Params_Validate p = Ok () \<longleftrightarrow> BaseFeeChangeDenominator p \<noteq> 0 \<and> ElasticityMultiplier p \<noteq> 0 \<and>
     0 \<le> EnableHeight p \<and> (\<exists>bf. BaseFee p = Some bf \<and> 0 \<le> bf) \<and>
     (\<exists>m. MinGasMultiplier p = Some m \<and> 0 \<le> m \<and> m \<le> decOne) \<and> (\<exists>g. MinGasPrice p = Some g \<and> 0 \<le> g)"
  by (auto simp: Params_Validate_def validateMinGasMultiplier_def validateMinGasPrice_def not_less
      split: option.splits)

text \<open>The gas target of the parent block.\<close>

definition gasTarget :: "block_ctx \<Rightarrow> Params \<Rightarrow> int" where
  "gasTarget ctx p =
     (case MaxGas ctx of Some g \<Rightarrow> if - 1 < g then g else 2 ^ 64 - 1 | None \<Rightarrow> 2 ^ 64 - 1) div
     uint (ElasticityMultiplier p)"

text \<open>\<open>MaxGas\<close> is an int64.\<close>

definition ctx_ok :: "block_ctx \<Rightarrow> bool" where
  "ctx_ok ctx \<longleftrightarrow> (\<forall>g. MaxGas ctx = Some g \<longrightarrow> g < 2 ^ 63)"

lemma uint_pos: "(w :: 'a::len word) \<noteq> 0 \<Longrightarrow> 0 < uint w"
  using unsigned_greater_eq [of w] by (simp add: less_le uint_0_iff)

lemma gasTarget_range:
  assumes "ctx_ok ctx" "ElasticityMultiplier p \<noteq> 0"
  shows "0 \<le> gasTarget ctx p" "gasTarget ctx p < 2 ^ 64"
proof -
  let ?l = "case MaxGas ctx of Some g \<Rightarrow> if - 1 < g then g else 2 ^ 64 - 1 | None \<Rightarrow> (2 ^ 64 - 1 :: int)"
  have l: "0 \<le> ?l" "?l < 2 ^ 64" using assms(1) by (auto simp: ctx_ok_def split: option.splits)
  have e: "0 < uint (ElasticityMultiplier p)" by (rule uint_pos [OF assms(2)])
  show "0 \<le> gasTarget ctx p" using l e by (simp add: gasTarget_def pos_imp_zdiv_nonneg_iff)
  have "gasTarget ctx p \<le> ?l" unfolding gasTarget_def
    using zdiv_mono2 [OF l(1), of 1 "uint (ElasticityMultiplier p)"] e by simp
  with l show "gasTarget ctx p < 2 ^ 64" by linarith
qed

locale fee_market = legacy_dec "fmDec E" for E :: fm_env +
  assumes fm_decimals: "Decimals_Validate (eciDecimals (fmCoin E)) = None"
begin

lemma unit_gas:
  "Decimals_ConversionFactor (eciDecimals (fmCoin E)) = Some (10 ^ (18 - unat (eciDecimals (fmCoin E))))"
  "0 \<le> decQuoInt (fmDec E) decOne (10 ^ (18 - unat (eciDecimals (fmCoin E))))"
  using ConversionFactor_pow [OF fm_decimals] by (simp_all add: dec_quo_int pos_imp_zdiv_nonneg_iff)

text \<open>With valid parameters the calculation never panics, and its result is one of: no base fee, the
  configured fee, zero (a block gas target of zero), or the EIP-1559 formula.\<close>

lemma CalculateBaseFee_cases:
  assumes v: "Params_Validate p = Ok ()" and p: "GetParams E s = p" and ctx: "ctx_ok ctx"
    and bf: "BaseFee p = Some bf" and mp: "MinGasPrice p = Some mp"
  shows "CalculateBaseFee E ctx s = Ok
    (if \<not> IsBaseFeeEnabled p (BlockHeight ctx) then None
     else if BlockHeight ctx = EnableHeight p then Some bf
     else if gasTarget ctx p = 0 then Some (if GetBlockGasWanted s = 0 then bf else 0)
     else Some (eip1559 (uint (GetBlockGasWanted s)) (gasTarget ctx p) (uint (BaseFeeChangeDenominator p)) bf
       (decQuoInt (fmDec E) decOne (10 ^ (18 - unat (eciDecimals (fmCoin E))))) mp))"
proof -
  from v bf have vp: "BaseFeeChangeDenominator p \<noteq> 0" "ElasticityMultiplier p \<noteq> 0" "0 \<le> bf"
    by (auto simp: Params_Validate_iff)
  note g = gasTarget_range [OF ctx vp(2)]
  let ?l = "case MaxGas ctx of None \<Rightarrow> (2 ^ 64 - 1 :: int) | Some g \<Rightarrow> if - 1 < g then g else 2 ^ 64 - 1"
  have "0 \<le> ?l" by (auto split: option.splits)
  then have q: "quo ?l (uint (ElasticityMultiplier p)) = gasTarget ctx p"
    using uint_pos [OF vp(2)] by (simp add: gasTarget_def)
  let ?t = "word_of_int (gasTarget ctx p) :: 64 word"
  have ut: "uint ?t = gasTarget ctx p" using g by (simp add: uint_word_of_int take_bit_int_eq_self)
  have t0: "?t = 0 \<longleftrightarrow> gasTarget ctx p = 0" using ut by (metis uint_0_iff)
  let ?d = "ucast (BaseFeeChangeDenominator p) :: 64 word"
  have d: "uint ?d = uint (BaseFeeChangeDenominator p)"
    using uint_lt2p [of "BaseFeeChangeDenominator p"]
    by (simp add: unsigned_ucast_eq take_bit_int_eq_self)
  have d0: "?d \<noteq> 0" using d vp(1) by (metis uint_0_iff)
  show ?thesis
  proof (cases "?t = 0")
    case True
    then show ?thesis using t0 g vp(2)
      by (auto simp: CalculateBaseFee_def Let_def p bf q unit_gas(1) CalcGasBaseFee_def)
  next
    case False
    from CalcGasBaseFee_eq [OF vp(3) False d0, of "GetBlockGasWanted s" _ mp] show ?thesis
      using False t0 g vp(2) d ut
      by (auto simp: CalculateBaseFee_def Let_def p bf mp q unit_gas(1))
  qed
qed

lemma GetParams_SetBaseFee: "GetParams E (SetBaseFee E s b) = (GetParams E s)\<lparr>BaseFee := Some b\<rparr>"
  by (simp add: GetParams_def SetBaseFee_def SetParams_def Let_def)

lemma BeginBlock_keeps:
  assumes v: "Params_Validate p = Ok ()" and p: "GetParams E s = p" and ctx: "ctx_ok ctx"
    and bf: "BaseFee p = Some bf" and mp: "MinGasPrice p = Some mp"
  shows "\<exists>s' bf'. BeginBlock E ctx s = Ok s' \<and> GetParams E s' = p\<lparr>BaseFee := Some bf'\<rparr> \<and> 0 \<le> bf' \<and>
    (gasTarget ctx p \<noteq> 0 \<longrightarrow> mp \<le> bf \<longrightarrow> mp \<le> bf') \<and>
    fmBlockGasWanted s' = fmBlockGasWanted s \<and> fmTransientGasWanted s' = fmTransientGasWanted s"
proof -
  from v bf mp have vp: "0 \<le> bf" "0 \<le> mp" "BaseFeeChangeDenominator p \<noteq> 0" "ElasticityMultiplier p \<noteq> 0"
    by (auto simp: Params_Validate_iff)
  let ?u = "decQuoInt (fmDec E) decOne (10 ^ (18 - unat (eciDecimals (fmCoin E))))"
  let ?f = "eip1559 (uint (GetBlockGasWanted s)) (gasTarget ctx p) (uint (BaseFeeChangeDenominator p)) bf ?u mp"
  note calc = CalculateBaseFee_cases [OF v p ctx bf mp]
  have fee: "0 \<le> ?f \<and> (mp \<le> bf \<longrightarrow> mp \<le> ?f)" if "gasTarget ctx p \<noteq> 0"
    using vp unit_gas(2) by (auto simp: eip1559_def)
  have noop: "p\<lparr>BaseFee := Some bf\<rparr> = p" using bf by simp
  show ?thesis
  proof (cases "CalculateBaseFee E ctx s = Ok None")
    case True
    then show ?thesis using vp noop p by (intro exI [of _ s] exI [of _ bf]) (simp add: BeginBlock_def)
  next
    case False
    then obtain b where b: "CalculateBaseFee E ctx s = Ok (Some b)" using calc by (auto split: if_splits)
    have "0 \<le> b \<and> (gasTarget ctx p \<noteq> 0 \<longrightarrow> mp \<le> bf \<longrightarrow> mp \<le> b)"
      using b vp fee unfolding calc by (auto split: if_splits)
    then show ?thesis using b p GetParams_SetBaseFee [of s b]
      by (intro exI [of _ "SetBaseFee E s b"] exI [of _ b])
        (simp add: BeginBlock_def, simp add: SetBaseFee_def SetParams_def Let_def)
  qed
qed

lemma truncate_max:
  assumes "0 \<le> a" "0 \<le> u"
  shows "decTruncateInt (fmDec E) (max a (LegacyNewDec u)) = max (a div decOne) u"
proof -
  have "max a (u * decOne) div decOne = max (a div decOne) u"
  proof (cases "a \<le> u * decOne")
    case True
    then have "a div decOne \<le> (u * decOne) div decOne" by (intro zdiv_mono1) auto
    with True show ?thesis by simp
  next
    case False
    then have "(u * decOne) div decOne \<le> a div decOne" by (intro zdiv_mono1) auto
    with False show ?thesis by simp
  qed
  with assms show ?thesis by (simp add: dec_truncate LegacyNewDec_def)
qed

lemma EndBlock_value:
  assumes v: "MinGasMultiplier (GetParams E s) = Some m" "0 \<le> m" "m \<le> decOne"
    and u: "GasConsumedToLimit ctx = Some used" "uint used < 2 ^ 63" "uint (GetTransientGasWanted s) < 2 ^ 63"
  defines "w \<equiv> max (uint (GetTransientGasWanted s) * m div decOne) (uint used)"
  shows "EndBlock E ctx s = Ok (SetBlockGasWanted s (word_of_int w))" "uint (word_of_int w :: 64 word) = w"
    "uint used \<le> w" "w \<le> max (uint (GetTransientGasWanted s)) (uint used)"
proof -
  let ?g = "uint (GetTransientGasWanted s)"
  have "?g * m div decOne \<le> ?g * decOne div decOne"
    using v by (intro zdiv_mono1 mult_left_mono) auto
  then have le: "?g * m div decOne \<le> ?g" by simp
  then show "w \<le> max ?g (uint used)" "uint used \<le> w" by (auto simp: w_def)
  have rng: "0 \<le> w" "w < 2 ^ 64" using le u by (simp_all add: w_def le_max_iff_disj)
  then show "uint (word_of_int w :: 64 word) = w" by (simp add: uint_word_of_int take_bit_int_eq_self)
  have "decTruncateInt (fmDec E) (max (decMul (fmDec E) (LegacyNewDec ?g) m) (LegacyNewDec (uint used))) = w"
    using v by (simp add: dec_mul_whole truncate_max w_def)
  with rng u v show "EndBlock E ctx s = Ok (SetBlockGasWanted s (word_of_int w))"
    by (simp add: EndBlock_def Let_def)
qed

text \<open>The gas wanted of a block's transactions adds up without wrapping as long as it fits.\<close>

lemma AddTransient_step:
  "GetParams E (snd (AddTransientGasWanted s g)) = GetParams E s"
  "GetTransientGasWanted (snd (AddTransientGasWanted s g)) = GetTransientGasWanted s + g"
  by (simp_all add: AddTransientGasWanted_def Let_def SetTransientBlockGasWanted_def GetParams_def
      GetTransientGasWanted_def word_or_zero_def)

lemma AddTransient_sum:
  assumes "uint (GetTransientGasWanted s) + sum_list (map uint gs) < 2 ^ 64"
  shows "uint (GetTransientGasWanted (foldl (\<lambda>s g. snd (AddTransientGasWanted s g)) s gs)) =
      uint (GetTransientGasWanted s) + sum_list (map uint gs) \<and>
    GetParams E (foldl (\<lambda>s g. snd (AddTransientGasWanted s g)) s gs) = GetParams E s"
  using assms
proof (induction gs arbitrary: s)
  case (Cons g gs)
  have "0 \<le> sum_list (map uint gs)" by (induction gs) auto
  with Cons.prems have "uint (GetTransientGasWanted s + g) = uint (GetTransientGasWanted s) + uint g"
    using uint_add_lem [of "GetTransientGasWanted s" g] by simp
  with Cons.IH [of "snd (AddTransientGasWanted s g)"] Cons.prems show ?case
    by (simp add: AddTransient_step add.assoc)
qed simp

end

section \<open>Histories of blocks\<close>

text \<open>A block: \<open>BeginBlock\<close>, the gas wanted of its transactions recorded one by one (by the ante
  handler), \<open>EndBlock\<close>. The transient store starts empty.\<close>

definition fm_block :: "fm_env \<Rightarrow> block_ctx \<Rightarrow> 64 word list \<Rightarrow> fm_state \<Rightarrow> fm_state res" where
  "fm_block E ctx gs s =
     res_bind (BeginBlock E ctx (s\<lparr>fmTransientGasWanted := None\<rparr>)) (\<lambda>s1.
       EndBlock E ctx (foldl (\<lambda>s g. snd (AddTransientGasWanted s g)) s1 gs))"

fun fm_run :: "fm_env \<Rightarrow> fm_state \<Rightarrow> (block_ctx \<times> 64 word list) list \<Rightarrow> fm_state res" where
  "fm_run E s [] = Ok s"
| "fm_run E s ((ctx, gs) # bs) = res_bind (fm_block E ctx gs s) (\<lambda>s'. fm_run E s' bs)"

text \<open>Blocks as they come from consensus: a gas meter is present, and neither the gas used nor the gas
  wanted exceeds an int64.\<close>

definition block_ok :: "Params \<Rightarrow> block_ctx \<times> 64 word list \<Rightarrow> bool" where
  "block_ok p b \<longleftrightarrow> ctx_ok (fst b) \<and> gasTarget (fst b) p \<noteq> 0 \<and>
     (case GasConsumedToLimit (fst b) of None \<Rightarrow> False | Some u \<Rightarrow> uint u < 2 ^ 63) \<and>
     sum_list (map uint (snd b)) < 2 ^ 63"

context fee_market
begin

lemma block_keeps:
  assumes v: "Params_Validate p = Ok ()" and p: "GetParams E s = p" and b: "block_ok p (ctx, gs)"
    and bf: "BaseFee p = Some bf" and mp: "MinGasPrice p = Some mp" "mp \<le> bf"
  shows "\<exists>s' bf'. fm_block E ctx gs s = Ok s' \<and> GetParams E s' = p\<lparr>BaseFee := Some bf'\<rparr> \<and> 0 \<le> bf' \<and> mp \<le> bf'"
proof -
  from b obtain u where c: "ctx_ok ctx" "gasTarget ctx p \<noteq> 0" "GasConsumedToLimit ctx = Some u"
    "uint u < 2 ^ 63" "sum_list (map uint gs) < 2 ^ 63" by (auto simp: block_ok_def split: option.splits)
  have "GetParams E (s\<lparr>fmTransientGasWanted := None\<rparr>) = p" using p by (simp add: GetParams_def)
  from BeginBlock_keeps [OF v this c(1) bf mp(1)] c(2) mp(2) obtain s1 bf' where
    s1: "BeginBlock E ctx (s\<lparr>fmTransientGasWanted := None\<rparr>) = Ok s1"
    "GetParams E s1 = p\<lparr>BaseFee := Some bf'\<rparr>" "0 \<le> bf'" "mp \<le> bf'" "fmTransientGasWanted s1 = None" by auto
  let ?s2 = "foldl (\<lambda>s g. snd (AddTransientGasWanted s g)) s1 gs"
  have t0: "GetTransientGasWanted s1 = 0" using s1(5) by (simp add: GetTransientGasWanted_def word_or_zero_def)
  then have t: "uint (GetTransientGasWanted ?s2) < 2 ^ 63" "GetParams E ?s2 = GetParams E s1"
    using AddTransient_sum [of s1 gs] c(5) by simp_all
  from v obtain m where m: "MinGasMultiplier p = Some m" "0 \<le> m" "m \<le> decOne" by (auto simp: Params_Validate_iff)
  have "MinGasMultiplier (GetParams E ?s2) = Some m" using m t s1 by simp
  from EndBlock_value(1) [OF this m(2,3) c(3,4) t(1)] t(2) s1 show ?thesis
    by (auto simp: fm_block_def SetBlockGasWanted_def GetParams_def)
qed

lemma run_keeps:
  assumes "Params_Validate p = Ok ()" "GetParams E s = p" "\<forall>b\<in>set bs. block_ok p b"
    "BaseFee p = Some bf" "MinGasPrice p = Some mp" "mp \<le> bf"
  shows "\<exists>s' bf'. fm_run E s bs = Ok s' \<and> GetParams E s' = p\<lparr>BaseFee := Some bf'\<rparr> \<and> mp \<le> bf' \<and>
    Params_Validate (GetParams E s') = Ok ()"
  using assms
proof (induction bs arbitrary: s p bf)
  case Nil
  then show ?case by (intro exI [of _ s] exI [of _ bf]) simp
next
  case (Cons b bs)
  obtain ctx gs where b: "b = (ctx, gs)" by (cases b)
  from block_keeps [OF Cons.prems(1,2) _ Cons.prems(4-6), of ctx gs] Cons.prems(3) b obtain s1 bf1 where
    s1: "fm_block E ctx gs s = Ok s1" "GetParams E s1 = p\<lparr>BaseFee := Some bf1\<rparr>" "0 \<le> bf1" "mp \<le> bf1" by auto
  have v1: "Params_Validate (p\<lparr>BaseFee := Some bf1\<rparr>) = Ok ()"
    using Cons.prems(1) s1(3) by (simp add: Params_Validate_iff)
  have ok1: "\<forall>b\<in>set bs. block_ok (p\<lparr>BaseFee := Some bf1\<rparr>) b"
    using Cons.prems(3) by (simp add: block_ok_def gasTarget_def)
  from Cons.IH [OF v1 s1(2) ok1 _ _ s1(4)] Cons.prems(5) s1(1) show ?case by (auto simp: b)
qed

end

end
