(* ===== verification/FeeMarketTheorems.thy ===== *)
theory FeeMarketTheorems
  imports FeeMarketProps
begin

text \<open>
  The properties of x/feemarket, for every implementation of the decimals that keeps the laws
  \<open>legacy_dec\<close>, each with an instance on the SDK's own rounding and a coin with six decimals.
\<close>

definition feeEnv :: fm_env where
  "feeEnv = \<lparr>fmDec = legacyDec, gethBaseFeeChangeDenominator = 8, gethElasticityMultiplier = 2,
     fmAuthority = ''gov'', fmAccFromBech32 = Some,
     fmCoin = \<lparr>eciDenom = ''utoken'', eciExtendedDenom = ''atoken'', eciDisplayDenom = ''token'', eciDecimals = 6\<rparr>\<rparr>"

interpretation feeEnv: fee_market feeEnv
proof (intro fee_market.intro fee_market_axioms.intro)
  show "legacy_dec (fmDec feeEnv)" by (simp add: feeEnv_def legacyDec.legacy_dec_axioms)
qed (simp_all add: feeEnv_def Decimals_Validate_def EighteenDecimals_def)

definition feeState :: fm_state where
  "feeState = \<lparr>fmParams = None, fmBlockGasWanted = Some 20000000, fmTransientGasWanted = None\<rparr>"

definition feeCtx :: block_ctx where
  "feeCtx = \<lparr>BlockHeight = 7, MaxGas = Some 30000000, GasConsumedToLimit = Some 9000000\<rparr>"

lemma feeParams: "GetParams feeEnv feeState = DefaultParams feeEnv"
  "Params_Validate (DefaultParams feeEnv) = Ok ()" "BaseFee (DefaultParams feeEnv) = Some (LegacyNewDec 1000000000)"
  "MinGasPrice (DefaultParams feeEnv) = Some 0" "block_ok (DefaultParams feeEnv) (feeCtx, [5000000, 6000000])"
  by (simp_all add: GetParams_def feeState_def DefaultParams_def feeEnv_def Params_Validate_iff LegacyNewDec_def
      block_ok_def feeCtx_def ctx_ok_def gasTarget_def)





text \<open>A parent block that used more gas never leads to a lower base fee, as long as the current fee is
  not below the minimum gas price.\<close>

theorem CalcGasBaseFee_monotone:
  assumes "legacy_dec D" "0 \<le> base" "target \<noteq> 0" "denom \<noteq> 0" "0 \<le> minUnit" "minPrice \<le> base" "used \<le> used'"
    "CalcGasBaseFee D used target denom base minUnit (Some minPrice) = Ok fee"
    "CalcGasBaseFee D used' target denom base minUnit (Some minPrice) = Ok fee'"
  shows "fee \<le> fee'"
proof -
  have "uint used \<le> uint used'" using assms(7) by (simp add: word_le_def)
  from eip1559_mono [OF assms(2) uint_pos [OF assms(3)] uint_pos [OF assms(4)] assms(5,6) this]
    legacy_dec.CalcGasBaseFee_eq [OF assms(1-4)] assms(8,9) show ?thesis by simp
qed

theorem CalcGasBaseFee_monotone_witness:
  "\<exists>a b. CalcGasBaseFee legacyDec 12 10 8 (LegacyNewDec 1000) 1 (Some 0) = Ok a \<and>
     CalcGasBaseFee legacyDec 20 10 8 (LegacyNewDec 1000) 1 (Some 0) = Ok b \<and> a \<le> b"
proof -
  have ab: "CalcGasBaseFee legacyDec 12 10 8 (LegacyNewDec 1000) 1 (Some 0) = Ok (LegacyNewDec 1025)"
    "CalcGasBaseFee legacyDec 20 10 8 (LegacyNewDec 1000) 1 (Some 0) = Ok (LegacyNewDec 1125)"
    using legacyDec.CalcGasBaseFee_eq [of "LegacyNewDec 1000" 10 8]
    by (simp_all add: eip1559_def LegacyNewDec_def)
  from CalcGasBaseFee_monotone [OF legacyDec.legacy_dec_axioms _ _ _ _ _ _ ab] ab show ?thesis
    by (simp add: LegacyNewDec_def)
qed

text \<open>C18: The gas that \<open>EndBlock\<close> records for the next base fee is the larger of the gas used and the gas
  wanted scaled down by the minimum gas multiplier; it is at least the gas used and at most the larger
  of the two, and the conversion back to 64 bits loses nothing.\<close>

theorem EndBlock_gas_between:
  assumes "fee_market E" "Params_Validate (GetParams E s) = Ok ()" "GasConsumedToLimit ctx = Some used"
    "uint used < 2 ^ 63" "uint (GetTransientGasWanted s) < 2 ^ 63"
  shows "\<exists>s' m. EndBlock E ctx s = Ok s' \<and> MinGasMultiplier (GetParams E s) = Some m \<and>
    uint (GetBlockGasWanted s') = max (uint (GetTransientGasWanted s) * m div decOne) (uint used) \<and>
    used \<le> GetBlockGasWanted s' \<and> GetBlockGasWanted s' \<le> max (GetTransientGasWanted s) used"
proof -
  from assms(2) obtain m where m: "MinGasMultiplier (GetParams E s) = Some m" "0 \<le> m" "m \<le> decOne"
    by (auto simp: Params_Validate_iff)
  note e = fee_market.EndBlock_value [OF assms(1) m assms(3-5)]
  let ?w = "max (uint (GetTransientGasWanted s) * m div decOne) (uint used)"
  have mx: "uint (max a b) = max (uint a) (uint b)" for a b :: "64 word"
    by (simp add: max_def word_le_def)
  have "GetBlockGasWanted (SetBlockGasWanted s (word_of_int ?w)) = word_of_int ?w"
    by (simp add: SetBlockGasWanted_def GetBlockGasWanted_def word_or_zero_def)
  with e m(1) show ?thesis
    by (intro exI [of _ "SetBlockGasWanted s (word_of_int ?w)"] exI [of _ m]) (simp only: word_le_def mx simp_thms)
qed

theorem EndBlock_gas_between_witness:
  "\<exists>s'. EndBlock feeEnv feeCtx (feeState\<lparr>fmTransientGasWanted := Some 20000000\<rparr>) = Ok s' \<and>
     GetBlockGasWanted s' \<le> 20000000 \<and> 9000000 \<le> GetBlockGasWanted s'"
proof -
  let ?s = "feeState\<lparr>fmTransientGasWanted := Some 20000000\<rparr>"
  have g: "GetTransientGasWanted ?s = 20000000" by (simp add: GetTransientGasWanted_def word_or_zero_def)
  have "GetParams feeEnv ?s = DefaultParams feeEnv" by (simp add: GetParams_def feeState_def)
  with feeParams have v: "Params_Validate (GetParams feeEnv ?s) = Ok ()" by simp
  from EndBlock_gas_between [OF feeEnv.fee_market_axioms v, of feeCtx 9000000] g show ?thesis
    by (auto simp: feeCtx_def max_def)
qed



text \<open>The EVM sees one base fee: what the wrapper calculates for a block in 18 decimals is what it
  returns as the base fee once \<open>BeginBlock\<close> has run.\<close>

theorem wrapper_base_fee_agrees:
  assumes "fee_market E" "Wrapper_CalculateBaseFee E ctx s = Ok (Some fee)" "BeginBlock E ctx s = Ok s'"
  shows "Wrapper_GetBaseFee E s' (eciDecimals (fmCoin E)) = fee"
proof -
  from assms(2) obtain b c where b: "CalculateBaseFee E ctx s = Ok (Some b)"
    and c: "ConvertAmountTo18DecimalsLegacy E b = Ok c" "fee = decTruncateInt (fmDec E) c"
    by (auto simp: Wrapper_CalculateBaseFee_def res_bind_Ok split: option.splits)
  from b assms(3) have s': "s' = SetBaseFee E s b" by (simp add: BeginBlock_def)
  have en: "\<not> NoBaseFee (GetParams E s)"
    using b by (auto simp: CalculateBaseFee_def Let_def IsBaseFeeEnabled_def split: if_splits)
  have "GetBaseFee E s' = Some b"
    using en by (simp add: s' GetBaseFee_def fee_market.GetParams_SetBaseFee [OF assms(1)] Let_def)
  with c fee_market.unit_gas(1) [OF assms(1)] fee_market.fm_decimals [OF assms(1)] show ?thesis
    by (simp add: Wrapper_GetBaseFee_def ConvertAmountTo18DecimalsLegacy_def)
qed

theorem wrapper_base_fee_agrees_witness:
  "\<exists>fee s'. Wrapper_CalculateBaseFee feeEnv feeCtx feeState = Ok (Some fee) \<and>
     BeginBlock feeEnv feeCtx feeState = Ok s' \<and> Wrapper_GetBaseFee feeEnv s' 6 = fee"
proof -
  have c: "\<exists>b. CalculateBaseFee feeEnv feeCtx feeState = Ok (Some b)"
    using feeEnv.CalculateBaseFee_cases [OF feeParams(2,1) _ feeParams(3,4), of feeCtx]
    by (simp add: ctx_ok_def feeCtx_def IsBaseFeeEnabled_def DefaultParams_def)
  then obtain fee s' where f: "Wrapper_CalculateBaseFee feeEnv feeCtx feeState = Ok (Some fee)"
    "BeginBlock feeEnv feeCtx feeState = Ok s'"
    by (auto simp: Wrapper_CalculateBaseFee_def BeginBlock_def ConvertAmountTo18DecimalsLegacy_def feeEnv.unit_gas(1))
  with wrapper_base_fee_agrees [OF feeEnv.fee_market_axioms f] show ?thesis by (auto simp: feeEnv_def)
qed

section \<open>A gas target of zero\<close>



end
