(* ===== verification/AccessList.thy ===== *)
theory AccessList
  imports Prelude
begin

text \<open>
  The per-transaction access list and the transient storage of the EVM state
  (\<open>src/x/vm/statedb/access_list.go\<close>, \<open>transient_storage.go\<close>). Addresses are 160-bit words,
  hashes 256-bit words; a Go map is a key-ordered store (theory Prelude) and a map to empty structs a
  set. An index outside a slice panics.
\<close>

type_synonym address = "160 word"
type_synonym hash = "256 word"

section \<open>The access list\<close>

record accessList =
  addresses :: "(address, int) kv"
  slots :: "hash set list"

definition newAccessList :: accessList where
  "newAccessList = \<lparr>addresses = [], slots = []\<rparr>"

definition ContainsAddress :: "accessList \<Rightarrow> address \<Rightarrow> bool" where
  "ContainsAddress al a \<longleftrightarrow> kv_get (addresses al) a \<noteq> None"

definition slot_at :: "accessList \<Rightarrow> int \<Rightarrow> hash set res" where
  "slot_at al idx =
     (if 0 \<le> idx \<and> nat idx < length (slots al) then Ok (slots al ! nat idx)
      else Panic (ErrMsg ''index out of range''))"

definition Contains :: "accessList \<Rightarrow> address \<Rightarrow> hash \<Rightarrow> (bool \<times> bool) res" where
  "Contains al a slot =
     (case kv_get (addresses al) a of
        None \<Rightarrow> Ok (False, False)
      | Some idx \<Rightarrow>
          if idx = - 1 then Ok (True, False)
          else res_bind (slot_at al idx) (\<lambda>slotmap. Ok (True, slot \<in> slotmap)))"

definition AddAddress :: "accessList \<Rightarrow> address \<Rightarrow> bool \<times> accessList" where
  "AddAddress al a =
     (if kv_get (addresses al) a \<noteq> None then (False, al)
      else (True, al\<lparr>addresses := kv_set a (- 1) (addresses al)\<rparr>))"

definition AddSlot :: "accessList \<Rightarrow> address \<Rightarrow> hash \<Rightarrow> ((bool \<times> bool) \<times> accessList) res" where
  "AddSlot al a slot =
     (let found = kv_get (addresses al) a in
      if found = None \<or> found = Some (- 1) then
        Ok ((found = None, True),
            al\<lparr>addresses := kv_set a (int (length (slots al))) (addresses al), slots := slots al @ [{slot}]\<rparr>)
      else
        let idx = the found in
        res_bind (slot_at al idx) (\<lambda>slotmap.
          if slot \<notin> slotmap then Ok ((False, True), al\<lparr>slots := (slots al)[nat idx := insert slot slotmap]\<rparr>)
          else Ok ((False, False), al)))"

definition DeleteSlot :: "accessList \<Rightarrow> address \<Rightarrow> hash \<Rightarrow> accessList res" where
  "DeleteSlot al a slot =
     (case kv_get (addresses al) a of
        None \<Rightarrow> Panic (ErrMsg ''reverting slot change, address not present in list'')
      | Some idx \<Rightarrow>
          res_bind (slot_at al idx) (\<lambda>slotmap.
            let slotmap' = slotmap - {slot}; al' = al\<lparr>slots := (slots al)[nat idx := slotmap']\<rparr> in
            if slotmap' = {}
            then Ok (al'\<lparr>slots := take (nat idx) (slots al'), addresses := kv_set a (- 1) (addresses al')\<rparr>)
            else Ok al'))"

definition DeleteAddress :: "accessList \<Rightarrow> address \<Rightarrow> accessList" where
  "DeleteAddress al a = al\<lparr>addresses := kv_delete a (addresses al)\<rparr>"

text \<open>Every index points to a slot set of its own, and no slot set is empty or unused.\<close>

definition al_wf :: "accessList \<Rightarrow> bool" where
  "al_wf al \<longleftrightarrow>
     kv_wf (addresses al) \<and>
     (\<forall>a i. kv_get (addresses al) a = Some i \<longrightarrow> i = - 1 \<or> 0 \<le> i \<and> nat i < length (slots al)) \<and>
     (\<forall>a b i. kv_get (addresses al) a = Some i \<longrightarrow> kv_get (addresses al) b = Some i \<longrightarrow> i \<noteq> - 1 \<longrightarrow> a = b) \<and>
     (\<forall>s\<in>set (slots al). s \<noteq> {})"

text \<open>What the list stands for: the warm addresses and the warm slots.\<close>

definition warm :: "accessList \<Rightarrow> address set" where
  "warm al = {a. kv_get (addresses al) a \<noteq> None}"

definition warmSlots :: "accessList \<Rightarrow> (address \<times> hash) set" where
  "warmSlots al = {(a, h). \<exists>i. kv_get (addresses al) a = Some i \<and> i \<noteq> - 1 \<and> h \<in> slots al ! nat i}"

lemma newAccessList_wf: "al_wf newAccessList" "warm newAccessList = {}" "warmSlots newAccessList = {}"
  by (simp_all add: newAccessList_def al_wf_def warm_def warmSlots_def)

lemma ContainsAddress_warm: "ContainsAddress al a \<longleftrightarrow> a \<in> warm al"
  by (simp add: ContainsAddress_def warm_def)

lemma Contains_warm: "al_wf al \<Longrightarrow> Contains al a h = Ok (a \<in> warm al, (a, h) \<in> warmSlots al)"
  by (fastforce simp: Contains_def warm_def warmSlots_def slot_at_def al_wf_def split: option.splits)

lemma al_wf_range:
  "al_wf al \<Longrightarrow> kv_get (addresses al) a = Some i \<Longrightarrow> i \<noteq> - 1 \<Longrightarrow> 0 \<le> i \<and> nat i < length (slots al)"
  unfolding al_wf_def by blast

lemma al_wf_unique:
  "al_wf al \<Longrightarrow> kv_get (addresses al) a = Some i \<Longrightarrow> kv_get (addresses al) b = Some i \<Longrightarrow> i \<noteq> - 1 \<Longrightarrow> a = b"
  unfolding al_wf_def by blast

lemma al_wfI:
  assumes "kv_wf (addresses al)"
    "\<And>a i. kv_get (addresses al) a = Some i \<Longrightarrow> i \<noteq> - 1 \<Longrightarrow> 0 \<le> i \<and> nat i < length (slots al)"
    "\<And>a b i. kv_get (addresses al) a = Some i \<Longrightarrow> kv_get (addresses al) b = Some i \<Longrightarrow> i \<noteq> - 1 \<Longrightarrow> a = b"
    "\<And>s. s \<in> set (slots al) \<Longrightarrow> s \<noteq> {}"
  shows "al_wf al"
  unfolding al_wf_def using assms by blast

lemma AddAddress_warm:
  assumes "AddAddress al a = (c, al')" "al_wf al"
  shows "al_wf al'" "warm al' = insert a (warm al)" "warmSlots al' = warmSlots al" "c \<longleftrightarrow> a \<notin> warm al"
proof -
  have "al_wf al' \<and> warm al' = insert a (warm al) \<and> warmSlots al' = warmSlots al \<and> (c \<longleftrightarrow> a \<notin> warm al)"
  proof (cases "kv_get (addresses al) a")
    case (Some i)
    then show ?thesis using assms by (auto simp: AddAddress_def warm_def)
  next
    case None
    then have al': "al' = al\<lparr>addresses := kv_set a (- 1) (addresses al)\<rparr>" and c
      using assms(1) by (simp_all add: AddAddress_def)
    have "al_wf al'"
    proof (rule al_wfI)
      show "kv_wf (addresses al')" using assms(2) by (simp add: al' al_wf_def)
      fix b i assume b: "kv_get (addresses al') b = Some i" "i \<noteq> - 1"
      then have "kv_get (addresses al) b = Some i" by (simp add: al' split: if_splits)
      with al_wf_range [OF assms(2) this b(2)] show "0 \<le> i \<and> nat i < length (slots al')" by (simp add: al')
      fix d assume "kv_get (addresses al') d = Some i"
      then have "kv_get (addresses al) d = Some i" using b(2) by (simp add: al' split: if_splits)
      with al_wf_unique [OF assms(2)] \<open>kv_get (addresses al) b = Some i\<close> b(2) show "b = d" by blast
    next
      fix s assume "s \<in> set (slots al')"
      then show "s \<noteq> {}" using assms(2) by (simp add: al' al_wf_def)
    qed
    moreover have "warm al' = insert a (warm al)" by (auto simp: al' warm_def)
    moreover have "warmSlots al' = warmSlots al" using None by (auto simp: al' warmSlots_def split: if_splits)
    ultimately show ?thesis using \<open>c\<close> None by (simp add: warm_def)
  qed
  then show "al_wf al'" "warm al' = insert a (warm al)" "warmSlots al' = warmSlots al" "c \<longleftrightarrow> a \<notin> warm al"
    by blast+
qed

lemma slot_cases:
  assumes wf: "al_wf al"
  obtains (absent) "kv_get (addresses al) a = None"
  | (bare) "kv_get (addresses al) a = Some (- 1)"
  | (indexed) i where "kv_get (addresses al) a = Some i" "0 \<le> i" "nat i < length (slots al)" "i \<noteq> - 1"
      "slot_at al i = Ok (slots al ! nat i)"
proof (cases "kv_get (addresses al) a")
  case (Some i)
  show thesis
  proof (cases "i = - 1")
    case False
    with al_wf_range [OF wf Some] Some show thesis by (intro indexed) (auto simp: slot_at_def)
  qed (use Some bare in simp)
qed (rule absent)

text \<open>Adding a slot succeeds, adds the address and the slot, and reports each that was new.\<close>

lemma AddSlot_new:
  assumes "kv_get (addresses al) a = None \<or> kv_get (addresses al) a = Some (- 1)"
  shows "AddSlot al a h = Ok ((kv_get (addresses al) a = None, True),
    al\<lparr>addresses := kv_set a (int (length (slots al))) (addresses al), slots := slots al @ [{h}]\<rparr>)"
  using assms by (auto simp: AddSlot_def Let_def)

lemma AddSlot_old:
  assumes "kv_get (addresses al) a = Some i" "i \<noteq> - 1" "slot_at al i = Ok (slots al ! nat i)"
  shows "AddSlot al a h = (if h \<in> slots al ! nat i then Ok ((False, False), al)
    else Ok ((False, True), al\<lparr>slots := (slots al)[nat i := insert h (slots al ! nat i)]\<rparr>))"
  using assms by (auto simp: AddSlot_def Let_def)

lemma AddSlot_new_wf:
  fixes h :: hash
  assumes wf: "al_wf al" and f: "kv_get (addresses al) a = None \<or> kv_get (addresses al) a = Some (- 1)"
  defines "al' \<equiv> al\<lparr>addresses := kv_set a (int (length (slots al))) (addresses al), slots := slots al @ [{h}]\<rparr>"
  shows "al_wf al'" "warm al' = insert a (warm al)" "warmSlots al' = insert (a, h) (warmSlots al)"
proof -
  note r = al_wf_range [OF wf]
  have g: "kv_get (addresses al') b = (if b = a then Some (int (length (slots al))) else kv_get (addresses al) b)" for b
    by (simp add: al'_def)
  show "al_wf al'"
  proof (rule al_wfI)
    show "kv_wf (addresses al')" using wf by (simp add: al'_def al_wf_def)
    fix b i assume b: "kv_get (addresses al') b = Some i" "i \<noteq> - 1"
    show "0 \<le> i \<and> nat i < length (slots al')"
      using b r [of b i] by (cases "b = a") (auto simp: g al'_def)
    fix c assume c: "kv_get (addresses al') c = Some i"
    show "b = c"
    proof (cases "b = a \<or> c = a")
      case True
      with b c r [of b i] r [of c i] show ?thesis by (cases "b = a"; cases "c = a") (auto simp: g)
    next
      case False
      with b c al_wf_unique [OF wf, of b i c] show ?thesis by (simp add: g)
    qed
  next
    fix s assume "s \<in> set (slots al')"
    then show "s \<noteq> {}" using wf by (auto simp: al'_def al_wf_def)
  qed
  show "warm al' = insert a (warm al)" by (auto simp: warm_def g)
  have "(b, k) \<in> warmSlots al' \<longleftrightarrow> (b, k) = (a, h) \<or> (b, k) \<in> warmSlots al" for b k
  proof (cases "b = a")
    case True
    then show ?thesis using f by (auto simp: warmSlots_def g) (simp_all add: al'_def)
  next
    case False
    then show ?thesis using r [of b] by (auto simp: warmSlots_def g) (auto simp: al'_def nth_append)
  qed
  then show "warmSlots al' = insert (a, h) (warmSlots al)" by auto
qed

lemma AddSlot_old_wf:
  fixes h :: hash
  assumes wf: "al_wf al" and i: "kv_get (addresses al) a = Some i" "i \<noteq> - 1"
  defines "al' \<equiv> al\<lparr>slots := (slots al)[nat i := insert h (slots al ! nat i)]\<rparr>"
  shows "al_wf al'" "warm al' = insert a (warm al)" "warmSlots al' = insert (a, h) (warmSlots al)"
proof -
  note r = al_wf_range [OF wf] and ri = al_wf_range [OF wf i]
  show "al_wf al'"
  proof (rule al_wfI)
    show "kv_wf (addresses al')" using wf by (simp add: al'_def al_wf_def)
    fix b j assume b: "kv_get (addresses al') b = Some j" "j \<noteq> - 1"
    then show "0 \<le> j \<and> nat j < length (slots al')" using r [of b j] by (simp add: al'_def)
    fix c assume "kv_get (addresses al') c = Some j"
    then show "b = c" using b al_wf_unique [OF wf, of b j c] by (simp add: al'_def)
  next
    fix s assume "s \<in> set (slots al')"
    then have "s \<in> insert (insert h (slots al ! nat i)) (set (slots al))"
      using set_update_subset_insert by (fastforce simp: al'_def)
    then show "s \<noteq> {}" using wf by (auto simp: al_wf_def)
  qed
  show "warm al' = insert a (warm al)" using i by (auto simp: al'_def warm_def)
  have "(b, k) \<in> warmSlots al' \<longleftrightarrow> (b, k) = (a, h) \<or> (b, k) \<in> warmSlots al" for b k
  proof (cases "b = a")
    case True
    then show ?thesis using i ri by (auto simp: warmSlots_def al'_def)
  next
    case False
    have "nat j \<noteq> nat i" if "kv_get (addresses al) b = Some j" "j \<noteq> - 1" for j
      using al_wf_unique [OF wf that(1), of a] that r [OF that] ri i False by (auto dest: eq_nat_nat_iff [THEN iffD1, rotated 2])
    then show ?thesis using False by (auto simp: warmSlots_def al'_def)
  qed
  then show "warmSlots al' = insert (a, h) (warmSlots al)" by auto
qed

lemma AddSlot_warm:
  assumes wf: "al_wf al"
  shows "\<exists>al'. AddSlot al a h = Ok ((a \<notin> warm al, (a, h) \<notin> warmSlots al), al') \<and> al_wf al' \<and>
    warm al' = insert a (warm al) \<and> warmSlots al' = insert (a, h) (warmSlots al)"
  using wf
proof (cases rule: slot_cases [of al a])
  case absent
  then show ?thesis using AddSlot_new_wf [OF wf, of a h] by (auto simp: AddSlot_new warm_def warmSlots_def)
next
  case bare
  then show ?thesis using AddSlot_new_wf [OF wf, of a h] by (auto simp: AddSlot_new warm_def warmSlots_def)
next
  case (indexed i)
  have "h \<in> slots al ! nat i \<longleftrightarrow> (a, h) \<in> warmSlots al" using indexed by (auto simp: warmSlots_def)
  moreover have "a \<in> warm al" using indexed by (simp add: warm_def)
  ultimately show ?thesis
    using AddSlot_old_wf [OF wf indexed(1,4), of h] wf
    by (cases "(a, h) \<in> warmSlots al") (simp_all add: AddSlot_old [OF indexed(1,4,5)] insert_absorb)
qed

section \<open>Undoing the additions\<close>

text \<open>The journal undoes an addition by the matching deletion, which restores the list exactly.\<close>

lemma DeleteAddress_undo:
  assumes "al_wf al" "AddAddress al a = (True, al')"
  shows "DeleteAddress al' a = al"
proof -
  from assms(2) have n: "kv_get (addresses al) a = None" and al': "al' = al\<lparr>addresses := kv_set a (- 1) (addresses al)\<rparr>"
    by (auto simp: AddAddress_def split: if_splits)
  have "kv_delete a (kv_set a (- 1) (addresses al)) = addresses al"
    using assms(1) n by (intro kv_eqI) (auto simp: al_wf_def)
  then show ?thesis by (simp add: DeleteAddress_def al')
qed

lemma DeleteSlot_undo:
  assumes wf: "al_wf al" and ok: "AddSlot al a h = Ok ((addrChange, True), al')"
  shows "res_bind (DeleteSlot al' a h) (\<lambda>al''. Ok (if addrChange then DeleteAddress al'' a else al'')) = Ok al"
  using wf
proof (cases rule: slot_cases [of al a])
  case (indexed i)
  from ok have h: "h \<notin> slots al ! nat i" and c: "\<not> addrChange"
    and al': "al' = al\<lparr>slots := (slots al)[nat i := insert h (slots al ! nat i)]\<rparr>"
    by (auto simp: AddSlot_old [OF indexed(1,4,5)] split: if_splits)
  have "slots al ! nat i \<noteq> {}" using wf indexed(3) by (simp add: al_wf_def)
  with h have "\<not> slots al ! nat i \<subseteq> {h}" by blast
  then have "DeleteSlot al' a h = Ok al"
    using indexed h by (simp add: DeleteSlot_def al' slot_at_def Let_def)
  with c show ?thesis by simp
next
  case absent
  then have c: "addrChange" and al': "al' = al\<lparr>addresses := kv_set a (int (length (slots al))) (addresses al), slots := slots al @ [{h}]\<rparr>"
    using ok by (simp_all add: AddSlot_new)
  have "kv_delete a (kv_set a (- 1) (kv_set a (int (length (slots al))) (addresses al))) = addresses al"
    using wf absent by (intro kv_eqI) (auto simp: al_wf_def)
  with c show ?thesis by (simp add: DeleteSlot_def al' slot_at_def Let_def DeleteAddress_def)
next
  case bare
  then have c: "\<not> addrChange" and al': "al' = al\<lparr>addresses := kv_set a (int (length (slots al))) (addresses al), slots := slots al @ [{h}]\<rparr>"
    using ok by (simp_all add: AddSlot_new)
  have "kv_set a (- 1) (kv_set a (int (length (slots al))) (addresses al)) = addresses al"
    using wf bare by (intro kv_eqI) (auto simp: al_wf_def)
  with c show ?thesis by (simp add: DeleteSlot_def al' slot_at_def Let_def)
qed

section \<open>Transient storage\<close>

type_synonym Storage = "(hash, hash) kv"
type_synonym transientStorage = "(address, Storage) kv"

definition newTransientStorage :: transientStorage where
  "newTransientStorage = []"

definition Transient_Set :: "transientStorage \<Rightarrow> address \<Rightarrow> hash \<Rightarrow> hash \<Rightarrow> transientStorage" where
  "Transient_Set t addr key value =
     (if value = 0 then
        (case kv_get t addr of
           None \<Rightarrow> t
         | Some storage \<Rightarrow>
             let storage' = kv_delete key storage in
             if storage' = [] then kv_delete addr t else kv_set addr storage' t)
      else
        let storage = (case kv_get t addr of None \<Rightarrow> [] | Some storage \<Rightarrow> storage) in
        kv_set addr (kv_set key value storage) t)"

definition Transient_Get :: "transientStorage \<Rightarrow> address \<Rightarrow> hash \<Rightarrow> hash" where
  "Transient_Get t addr key =
     (case kv_get t addr of
        None \<Rightarrow> 0
      | Some val \<Rightarrow> (case kv_get val key of None \<Rightarrow> 0 | Some v \<Rightarrow> v))"

definition Storage_Copy :: "Storage \<Rightarrow> Storage" where
  "Storage_Copy s = foldl (\<lambda>cpy (key, value). kv_set key value cpy) [] s"

definition Transient_Copy :: "transientStorage \<Rightarrow> transientStorage" where
  "Transient_Copy t = foldl (\<lambda>storage (key, value). kv_set key (Storage_Copy value) storage) [] t"

lemma kv_delete_nil: "kv_delete k kvs = [] \<Longrightarrow> k' \<noteq> k \<Longrightarrow> kv_get kvs k' = None"
  using kv_get_delete [of k kvs k'] by simp

lemma Transient_Get_Set:
  "Transient_Get (Transient_Set t a k v) a' k' = (if a' = a \<and> k' = k then v else Transient_Get t a' k')"
proof (cases "v = 0")
  case True
  then show ?thesis
    by (auto simp: Transient_Get_def Transient_Set_def Let_def dest: kv_delete_nil split: option.splits)
next
  case False
  then show ?thesis by (auto simp: Transient_Get_def Transient_Set_def Let_def split: option.splits)
qed

lemma kv_copy:
  assumes "kv_wf (acc @ kvs)"
  shows "foldl (\<lambda>cpy (key, value). kv_set key (f value) cpy) (map (\<lambda>(k, v). (k, f v)) acc) kvs =
    map (\<lambda>(k, v). (k, f v)) (acc @ kvs)"
  using assms
proof (induction kvs arbitrary: acc)
  case (Cons p kvs)
  obtain k v where p: "p = (k, v)" by (cases p)
  have "kv_wf ((acc @ [p]) @ kvs)" using Cons.prems by simp
  then have w: "kv_wf (acc @ [(k, v)])" by (simp add: kv_wf_def sorted_wrt_append p)
  have "kv_set k (f v) (map (\<lambda>(k, v). (k, f v)) acc) = map (\<lambda>(k, v). (k, f v)) (acc @ [(k, v)])"
    using w by (induction acc) (auto simp: kv_wf_Cons)
  with Cons.IH [of "acc @ [p]"] Cons.prems show ?case by (simp add: p)
qed simp

lemma Transient_Copy_id:
  assumes "kv_wf t" "\<forall>p\<in>set t. kv_wf (snd p)"
  shows "Transient_Copy t = t"
proof -
  have "Storage_Copy s = s" if "kv_wf s" for s
    using kv_copy [of "[]" s id] that by (simp add: Storage_Copy_def)
  with kv_copy [of "[]" t Storage_Copy] assms show ?thesis
    by (simp add: Transient_Copy_def map_idI split_beta)
qed

end
