(* ===== verification/SnapshotStore.thy ===== *)
theory SnapshotStore
  imports Prelude
begin

text \<open>
  The stores that let the EVM roll back precompile calls (\<open>src/x/vm/store\<close>): \<open>snapshotkv.Store\<close>, a stack
  of cache stores over an initial one, and \<open>snapshotmulti.Store\<close>, which keeps one such stack per module
  store and moves them in lockstep. The cache store itself (\<open>cosmossdk.io/store/cachekv\<close>) is a
  parameter: how a child is made, and what its parent becomes when the child is written. The locale
  \<open>cachekv\<close> states what the stacks rely on.
\<close>

section \<open>The cache stores\<close>

record 'c cache_ops =
  ckNew :: "'c \<Rightarrow> 'c"
  ckWrite :: "'c \<Rightarrow> 'c \<Rightarrow> 'c"

text \<open>A new child shows what its parent shows; writing a child makes its parent show what the child
  shows; writing into a store leaves it a child of its own parent.\<close>

locale cachekv =
  fixes C :: "'c cache_ops" and shows_value :: "'c \<Rightarrow> 'x \<Rightarrow> 'v" and child :: "'c \<Rightarrow> 'c \<Rightarrow> bool"
  assumes new_child: "child (ckNew C p) p"
    and new_shows: "shows_value (ckNew C p) = shows_value p"
    and write_shows: "child c p \<Longrightarrow> shows_value (ckWrite C c p) = shows_value c"
    and write_child: "child c p \<Longrightarrow> child (ckWrite C c' c) p"

section \<open>One store (snapshotkv/store.go)\<close>

record 'c snapkv =
  initialStore :: 'c
  cacheStores :: "'c list"

definition NewStore :: "'c \<Rightarrow> 'c snapkv" where
  "NewStore store = \<lparr>initialStore = store, cacheStores = []\<rparr>"

definition CurrentStore :: "'c snapkv \<Rightarrow> 'c" where
  "CurrentStore cs = (if cacheStores cs = [] then initialStore cs else last (cacheStores cs))"

text \<open>Writing a stack down: every layer, from the top, into the one below it.\<close>

fun write_down :: "'c cache_ops \<Rightarrow> 'c \<Rightarrow> 'c list \<Rightarrow> 'c" where
  "write_down C s [] = s"
| "write_down C s (c # cs) = ckWrite C (write_down C c cs) s"

text \<open>\<open>Commit\<close> also writes the initial store into the store it was opened on, the last argument.\<close>

definition snap_Commit :: "'c cache_ops \<Rightarrow> 'c snapkv \<Rightarrow> 'c \<Rightarrow> 'c snapkv \<times> 'c" where
  "snap_Commit C cs parent =
     (let initial = write_down C (initialStore cs) (cacheStores cs) in
      (\<lparr>initialStore = initial, cacheStores = []\<rparr>, ckWrite C initial parent))"

definition snap_Snapshot :: "'c cache_ops \<Rightarrow> 'c snapkv \<Rightarrow> int \<times> 'c snapkv" where
  "snap_Snapshot C cs =
     (let cs' = cs\<lparr>cacheStores := cacheStores cs @ [ckNew C (CurrentStore cs)]\<rparr> in
      (int (length (cacheStores cs')) - 1, cs'))"

definition snap_Revert :: "'c snapkv \<Rightarrow> int \<Rightarrow> 'c snapkv res" where
  "snap_Revert cs target =
     (if target < 0 \<or> int (length (cacheStores cs)) \<le> target
      then Panic (ErrMsg ''snapshot index out of bound'')
      else Ok (cs\<lparr>cacheStores := take (nat target) (cacheStores cs)\<rparr>))"

text \<open>Every write of a module goes to the top of the stack.\<close>

definition snap_update :: "('c \<Rightarrow> 'c) \<Rightarrow> 'c snapkv \<Rightarrow> 'c snapkv" where
  "snap_update f cs =
     (if cacheStores cs = [] then cs\<lparr>initialStore := f (initialStore cs)\<rparr>
      else cs\<lparr>cacheStores := butlast (cacheStores cs) @ [f (last (cacheStores cs))]\<rparr>)"

section \<open>Many stores (snapshotmulti/store.go)\<close>

record 'c snapmulti =
  stores :: "(string, 'c snapkv) kv"
  head :: int

definition InitialHead :: int where
  "InitialHead = 0"

definition NewStoreWithKVStores :: "(string, 'c) kv \<Rightarrow> 'c snapmulti" where
  "NewStoreWithKVStores kvs = \<lparr>stores = map (\<lambda>(k, c). (k, NewStore c)) kvs, head = InitialHead\<rparr>"

text \<open>\<open>NewStore\<close> opens the stores of the given keys, in the order of \<open>SortedKVStoreKeys\<close>; a multi store
  panics on a key it does not have.\<close>

definition SortedKVStoreKeys :: "string list \<Rightarrow> string list" where
  "SortedKVStoreKeys keys = sort (remdups keys)"

fun open_stores :: "(string, 'c) kv \<Rightarrow> string list \<Rightarrow> (string, 'c snapkv) kv res" where
  "open_stores cms [] = Ok []"
| "open_stores cms (key # keys) =
     (case kv_get cms key of
        None \<Rightarrow> Panic (ErrMsg ''kv store with key has not been registered in stores'')
      | Some store \<Rightarrow> res_bind (open_stores cms keys) (\<lambda>sts. Ok ((key, NewStore store) # sts)))"

definition Multi_NewStore :: "(string, 'c) kv \<Rightarrow> string list \<Rightarrow> 'c snapmulti res" where
  "Multi_NewStore cms keys =
     res_bind (open_stores cms (SortedKVStoreKeys keys)) (\<lambda>sts. Ok \<lparr>stores = sts, head = InitialHead\<rparr>)"

definition Multi_Snapshot :: "'c cache_ops \<Rightarrow> 'c snapmulti \<Rightarrow> int \<times> 'c snapmulti" where
  "Multi_Snapshot C s =
     (let s' = \<lparr>stores = map (\<lambda>(k, cs). (k, snd (snap_Snapshot C cs))) (stores s), head = head s + 1\<rparr> in
      (head s' - 1, s'))"

fun revert_stores :: "(string, 'c snapkv) kv \<Rightarrow> int \<Rightarrow> (string, 'c snapkv) kv res" where
  "revert_stores [] target = Ok []"
| "revert_stores ((k, cs) # kvs) target =
     res_bind (snap_Revert cs target) (\<lambda>cs'.
     res_bind (revert_stores kvs target) (\<lambda>kvs'. Ok ((k, cs') # kvs')))"

definition Multi_Revert :: "'c snapmulti \<Rightarrow> int \<Rightarrow> 'c snapmulti res" where
  "Multi_Revert s target =
     res_bind (revert_stores (stores s) target) (\<lambda>kvs. Ok \<lparr>stores = kvs, head = target\<rparr>)"

definition Multi_GetKVStore :: "'c snapmulti \<Rightarrow> string \<Rightarrow> 'c res" where
  "Multi_GetKVStore s key =
     (case kv_get (stores s) key of
        None \<Rightarrow> Panic (ErrMsg ''kv store has not been registered in stores'')
      | Some store \<Rightarrow> Ok (CurrentStore store))"

definition Multi_LatestVersion :: "'c snapmulti \<Rightarrow> int" where
  "Multi_LatestVersion s = head s"

text \<open>\<open>Write\<close> commits every store into its own parent.\<close>

definition Multi_Write :: "'c cache_ops \<Rightarrow> 'c snapmulti \<Rightarrow> (string, 'c) kv \<Rightarrow> 'c snapmulti \<times> (string, 'c) kv" where
  "Multi_Write C s parents =
     (\<lparr>stores = map (\<lambda>(k, cs). (k, case kv_get parents k of None \<Rightarrow> cs | Some p \<Rightarrow> fst (snap_Commit C cs p))) (stores s),
       head = InitialHead\<rparr>,
      map (\<lambda>(k, p). (k, case kv_get (stores s) k of None \<Rightarrow> p | Some cs \<Rightarrow> snd (snap_Commit C cs p))) parents)"

text \<open>\<open>CacheMultiStore\<close> hands out the store itself, one snapshot higher.\<close>

definition CacheMultiStore :: "'c cache_ops \<Rightarrow> 'c snapmulti \<Rightarrow> 'c snapmulti" where
  "CacheMultiStore C s = snd (Multi_Snapshot C s)"

section \<open>Rolling back\<close>

text \<open>What happens to a store between a snapshot and its revert: writes at the top, further snapshots, and
  reverts to those.\<close>

datatype 'c snap_op = SnapUpdate "'c \<Rightarrow> 'c" | SnapTake | SnapRevert int

fun snap_exec :: "'c cache_ops \<Rightarrow> 'c snapkv \<Rightarrow> 'c snap_op \<Rightarrow> 'c snapkv res" where
  "snap_exec C cs (SnapUpdate f) = Ok (snap_update f cs)"
| "snap_exec C cs SnapTake = Ok (snd (snap_Snapshot C cs))"
| "snap_exec C cs (SnapRevert t) = snap_Revert cs t"

fun snap_run :: "'c cache_ops \<Rightarrow> 'c snapkv \<Rightarrow> 'c snap_op list \<Rightarrow> 'c snapkv res" where
  "snap_run C cs [] = Ok cs"
| "snap_run C cs (x # xs) = res_bind (snap_exec C cs x) (\<lambda>cs'. snap_run C cs' xs)"

text \<open>The layers below a snapshot are never touched until a revert goes below it.\<close>

lemma snap_exec_prefix:
  assumes "snap_exec C cs x = Ok cs'" "n < length (cacheStores cs)"
    "\<And>t. x = SnapRevert t \<Longrightarrow> int n < t"
  shows "n < length (cacheStores cs') \<and> take n (cacheStores cs') = take n (cacheStores cs) \<and>
    initialStore cs' = initialStore cs"
proof (cases x)
  case (SnapUpdate f)
  with assms show ?thesis by (auto simp: snap_update_def butlast_conv_take min_def)
next
  case SnapTake
  with assms show ?thesis by (auto simp: snap_Snapshot_def Let_def)
next
  case (SnapRevert t)
  with assms show ?thesis by (auto simp: snap_Revert_def min_def split: if_splits)
qed

lemma snap_run_prefix:
  assumes "snap_run C cs xs = Ok cs'" "n < length (cacheStores cs)" "\<forall>t. SnapRevert t \<in> set xs \<longrightarrow> int n < t"
  shows "n < length (cacheStores cs') \<and> take n (cacheStores cs') = take n (cacheStores cs) \<and>
    initialStore cs' = initialStore cs"
  using assms
proof (induction xs arbitrary: cs)
  case (Cons x xs)
  from Cons.prems(1) obtain cs1 where c: "snap_exec C cs x = Ok cs1" "snap_run C cs1 xs = Ok cs'"
    by (auto simp: res_bind_Ok)
  from snap_exec_prefix [OF c(1) Cons.prems(2)] Cons.prems(3) have
    "n < length (cacheStores cs1) \<and> take n (cacheStores cs1) = take n (cacheStores cs) \<and>
     initialStore cs1 = initialStore cs" by auto
  with Cons.IH [OF c(2)] Cons.prems(3) show ?case by auto
qed simp

lemma snap_round_trip:
  assumes "snap_Snapshot C cs = (idx, cs1)" "snap_run C cs1 xs = Ok cs2" "\<forall>t. SnapRevert t \<in> set xs \<longrightarrow> idx < t"
  shows "snap_Revert cs2 idx = Ok cs"
proof -
  let ?n = "length (cacheStores cs)"
  from assms(1) have idx: "idx = int ?n" and cs1: "cs1 = cs\<lparr>cacheStores := cacheStores cs @ [ckNew C (CurrentStore cs)]\<rparr>"
    by (auto simp: snap_Snapshot_def Let_def)
  have "?n < length (cacheStores cs1)" by (simp add: cs1)
  from snap_run_prefix [OF assms(2) this] assms(3) idx cs1 have
    "?n < length (cacheStores cs2)" "take ?n (cacheStores cs2) = cacheStores cs" "initialStore cs2 = initialStore cs"
    by auto
  then show ?thesis by (simp add: snap_Revert_def idx)
qed

fun chained :: "('c \<Rightarrow> 'c \<Rightarrow> bool) \<Rightarrow> 'c \<Rightarrow> 'c list \<Rightarrow> bool" where
  "chained child s [] \<longleftrightarrow> True"
| "chained child s (c # cs) \<longleftrightarrow> child c s \<and> chained child c cs"

lemma chained_append:
  "chained child s (cs @ [c]) \<longleftrightarrow> chained child s cs \<and> child c (if cs = [] then s else last cs)"
  by (induction cs arbitrary: s) auto

context cachekv
begin

lemma snapshot_chained:
  "chained child (initialStore cs) (cacheStores cs) \<Longrightarrow>
    chained child (initialStore (snd (snap_Snapshot C cs))) (cacheStores (snd (snap_Snapshot C cs)))"
  by (simp add: snap_Snapshot_def Let_def chained_append CurrentStore_def new_child)

lemma revert_chained:
  "chained child (initialStore cs) (cacheStores cs) \<Longrightarrow> snap_Revert cs t = Ok cs' \<Longrightarrow>
    chained child (initialStore cs') (cacheStores cs')"
proof -
  have "chained child s (take n cs)" if "chained child s cs" for s cs n
    using that by (induction cs arbitrary: s n) (auto simp: take_Cons split: nat.splits)
  then show "chained child (initialStore cs) (cacheStores cs) \<Longrightarrow> snap_Revert cs t = Ok cs' \<Longrightarrow>
      chained child (initialStore cs') (cacheStores cs')"
    by (auto simp: snap_Revert_def split: if_splits)
qed

lemma snapshot_shows: "shows_value (CurrentStore (snd (snap_Snapshot C cs))) = shows_value (CurrentStore cs)"
  by (simp add: snap_Snapshot_def Let_def CurrentStore_def new_shows)

lemma write_down_child: "child s p \<Longrightarrow> child (write_down C s cs) p"
  by (cases cs) (simp_all add: write_child)

lemma write_down_shows:
  "chained child s cs \<Longrightarrow> shows_value (write_down C s cs) = shows_value (if cs = [] then s else last cs)"
  by (induction cs arbitrary: s) (auto simp: write_shows write_down_child)

lemma commit_shows:
  assumes "chained child p (initialStore cs # cacheStores cs)"
  shows "shows_value (CurrentStore (fst (snap_Commit C cs p))) = shows_value (CurrentStore cs)"
    and "shows_value (snd (snap_Commit C cs p)) = shows_value (CurrentStore cs)"
  using assms by (auto simp: snap_Commit_def CurrentStore_def Let_def write_down_shows write_shows write_down_child)

end

text \<open>The cache stores as the SDK documents them: a child buffers its writes and deletions and reads
  through to its parent.\<close>

datatype ('x, 'v) layer = Base "'x \<Rightarrow> 'v option" | Cached "'x \<Rightarrow> 'v option option" "('x, 'v) layer"

primrec layer_get :: "('x, 'v) layer \<Rightarrow> 'x \<Rightarrow> 'v option" where
  "layer_get (Base m) x = m x"
| "layer_get (Cached buf p) x = (case buf x of None \<Rightarrow> layer_get p x | Some v \<Rightarrow> v)"

primrec layer_put :: "('x \<Rightarrow> 'v option option) \<Rightarrow> ('x, 'v) layer \<Rightarrow> ('x, 'v) layer" where
  "layer_put buf (Base m) = Base (\<lambda>x. case buf x of None \<Rightarrow> m x | Some v \<Rightarrow> v)"
| "layer_put buf (Cached buf' p) = Cached (\<lambda>x. case buf x of None \<Rightarrow> buf' x | Some v \<Rightarrow> Some v) p"

primrec layer_buf :: "('x, 'v) layer \<Rightarrow> 'x \<Rightarrow> 'v option option" where
  "layer_buf (Base m) x = None"
| "layer_buf (Cached buf p) x = buf x"

definition layerOps :: "('x, 'v) layer cache_ops" where
  "layerOps = \<lparr>ckNew = Cached (\<lambda>_. None), ckWrite = (\<lambda>c p. layer_put (layer_buf c) p)\<rparr>"

lemma layer_get_put:
  "layer_get (layer_put buf p) x = (case buf x of None \<Rightarrow> layer_get p x | Some v \<Rightarrow> v)"
  by (cases p) (auto split: option.splits)

primrec layer_child :: "('x, 'v) layer \<Rightarrow> ('x, 'v) layer \<Rightarrow> bool" where
  "layer_child (Base m) p \<longleftrightarrow> False"
| "layer_child (Cached buf q) p \<longleftrightarrow> q = p"

lemma layer_child_cases: "layer_child c p \<Longrightarrow> \<exists>buf. c = Cached buf p"
  by (cases c) auto

interpretation layered: cachekv layerOps layer_get layer_child
  by unfold_locales
    (auto simp: layerOps_def layer_get_put fun_eq_iff dest!: layer_child_cases split: option.splits)

section \<open>Lockstep of the module stores\<close>

definition lockstep :: "'c snapmulti \<Rightarrow> bool" where
  "lockstep s \<longleftrightarrow> 0 \<le> head s \<and> (\<forall>p\<in>set (stores s). int (length (cacheStores (snd p))) = head s)"

lemma lockstep_new: "lockstep (NewStoreWithKVStores kvs)"
  by (auto simp: lockstep_def NewStoreWithKVStores_def InitialHead_def NewStore_def)

lemma open_stores_fresh:
  "open_stores cms keys = Ok sts \<Longrightarrow> p \<in> set sts \<Longrightarrow> cacheStores (snd p) = []"
  by (induction cms keys arbitrary: sts rule: open_stores.induct)
    (auto simp: res_bind_Ok NewStore_def split: option.splits)

lemma lockstep_open: "Multi_NewStore cms keys = Ok s \<Longrightarrow> lockstep s"
  by (fastforce simp: Multi_NewStore_def res_bind_Ok lockstep_def InitialHead_def dest: open_stores_fresh)

lemma lockstep_snapshot: "lockstep s \<Longrightarrow> lockstep (snd (Multi_Snapshot C s))"
  by (auto simp: lockstep_def Multi_Snapshot_def Let_def snap_Snapshot_def)

lemma lockstep_write:
  assumes "\<And>k. kv_get (stores s) k \<noteq> None \<Longrightarrow> kv_get parents k \<noteq> None"
  shows "lockstep (fst (Multi_Write C s parents))"
proof -
  have "kv_get parents k \<noteq> None" if "(k, cs) \<in> set (stores s)" for k cs
    using assms [of k] that by (metis (no_types) kv_get_def map_of_eq_None_iff image_eqI fst_conv)
  then show ?thesis
    by (fastforce simp: lockstep_def Multi_Write_def InitialHead_def snap_Commit_def Let_def split: option.splits)
qed

lemma revert_stores_ok:
  assumes "\<forall>p\<in>set kvs. int (length (cacheStores (snd p))) = h" "0 \<le> t" "t < h"
  shows "revert_stores kvs t = Ok (map (\<lambda>(k, cs). (k, cs\<lparr>cacheStores := take (nat t) (cacheStores cs)\<rparr>)) kvs)"
  using assms by (induction kvs t rule: revert_stores.induct) (auto simp: snap_Revert_def)

lemma lockstep_revert:
  assumes "lockstep s" "0 \<le> t" "t < head s"
  shows "\<exists>s'. Multi_Revert s t = Ok s' \<and> lockstep s' \<and> head s' = t"
proof -
  have "revert_stores (stores s) t = Ok (map (\<lambda>(k, cs). (k, cs\<lparr>cacheStores := take (nat t) (cacheStores cs)\<rparr>)) (stores s))"
    using assms by (intro revert_stores_ok [where h = "head s"]) (auto simp: lockstep_def)
  with assms show ?thesis by (auto simp: Multi_Revert_def lockstep_def min_def)
qed

text \<open>With no store registered nothing checks the index; with one, an index that is not below the head
  panics.\<close>

lemma multi_revert_panics:
  assumes "lockstep s" "stores s \<noteq> []" "t < 0 \<or> head s \<le> t"
  shows "\<exists>e. Multi_Revert s t = Panic e"
proof -
  obtain k cs kvs where k: "stores s = (k, cs) # kvs" using assms(2) by (cases "stores s") auto
  have "int (length (cacheStores cs)) = head s" using assms(1) k by (simp add: lockstep_def)
  with assms(3) show ?thesis by (auto simp: Multi_Revert_def k snap_Revert_def)
qed

text \<open>Code that runs on a context works on the current stores; its writes go to the top of each stack.\<close>

definition multi_current :: "'c snapmulti \<Rightarrow> (string, 'c) kv" where
  "multi_current s = map (\<lambda>(k, cs). (k, CurrentStore cs)) (stores s)"

definition multi_put :: "(string, 'c) kv \<Rightarrow> 'c snapmulti \<Rightarrow> 'c snapmulti" where
  "multi_put m s =
     s\<lparr>stores := map (\<lambda>(k, cs). (k, case kv_get m k of None \<Rightarrow> cs | Some c \<Rightarrow> snap_update (\<lambda>_. c) cs)) (stores s)\<rparr>"

lemma multi_put_take:
  assumes "int n < head s" "lockstep s"
  shows "lockstep (multi_put m s)" "head (multi_put m s) = head s"
    "map (\<lambda>(k, cs). (k, cs\<lparr>cacheStores := take n (cacheStores cs)\<rparr>)) (stores (multi_put m s)) =
     map (\<lambda>(k, cs). (k, cs\<lparr>cacheStores := take n (cacheStores cs)\<rparr>)) (stores s)"
proof -
  have len: "n < length (cacheStores cs)" if "(k, cs) \<in> set (stores s)" for k cs
    using assms that by (force simp: lockstep_def)
  have upd: "length (cacheStores (snap_update f cs)) = length (cacheStores cs) \<and>
      (snap_update f cs)\<lparr>cacheStores := take n (cacheStores (snap_update f cs))\<rparr> =
      cs\<lparr>cacheStores := take n (cacheStores cs)\<rparr>" if "n < length (cacheStores cs)" for cs :: "'a snapkv" and f
    using that by (cases "cacheStores cs" rule: rev_cases) (auto simp: snap_update_def)
  show "lockstep (multi_put m s)"
    using assms upd len by (fastforce simp: lockstep_def multi_put_def split: option.splits)
  show "map (\<lambda>(k, cs). (k, cs\<lparr>cacheStores := take n (cacheStores cs)\<rparr>)) (stores (multi_put m s)) =
     map (\<lambda>(k, cs). (k, cs\<lparr>cacheStores := take n (cacheStores cs)\<rparr>)) (stores s)"
    using upd len by (auto simp: multi_put_def split: option.splits)
qed (simp add: multi_put_def)

text \<open>A history of the multi store: writes to one registered store, snapshots, reverts.\<close>

datatype 'c multi_op = MultiUpdate string "'c \<Rightarrow> 'c" | MultiTake | MultiRevert int

fun multi_exec :: "'c cache_ops \<Rightarrow> 'c snapmulti \<Rightarrow> 'c multi_op \<Rightarrow> 'c snapmulti res" where
  "multi_exec C s (MultiUpdate key f) =
     res_bind (Multi_GetKVStore s key) (\<lambda>_.
       Ok (s\<lparr>stores := map (\<lambda>(k, cs). (k, if k = key then snap_update f cs else cs)) (stores s)\<rparr>))"
| "multi_exec C s MultiTake = Ok (snd (Multi_Snapshot C s))"
| "multi_exec C s (MultiRevert t) = Multi_Revert s t"

fun multi_run :: "'c cache_ops \<Rightarrow> 'c snapmulti \<Rightarrow> 'c multi_op list \<Rightarrow> 'c snapmulti res" where
  "multi_run C s [] = Ok s"
| "multi_run C s (x # xs) = res_bind (multi_exec C s x) (\<lambda>s'. multi_run C s' xs)"

text \<open>Two multi stores that agree below layer \<open>n\<close>.\<close>

definition agree_below :: "nat \<Rightarrow> 'c snapmulti \<Rightarrow> 'c snapmulti \<Rightarrow> bool" where
  "agree_below n s s' \<longleftrightarrow>
     map (\<lambda>(k, cs). (k, initialStore cs, take n (cacheStores cs))) (stores s) =
     map (\<lambda>(k, cs). (k, initialStore cs, take n (cacheStores cs))) (stores s')"

lemma multi_exec_below:
  assumes ok: "multi_exec C s x = Ok s'" and lk: "lockstep s" "stores s \<noteq> []" and n: "int n < head s"
    and above: "\<And>t. x = MultiRevert t \<Longrightarrow> int n < t"
  shows "lockstep s' \<and> stores s' \<noteq> [] \<and> int n < head s' \<and> agree_below n s s'"
proof -
  have len: "n < length (cacheStores cs)" if "(k, cs) \<in> set (stores s)" for k cs
    using lk n that by (force simp: lockstep_def)
  show ?thesis
  proof (cases x)
    case (MultiUpdate key f)
    with ok have s': "s' = s\<lparr>stores := map (\<lambda>(k, cs). (k, if k = key then snap_update f cs else cs)) (stores s)\<rparr>"
      by (auto simp: res_bind_Ok)
    have upd: "length (cacheStores (snap_update f cs)) = length (cacheStores cs) \<and>
        initialStore (snap_update f cs) = initialStore cs \<and>
        take n (cacheStores (snap_update f cs)) = take n (cacheStores cs)" if "n < length (cacheStores cs)" for cs
      using that by (cases "cacheStores cs" rule: rev_cases) (auto simp: snap_update_def)
    have "lockstep s'" using lk len upd by (fastforce simp: s' lockstep_def)
    moreover have "agree_below n s s'" using len upd by (auto simp: agree_below_def s')
    ultimately show ?thesis using lk n by (simp add: s')
  next
    case MultiTake
    then have s': "s' = snd (Multi_Snapshot C s)" using ok by simp
    have "agree_below n s s'" using len
      by (auto simp: s' agree_below_def Multi_Snapshot_def Let_def snap_Snapshot_def less_imp_le)
    moreover have "head s' = head s + 1" "stores s' \<noteq> []" using lk(2) by (simp_all add: s' Multi_Snapshot_def Let_def)
    ultimately show ?thesis using lockstep_snapshot [OF lk(1), of C] n by (simp add: s')
  next
    case (MultiRevert t)
    from above [OF MultiRevert] have t: "int n < t" .
    have hd: "t < head s"
      using multi_revert_panics [OF lk, of t] ok MultiRevert by force
    have "revert_stores (stores s) t =
        Ok (map (\<lambda>(k, cs). (k, cs\<lparr>cacheStores := take (nat t) (cacheStores cs)\<rparr>)) (stores s))"
      using lk t hd by (intro revert_stores_ok [where h = "head s"]) (auto simp: lockstep_def)
    with ok MultiRevert have s': "s' = \<lparr>stores = map (\<lambda>(k, cs). (k, cs\<lparr>cacheStores := take (nat t) (cacheStores cs)\<rparr>)) (stores s), head = t\<rparr>"
      by (simp add: Multi_Revert_def)
    have "agree_below n s s'" using t by (auto simp: agree_below_def s' min_def)
    moreover have "lockstep s'" using lockstep_revert [OF lk(1), of t] t hd ok MultiRevert by auto
    ultimately show ?thesis using t lk(2) by (simp add: s')
  qed
qed

lemma multi_run_below:
  assumes "multi_run C s xs = Ok s'" "lockstep s" "stores s \<noteq> []" "int n < head s"
    "\<forall>t. MultiRevert t \<in> set xs \<longrightarrow> int n < t"
  shows "lockstep s' \<and> stores s' \<noteq> [] \<and> int n < head s' \<and> agree_below n s s'"
  using assms
proof (induction xs arbitrary: s)
  case (Cons x xs)
  from Cons.prems(1) obtain s1 where c: "multi_exec C s x = Ok s1" "multi_run C s1 xs = Ok s'"
    by (auto simp: res_bind_Ok)
  from multi_exec_below [OF c(1) Cons.prems(2-4)] Cons.prems(5) have
    s1: "lockstep s1" "stores s1 \<noteq> []" "int n < head s1" "agree_below n s s1" by auto
  from Cons.IH [OF c(2) s1(1-3)] Cons.prems(5) s1(4) show ?case by (auto simp: agree_below_def)
qed (simp add: agree_below_def)

text \<open>A snapshot, any history that stays above it, and the revert: the multi store is as it was.\<close>

lemma multi_round_trip:
  assumes lk: "lockstep s" "stores s \<noteq> []" and sn: "Multi_Snapshot C s = (idx, s1)"
    and run: "multi_run C s1 xs = Ok s2" "\<forall>t. MultiRevert t \<in> set xs \<longrightarrow> idx < t"
  shows "Multi_Revert s2 idx = Ok s"
proof -
  let ?n = "nat (head s)"
  have h: "0 \<le> head s" using lk by (simp add: lockstep_def)
  from sn have idx: "idx = head s" and hd1: "head s1 = head s + 1"
    and s1: "stores s1 = map (\<lambda>(k, cs). (k, snd (snap_Snapshot C cs))) (stores s)" "lockstep s1"
    using lockstep_snapshot [OF lk(1), of C] by (auto simp: Multi_Snapshot_def Let_def)
  from multi_run_below [OF run(1) s1(2), of ?n] s1(1) lk(2) run(2) idx hd1 h have
    s2: "lockstep s2" "head s < head s2" "agree_below ?n s1 s2" by auto
  have "revert_stores (stores s2) idx = Ok (map (\<lambda>(k, cs). (k, cs\<lparr>cacheStores := take ?n (cacheStores cs)\<rparr>)) (stores s2))"
    using s2 h unfolding idx by (intro revert_stores_ok [where h = "head s2"]) (auto simp: lockstep_def)
  also have "map (\<lambda>(k, cs). (k, cs\<lparr>cacheStores := take ?n (cacheStores cs)\<rparr>)) (stores s2) =
      map (\<lambda>(k, i, c). (k, \<lparr>initialStore = i, cacheStores = c\<rparr>))
        (map (\<lambda>(k, cs). (k, initialStore cs, take ?n (cacheStores cs))) (stores s2))"
    by auto
  also have "\<dots> = stores s"
    unfolding s2(3) [unfolded agree_below_def, symmetric] s1(1) map_map
  proof (rule map_idI)
    fix p assume p: "p \<in> set (stores s)"
    obtain k cs where kc: "p = (k, cs)" by (cases p)
    have "?n = length (cacheStores cs)" using lk(1) p by (auto simp: lockstep_def kc)
    then show "((\<lambda>(k, i, c). (k, \<lparr>initialStore = i, cacheStores = c\<rparr>)) \<circ>
        ((\<lambda>(k, cs). (k, initialStore cs, take ?n (cacheStores cs))) \<circ> (\<lambda>(k, cs). (k, snd (snap_Snapshot C cs))))) p = p"
      by (simp add: kc snap_Snapshot_def Let_def)
  qed
  finally show ?thesis by (simp add: Multi_Revert_def idx)
qed

end
