(* ===== verification/StateDB.thy ===== *)
theory StateDB
  imports AccessList SnapshotStore
begin

text \<open>
  The EVM state of one transaction (\<open>src/x/vm/statedb\<close>): the state objects with their storage
  caches, the journal of changes, snapshots and reverts over it, and the commit into the keeper.

  A \<open>*StateDB\<close> is a record passed through every operation, and a read that loads an object or a slot
  into a cache returns the changed record. The live objects are values of an ordered store; an operation that
  changes an object through its pointer writes it back. The context is the multi store it reads (\<open>ctxStore\<close>) and
  the events emitted on it; the cache context of a precompile call is the snapshot store of theory SnapshotStore.
  The keeper the state is loaded from and committed to (\<open>interfaces.go\<close>) is the record \<open>StateKeeper\<close>; the hash
  function and the cache stores are parameters. A nil map read, a nil pointer and an index out of range panic.
\<close>

type_synonym bytes = "8 word list"

section \<open>Hashes and bytes\<close>

text \<open>\<open>common.Hash.Bytes\<close> and \<open>common.BytesToHash\<close>: the 32 big-endian bytes of a hash, and the hash of the last 32
  bytes of a slice.\<close>

fun be_bytes :: "nat \<Rightarrow> nat \<Rightarrow> bytes" where
  "be_bytes 0 x = []"
| "be_bytes (Suc n) x = be_bytes n (x div 256) @ [word_of_nat (x mod 256)]"

definition Hash_Bytes :: "hash \<Rightarrow> bytes" where
  "Hash_Bytes h = be_bytes 32 (unat h)"

definition BytesToHash :: "bytes \<Rightarrow> hash" where
  "BytesToHash bs = foldl (\<lambda>acc b. acc * 256 + ucast b) 0 bs"

lemma be_bytes_length [simp]: "length (be_bytes n x) = n"
  by (induction n arbitrary: x) auto

lemma be_bytes_decode:
  "foldl (\<lambda>acc b. acc * 256 + ucast b) 0 (be_bytes n x) = (word_of_nat (x mod 256 ^ n) :: 'a::len word)"
proof (induction n arbitrary: x)
  case (Suc n)
  have "unat (word_of_nat (x mod 256) :: 8 word) = x mod 256"
    by (simp add: unsigned_of_nat take_bit_eq_mod)
  then have "ucast (word_of_nat (x mod 256) :: 8 word) = (word_of_nat (x mod 256) :: 'a word)"
    by (metis unsigned_of_nat of_nat_take_bit of_nat_unat)
  moreover have "x mod 256 ^ Suc n = x div 256 mod 256 ^ n * 256 + x mod 256"
    by (simp add: mod_mult2_eq)
  ultimately show ?case by (simp add: Suc)
qed simp

lemma BytesToHash_Bytes [simp]: "BytesToHash (Hash_Bytes h) = h"
proof -
  have "unat h mod 256 ^ 32 = unat h" using unsigned_less [of h, where ?'a = nat] by simp
  then show ?thesis by (simp add: BytesToHash_def Hash_Bytes_def be_bytes_decode del: power_numeral)
qed

lemma Hash_Bytes_nonempty [simp]: "Hash_Bytes h \<noteq> []"
  by (metis Hash_Bytes_def be_bytes_length list.size(3) zero_neq_numeral)

section \<open>Accounts and state objects (state_object.go)\<close>

text \<open>\<open>Account\<close>: the balance pointer and the code hash slice may be nil.\<close>

record Account =
  Nonce :: "64 word"
  Balance :: "256 word option"
  CodeHash :: "hash option"

record stateObject =
  address :: address
  accNonce :: "64 word"
  accBalance :: "256 word"
  accCodeHash :: hash
  code :: "bytes option"
  originStorage :: Storage
  dirtyStorage :: Storage
  overrideStorage :: "Storage option"
  dirtyCode :: bool
  selfDestructed :: bool
  newContract :: bool

text \<open>The keeper behind the state. Its writes return the error they report together with the store they leave.\<close>

record 'm StateKeeper =
  kGetAccount :: "'m \<Rightarrow> address \<Rightarrow> Account option"
  kGetState :: "'m \<Rightarrow> address \<Rightarrow> hash \<Rightarrow> hash"
  kGetCode :: "'m \<Rightarrow> hash \<Rightarrow> bytes option"
  kForEachStorage :: "'m \<Rightarrow> address \<Rightarrow> (hash \<times> hash) list"
  kSetAccount :: "'m \<Rightarrow> address \<Rightarrow> Account \<Rightarrow> (error option \<times> 'm) res"
  kDeleteState :: "'m \<Rightarrow> address \<Rightarrow> hash \<Rightarrow> 'm"
  kSetState :: "'m \<Rightarrow> address \<Rightarrow> hash \<Rightarrow> bytes \<Rightarrow> 'm"
  kDeleteCode :: "'m \<Rightarrow> hash \<Rightarrow> 'm"
  kSetCode :: "'m \<Rightarrow> hash \<Rightarrow> bytes \<Rightarrow> 'm"
  kDeleteAccount :: "'m \<Rightarrow> address \<Rightarrow> (error option \<times> 'm) res"
  kKVStoreKeys :: "string list"

type_synonym 'c multistore = "(string, 'c) kv"

text \<open>What a state is run with: its keeper, the cache stores and Keccak-256.\<close>

record 'c sdbEnv =
  keeper :: "'c multistore StateKeeper"
  cacheOps :: "'c cache_ops"
  keccak :: "bytes \<Rightarrow> hash"

definition EmptyCodeHash :: "'c sdbEnv \<Rightarrow> hash" where
  "EmptyCodeHash E = keccak E []"

definition IsEmptyCodeHash :: "'c sdbEnv \<Rightarrow> hash \<Rightarrow> bool" where
  "IsEmptyCodeHash E h \<longleftrightarrow> h = EmptyCodeHash E"

definition NewEmptyAccount :: "'c sdbEnv \<Rightarrow> Account" where
  "NewEmptyAccount E = \<lparr>Nonce = 0, Balance = Some 0, CodeHash = Some (EmptyCodeHash E)\<rparr>"

definition HasCodeHash :: "'c sdbEnv \<Rightarrow> Account \<Rightarrow> bool" where
  "HasCodeHash E acct \<longleftrightarrow> CodeHash acct \<noteq> Some (EmptyCodeHash E)"

definition SortedKeys :: "Storage \<Rightarrow> hash list" where
  "SortedKeys s = map fst s"

definition newObject :: "'c sdbEnv \<Rightarrow> address \<Rightarrow> Account \<Rightarrow> stateObject" where
  "newObject E addr acct =
     \<lparr>address = addr, accNonce = Nonce acct,
      accBalance = (case Balance acct of None \<Rightarrow> 0 | Some b \<Rightarrow> b),
      accCodeHash = (case CodeHash acct of None \<Rightarrow> EmptyCodeHash E | Some h \<Rightarrow> h),
      code = None, originStorage = [], dirtyStorage = [], overrideStorage = None,
      dirtyCode = False, selfDestructed = False, newContract = False\<rparr>"

definition obj_empty :: "'c sdbEnv \<Rightarrow> stateObject \<Rightarrow> bool" where
  "obj_empty E obj \<longleftrightarrow> accNonce obj = 0 \<and> accBalance obj = 0 \<and> IsEmptyCodeHash E (accCodeHash obj)"

definition markSelfDestructed :: "stateObject \<Rightarrow> stateObject" where
  "markSelfDestructed obj = obj\<lparr>selfDestructed := True\<rparr>"

definition obj_setBalance :: "stateObject \<Rightarrow> 256 word \<Rightarrow> stateObject" where
  "obj_setBalance obj amount = obj\<lparr>accBalance := amount\<rparr>"

definition obj_setNonce :: "stateObject \<Rightarrow> 64 word \<Rightarrow> stateObject" where
  "obj_setNonce obj nonce = obj\<lparr>accNonce := nonce\<rparr>"

definition obj_setCode :: "stateObject \<Rightarrow> hash \<Rightarrow> bytes option \<Rightarrow> stateObject" where
  "obj_setCode obj codeHash c = obj\<lparr>code := c, accCodeHash := codeHash, dirtyCode := True\<rparr>"

definition obj_setState :: "stateObject \<Rightarrow> hash \<Rightarrow> hash \<Rightarrow> hash \<Rightarrow> stateObject" where
  "obj_setState obj key value origin =
     (if value = origin then obj\<lparr>dirtyStorage := kv_delete key (dirtyStorage obj)\<rparr>
      else obj\<lparr>dirtyStorage := kv_set key value (dirtyStorage obj)\<rparr>)"

definition obj_SetStorage :: "stateObject \<Rightarrow> Storage option \<Rightarrow> stateObject" where
  "obj_SetStorage obj storage = obj\<lparr>overrideStorage := storage, originStorage := [], dirtyStorage := []\<rparr>"

definition obj_SetStateOverride :: "stateObject \<Rightarrow> hash \<Rightarrow> hash \<Rightarrow> stateObject" where
  "obj_SetStateOverride obj key value =
     obj\<lparr>originStorage := kv_set key value (originStorage obj),
         dirtyStorage := kv_delete key (dirtyStorage obj),
         overrideStorage := map_option (kv_set key value) (overrideStorage obj)\<rparr>"

text \<open>\<open>Code\<close> and \<open>GetCommittedState\<close> read the keeper at the store of the transaction's context and keep what
  they read.\<close>

definition obj_Code :: "'c sdbEnv \<Rightarrow> 'c multistore \<Rightarrow> stateObject \<Rightarrow> bytes option \<times> stateObject" where
  "obj_Code E ctx obj =
     (case code obj of
        Some c \<Rightarrow> (Some c, obj)
      | None \<Rightarrow>
          if IsEmptyCodeHash E (accCodeHash obj) then (None, obj)
          else let c = kGetCode (keeper E) ctx (accCodeHash obj) in (c, obj\<lparr>code := c\<rparr>))"

definition obj_GetCommittedState :: "'c sdbEnv \<Rightarrow> 'c multistore \<Rightarrow> stateObject \<Rightarrow> hash \<Rightarrow> hash \<times> stateObject" where
  "obj_GetCommittedState E ctx obj key =
     (case overrideStorage obj of
        Some st \<Rightarrow> (case kv_get st key of Some value \<Rightarrow> (value, obj) | None \<Rightarrow> (0, obj))
      | None \<Rightarrow>
          case kv_get (originStorage obj) key of
            Some value \<Rightarrow> (value, obj)
          | None \<Rightarrow>
              let value = kGetState (keeper E) ctx (address obj) key in
              (value, obj\<lparr>originStorage := kv_set key value (originStorage obj)\<rparr>))"

definition obj_GetState :: "'c sdbEnv \<Rightarrow> 'c multistore \<Rightarrow> stateObject \<Rightarrow> hash \<Rightarrow> hash \<times> stateObject" where
  "obj_GetState E ctx obj key =
     (case kv_get (dirtyStorage obj) key of
        Some value \<Rightarrow> (value, obj)
      | None \<Rightarrow> obj_GetCommittedState E ctx obj key)"

section \<open>The journal (journal.go)\<close>

text \<open>An SDK event: its type and its attributes.\<close>

record sdkEvent =
  evType :: string
  evAttributes :: "(string \<times> string) list"

type_synonym Events = "sdkEvent list"

datatype JournalEntry =
    createObjectChange address
  | resetObjectChange stateObject
  | selfDestructChange address bool "256 word"
  | balanceChange address "256 word"
  | nonceChange address "64 word"
  | storageChange address hash hash hash
  | transientStorageChange address hash hash
  | codeChange address "bytes option" hash
  | refundChange "64 word"
  | addLogChange
  | accessListAddAccountChange address
  | accessListAddSlotChange address hash
  | precompileCallChange int Events
  | createContractChange address

fun Dirtied :: "JournalEntry \<Rightarrow> address option" where
  "Dirtied (createContractChange a) = None"
| "Dirtied (precompileCallChange n evs) = None"
| "Dirtied (createObjectChange a) = Some a"
| "Dirtied (resetObjectChange prev) = None"
| "Dirtied (selfDestructChange a prev prevbalance) = Some a"
| "Dirtied (balanceChange a prev) = Some a"
| "Dirtied (nonceChange a prev) = Some a"
| "Dirtied (codeChange a prevcode prevhash) = Some a"
| "Dirtied (storageChange a key preValue origValue) = Some a"
| "Dirtied (transientStorageChange a key prevalue) = None"
| "Dirtied (refundChange prev) = None"
| "Dirtied addLogChange = None"
| "Dirtied (accessListAddAccountChange a) = None"
| "Dirtied (accessListAddSlotChange a slot) = None"

record journal =
  entries :: "JournalEntry list"
  dirties :: "(address, int) kv"

definition newJournal :: journal where
  "newJournal = \<lparr>entries = [], dirties = []\<rparr>"

definition sortedDirties :: "journal \<Rightarrow> address list" where
  "sortedDirties j = map fst (dirties j)"

definition Journal_reset :: "journal \<Rightarrow> journal" where
  "Journal_reset j = \<lparr>entries = [], dirties = fold kv_delete (sortedDirties j) (dirties j)\<rparr>"

definition Journal_append :: "journal \<Rightarrow> JournalEntry \<Rightarrow> journal" where
  "Journal_append j entry =
     \<lparr>entries = entries j @ [entry],
      dirties = (case Dirtied entry of
                   None \<Rightarrow> dirties j
                 | Some a \<Rightarrow> kv_set a (kv_num (dirties j) a + 1) (dirties j))\<rparr>"

definition Journal_length :: "journal \<Rightarrow> nat" where
  "Journal_length j = length (entries j)"

section \<open>The state (statedb.go)\<close>

record revision =
  revId :: int
  journalIndex :: nat
  revEvents :: Events

record TxConfig =
  TxHash :: hash
  TxIndex :: "64 word"
  LogIndex :: "64 word"

definition NewTxConfig :: "hash \<Rightarrow> 64 word \<Rightarrow> 64 word \<Rightarrow> TxConfig" where
  "NewTxConfig thash txIndex logIndex = \<lparr>TxHash = thash, TxIndex = txIndex, LogIndex = logIndex\<rparr>"

definition NewEmptyTxConfig :: TxConfig where
  "NewEmptyTxConfig = \<lparr>TxHash = 0, TxIndex = 0, LogIndex = 0\<rparr>"

record Log =
  lgAddress :: address
  lgTopics :: "hash list"
  lgData :: bytes
  lgTxIndex :: "64 word"
  lgIndex :: "64 word"

text \<open>The closure \<open>writeCache\<close>: it emits the events of the cache context, or the ones a revert fixed, and
  writes the cache context's stores.\<close>

datatype WriteCache = WriteCacheEvents | WriteFixedEvents Events

record 'c StateDB =
  ctxStore :: "'c multistore"
  ctxEvents :: Events
  snapshotter :: "'c snapmulti option"
  cacheEvents :: Events
  writeCache :: "WriteCache option"
  transientStorage :: transientStorage
  journal :: journal
  validRevisions :: "revision list"
  nextRevisionID :: int
  stateObjects :: "(address, stateObject) kv"
  txConfig :: TxConfig
  refund :: "64 word"
  logs :: "Log list"
  accessList :: accessList
  precompileCallsCounter :: "8 word"

definition New :: "'c multistore \<Rightarrow> Events \<Rightarrow> TxConfig \<Rightarrow> 'c StateDB" where
  "New ctx evs cfg =
     \<lparr>ctxStore = ctx, ctxEvents = evs, snapshotter = None, cacheEvents = [], writeCache = None,
      transientStorage = newTransientStorage, journal = newJournal, validRevisions = [], nextRevisionID = 0,
      stateObjects = [], txConfig = cfg, refund = 0, logs = [], accessList = newAccessList,
      precompileCallsCounter = 0\<rparr>"

abbreviation log_entry :: "'c StateDB \<Rightarrow> JournalEntry \<Rightarrow> 'c StateDB" where
  "log_entry s e \<equiv> s\<lparr>journal := Journal_append (journal s) e\<rparr>"

abbreviation nilDeref :: "'a res" where
  "nilDeref \<equiv> Panic (ErrMsg ''nil pointer dereference'')"

definition setStateObject :: "'c StateDB \<Rightarrow> stateObject \<Rightarrow> 'c StateDB" where
  "setStateObject s obj = s\<lparr>stateObjects := kv_set (address obj) obj (stateObjects s)\<rparr>"

definition getStateObject :: "'c sdbEnv \<Rightarrow> 'c StateDB \<Rightarrow> address \<Rightarrow> stateObject option \<times> 'c StateDB" where
  "getStateObject E s addr =
     (case kv_get (stateObjects s) addr of
        Some obj \<Rightarrow> (Some obj, s)
      | None \<Rightarrow>
          case kGetAccount (keeper E) (ctxStore s) addr of
            None \<Rightarrow> (None, s)
          | Some acct \<Rightarrow> let obj = newObject E addr acct in (Some obj, setStateObject s obj))"

definition createObject :: "'c sdbEnv \<Rightarrow> 'c StateDB \<Rightarrow> address \<Rightarrow> (stateObject \<times> stateObject option) \<times> 'c StateDB" where
  "createObject E s addr =
     (let (prev, s1) = getStateObject E s addr;
          newobj = newObject E addr \<lparr>Nonce = 0, Balance = None, CodeHash = None\<rparr>;
          s2 = (case prev of
                  None \<Rightarrow> log_entry s1 (createObjectChange addr)
                | Some p \<Rightarrow> log_entry s1 (resetObjectChange p))
      in ((newobj, prev), setStateObject s2 newobj))"

definition getOrNewStateObject :: "'c sdbEnv \<Rightarrow> 'c StateDB \<Rightarrow> address \<Rightarrow> stateObject \<times> 'c StateDB" where
  "getOrNewStateObject E s addr =
     (case getStateObject E s addr of
        (Some obj, s1) \<Rightarrow> (obj, s1)
      | (None, s1) \<Rightarrow> let ((newobj, _), s2) = createObject E s1 addr in (newobj, s2))"

end
