(* ===== verification/StateDBOps.thy ===== *)
theory StateDBOps
  imports StateDB
begin

text \<open>
  The operations of the EVM state in the order of \<open>src/x/vm/statedb/statedb.go\<close>: the cache context, the reads,
  the journalled writes, snapshots, reverts and the commit. A method of a state object that journals
  (\<open>state_object.go\<close>) takes the state and the object and returns the state with the object written back.
\<close>

section \<open>The cache context of precompile calls\<close>

text \<open>\<open>CacheContext\<close> branches every store of the context and starts with no events; \<open>NewStore\<close> then keeps the
  stores of the modules.\<close>

definition cache :: "'c sdbEnv \<Rightarrow> 'c StateDB \<Rightarrow> 'c StateDB res" where
  "cache E s =
     res_bind (Multi_NewStore (map (\<lambda>(k, c). (k, ckNew (cacheOps E) c)) (ctxStore s)) (kKVStoreKeys (keeper E)))
       (\<lambda>snapshotStore. Ok (s\<lparr>snapshotter := Some snapshotStore, cacheEvents := [], writeCache := Some WriteCacheEvents\<rparr>))"

definition GetCacheContext :: "'c sdbEnv \<Rightarrow> 'c StateDB \<Rightarrow> 'c StateDB res" where
  "GetCacheContext E s = (if writeCache s = None then cache E s else Ok s)"

definition MultiStoreSnapshot :: "'c sdbEnv \<Rightarrow> 'c StateDB \<Rightarrow> (int \<times> 'c StateDB) res" where
  "MultiStoreSnapshot E s =
     (case snapshotter s of
        None \<Rightarrow> nilDeref
      | Some ms \<Rightarrow> let (idx, ms') = Multi_Snapshot (cacheOps E) ms in Ok (idx, s\<lparr>snapshotter := Some ms'\<rparr>))"

definition RevertMultiStore :: "'c StateDB \<Rightarrow> int \<Rightarrow> Events \<Rightarrow> 'c StateDB res" where
  "RevertMultiStore s snapshot events =
     (case snapshotter s of
        None \<Rightarrow> nilDeref
      | Some ms \<Rightarrow>
          res_bind (Multi_Revert ms snapshot) (\<lambda>ms'.
            Ok (s\<lparr>snapshotter := Some ms', writeCache := Some (WriteFixedEvents events)\<rparr>)))"

definition MaxPrecompileCalls :: "8 word" where
  "MaxPrecompileCalls = 20"

definition AddPrecompileFn :: "'c StateDB \<Rightarrow> int \<Rightarrow> Events \<Rightarrow> error option \<times> 'c StateDB" where
  "AddPrecompileFn s snapshot events =
     (let s1 = log_entry s (precompileCallChange snapshot events);
          s2 = s1\<lparr>precompileCallsCounter := precompileCallsCounter s1 + 1\<rparr>
      in (if MaxPrecompileCalls < precompileCallsCounter s2
          then Some (ErrMsg ''max calls to precompiles reached'') else None, s2))"

section \<open>Reads\<close>

definition Exist :: "'c sdbEnv \<Rightarrow> 'c StateDB \<Rightarrow> address \<Rightarrow> bool \<times> 'c StateDB" where
  "Exist E s addr = (let (obj, s1) = getStateObject E s addr in (obj \<noteq> None, s1))"

definition Empty :: "'c sdbEnv \<Rightarrow> 'c StateDB \<Rightarrow> address \<Rightarrow> bool \<times> 'c StateDB" where
  "Empty E s addr =
     (let (so, s1) = getStateObject E s addr in
      (case so of None \<Rightarrow> True | Some obj \<Rightarrow> obj_empty E obj, s1))"

definition sdb_GetBalance :: "'c sdbEnv \<Rightarrow> 'c StateDB \<Rightarrow> address \<Rightarrow> 256 word \<times> 'c StateDB" where
  "sdb_GetBalance E s addr =
     (let (so, s1) = getStateObject E s addr in
      (case so of None \<Rightarrow> 0 | Some obj \<Rightarrow> accBalance obj, s1))"

definition GetNonce :: "'c sdbEnv \<Rightarrow> 'c StateDB \<Rightarrow> address \<Rightarrow> 64 word \<times> 'c StateDB" where
  "GetNonce E s addr =
     (let (so, s1) = getStateObject E s addr in
      (case so of None \<Rightarrow> 0 | Some obj \<Rightarrow> accNonce obj, s1))"

definition GetCode :: "'c sdbEnv \<Rightarrow> 'c StateDB \<Rightarrow> address \<Rightarrow> bytes option \<times> 'c StateDB" where
  "GetCode E s addr =
     (case getStateObject E s addr of
        (None, s1) \<Rightarrow> (None, s1)
      | (Some obj, s1) \<Rightarrow> let (c, obj') = obj_Code E (ctxStore s1) obj in (c, setStateObject s1 obj'))"

definition GetCodeSize :: "'c sdbEnv \<Rightarrow> 'c StateDB \<Rightarrow> address \<Rightarrow> nat \<times> 'c StateDB" where
  "GetCodeSize E s addr =
     (case getStateObject E s addr of
        (None, s1) \<Rightarrow> (0, s1)
      | (Some obj, s1) \<Rightarrow>
          let (c, obj') = obj_Code E (ctxStore s1) obj in
          (case c of None \<Rightarrow> 0 | Some bz \<Rightarrow> length bz, setStateObject s1 obj'))"

definition GetCodeHash :: "'c sdbEnv \<Rightarrow> 'c StateDB \<Rightarrow> address \<Rightarrow> hash \<times> 'c StateDB" where
  "GetCodeHash E s addr =
     (let (so, s1) = getStateObject E s addr in
      (case so of None \<Rightarrow> 0 | Some obj \<Rightarrow> accCodeHash obj, s1))"

definition GetState :: "'c sdbEnv \<Rightarrow> 'c StateDB \<Rightarrow> address \<Rightarrow> hash \<Rightarrow> hash \<times> 'c StateDB" where
  "GetState E s addr key =
     (case getStateObject E s addr of
        (None, s1) \<Rightarrow> (0, s1)
      | (Some obj, s1) \<Rightarrow> let (v, obj') = obj_GetState E (ctxStore s1) obj key in (v, setStateObject s1 obj'))"

definition GetCommittedState :: "'c sdbEnv \<Rightarrow> 'c StateDB \<Rightarrow> address \<Rightarrow> hash \<Rightarrow> hash \<times> 'c StateDB" where
  "GetCommittedState E s addr key =
     (case getStateObject E s addr of
        (None, s1) \<Rightarrow> (0, s1)
      | (Some obj, s1) \<Rightarrow>
          let (v, obj') = obj_GetCommittedState E (ctxStore s1) obj key in (v, setStateObject s1 obj'))"

definition GetStateAndCommittedState ::
    "'c sdbEnv \<Rightarrow> 'c StateDB \<Rightarrow> address \<Rightarrow> hash \<Rightarrow> (hash \<times> hash) \<times> 'c StateDB" where
  "GetStateAndCommittedState E s addr key =
     (case getStateObject E s addr of
        (None, s1) \<Rightarrow> ((0, 0), s1)
      | (Some obj, s1) \<Rightarrow>
          let (v, obj1) = obj_GetState E (ctxStore s1) obj key;
              (c, obj2) = obj_GetCommittedState E (ctxStore s1) obj1 key
          in ((v, c), setStateObject s1 obj2))"

definition HasSelfDestructed :: "'c sdbEnv \<Rightarrow> 'c StateDB \<Rightarrow> address \<Rightarrow> bool \<times> 'c StateDB" where
  "HasSelfDestructed E s addr =
     (let (so, s1) = getStateObject E s addr in
      (case so of None \<Rightarrow> False | Some obj \<Rightarrow> selfDestructed obj, s1))"

definition IsStorageEmpty :: "'c sdbEnv \<Rightarrow> 'c StateDB \<Rightarrow> address \<Rightarrow> bool" where
  "IsStorageEmpty E s addr \<longleftrightarrow> kForEachStorage (keeper E) (ctxStore s) addr = []"

text \<open>An iteration with a callback that works on a state of its own and says whether to go on.\<close>

fun iterate_storage :: "Storage \<Rightarrow> (hash \<Rightarrow> hash \<Rightarrow> 'a \<Rightarrow> bool \<times> 'a) \<Rightarrow> (hash \<times> hash) list \<Rightarrow> 'a \<Rightarrow> 'a" where
  "iterate_storage dirty cb [] x = x"
| "iterate_storage dirty cb ((key, value) # kvs) x =
     (let (go, x') = cb key (case kv_get dirty key of Some v \<Rightarrow> v | None \<Rightarrow> value) x in
      if go then iterate_storage dirty cb kvs x' else x')"

definition ForEachStorage ::
    "'c sdbEnv \<Rightarrow> 'c StateDB \<Rightarrow> address \<Rightarrow> (hash \<Rightarrow> hash \<Rightarrow> 'a \<Rightarrow> bool \<times> 'a) \<Rightarrow> 'a \<Rightarrow> 'a \<times> 'c StateDB" where
  "ForEachStorage E s addr cb x =
     (case getStateObject E s addr of
        (None, s1) \<Rightarrow> (x, s1)
      | (Some so, s1) \<Rightarrow>
          (iterate_storage (dirtyStorage so) cb (kForEachStorage (keeper E) (ctxStore s1) addr) x, s1))"

definition GetTransientState :: "'c StateDB \<Rightarrow> address \<Rightarrow> hash \<Rightarrow> hash" where
  "GetTransientState s addr key = Transient_Get (transientStorage s) addr key"

definition AddressInAccessList :: "'c StateDB \<Rightarrow> address \<Rightarrow> bool" where
  "AddressInAccessList s addr = ContainsAddress (accessList s) addr"

definition SlotInAccessList :: "'c StateDB \<Rightarrow> address \<Rightarrow> hash \<Rightarrow> (bool \<times> bool) res" where
  "SlotInAccessList s addr slot = Contains (accessList s) addr slot"

section \<open>Journalled writes\<close>

definition CreateContract :: "'c sdbEnv \<Rightarrow> 'c StateDB \<Rightarrow> address \<Rightarrow> 'c StateDB res" where
  "CreateContract E s addr =
     (case getStateObject E s addr of
        (None, _) \<Rightarrow> nilDeref
      | (Some obj, s1) \<Rightarrow>
          Ok (if newContract obj then s1
              else log_entry (setStateObject s1 (obj\<lparr>newContract := True\<rparr>)) (createContractChange addr)))"

definition AddLog :: "'c StateDB \<Rightarrow> Log \<Rightarrow> 'c StateDB" where
  "AddLog s lg =
     (let s1 = log_entry s addLogChange in
      s1\<lparr>logs := logs s1 @
        [lg\<lparr>lgTxIndex := TxIndex (txConfig s1), lgIndex := LogIndex (txConfig s1) + of_nat (length (logs s1))\<rparr>]\<rparr>)"

definition AddRefund :: "'c StateDB \<Rightarrow> 64 word \<Rightarrow> 'c StateDB" where
  "AddRefund s gas = (log_entry s (refundChange (refund s)))\<lparr>refund := refund s + gas\<rparr>"

definition SubRefund :: "'c StateDB \<Rightarrow> 64 word \<Rightarrow> 'c StateDB res" where
  "SubRefund s gas =
     (let s1 = log_entry s (refundChange (refund s)) in
      if refund s < gas then Panic (ErrMsg ''Refund counter below zero'')
      else Ok (s1\<lparr>refund := refund s1 - gas\<rparr>))"

definition CreateAccount :: "'c sdbEnv \<Rightarrow> 'c StateDB \<Rightarrow> address \<Rightarrow> 'c StateDB" where
  "CreateAccount E s addr =
     (let ((newObj, prev), s1) = createObject E s addr in
      case prev of
        None \<Rightarrow> s1
      | Some p \<Rightarrow> setStateObject s1 (obj_setBalance newObj (accBalance p)))"

definition obj_SetBalance :: "'c StateDB \<Rightarrow> stateObject \<Rightarrow> 256 word \<Rightarrow> 256 word \<times> 'c StateDB" where
  "obj_SetBalance s obj amount =
     (let s1 = log_entry s (balanceChange (address obj) (accBalance obj)) in
      (accBalance obj, setStateObject s1 (obj_setBalance obj amount)))"

definition obj_AddBalance :: "'c StateDB \<Rightarrow> stateObject \<Rightarrow> 256 word \<Rightarrow> 256 word \<times> 'c StateDB" where
  "obj_AddBalance s obj amount =
     (if amount = 0 then (accBalance obj, s) else obj_SetBalance s obj (accBalance obj + amount))"

definition obj_SubBalance :: "'c StateDB \<Rightarrow> stateObject \<Rightarrow> 256 word \<Rightarrow> 256 word \<times> 'c StateDB" where
  "obj_SubBalance s obj amount =
     (if amount = 0 then (accBalance obj, s) else obj_SetBalance s obj (accBalance obj - amount))"

definition AddBalance :: "'c sdbEnv \<Rightarrow> 'c StateDB \<Rightarrow> address \<Rightarrow> 256 word \<Rightarrow> 256 word \<times> 'c StateDB" where
  "AddBalance E s addr amount =
     (let (obj, s1) = getOrNewStateObject E s addr in obj_AddBalance s1 obj amount)"

definition SubBalance :: "'c sdbEnv \<Rightarrow> 'c StateDB \<Rightarrow> address \<Rightarrow> 256 word \<Rightarrow> 256 word \<times> 'c StateDB" where
  "SubBalance E s addr amount =
     (let (obj, s1) = getOrNewStateObject E s addr in
      if amount = 0 then (accBalance obj, s1) else obj_SubBalance s1 obj amount)"

definition SetBalance :: "'c sdbEnv \<Rightarrow> 'c StateDB \<Rightarrow> address \<Rightarrow> 256 word \<Rightarrow> 'c StateDB" where
  "SetBalance E s addr amount =
     (let (obj, s1) = getOrNewStateObject E s addr in snd (obj_SetBalance s1 obj amount))"

definition obj_SetNonce :: "'c StateDB \<Rightarrow> stateObject \<Rightarrow> 64 word \<Rightarrow> 'c StateDB" where
  "obj_SetNonce s obj nonce =
     (let s1 = log_entry s (nonceChange (address obj) (accNonce obj)) in
      setStateObject s1 (obj_setNonce obj nonce))"

definition SetNonce :: "'c sdbEnv \<Rightarrow> 'c StateDB \<Rightarrow> address \<Rightarrow> 64 word \<Rightarrow> 'c StateDB" where
  "SetNonce E s addr nonce =
     (let (obj, s1) = getOrNewStateObject E s addr in obj_SetNonce s1 obj nonce)"

definition obj_SetCode :: "'c sdbEnv \<Rightarrow> 'c StateDB \<Rightarrow> stateObject \<Rightarrow> hash \<Rightarrow> bytes option \<Rightarrow> 'c StateDB" where
  "obj_SetCode E s obj codeHash c =
     (let (prevcode, obj1) = obj_Code E (ctxStore s) obj;
          s1 = log_entry s (codeChange (address obj1) prevcode (accCodeHash obj1))
      in setStateObject s1 (obj_setCode obj1 codeHash c))"

text \<open>The code argument may be nil, which hashes as the empty code.\<close>

definition SetCode :: "'c sdbEnv \<Rightarrow> 'c StateDB \<Rightarrow> address \<Rightarrow> bytes option \<Rightarrow> bytes option \<times> 'c StateDB" where
  "SetCode E s addr c =
     (let (obj, s1) = getOrNewStateObject E s addr;
          prev = code obj
      in (prev, obj_SetCode E s1 obj (keccak E (case c of None \<Rightarrow> [] | Some bz \<Rightarrow> bz)) c))"

definition obj_SetState :: "'c sdbEnv \<Rightarrow> 'c StateDB \<Rightarrow> stateObject \<Rightarrow> hash \<Rightarrow> hash \<Rightarrow> hash \<times> 'c StateDB" where
  "obj_SetState E s obj key value =
     (let (prev, obj1) = obj_GetState E (ctxStore s) obj key in
      if prev = value then (prev, setStateObject s obj1)
      else
        let (origin, obj2) = obj_GetCommittedState E (ctxStore s) obj1 key;
            s1 = log_entry s (storageChange (address obj2) key prev origin)
        in (prev, setStateObject s1 (obj_setState obj2 key value origin)))"

definition SetState :: "'c sdbEnv \<Rightarrow> 'c StateDB \<Rightarrow> address \<Rightarrow> hash \<Rightarrow> hash \<Rightarrow> hash \<times> 'c StateDB" where
  "SetState E s addr key value =
     (let (obj, s1) = getOrNewStateObject E s addr in obj_SetState E s1 obj key value)"

definition SelfDestruct :: "'c sdbEnv \<Rightarrow> 'c StateDB \<Rightarrow> address \<Rightarrow> 256 word \<times> 'c StateDB" where
  "SelfDestruct E s addr =
     (case getStateObject E s addr of
        (None, s1) \<Rightarrow> (0, s1)
      | (Some obj, s1) \<Rightarrow>
          let s2 = log_entry s1 (selfDestructChange addr (selfDestructed obj) (accBalance obj)) in
          (accBalance obj, setStateObject s2 ((markSelfDestructed obj)\<lparr>accBalance := 0\<rparr>)))"

definition SelfDestruct6780 :: "'c sdbEnv \<Rightarrow> 'c StateDB \<Rightarrow> address \<Rightarrow> (256 word \<times> bool) \<times> 'c StateDB" where
  "SelfDestruct6780 E s addr =
     (case getStateObject E s addr of
        (None, s1) \<Rightarrow> ((0, False), s1)
      | (Some obj, s1) \<Rightarrow>
          if newContract obj then let (b, s2) = SelfDestruct E s1 addr in ((b, True), s2)
          else ((accBalance obj, False), s1))"

definition setTransientState :: "'c StateDB \<Rightarrow> address \<Rightarrow> hash \<Rightarrow> hash \<Rightarrow> 'c StateDB" where
  "setTransientState s addr key value =
     s\<lparr>transientStorage := Transient_Set (transientStorage s) addr key value\<rparr>"

definition SetTransientState :: "'c StateDB \<Rightarrow> address \<Rightarrow> hash \<Rightarrow> hash \<Rightarrow> 'c StateDB" where
  "SetTransientState s addr key value =
     (let prev = GetTransientState s addr key in
      if prev = value then s
      else setTransientState (log_entry s (transientStorageChange addr key prev)) addr key value)"

definition AddAddressToAccessList :: "'c StateDB \<Rightarrow> address \<Rightarrow> 'c StateDB" where
  "AddAddressToAccessList s addr =
     (let (added, al) = AddAddress (accessList s) addr; s1 = s\<lparr>accessList := al\<rparr> in
      if added then log_entry s1 (accessListAddAccountChange addr) else s1)"

definition AddSlotToAccessList :: "'c StateDB \<Rightarrow> address \<Rightarrow> hash \<Rightarrow> 'c StateDB res" where
  "AddSlotToAccessList s addr slot =
     res_bind (AddSlot (accessList s) addr slot) (\<lambda>((addrMod, slotMod), al).
       let s1 = s\<lparr>accessList := al\<rparr>;
           s2 = (if addrMod then log_entry s1 (accessListAddAccountChange addr) else s1)
       in Ok (if slotMod then log_entry s2 (accessListAddSlotChange addr slot) else s2))"

section \<open>Changes outside the journal\<close>

definition SetStateOverride :: "'c sdbEnv \<Rightarrow> 'c StateDB \<Rightarrow> address \<Rightarrow> hash \<Rightarrow> hash \<Rightarrow> 'c StateDB" where
  "SetStateOverride E s addr key value =
     (let (obj, s1) = getOrNewStateObject E s addr in setStateObject s1 (obj_SetStateOverride obj key value))"

definition SetStorage :: "'c sdbEnv \<Rightarrow> 'c StateDB \<Rightarrow> address \<Rightarrow> Storage option \<Rightarrow> 'c StateDB" where
  "SetStorage E s addr storage =
     (let (obj, s1) = getOrNewStateObject E s addr in setStateObject s1 (obj_SetStorage obj storage))"

definition clearJournalAndRefund :: "'c StateDB \<Rightarrow> 'c StateDB" where
  "clearJournalAndRefund s =
     s\<lparr>journal := Journal_reset (journal s), validRevisions := [], nextRevisionID := 0, refund := 0\<rparr>"

definition finalise_object :: "'c sdbEnv \<Rightarrow> bool \<Rightarrow> address \<Rightarrow> 'c StateDB \<Rightarrow> 'c StateDB" where
  "finalise_object E deleteEmptyObjects addr s =
     (case kv_get (stateObjects s) addr of
        None \<Rightarrow> s
      | Some obj \<Rightarrow>
          if selfDestructed obj \<or> deleteEmptyObjects \<and> obj_empty E obj
          then s\<lparr>stateObjects := kv_delete (address obj) (stateObjects s)\<rparr> else s)"

definition Finalise :: "'c sdbEnv \<Rightarrow> 'c StateDB \<Rightarrow> bool \<Rightarrow> 'c StateDB" where
  "Finalise E s deleteEmptyObjects =
     clearJournalAndRefund (fold (finalise_object E deleteEmptyObjects) (map fst (dirties (journal s))) s)"

record Rules =
  IsEIP2929 :: bool
  IsEIP4762 :: bool
  IsShanghai :: bool

fun add_slots :: "accessList \<Rightarrow> address \<Rightarrow> hash list \<Rightarrow> accessList res" where
  "add_slots al addr [] = Ok al"
| "add_slots al addr (key # keys) =
     res_bind (AddSlot al addr key) (\<lambda>(_, al'). add_slots al' addr keys)"

fun add_tuples :: "accessList \<Rightarrow> (address \<times> hash list) list \<Rightarrow> accessList res" where
  "add_tuples al [] = Ok al"
| "add_tuples al ((addr, keys) # els) =
     res_bind (add_slots (snd (AddAddress al addr)) addr keys) (\<lambda>al'. add_tuples al' els)"

definition Prepare ::
    "'c StateDB \<Rightarrow> Rules \<Rightarrow> address \<Rightarrow> address \<Rightarrow> address option \<Rightarrow> address list \<Rightarrow> (address \<times> hash list) list \<Rightarrow>
      'c StateDB res" where
  "Prepare s rules sender coinbase dst precompiles lst =
     (if IsEIP2929 rules \<and> IsEIP4762 rules then Panic (ErrMsg ''eip2929 and eip4762 are both activated'')
      else
        res_bind
          (if IsEIP2929 rules then
             let al1 = snd (AddAddress newAccessList sender);
                 al2 = (case dst of None \<Rightarrow> al1 | Some d \<Rightarrow> snd (AddAddress al1 d));
                 al3 = foldl (\<lambda>al addr. snd (AddAddress al addr)) al2 precompiles
             in res_bind (add_tuples al3 lst) (\<lambda>al4.
                  Ok (s\<lparr>accessList := if IsShanghai rules then snd (AddAddress al4 coinbase) else al4\<rparr>))
           else Ok s)
          (\<lambda>s1. Ok (s1\<lparr>transientStorage := newTransientStorage\<rparr>)))"

section \<open>Snapshots and reverts\<close>

definition Snapshot :: "'c StateDB \<Rightarrow> int \<times> 'c StateDB" where
  "Snapshot s =
     (let idn = nextRevisionID s in
      (idn, s\<lparr>nextRevisionID := nextRevisionID s + 1,
              validRevisions := validRevisions s @
                [\<lparr>revId = idn, journalIndex = Journal_length (journal s), revEvents = ctxEvents s\<rparr>]\<rparr>))"

text \<open>Undoing one entry. An entry that names an object finds it through \<open>getStateObject\<close>.\<close>

definition with_object ::
    "'c sdbEnv \<Rightarrow> 'c StateDB \<Rightarrow> address \<Rightarrow> (stateObject \<Rightarrow> stateObject) \<Rightarrow> 'c StateDB res" where
  "with_object E s addr f =
     (case getStateObject E s addr of
        (None, _) \<Rightarrow> nilDeref
      | (Some obj, s1) \<Rightarrow> Ok (setStateObject s1 (f obj)))"

fun Entry_Revert :: "'c sdbEnv \<Rightarrow> JournalEntry \<Rightarrow> 'c StateDB \<Rightarrow> 'c StateDB res" where
  "Entry_Revert E (createContractChange a) s = with_object E s a (\<lambda>obj. obj\<lparr>newContract := False\<rparr>)"
| "Entry_Revert E (precompileCallChange n evs) s = RevertMultiStore s n evs"
| "Entry_Revert E (createObjectChange a) s = Ok (s\<lparr>stateObjects := kv_delete a (stateObjects s)\<rparr>)"
| "Entry_Revert E (resetObjectChange prev) s = Ok (setStateObject s prev)"
| "Entry_Revert E (selfDestructChange a prev prevbalance) s =
     (case getStateObject E s a of
        (None, s1) \<Rightarrow> Ok s1
      | (Some obj, s1) \<Rightarrow> Ok (setStateObject s1 (obj_setBalance (obj\<lparr>selfDestructed := prev\<rparr>) prevbalance)))"
| "Entry_Revert E (balanceChange a prev) s = with_object E s a (\<lambda>obj. obj_setBalance obj prev)"
| "Entry_Revert E (nonceChange a prev) s = with_object E s a (\<lambda>obj. obj_setNonce obj prev)"
| "Entry_Revert E (codeChange a prevcode prevhash) s = with_object E s a (\<lambda>obj. obj_setCode obj prevhash prevcode)"
| "Entry_Revert E (storageChange a key preValue origValue) s =
     with_object E s a (\<lambda>obj. obj_setState obj key preValue origValue)"
| "Entry_Revert E (transientStorageChange a key prevalue) s = Ok (setTransientState s a key prevalue)"
| "Entry_Revert E (refundChange prev) s = Ok (s\<lparr>refund := prev\<rparr>)"
| "Entry_Revert E addLogChange s =
     (if logs s = [] then Panic (ErrMsg ''slice bounds out of range'') else Ok (s\<lparr>logs := butlast (logs s)\<rparr>))"
| "Entry_Revert E (accessListAddAccountChange a) s = Ok (s\<lparr>accessList := DeleteAddress (accessList s) a\<rparr>)"
| "Entry_Revert E (accessListAddSlotChange a slot) s =
     res_bind (DeleteSlot (accessList s) a slot) (\<lambda>al. Ok (s\<lparr>accessList := al\<rparr>))"

definition drop_dirty :: "JournalEntry \<Rightarrow> 'c StateDB \<Rightarrow> 'c StateDB" where
  "drop_dirty e s =
     (case Dirtied e of
        None \<Rightarrow> s
      | Some a \<Rightarrow>
          let n = kv_num (dirties (journal s)) a - 1;
              ds = kv_set a n (dirties (journal s))
          in s\<lparr>journal := (journal s)\<lparr>dirties := if n = 0 then kv_delete a ds else ds\<rparr>\<rparr>)"

text \<open>The loop of \<open>journal.Revert\<close> over the entries from the last one down.\<close>

fun revert_entries :: "'c sdbEnv \<Rightarrow> JournalEntry list \<Rightarrow> 'c StateDB \<Rightarrow> 'c StateDB res" where
  "revert_entries E [] s = Ok s"
| "revert_entries E (e # es) s =
     res_bind (Entry_Revert E e s) (\<lambda>s1. revert_entries E es (drop_dirty e s1))"

definition Journal_Revert :: "'c sdbEnv \<Rightarrow> 'c StateDB \<Rightarrow> nat \<Rightarrow> 'c StateDB res" where
  "Journal_Revert E s snapshot =
     res_bind (revert_entries E (rev (drop snapshot (entries (journal s)))) s) (\<lambda>s1.
       if length (entries (journal s)) < snapshot then Panic (ErrMsg ''slice bounds out of range'')
       else Ok (s1\<lparr>journal := (journal s1)\<lparr>entries := take snapshot (entries (journal s1))\<rparr>\<rparr>))"

text \<open>\<open>sort.Search\<close>: the binary search of the Go library.\<close>

function sort_search :: "(nat \<Rightarrow> bool) \<Rightarrow> nat \<Rightarrow> nat \<Rightarrow> nat" where
  "sort_search f i j =
     (if i < j then
        let h = (i + j) div 2 in
        if \<not> f h then sort_search f (h + 1) j else sort_search f i h
      else i)"
  by auto
termination by (relation "measure (\<lambda>(f, i, j). j - i)") auto

declare sort_search.simps [simp del]

definition RevertToSnapshot :: "'c sdbEnv \<Rightarrow> 'c StateDB \<Rightarrow> int \<Rightarrow> 'c StateDB res" where
  "RevertToSnapshot E s revid =
     (let idx = sort_search (\<lambda>i. revid \<le> revId (validRevisions s ! i)) 0 (length (validRevisions s)) in
      if idx = length (validRevisions s) \<or> revId (validRevisions s ! idx) \<noteq> revid
      then Panic (ErrMsg ''revision id cannot be reverted'')
      else
        let r = validRevisions s ! idx; s1 = s\<lparr>ctxEvents := revEvents r\<rparr> in
        res_bind (Journal_Revert E s1 (journalIndex r)) (\<lambda>s2.
          Ok (s2\<lparr>validRevisions := take idx (validRevisions s2)\<rparr>)))"

section \<open>Commit\<close>

definition commit_slot ::
    "'c sdbEnv \<Rightarrow> bool \<Rightarrow> stateObject \<times> 'c multistore \<Rightarrow> hash \<Rightarrow> stateObject \<times> 'c multistore" where
  "commit_slot E keepDirty om key =
     (case om of (obj, m) \<Rightarrow>
        let value = (case kv_get (dirtyStorage obj) key of None \<Rightarrow> 0 | Some v \<Rightarrow> v);
            valueBytes = Hash_Bytes value;
            m' = (if valueBytes = [] then kDeleteState (keeper E) m (address obj) key
                  else kSetState (keeper E) m (address obj) key valueBytes);
            obj1 = (if valueBytes = [] then obj\<lparr>originStorage := kv_delete key (originStorage obj)\<rparr>
                    else obj\<lparr>originStorage := kv_set key value (originStorage obj)\<rparr>);
            obj2 = (if keepDirty then obj1 else obj1\<lparr>dirtyStorage := kv_delete key (dirtyStorage obj1)\<rparr>)
        in (obj2, m'))"

definition objAccount :: "stateObject \<Rightarrow> Account" where
  "objAccount obj = \<lparr>Nonce = accNonce obj, Balance = Some (accBalance obj), CodeHash = Some (accCodeHash obj)\<rparr>"

definition commit_object ::
    "'c sdbEnv \<Rightarrow> bool \<Rightarrow> stateObject \<Rightarrow> 'c multistore \<Rightarrow> (error option \<times> stateObject \<times> 'c multistore) res" where
  "commit_object E keepDirty obj m =
     (if selfDestructed obj then
        res_bind (kDeleteAccount (keeper E) m (address obj)) (\<lambda>(err, m1).
          Ok (map_option (ErrWrapped ''failed to delete account'') err, obj, m1))
      else
        let m1 = (if code obj \<noteq> None \<and> dirtyCode obj then
                    (if the (code obj) = [] then kDeleteCode (keeper E) m (accCodeHash obj)
                     else kSetCode (keeper E) m (accCodeHash obj) (the (code obj)))
                  else m)
        in res_bind (kSetAccount (keeper E) m1 (address obj) (objAccount obj)) (\<lambda>(err, m2).
             case err of
               Some e \<Rightarrow> Ok (Some (ErrWrapped ''failed to set account'' e), obj, m2)
             | None \<Rightarrow> Ok (None, foldl (commit_slot E keepDirty) (obj, m2) (SortedKeys (dirtyStorage obj)))))"

text \<open>The loop over the dirty addresses: it stops at the first error, and an address without a live object
  is a nil dereference.\<close>

fun commit_objects ::
    "'c sdbEnv \<Rightarrow> bool \<Rightarrow> address list \<Rightarrow> (address, stateObject) kv \<Rightarrow> 'c multistore \<Rightarrow>
      (error option \<times> (address, stateObject) kv \<times> 'c multistore) res" where
  "commit_objects E keepDirty [] objs m = Ok (None, objs, m)"
| "commit_objects E keepDirty (addr # addrs) objs m =
     (case kv_get objs addr of
        None \<Rightarrow> nilDeref
      | Some obj \<Rightarrow>
          res_bind (commit_object E keepDirty obj m) (\<lambda>(err, obj', m').
            let objs' = kv_set addr obj' objs in
            case err of
              Some e \<Rightarrow> Ok (Some e, objs', m')
            | None \<Rightarrow> commit_objects E keepDirty addrs objs' m'))"

definition commitWithCtx ::
    "'c sdbEnv \<Rightarrow> 'c StateDB \<Rightarrow> 'c multistore \<Rightarrow> bool \<Rightarrow> (error option \<times> 'c StateDB \<times> 'c multistore) res" where
  "commitWithCtx E s ctx keepDirty =
     res_bind (commit_objects E keepDirty (sortedDirties (journal s)) (stateObjects s) ctx) (\<lambda>(err, objs, m).
       Ok (err, s\<lparr>stateObjects := objs\<rparr>, m))"

definition CommitWithCacheCtx :: "'c sdbEnv \<Rightarrow> 'c StateDB \<Rightarrow> (error option \<times> 'c StateDB) res" where
  "CommitWithCacheCtx E s =
     (case snapshotter s of
        None \<Rightarrow> nilDeref
      | Some ms \<Rightarrow>
          res_bind (commitWithCtx E s (multi_current ms) True) (\<lambda>(err, s1, m).
            Ok (err, s1\<lparr>snapshotter := Some (multi_put m ms)\<rparr>)))"

definition run_writeCache :: "'c sdbEnv \<Rightarrow> 'c StateDB \<Rightarrow> WriteCache \<Rightarrow> 'c StateDB res" where
  "run_writeCache E s wc =
     (case snapshotter s of
        None \<Rightarrow> nilDeref
      | Some ms \<Rightarrow>
          let evs = (case wc of WriteCacheEvents \<Rightarrow> cacheEvents s | WriteFixedEvents evs \<Rightarrow> evs);
              (ms', m') = Multi_Write (cacheOps E) ms (ctxStore s)
          in Ok (s\<lparr>ctxEvents := ctxEvents s @ evs, snapshotter := Some ms', ctxStore := m'\<rparr>))"

definition Commit :: "'c sdbEnv \<Rightarrow> 'c StateDB \<Rightarrow> (error option \<times> 'c StateDB) res" where
  "Commit E s =
     res_bind (case writeCache s of None \<Rightarrow> Ok s | Some wc \<Rightarrow> run_writeCache E s wc) (\<lambda>s1.
     res_bind (commitWithCtx E s1 (ctxStore s1) False) (\<lambda>(err, s2, m).
       Ok (err, s2\<lparr>ctxStore := m\<rparr>)))"

end
