(* ===== verification/Precompile.thy ===== *)
theory Precompile
  imports StateDBOps EvmDenom
begin

text \<open>
  The base of the stateful precompiles (\<open>src/precompiles/common\<close>): the gas a call requires, the choice of
  the ABI method, the balance handler that mirrors bank events in the EVM state, and \<open>runNativeAction\<close>, which
  snapshots the stores, flushes the EVM state into the cache context, runs the native code there and charges its
  gas. The native code, the parsers of the SDK and the ABI decoder are parameters.
\<close>

section \<open>Gas and methods (precompile.go)\<close>

record GasConfig =
  ReadCostFlat :: "64 word"
  ReadCostPerByte :: "64 word"
  WriteCostFlat :: "64 word"
  WriteCostPerByte :: "64 word"

definition RequiredGas :: "GasConfig \<Rightarrow> bytes \<Rightarrow> bool \<Rightarrow> 64 word" where
  "RequiredGas cfg input isTransaction =
     (if isTransaction then WriteCostFlat cfg + WriteCostPerByte cfg * of_nat (length input)
      else ReadCostFlat cfg + ReadCostPerByte cfg * of_nat (length input))"

datatype methodType = Function | Receive | Fallback

record Method =
  mName :: string
  mType :: methodType

text \<open>What the code uses of \<open>abi.ABI\<close>: the special methods, the lookup of a four-byte selector, and the
  decoder of the arguments.\<close>

record 'a abi =
  abiReceive :: "Method option"
  abiFallback :: "Method option"
  abiMethodById :: "bytes \<Rightarrow> Method option"
  abiUnpack :: "Method \<Rightarrow> bytes \<Rightarrow> 'a res"

record Contract =
  cInput :: bytes
  cValue :: "256 word"
  cGas :: "64 word"

abbreviation ErrExecutionReverted :: error where
  "ErrExecutionReverted \<equiv> ErrMsg ''execution reverted''"

abbreviation ErrOutOfGas :: error where
  "ErrOutOfGas \<equiv> ErrMsg ''out of gas''"

abbreviation ErrWriteProtection :: error where
  "ErrWriteProtection \<equiv> ErrMsg ''write protection''"

definition emptyCallData :: "'a abi \<Rightarrow> Contract \<Rightarrow> Method res" where
  "emptyCallData ab contract =
     (if 0 < cValue contract \<and> abiReceive ab \<noteq> None then Ok (the (abiReceive ab))
      else case abiFallback ab of
        Some m \<Rightarrow> Ok m
      | None \<Rightarrow> Err ErrExecutionReverted)"

definition methodIDCallData :: "'a abi \<Rightarrow> Method res" where
  "methodIDCallData ab =
     (case abiFallback ab of None \<Rightarrow> Err ErrExecutionReverted | Some m \<Rightarrow> Ok m)"

definition standardCallData :: "'a abi \<Rightarrow> Contract \<Rightarrow> Method res" where
  "standardCallData ab contract =
     (case abiMethodById ab (take 4 (cInput contract)) of
        Some m \<Rightarrow> Ok m
      | None \<Rightarrow>
          case abiFallback ab of
            None \<Rightarrow> Err (ErrMsg ''no method with id'')
          | Some m \<Rightarrow> Ok m)"

definition SetupABI :: "'a abi \<Rightarrow> Contract \<Rightarrow> bool \<Rightarrow> (Method \<Rightarrow> bool) \<Rightarrow> (Method \<times> 'a option) res" where
  "SetupABI ab contract readOnly isTransaction =
     res_bind
       (if length (cInput contract) = 0 then emptyCallData ab contract
        else if length (cInput contract) < 4 then methodIDCallData ab
        else standardCallData ab contract)
       (\<lambda>m. if readOnly \<and> isTransaction m then Err ErrWriteProtection
            else if mType m = Function then
              (if length (cInput contract) < 4 then Panic (ErrMsg ''slice bounds out of range'')
               else res_bind (abiUnpack ab m (drop 4 (cInput contract))) (\<lambda>args. Ok (m, Some args)))
            else Ok (m, None))"

section \<open>Balance changes from events (balance_handler.go, utils.go)\<close>

record balEnv =
  beBlockedAddr :: "AccAddress \<Rightarrow> bool"
  beAccFromBech32 :: "string \<Rightarrow> AccAddress option"
  beParseCoins :: "string \<Rightarrow> coins option"
  beAmountOf :: "coins \<Rightarrow> denom \<Rightarrow> int"
  beNewIntFromString :: "string \<Rightarrow> int option"
  beInfo :: EvmCoinInfo

definition Uint256FromBigInt :: "int \<Rightarrow> 256 word res" where
  "Uint256FromBigInt i =
     (if i < 0 then Err (ErrMsg ''trying to convert negative *big.Int to uint256.Int'')
      else if 2 ^ 256 \<le> i then Err (ErrMsg ''overflow trying to convert *big.Int to uint256.Int'')
      else Ok (word_of_int i))"

text \<open>\<open>common.BytesToAddress\<close>: the last twenty bytes.\<close>

definition BytesToAddress :: "AccAddress \<Rightarrow> address" where
  "BytesToAddress bz = foldl (\<lambda>acc c. acc * 256 + of_char c) 0 bz"

definition GetAttribute :: "sdkEvent \<Rightarrow> string \<Rightarrow> string option" where
  "GetAttribute ev key = map_of (evAttributes ev) key"

definition ParseAddress :: "balEnv \<Rightarrow> sdkEvent \<Rightarrow> string \<Rightarrow> AccAddress res" where
  "ParseAddress B ev key =
     (case GetAttribute ev key of
        None \<Rightarrow> Err (ErrMsg ''event missing attribute'')
      | Some v \<Rightarrow>
          case beAccFromBech32 B v of
            None \<Rightarrow> Err (ErrMsg ''invalid address'')
          | Some a \<Rightarrow> Ok a)"

definition ParseAmount :: "balEnv \<Rightarrow> sdkEvent \<Rightarrow> 256 word res" where
  "ParseAmount B ev =
     (case GetAttribute ev ''amount'' of
        None \<Rightarrow> Err (ErrMsg ''event missing attribute'')
      | Some v \<Rightarrow>
          case beParseCoins B v of
            None \<Rightarrow> Err (ErrMsg ''failed to parse coins'')
          | Some cs \<Rightarrow>
              case ConvertAmountTo18DecimalsBigInt (beInfo B) (beAmountOf B cs (eciDenom (beInfo B))) of
                None \<Rightarrow> nilDeref
              | Some n \<Rightarrow> res_map_err (ErrWrapped ''failed to convert coin amount to Uint256'') (Uint256FromBigInt n))"

definition ParseFractionalAmount :: "balEnv \<Rightarrow> sdkEvent \<Rightarrow> int res" where
  "ParseFractionalAmount B ev =
     (case GetAttribute ev ''delta'' of
        None \<Rightarrow> Err (ErrMsg ''event missing attribute'')
      | Some v \<Rightarrow>
          case beNewIntFromString B v of
            None \<Rightarrow> Err (ErrMsg ''failed to parse coins'')
          | Some n \<Rightarrow> Ok n)"

text \<open>One event: nothing, an amount to add to or to subtract from an address.\<close>

datatype balanceStep = BalanceAdd address "256 word" | BalanceSub address "256 word"

definition event_step :: "balEnv \<Rightarrow> sdkEvent \<Rightarrow> balanceStep option res" where
  "event_step B ev =
     (if evType ev = ''coin_spent'' then
        res_bind (res_map_err (ErrWrapped ''failed to parse spender address'') (ParseAddress B ev ''spender'')) (\<lambda>a.
          if beBlockedAddr B a then Ok None
          else res_bind (res_map_err (ErrWrapped ''failed to parse amount'') (ParseAmount B ev)) (\<lambda>n.
            Ok (Some (BalanceSub (BytesToAddress a) n))))
      else if evType ev = ''coin_received'' then
        res_bind (res_map_err (ErrWrapped ''failed to parse receiver address'') (ParseAddress B ev ''receiver'')) (\<lambda>a.
          if beBlockedAddr B a then Ok None
          else res_bind (res_map_err (ErrWrapped ''failed to parse amount'') (ParseAmount B ev)) (\<lambda>n.
            Ok (Some (BalanceAdd (BytesToAddress a) n))))
      else if evType ev = ''fractional_balance_change'' then
        res_bind (res_map_err (ErrWrapped ''failed to parse address'') (ParseAddress B ev ''address'')) (\<lambda>a.
          if beBlockedAddr B a then Ok None
          else res_bind (res_map_err (ErrWrapped ''failed to parse amount'') (ParseFractionalAmount B ev)) (\<lambda>delta.
            res_bind (res_map_err (ErrWrapped ''failed to convert delta to Uint256'') (Uint256FromBigInt \<bar>delta\<bar>)) (\<lambda>n.
              Ok (if 0 < delta then Some (BalanceAdd (BytesToAddress a) n)
                  else if delta < 0 then Some (BalanceSub (BytesToAddress a) n) else None))))
      else Ok None)"

fun apply_step :: "'c sdbEnv \<Rightarrow> balanceStep \<Rightarrow> 'c StateDB \<Rightarrow> 'c StateDB" where
  "apply_step E (BalanceAdd a n) s = snd (AddBalance E s a n)"
| "apply_step E (BalanceSub a n) s = snd (SubBalance E s a n)"

fun AfterBalanceChange :: "'c sdbEnv \<Rightarrow> balEnv \<Rightarrow> Events \<Rightarrow> 'c StateDB \<Rightarrow> (error option \<times> 'c StateDB) res" where
  "AfterBalanceChange E B [] s = Ok (None, s)"
| "AfterBalanceChange E B (ev # evs) s =
     (case event_step B ev of
        Panic e \<Rightarrow> Panic e
      | Err e \<Rightarrow> Ok (Some e, s)
      | Ok None \<Rightarrow> AfterBalanceChange E B evs s
      | Ok (Some st) \<Rightarrow> AfterBalanceChange E B evs (apply_step E st s))"

section \<open>Running native code\<close>

text \<open>What a native action leaves behind on the context it was given: its result, error or panic, the
  stores, the events it emitted, the logs it added to the EVM state and the gas its meter counted.\<close>

datatype nativeResult = NativeOk bytes | NativeErr error | NativeOutOfGas | NativePanic error

record 'c nativeOutcome =
  noResult :: nativeResult
  noStore :: "'c multistore"
  noEvents :: Events
  noLogs :: "Log list"
  noGasConsumed :: "64 word"

record 'c Precompile =
  balanceHandler :: "balEnv option"
  action :: "'c multistore \<Rightarrow> 'c nativeOutcome"

definition UseGas :: "Contract \<Rightarrow> 64 word \<Rightarrow> bool \<times> Contract" where
  "UseGas contract gas =
     (if cGas contract < gas then (False, contract) else (True, contract\<lparr>cGas := cGas contract - gas\<rparr>))"

text \<open>The part of \<open>runNativeAction\<close> before the native code: cache context, snapshot, journal entry, flush.\<close>

definition native_setup :: "'c sdbEnv \<Rightarrow> 'c StateDB \<Rightarrow> (error option \<times> 'c StateDB) res" where
  "native_setup E s =
     res_bind (GetCacheContext E s) (\<lambda>s1.
     res_bind (MultiStoreSnapshot E s1) (\<lambda>(snapshot, s2).
       case AddPrecompileFn s2 snapshot (cacheEvents s2) of
         (Some e, s3) \<Rightarrow> Ok (Some e, s3)
       | (None, s3) \<Rightarrow> CommitWithCacheCtx E s3))"

text \<open>
  The native code on the flushed stores. The gas meter it gets has the limit of the contract's gas and starts at
  the gas the context had already counted, \<open>initialGas\<close>; starting above the limit is an out-of-gas panic too.
  \<open>HandleGasError\<close> works on the context from before the new meter, whose count is still \<open>initialGas\<close>.
\<close>

definition native_call ::
    "'c sdbEnv \<Rightarrow> 'c Precompile \<Rightarrow> 64 word \<Rightarrow> Contract \<Rightarrow> 'c StateDB \<Rightarrow>
      ((bytes + error) \<times> Contract \<times> 'c StateDB) res" where
  "native_call E P initialGas contract s =
     (case snapshotter s of
        None \<Rightarrow> nilDeref
      | Some ms \<Rightarrow>
          if cGas contract < initialGas then Ok (Inr ErrOutOfGas, snd (UseGas contract (initialGas - initialGas)), s)
          else
            let out = action P (multi_current ms);
                prevEventsLen = length (cacheEvents s);
                s0 = s\<lparr>snapshotter := Some (multi_put (noStore out) ms), cacheEvents := cacheEvents s @ noEvents out\<rparr>;
                s1 = foldl AddLog s0 (noLogs out)
            in case noResult out of
                 NativeOutOfGas \<Rightarrow> Ok (Inr ErrOutOfGas, snd (UseGas contract (initialGas - initialGas)), s1)
               | NativePanic e \<Rightarrow> Panic e
               | NativeErr e \<Rightarrow> Ok (Inr e, contract, s1)
               | NativeOk bz \<Rightarrow>
                   case UseGas contract (noGasConsumed out - initialGas) of
                     (False, c) \<Rightarrow> Ok (Inr ErrOutOfGas, c, s1)
                   | (True, c) \<Rightarrow>
                       case balanceHandler P of
                         None \<Rightarrow> Ok (Inl bz, c, s1)
                       | Some B \<Rightarrow>
                           res_bind (AfterBalanceChange E B (drop prevEventsLen (cacheEvents s1)) s1) (\<lambda>(err, s2).
                             case err of
                               Some e \<Rightarrow> Ok (Inr e, c, s2)
                             | None \<Rightarrow> Ok (Inl bz, c, s2)))"

definition runNativeAction ::
    "'c sdbEnv \<Rightarrow> 'c Precompile \<Rightarrow> 64 word \<Rightarrow> Contract \<Rightarrow> 'c StateDB \<Rightarrow>
      ((bytes + error) \<times> Contract \<times> 'c StateDB) res" where
  "runNativeAction E P initialGas contract s =
     res_bind (native_setup E s) (\<lambda>(err, s1).
       case err of
         Some e \<Rightarrow> Ok (Inr e, contract, s1)
       | None \<Rightarrow> native_call E P initialGas contract s1)"

text \<open>\<open>RunNativeAction\<close> reports every error as a revert whose data is the encoded reason, when it can be
  encoded.\<close>

definition ReturnRevertError :: "(error \<Rightarrow> bytes option) \<Rightarrow> error \<Rightarrow> bytes option \<times> error" where
  "ReturnRevertError RevertReasonBytes e = (RevertReasonBytes e, ErrExecutionReverted)"

definition RunNativeAction ::
    "'c sdbEnv \<Rightarrow> (error \<Rightarrow> bytes option) \<Rightarrow> 'c Precompile \<Rightarrow> 64 word \<Rightarrow> Contract \<Rightarrow> 'c StateDB \<Rightarrow>
      ((bytes option \<times> error option) \<times> Contract \<times> 'c StateDB) res" where
  "RunNativeAction E rrb P initialGas contract s =
     res_bind (runNativeAction E P initialGas contract s) (\<lambda>(r, c, s1).
       case r of
         Inl bz \<Rightarrow> Ok ((Some bz, None), c, s1)
       | Inr e \<Rightarrow> Ok (let (bz, e') = ReturnRevertError rrb e in (bz, Some e'), c, s1))"

end
