(* ===== verification/StateDBRevert.thy ===== *)
theory StateDBRevert
  imports Precompile
begin

text \<open>
  Reverting the EVM state. The theory says what the rest of the EVM can observe of a state, shows that every
  operation leaves journal entries that undo it, and concludes that \<open>RevertToSnapshot\<close> brings the observable state back to
  what it was at the snapshot, whatever was done in between, nested snapshots and reverts included.
\<close>

section \<open>What can be observed\<close>

record objView =
  vNonce :: "64 word"
  vBalance :: "256 word"
  vCodeHash :: hash
  vCode :: "bytes option"
  vState :: "hash \<Rightarrow> hash"
  vCommitted :: "hash \<Rightarrow> hash"
  vDestructed :: bool
  vNew :: bool

definition obj_view :: "'c sdbEnv \<Rightarrow> 'c multistore \<Rightarrow> stateObject \<Rightarrow> objView" where
  "obj_view E m obj =
     \<lparr>vNonce = accNonce obj, vBalance = accBalance obj, vCodeHash = accCodeHash obj, vCode = fst (obj_Code E m obj),
      vState = (\<lambda>k. fst (obj_GetState E m obj k)), vCommitted = (\<lambda>k. fst (obj_GetCommittedState E m obj k)),
      vDestructed = selfDestructed obj, vNew = newContract obj\<rparr>"

definition live :: "'c sdbEnv \<Rightarrow> 'c StateDB \<Rightarrow> address \<Rightarrow> stateObject option" where
  "live E s a =
     (case kv_get (stateObjects s) a of
        Some obj \<Rightarrow> Some obj
      | None \<Rightarrow> map_option (newObject E a) (kGetAccount (keeper E) (ctxStore s) a))"

definition view :: "'c sdbEnv \<Rightarrow> 'c StateDB \<Rightarrow> address \<Rightarrow> objView option" where
  "view E s a = map_option (obj_view E (ctxStore s)) (live E s a)"

text \<open>With \<open>st\<close> the storage is part of what is compared, without it is not.\<close>

definition blur :: "bool \<Rightarrow> objView \<Rightarrow> objView" where
  "blur st v = (if st then v else v\<lparr>vState := \<lambda>_. 0, vCommitted := \<lambda>_. 0\<rparr>)"

text \<open>The stores a precompile call works on: those of the cache context, or the ones it would open.\<close>

definition cache_base :: "'c sdbEnv \<Rightarrow> 'c StateDB \<Rightarrow> 'c snapmulti res" where
  "cache_base E s =
     (case snapshotter s of
        Some ms \<Rightarrow> Ok ms
      | None \<Rightarrow> Multi_NewStore (map (\<lambda>(k, c). (k, ckNew (cacheOps E) c)) (ctxStore s)) (kKVStoreKeys (keeper E)))"

definition sdb_wf :: "'c StateDB \<Rightarrow> bool" where
  "sdb_wf s \<longleftrightarrow>
     kv_wf (stateObjects s) \<and> (\<forall>a obj. kv_get (stateObjects s) a = Some obj \<longrightarrow> address obj = a) \<and>
     al_wf (accessList s) \<and> (writeCache s = None \<longleftrightarrow> snapshotter s = None) \<and>
     (\<forall>ms. snapshotter s = Some ms \<longrightarrow> lockstep ms)"

text \<open>\<open>sim E st t s\<close>: \<open>t\<close> shows what \<open>s\<close> shows. \<open>t\<close> may have loaded more objects and may have opened the cache
  context when \<open>s\<close> has not.\<close>

definition sim :: "'c sdbEnv \<Rightarrow> bool \<Rightarrow> 'c StateDB \<Rightarrow> 'c StateDB \<Rightarrow> bool" where
  "sim E st t s \<longleftrightarrow>
     sdb_wf t \<and> ctxStore t = ctxStore s \<and>
     (\<forall>a. map_option (blur st) (view E t a) = map_option (blur st) (view E s a)) \<and>
     refund t = refund s \<and> logs t = logs s \<and> accessList t = accessList s \<and> txConfig t = txConfig s \<and>
     (\<forall>a k. GetTransientState t a k = GetTransientState s a k) \<and>
     cache_base E t = cache_base E s \<and> (snapshotter s \<noteq> None \<longrightarrow> snapshotter t \<noteq> None)"

lemma sim_refl: "sdb_wf s \<Longrightarrow> sim E st s s"
  by (simp add: sim_def)

lemma sim_trans: "sim E st t s \<Longrightarrow> sim E st s r \<Longrightarrow> sim E st t r"
  by (auto simp: sim_def)

text \<open>The fields no comparison looks at.\<close>

lemma sim_bookkeeping [simp]:
  "sim E st (t\<lparr>journal := j\<rparr>) s = sim E st t s"
  "sim E st t (s\<lparr>journal := j\<rparr>) = sim E st t s"
  "sim E st (t\<lparr>validRevisions := vr\<rparr>) s = sim E st t s"
  "sim E st t (s\<lparr>validRevisions := vr\<rparr>) = sim E st t s"
  "sim E st (t\<lparr>nextRevisionID := n\<rparr>) s = sim E st t s"
  "sim E st t (s\<lparr>nextRevisionID := n\<rparr>) = sim E st t s"
  "sim E st (t\<lparr>ctxEvents := evs\<rparr>) s = sim E st t s"
  "sim E st (t\<lparr>precompileCallsCounter := pc\<rparr>) s = sim E st t s"
  "sim E st t (s\<lparr>precompileCallsCounter := pc\<rparr>) = sim E st t s"
  by (simp_all add: sim_def sdb_wf_def view_def live_def GetTransientState_def cache_base_def cong: option.case_cong)

lemma live_bookkeeping [simp]:
  "live E (s\<lparr>journal := j\<rparr>) = live E s" "view E (s\<lparr>journal := j\<rparr>) = view E s"
  "cache_base E (s\<lparr>journal := j\<rparr>) = cache_base E s"
  "GetTransientState (s\<lparr>journal := j\<rparr>) = GetTransientState s"
  "cache_base E (s\<lparr>stateObjects := objs\<rparr>) = cache_base E s"
  "GetTransientState (s\<lparr>stateObjects := objs\<rparr>) = GetTransientState s"
  "cache_base E (setStateObject s obj) = cache_base E s"
  "GetTransientState (setStateObject s obj) = GetTransientState s"
  by (simp_all add: live_def view_def cache_base_def GetTransientState_def setStateObject_def fun_eq_iff
      cong: option.case_cong)

lemma sim_drop_dirty [simp]: "sim E st (drop_dirty e t) s = sim E st t s"
  by (auto simp: drop_dirty_def Let_def split: option.splits)

lemma sdb_wf_bookkeeping [simp]:
  "sdb_wf (s\<lparr>journal := j\<rparr>) = sdb_wf s"
  "sdb_wf (s\<lparr>validRevisions := vr\<rparr>) = sdb_wf s"
  "sdb_wf (s\<lparr>nextRevisionID := n\<rparr>) = sdb_wf s"
  "sdb_wf (s\<lparr>ctxEvents := evs\<rparr>) = sdb_wf s"
  "sdb_wf (s\<lparr>precompileCallsCounter := pc\<rparr>) = sdb_wf s"
  by (simp_all add: sdb_wf_def)

section \<open>Objects\<close>

lemma fst_obj_Code: "fst (obj_Code E m obj) =
    (case code obj of Some c \<Rightarrow> Some c
     | None \<Rightarrow> if IsEmptyCodeHash E (accCodeHash obj) then None else kGetCode (keeper E) m (accCodeHash obj))"
  by (simp add: obj_Code_def Let_def split: option.splits)

lemma fst_obj_GetCommittedState: "fst (obj_GetCommittedState E m obj k) =
    (case overrideStorage obj of
       Some st \<Rightarrow> (case kv_get st k of Some v \<Rightarrow> v | None \<Rightarrow> 0)
     | None \<Rightarrow> (case kv_get (originStorage obj) k of Some v \<Rightarrow> v | None \<Rightarrow> kGetState (keeper E) m (address obj) k))"
  by (simp add: obj_GetCommittedState_def Let_def split: option.splits)

lemma fst_obj_GetState: "fst (obj_GetState E m obj k) =
    (case kv_get (dirtyStorage obj) k of Some v \<Rightarrow> v | None \<Rightarrow> fst (obj_GetCommittedState E m obj k))"
  by (simp add: obj_GetState_def split: option.splits)

lemmas obj_reads = fst_obj_Code fst_obj_GetCommittedState fst_obj_GetState

text \<open>A read keeps the object's address and everything it shows.\<close>

lemma obj_Code_keeps:
  "address (snd (obj_Code E m obj)) = address obj" "obj_view E m (snd (obj_Code E m obj)) = obj_view E m obj"
  by (auto simp: obj_view_def obj_reads obj_Code_def Let_def split: option.splits)

lemma obj_GetCommittedState_keeps:
  "address (snd (obj_GetCommittedState E m obj k)) = address obj"
  "obj_view E m (snd (obj_GetCommittedState E m obj k)) = obj_view E m obj"
  by (auto simp: obj_view_def obj_reads obj_GetCommittedState_def Let_def fun_eq_iff split: option.splits)

lemma obj_GetState_keeps:
  "address (snd (obj_GetState E m obj k)) = address obj"
  "obj_view E m (snd (obj_GetState E m obj k)) = obj_view E m obj"
  by (auto simp: obj_GetState_def obj_GetCommittedState_keeps split: option.splits)

lemmas obj_reads_keep [simp] = obj_Code_keeps obj_GetCommittedState_keeps obj_GetState_keeps

text \<open>What each change of an object does to what it shows.\<close>

lemma obj_view_updates [simp]:
  "obj_view E m (obj\<lparr>accBalance := b\<rparr>) = (obj_view E m obj)\<lparr>vBalance := b\<rparr>"
  "obj_view E m (obj\<lparr>accNonce := n\<rparr>) = (obj_view E m obj)\<lparr>vNonce := n\<rparr>"
  "obj_view E m (obj\<lparr>selfDestructed := d\<rparr>) = (obj_view E m obj)\<lparr>vDestructed := d\<rparr>"
  "obj_view E m (obj\<lparr>newContract := d\<rparr>) = (obj_view E m obj)\<lparr>vNew := d\<rparr>"
  by (simp_all add: obj_view_def obj_reads cong: option.case_cong)

lemma obj_view_setCode:
  "obj_view E m (obj_setCode obj h c) = (obj_view E m obj)\<lparr>vCodeHash := h,
     vCode := (case c of Some bz \<Rightarrow> Some bz | None \<Rightarrow> if IsEmptyCodeHash E h then None else kGetCode (keeper E) m h)\<rparr>"
  by (simp add: obj_view_def obj_setCode_def obj_reads cong: option.case_cong)

lemma obj_view_setState:
  "obj_view E m (obj_setState obj k v c) = (obj_view E m obj)\<lparr>vState :=
     (vState (obj_view E m obj))(k := if v = c then vCommitted (obj_view E m obj) k else v)\<rparr>"
  by (auto simp: obj_view_def obj_setState_def obj_reads fun_eq_iff cong: option.case_cong)

lemma obj_update_address [simp]:
  "address (obj_setCode obj h c) = address obj" "address (obj_setState obj k v w) = address obj"
  "address (obj_setBalance obj b) = address obj" "address (obj_setNonce obj n) = address obj"
  "address (newObject E a acct) = a"
  by (simp_all add: obj_setCode_def obj_setState_def obj_setBalance_def obj_setNonce_def newObject_def)

section \<open>Loading objects\<close>

lemma live_setStateObject [simp]:
  "live E (setStateObject s obj) a = (if a = address obj then Some obj else live E s a)"
  by (simp add: live_def setStateObject_def cong: option.case_cong)

lemma setStateObject_sel [simp]:
  "ctxStore (setStateObject s obj) = ctxStore s" "refund (setStateObject s obj) = refund s"
  "logs (setStateObject s obj) = logs s" "accessList (setStateObject s obj) = accessList s"
  "txConfig (setStateObject s obj) = txConfig s" "transientStorage (setStateObject s obj) = transientStorage s"
  "snapshotter (setStateObject s obj) = snapshotter s" "writeCache (setStateObject s obj) = writeCache s"
  "journal (setStateObject s obj) = journal s" "validRevisions (setStateObject s obj) = validRevisions s"
  "nextRevisionID (setStateObject s obj) = nextRevisionID s" "ctxEvents (setStateObject s obj) = ctxEvents s"
  "cacheEvents (setStateObject s obj) = cacheEvents s"
  by (simp_all add: setStateObject_def)

lemma setStateObject_wf: "sdb_wf s \<Longrightarrow> sdb_wf (setStateObject s obj)"
  by (auto simp: sdb_wf_def setStateObject_def)

lemma view_setStateObject [simp]:
  "view E (setStateObject s obj) a = (if a = address obj then Some (obj_view E (ctxStore s) obj) else view E s a)"
  by (simp add: view_def)

text \<open>Replacing a live object by one that shows the same changes nothing that can be observed.\<close>

lemma sim_same_object:
  assumes "sdb_wf s" "live E s a = Some obj" "address obj' = a"
    "blur st (obj_view E (ctxStore s) obj') = blur st (obj_view E (ctxStore s) obj)"
  shows "sim E st (setStateObject s obj') s"
  using assms setStateObject_wf [OF assms(1), of obj']
  by (auto simp: sim_def GetTransientState_def cache_base_def view_def [of E s] cong: option.case_cong)

lemma live_address: "sdb_wf s \<Longrightarrow> live E s a = Some obj \<Longrightarrow> address obj = a"
  by (auto simp: live_def sdb_wf_def split: option.splits)

lemma getStateObject_live:
  assumes "sdb_wf s"
  shows "fst (getStateObject E s a) = live E s a"
    and "sim E st (snd (getStateObject E s a)) s"
    and "journal (snd (getStateObject E s a)) = journal s"
    and "validRevisions (snd (getStateObject E s a)) = validRevisions s"
    and "nextRevisionID (snd (getStateObject E s a)) = nextRevisionID s"
    and "ctxEvents (snd (getStateObject E s a)) = ctxEvents s"
    and "live E (snd (getStateObject E s a)) a = live E s a"
    and "sdb_wf (snd (getStateObject E s a))"
    and "ctxStore (snd (getStateObject E s a)) = ctxStore s"
proof -
  let ?s = "snd (getStateObject E s a)"
  have *: "?s = s \<or> (\<exists>obj. live E s a = Some obj \<and> address obj = a \<and> ?s = setStateObject s obj)"
    by (auto simp: getStateObject_def live_def Let_def split: option.splits)
  then show "sim E st ?s s" using assms sim_refl [OF assms] sim_same_object [OF assms] by fastforce
  show "fst (getStateObject E s a) = live E s a"
    by (auto simp: getStateObject_def live_def Let_def split: option.splits)
  show "sdb_wf ?s" using * assms setStateObject_wf by fastforce
  show "live E ?s a = live E s a" "journal ?s = journal s" "validRevisions ?s = validRevisions s"
    "nextRevisionID ?s = nextRevisionID s" "ctxEvents ?s = ctxEvents s" "ctxStore ?s = ctxStore s"
    using * by auto
qed

section \<open>Operations and the entries that undo them\<close>

text \<open>The addresses with a live object, and when a batch of entries tracks them: whatever it dirties is live afterwards,
  and an object it created was neither live before nor dirtied earlier in the batch.\<close>

definition loaded :: "'c StateDB \<Rightarrow> address set" where
  "loaded s = {a. kv_get (stateObjects s) a \<noteq> None}"

definition dirtied :: "JournalEntry list \<Rightarrow> address set" where
  "dirtied es = {a. Some a \<in> Dirtied ` set es}"

definition fresh_creates :: "address set \<Rightarrow> JournalEntry list \<Rightarrow> bool" where
  "fresh_creates D es \<longleftrightarrow>
     (\<forall>xs a ys. es = xs @ createObjectChange a # ys \<longrightarrow> a \<notin> D \<and> a \<notin> dirtied xs)"

definition tracks :: "'c StateDB \<Rightarrow> JournalEntry list \<Rightarrow> 'c StateDB \<Rightarrow> bool" where
  "tracks s es s' \<longleftrightarrow> loaded s \<subseteq> loaded s' \<and> dirtied es \<subseteq> loaded s' \<and> fresh_creates (loaded s) es"

lemma dirtied_simps [simp]:
  "dirtied [] = {}" "dirtied (es @ es') = dirtied es \<union> dirtied es'"
  "dirtied [e] = (case Dirtied e of None \<Rightarrow> {} | Some a \<Rightarrow> {a})"
  by (auto simp: dirtied_def split: option.splits)

lemma fresh_creates_Nil [simp]: "fresh_creates D []"
  by (simp add: fresh_creates_def)

lemma fresh_creates_append:
  "fresh_creates D (es @ es') \<longleftrightarrow> fresh_creates D es \<and> fresh_creates (D \<union> dirtied es) es'"
  unfolding fresh_creates_def
proof (intro iffI conjI allI impI)
  assume L: "\<forall>xs a ys. es @ es' = xs @ createObjectChange a # ys \<longrightarrow> a \<notin> D \<and> a \<notin> dirtied xs"
  fix xs a ys
  show "es = xs @ createObjectChange a # ys \<Longrightarrow> a \<notin> D" "es = xs @ createObjectChange a # ys \<Longrightarrow> a \<notin> dirtied xs"
    using L [rule_format, of xs a "ys @ es'"] by auto
  show "es' = xs @ createObjectChange a # ys \<Longrightarrow> a \<notin> D \<union> dirtied es" "es' = xs @ createObjectChange a # ys \<Longrightarrow> a \<notin> dirtied xs"
    using L [rule_format, of "es @ xs" a ys] by auto
next
  assume R: "(\<forall>xs a ys. es = xs @ createObjectChange a # ys \<longrightarrow> a \<notin> D \<and> a \<notin> dirtied xs) \<and>
    (\<forall>xs a ys. es' = xs @ createObjectChange a # ys \<longrightarrow> a \<notin> D \<union> dirtied es \<and> a \<notin> dirtied xs)"
  fix xs a ys assume e: "es @ es' = xs @ createObjectChange a # ys"
  then consider (l) zs where "es = xs @ createObjectChange a # zs" | (r) zs where "xs = es @ zs" "es' = zs @ createObjectChange a # ys"
    by (auto simp: append_eq_append_conv2 append_eq_Cons_conv)
  then have "a \<notin> D \<and> a \<notin> dirtied xs"
  proof cases
    case l
    show ?thesis by (rule R [THEN conjunct1, rule_format, OF l])
  next
    case (r zs)
    show ?thesis using R [THEN conjunct2, rule_format, OF r(2)] r(1) by simp
  qed
  then show "a \<notin> D" "a \<notin> dirtied xs" by blast+
qed

lemma fresh_creates_one: "fresh_creates D [e] \<longleftrightarrow> (\<forall>a. e = createObjectChange a \<longrightarrow> a \<notin> D)"
  by (auto simp: fresh_creates_def Cons_eq_append_conv)

lemma fresh_creates_mono: "fresh_creates D es \<Longrightarrow> D' \<subseteq> D \<Longrightarrow> fresh_creates D' es"
  by (auto simp: fresh_creates_def)

lemma tracks_trans: "tracks s es s1 \<Longrightarrow> tracks s1 es' s2 \<Longrightarrow> tracks s (es @ es') s2"
  by (auto simp: tracks_def fresh_creates_append intro: fresh_creates_mono)

lemma loaded_setStateObject [simp]: "loaded (setStateObject s obj) = insert (address obj) (loaded s)"
  by (auto simp: loaded_def setStateObject_def)

lemma loaded_bookkeeping [simp]:
  "loaded (s\<lparr>journal := j\<rparr>) = loaded s" "loaded (s\<lparr>validRevisions := vr\<rparr>) = loaded s"
  "loaded (s\<lparr>nextRevisionID := n\<rparr>) = loaded s" "loaded (s\<lparr>ctxEvents := evs\<rparr>) = loaded s"
  "loaded (s\<lparr>precompileCallsCounter := pc\<rparr>) = loaded s" "loaded (s\<lparr>refund := r\<rparr>) = loaded s"
  "loaded (s\<lparr>logs := l\<rparr>) = loaded s" "loaded (s\<lparr>accessList := al\<rparr>) = loaded s"
  "loaded (s\<lparr>transientStorage := ts\<rparr>) = loaded s" "loaded (s\<lparr>snapshotter := sn\<rparr>) = loaded s"
  "loaded (s\<lparr>writeCache := wc\<rparr>) = loaded s" "loaded (s\<lparr>cacheEvents := ce\<rparr>) = loaded s"
  by (simp_all add: loaded_def)

text \<open>\<open>undoes E st s es s'\<close>: \<open>s'\<close> extends the journal of \<open>s\<close> by \<open>es\<close>, and undoing \<open>es\<close> in any state that shows what
  \<open>s'\<close> shows leads to a state that shows what \<open>s\<close> shows.\<close>

definition undoes :: "'c sdbEnv \<Rightarrow> bool \<Rightarrow> 'c StateDB \<Rightarrow> JournalEntry list \<Rightarrow> 'c StateDB \<Rightarrow> bool" where
  "undoes E st s es s' \<longleftrightarrow>
     sdb_wf s' \<and> journal s' = foldl Journal_append (journal s) es \<and> validRevisions s' = validRevisions s \<and>
     nextRevisionID s' = nextRevisionID s \<and> ctxEvents s' = ctxEvents s \<and> tracks s es s' \<and>
     (\<forall>t. sim E st t s' \<longrightarrow> (\<exists>t'. revert_entries E (rev es) t = Ok t' \<and> sim E st t' s))"

lemma revert_entries_append:
  "revert_entries E (xs @ ys) s = res_bind (revert_entries E xs s) (revert_entries E ys)"
  by (induction xs arbitrary: s) (auto simp: res_bind_assoc)

lemma undoes_trans:
  assumes "undoes E st s es s1" "undoes E st s1 es' s2"
  shows "undoes E st s (es @ es') s2"
proof -
  have "\<exists>t'. revert_entries E (rev (es @ es')) t = Ok t' \<and> sim E st t' s" if t: "sim E st t s2" for t
  proof -
    from t assms(2) obtain t1 where "revert_entries E (rev es') t = Ok t1" "sim E st t1 s1" by (auto simp: undoes_def)
    moreover from this assms(1) obtain t2 where "revert_entries E (rev es) t1 = Ok t2" "sim E st t2 s"
      by (auto simp: undoes_def)
    ultimately show ?thesis by (simp add: revert_entries_append)
  qed
  with assms tracks_trans show ?thesis by (force simp: undoes_def)
qed

lemma undoes_same:
  assumes "sim E st s' s" "journal s' = journal s" "validRevisions s' = validRevisions s"
    "nextRevisionID s' = nextRevisionID s" "ctxEvents s' = ctxEvents s" "loaded s \<subseteq> loaded s'"
  shows "undoes E st s [] s'"
  using assms by (auto simp: undoes_def tracks_def sim_def [of _ _ s'] intro: sim_trans)

lemma undoes_refl: "sdb_wf s \<Longrightarrow> undoes E st s [] s"
  by (rule undoes_same) (simp_all add: sim_refl)

lemma undoes_one:
  assumes "sdb_wf s'" "journal s' = Journal_append (journal s) e" "validRevisions s' = validRevisions s"
    "nextRevisionID s' = nextRevisionID s" "ctxEvents s' = ctxEvents s" "tracks s [e] s'"
    "\<And>t. sim E st t s' \<Longrightarrow> \<exists>t'. Entry_Revert E e t = Ok t' \<and> sim E st t' s"
  shows "undoes E st s [e] s'"
  unfolding undoes_def
proof (intro conjI allI impI)
  fix t assume "sim E st t s'"
  from assms(7) [OF this] obtain t' where "Entry_Revert E e t = Ok t'" "sim E st t' s" by blast
  then show "\<exists>t'. revert_entries E (rev [e]) t = Ok t' \<and> sim E st t' s" by auto
qed (use assms in simp_all)

lemma loaded_load: "loaded s \<subseteq> loaded (snd (getStateObject E s a))"
  by (auto simp: getStateObject_def Let_def split: option.splits)

lemma undoes_load: "sdb_wf s \<Longrightarrow> undoes E st s [] (snd (getStateObject E s a))"
  by (rule undoes_same) (simp_all add: getStateObject_live loaded_load)

lemma undoes_replace:
  assumes "sdb_wf s" "live E s a = Some obj" "address obj' = a"
    "obj_view E (ctxStore s) obj' = obj_view E (ctxStore s) obj"
  shows "undoes E st s [] (setStateObject s obj')"
  using assms sim_same_object [OF assms(1-3), of st] by (intro undoes_same) auto

lemma sim_live:
  assumes "sim E st t s" "live E s a = Some obj" "sdb_wf s"
  obtains ot where "live E t a = Some ot" "address ot = a"
    "blur st (obj_view E (ctxStore s) ot) = blur st (obj_view E (ctxStore s) obj)"
proof -
  have "map_option (blur st) (view E t a) = map_option (blur st) (view E s a)" "ctxStore t = ctxStore s" "sdb_wf t"
    using assms(1) by (simp_all add: sim_def)
  then show thesis using that assms(2) live_address [of t E a] by (auto simp: view_def)
qed

text \<open>An entry that changes back one object.\<close>

lemma undoes_object:
  assumes wf: "sdb_wf s" and obj: "live E s a = Some obj" and addr: "address obj' = a"
    and d: "Dirtied e = None \<or> Dirtied e = Some a" "\<And>b. e \<noteq> createObjectChange b"
    and e: "\<And>t. live E t a \<noteq> None \<Longrightarrow> sdb_wf t \<Longrightarrow> Entry_Revert E e t = with_object E t a f"
    and f: "\<And>ot. address ot = a \<Longrightarrow>
      blur st (obj_view E (ctxStore s) ot) = blur st (obj_view E (ctxStore s) obj') \<Longrightarrow>
      address (f ot) = a \<and> blur st (obj_view E (ctxStore s) (f ot)) = blur st (obj_view E (ctxStore s) obj)"
  shows "undoes E st s [e] (setStateObject (log_entry s e) obj')"
proof (rule undoes_one)
  fix t assume t: "sim E st t (setStateObject (log_entry s e) obj')"
  have wf': "sdb_wf (setStateObject (log_entry s e) obj')" by (simp add: setStateObject_wf wf)
  have "live E (setStateObject (log_entry s e) obj') a = Some obj'" using addr by simp
  from sim_live [OF t this wf'] obtain ot where
    ot: "live E t a = Some ot" "address ot = a" "blur st (obj_view E (ctxStore s) ot) = blur st (obj_view E (ctxStore s) obj')"
    by auto
  have wt: "sdb_wf t" and ctx: "ctxStore t = ctxStore s" using t by (simp_all add: sim_def)
  note g = getStateObject_live [OF wt, where E = E and a = a]
  obtain t1 where gs: "getStateObject E t a = (Some ot, t1)" using g(1) ot(1) by (metis prod.collapse)
  note g = g [unfolded gs, simplified]
  from e ot wt have rev: "Entry_Revert E e t = Ok (setStateObject t1 (f ot))" by (simp add: with_object_def gs)
  note fo = f [OF ot(2,3)]
  have sim1: "sim E st t1 (setStateObject (log_entry s e) obj')" using sim_trans [OF g(2) t] .
  have wt1: "sdb_wf t1" and ctx1: "ctxStore t1 = ctxStore s" using sim1 by (simp_all add: sim_def)
  have "sim E st (setStateObject t1 (f ot)) s"
    using sim1 fo obj addr setStateObject_wf [OF wt1, of "f ot"] ctx1
    by (auto simp: sim_def view_def [of E s])
  with rev show "\<exists>t'. Entry_Revert E e t = Ok t' \<and> sim E st t' s" by blast
qed (use d addr in \<open>auto simp: setStateObject_wf wf tracks_def fresh_creates_one\<close>)

text \<open>An entry that puts back a whole object, or removes one that was not there.\<close>

lemma undoes_reset:
  assumes wf: "sdb_wf s" and obj: "live E s a = Some prev" and addr: "address obj' = a"
  shows "undoes E st s [resetObjectChange prev] (setStateObject (log_entry s (resetObjectChange prev)) obj')"
proof (rule undoes_one)
  fix t assume t: "sim E st t (setStateObject (log_entry s (resetObjectChange prev)) obj')"
  then have "sdb_wf (setStateObject t prev)" by (simp add: sim_def setStateObject_wf)
  then have "sim E st (setStateObject t prev) s"
    using t live_address [OF wf obj] obj addr
    by (auto simp: sim_def view_def [of E s])
  then show "\<exists>t'. Entry_Revert E (resetObjectChange prev) t = Ok t' \<and> sim E st t' s" by simp
qed (auto simp: setStateObject_wf wf tracks_def fresh_creates_one)

lemma undoes_create:
  assumes wf: "sdb_wf s" and obj: "live E s a = None" and addr: "address obj' = a"
  shows "undoes E st s [createObjectChange a] (setStateObject (log_entry s (createObjectChange a)) obj')"
proof (rule undoes_one)
  fix t assume t: "sim E st t (setStateObject (log_entry s (createObjectChange a)) obj')"
  let ?t = "t\<lparr>stateObjects := kv_delete a (stateObjects t)\<rparr>"
  have ctx: "ctxStore t = ctxStore s" and wt: "sdb_wf t" using t by (simp_all add: sim_def)
  from obj have none: "kGetAccount (keeper E) (ctxStore s) a = None" by (auto simp: live_def split: option.splits)
  have lv: "live E ?t b = (if b = a then None else live E t b)" for b
    using none ctx by (simp add: live_def cong: option.case_cong)
  have wf': "sdb_wf ?t" using wt by (auto simp: sdb_wf_def)
  have "map_option (blur st) (view E ?t b) = map_option (blur st) (view E s b)" for b
  proof (cases "b = a")
    case False
    then have "view E ?t b = view E t b" by (simp add: view_def lv)
    moreover have "map_option (blur st) (view E t b) =
        map_option (blur st) (view E (setStateObject (log_entry s (createObjectChange a)) obj') b)"
      using t by (simp only: sim_def)
    ultimately show ?thesis using addr False by simp
  qed (simp add: view_def lv obj)
  then have "sim E st ?t s"
    using t wf' by (simp add: sim_def)
  then show "\<exists>t'. Entry_Revert E (createObjectChange a) t = Ok t' \<and> sim E st t' s" by simp
next
  have "a \<notin> loaded s" using obj by (auto simp: live_def loaded_def split: option.splits)
  then show "tracks s [createObjectChange a] (setStateObject (log_entry s (createObjectChange a)) obj')"
    using addr by (auto simp: tracks_def fresh_creates_one)
qed (simp_all add: setStateObject_wf wf)

end
