(* ===== verification/StateDBUndo.thy ===== *)
theory StateDBUndo
  imports StateDBRevert
begin

text \<open>
  Every operation of the EVM state, one after the other, leaves entries that undo it: the loads, the writes of
  an object, the counters and lists of the transaction, and a whole precompile call.
\<close>

section \<open>Writes to one object\<close>

lemma blur_updates [simp]:
  "blur st (v\<lparr>vBalance := b\<rparr>) = (blur st v)\<lparr>vBalance := b\<rparr>"
  "blur st (v\<lparr>vNonce := n\<rparr>) = (blur st v)\<lparr>vNonce := n\<rparr>"
  "blur st (v\<lparr>vDestructed := d\<rparr>) = (blur st v)\<lparr>vDestructed := d\<rparr>"
  "blur st (v\<lparr>vNew := d\<rparr>) = (blur st v)\<lparr>vNew := d\<rparr>"
  "blur st (v\<lparr>vCodeHash := h\<rparr>) = (blur st v)\<lparr>vCodeHash := h\<rparr>"
  "blur st (v\<lparr>vCode := c\<rparr>) = (blur st v)\<lparr>vCode := c\<rparr>"
  by (simp_all add: blur_def)

lemma blur_own [simp]:
  "(blur st (obj_view E m obj))\<lparr>vBalance := accBalance obj\<rparr> = blur st (obj_view E m obj)"
  "(blur st (obj_view E m obj))\<lparr>vNonce := accNonce obj\<rparr> = blur st (obj_view E m obj)"
  "(blur st (obj_view E m obj))\<lparr>vNew := newContract obj\<rparr> = blur st (obj_view E m obj)"
  "(blur st (obj_view E m obj))\<lparr>vDestructed := selfDestructed obj, vBalance := accBalance obj\<rparr> = blur st (obj_view E m obj)"
  "(blur st (obj_view E m obj))\<lparr>vCodeHash := accCodeHash obj, vCode := fst (obj_Code E m obj)\<rparr> = blur st (obj_view E m obj)"
  by (simp_all add: blur_def obj_view_def)

lemma undoes_balance:
  assumes "sdb_wf s" "live E s a = Some obj" "address obj = a"
  shows "undoes E st s [balanceChange a (accBalance obj)] (snd (obj_SetBalance s obj amount))"
  using undoes_object [OF assms(1,2), of "obj_setBalance obj amount" "balanceChange a (accBalance obj)"
      "\<lambda>ot. obj_setBalance ot (accBalance obj)" st] assms(3)
  by (simp add: obj_SetBalance_def Let_def obj_setBalance_def)

lemma undoes_nonce:
  assumes "sdb_wf s" "live E s a = Some obj" "address obj = a"
  shows "undoes E st s [nonceChange a (accNonce obj)] (obj_SetNonce s obj nonce)"
  using undoes_object [OF assms(1,2), of "obj_setNonce obj nonce" "nonceChange a (accNonce obj)"
      "\<lambda>ot. obj_setNonce ot (accNonce obj)" st] assms(3)
  by (simp add: obj_SetNonce_def Let_def obj_setNonce_def)

lemma undoes_newContract:
  assumes "sdb_wf s" "live E s a = Some obj" "address obj = a" "\<not> newContract obj"
  shows "undoes E st s [createContractChange a] (setStateObject (log_entry s (createContractChange a)) (obj\<lparr>newContract := True\<rparr>))"
proof (rule undoes_object [OF assms(1,2)])
  fix ot assume "address ot = a"
    "blur st (obj_view E (ctxStore s) ot) = blur st (obj_view E (ctxStore s) (obj\<lparr>newContract := True\<rparr>))"
  then show "address (ot\<lparr>newContract := False\<rparr>) = a \<and>
      blur st (obj_view E (ctxStore s) (ot\<lparr>newContract := False\<rparr>)) = blur st (obj_view E (ctxStore s) obj)"
    using assms(4) blur_own(3) [where st = st and E = E and m = "ctxStore s" and obj = obj] by simp
qed (use assms in simp_all)

lemma undoes_selfDestruct:
  assumes "sdb_wf s" "live E s a = Some obj" "address obj = a"
  shows "undoes E st s [selfDestructChange a (selfDestructed obj) (accBalance obj)]
    (setStateObject (log_entry s (selfDestructChange a (selfDestructed obj) (accBalance obj)))
      ((markSelfDestructed obj)\<lparr>accBalance := 0\<rparr>))"
proof (rule undoes_object [OF assms(1,2)])
  show "Entry_Revert E (selfDestructChange a (selfDestructed obj) (accBalance obj)) t =
      with_object E t a (\<lambda>ot. obj_setBalance (ot\<lparr>selfDestructed := selfDestructed obj\<rparr>) (accBalance obj))"
    if "live E t a \<noteq> None" "sdb_wf t" for t
    using that getStateObject_live(1) [OF that(2), of E a]
    by (cases "getStateObject E t a") (auto simp: with_object_def)
qed (use assms in \<open>simp_all add: markSelfDestructed_def obj_setBalance_def\<close>)

lemma undoes_code:
  assumes "sdb_wf s" "live E s a = Some obj" "address obj = a"
  shows "undoes E st s [codeChange a (fst (obj_Code E (ctxStore s) obj)) (accCodeHash obj)] (obj_SetCode E s obj h c)"
proof -
  let ?m = "ctxStore s"
  obtain prev obj1 where oc: "obj_Code E ?m obj = (prev, obj1)" by (cases "obj_Code E ?m obj")
  have keep: "address obj1 = a" "obj_view E ?m obj1 = obj_view E ?m obj"
    using obj_Code_keeps [of E ?m obj] assms(3) by (simp_all add: oc)
  then have ch: "accCodeHash obj1 = accCodeHash obj" by (simp add: obj_view_def)
  have prev: "(case prev of Some bz \<Rightarrow> Some bz | None \<Rightarrow>
      if IsEmptyCodeHash E (accCodeHash obj) then None else kGetCode (keeper E) ?m (accCodeHash obj)) = prev"
    using oc by (auto simp: obj_Code_def Let_def split: option.splits if_splits)
  have "undoes E st s [codeChange a prev (accCodeHash obj)]
      (setStateObject (log_entry s (codeChange a prev (accCodeHash obj))) (obj_setCode obj1 h c))"
  proof (rule undoes_object [OF assms(1,2)])
    fix ot assume ot: "address ot = a" "blur st (obj_view E ?m ot) = blur st (obj_view E ?m (obj_setCode obj1 h c))"
    then show "address (obj_setCode ot (accCodeHash obj) prev) = a \<and>
        blur st (obj_view E ?m (obj_setCode ot (accCodeHash obj) prev)) = blur st (obj_view E ?m obj)"
      using prev blur_own(5) [where obj = obj and m = "ctxStore s" and st = st and E = E]
      by (simp add: obj_view_setCode keep oc)
  qed (use keep in simp_all)
  then show ?thesis by (simp add: obj_SetCode_def oc keep ch)
qed

lemma undoes_state:
  assumes "sdb_wf s" "live E s a = Some obj" "address obj = a"
  shows "\<exists>es. undoes E st s es (snd (obj_SetState E s obj key value))"
proof -
  let ?m = "ctxStore s"
  obtain prev obj1 where o1: "obj_GetState E ?m obj key = (prev, obj1)" by (cases "obj_GetState E ?m obj key")
  have k1: "address obj1 = a" "obj_view E ?m obj1 = obj_view E ?m obj"
    using obj_GetState_keeps [of E ?m obj key] assms(3) by (simp_all add: o1)
  have prev: "prev = vState (obj_view E ?m obj) key" using o1 by (simp add: obj_view_def)
  show ?thesis
  proof (cases "prev = value")
    case True
    then show ?thesis using undoes_replace [OF assms(1,2) k1] o1 by (auto simp: obj_SetState_def)
  next
    case False
    obtain origin obj2 where o2: "obj_GetCommittedState E ?m obj1 key = (origin, obj2)"
      by (cases "obj_GetCommittedState E ?m obj1 key")
    have k2: "address obj2 = a" "obj_view E ?m obj2 = obj_view E ?m obj"
      using obj_GetCommittedState_keeps [of E ?m obj1 key] k1 by (simp_all add: o2)
    have origin: "origin = vCommitted (obj_view E ?m obj) key" using o2 k1(2) [symmetric] by (simp add: obj_view_def)
    let ?e = "storageChange a key prev origin"
    have "undoes E st s [?e] (setStateObject (log_entry s ?e) (obj_setState obj2 key value origin))"
    proof (rule undoes_object [OF assms(1,2)])
      fix ot assume ot: "address ot = a"
        "blur st (obj_view E ?m ot) = blur st (obj_view E ?m (obj_setState obj2 key value origin))"
      have "blur st (obj_view E ?m (obj_setState ot key prev origin)) = blur st (obj_view E ?m obj)"
      proof (cases st)
        case True
        then show ?thesis using ot(2) k2 prev origin by (simp add: blur_def obj_view_setState fun_upd_idem)
      next
        case False
        then show ?thesis using ot(2) k2 by (simp add: blur_def obj_view_setState)
      qed
      with ot(1) show "address (obj_setState ot key prev origin) = a \<and>
          blur st (obj_view E ?m (obj_setState ot key prev origin)) = blur st (obj_view E ?m obj)" by simp
    qed (use k2 in simp_all)
    then show ?thesis using False o1 o2 k2 by (auto simp: obj_SetState_def)
  qed
qed

section \<open>Creating and loading\<close>

lemma getStateObject_none: "sdb_wf s \<Longrightarrow> live E s a = None \<Longrightarrow> getStateObject E s a = (None, s)"
  by (auto simp: getStateObject_def live_def split: option.splits)

lemma getStateObject_some:
  assumes "sdb_wf s" "live E s a = Some obj"
  obtains s1 where "getStateObject E s a = (Some obj, s1)" "undoes E st s [] s1" "live E s1 a = Some obj"
    "address obj = a" "sdb_wf s1"
proof -
  note g = getStateObject_live [OF assms(1), where E = E and a = a]
  obtain s1 where s1: "getStateObject E s a = (Some obj, s1)" using g(1) assms(2) by (metis prod.collapse)
  with undoes_load [OF assms(1), of E st a] g(7,8) assms(2) live_address [OF assms] show thesis
    by (intro that) simp_all
qed

lemma createObject_undo:
  assumes "sdb_wf s" "createObject E s a = ((newobj, prev), s1)"
  shows "\<exists>es. undoes E st s es s1" "prev = live E s a" "live E s1 a = Some newobj" "address newobj = a"
    "\<And>obj'. address obj' = a \<Longrightarrow> prev \<noteq> None \<Longrightarrow> \<exists>es. undoes E st s es (setStateObject s1 obj')"
proof -
  let ?no = "newObject E a \<lparr>Nonce = 0, Balance = None, CodeHash = None\<rparr>"
  have "(\<exists>es. undoes E st s es s1) \<and> prev = live E s a \<and> live E s1 a = Some newobj \<and> address newobj = a \<and>
    (\<forall>obj'. address obj' = a \<longrightarrow> prev \<noteq> None \<longrightarrow> (\<exists>es. undoes E st s es (setStateObject s1 obj')))"
  proof (cases "live E s a")
    case None
    have "undoes E st s [createObjectChange a] (setStateObject (log_entry s (createObjectChange a)) ?no)"
      by (rule undoes_create [OF assms(1) None]) simp
    then show ?thesis using assms getStateObject_none [OF assms(1) None] None by (auto simp: createObject_def Let_def)
  next
    case (Some p)
    obtain s0 where s0: "getStateObject E s a = (Some p, s0)" "undoes E st s [] s0" "live E s0 a = Some p" "sdb_wf s0"
      using getStateObject_some [OF assms(1) Some, of st] by metis
    have u: "undoes E st s0 [resetObjectChange p] (setStateObject (log_entry s0 (resetObjectChange p)) obj')"
      if "address obj' = a" for obj' using undoes_reset [OF s0(4,3) that] .
    have s1: "newobj = ?no" "prev = Some p" "s1 = setStateObject (log_entry s0 (resetObjectChange p)) ?no"
      using assms(2) by (auto simp: createObject_def Let_def s0)
    have "setStateObject s1 obj' = setStateObject (log_entry s0 (resetObjectChange p)) obj'" if "address obj' = a" for obj'
    proof -
      have "kv_set a obj' (kv_set a ?no (stateObjects s0)) = kv_set a obj' (stateObjects s0)"
        using s0(4) by (intro kv_eqI) (auto simp: sdb_wf_def)
      then show ?thesis using that by (simp add: s1 setStateObject_def)
    qed
    moreover have "undoes E st s [resetObjectChange p] (setStateObject (log_entry s0 (resetObjectChange p)) obj')"
      if "address obj' = a" for obj' using undoes_trans [OF s0(2) u [OF that]] by simp
    moreover from this [of ?no] have "\<exists>es. undoes E st s es s1" unfolding s1 by auto
    ultimately show ?thesis by (auto simp: s1 Some)
  qed
  then show "\<exists>es. undoes E st s es s1" "prev = live E s a" "live E s1 a = Some newobj" "address newobj = a"
    "\<And>obj'. address obj' = a \<Longrightarrow> prev \<noteq> None \<Longrightarrow> \<exists>es. undoes E st s es (setStateObject s1 obj')"
    by blast+
qed

lemma getOrNew_undo:
  assumes "sdb_wf s" "getOrNewStateObject E s a = (obj, s1)"
  shows "\<exists>es. undoes E st s es s1" "live E s1 a = Some obj" "address obj = a"
proof -
  have "(\<exists>es. undoes E st s es s1) \<and> live E s1 a = Some obj \<and> address obj = a"
  proof (cases "live E s a")
    case None
    obtain newobj prev s2 where c: "createObject E s a = ((newobj, prev), s2)"
      by (metis surj_pair)
    with assms(2) getStateObject_none [OF assms(1) None] have "obj = newobj" "s1 = s2"
      by (simp_all add: getOrNewStateObject_def)
    with createObject_undo [OF assms(1) c] show ?thesis by blast
  next
    case (Some p)
    obtain s0 where s0: "getStateObject E s a = (Some p, s0)" "undoes E st s [] s0" "live E s0 a = Some p" "address p = a"
      using getStateObject_some [OF assms(1) Some, of st] by metis
    then show ?thesis using assms(2) by (auto simp: getOrNewStateObject_def)
  qed
  then show "\<exists>es. undoes E st s es s1" "live E s1 a = Some obj" "address obj = a" by blast+
qed

section \<open>Counters, logs, transient storage and the access list\<close>

lemma live_other_fields [simp]:
  "live E (s\<lparr>refund := r\<rparr>) = live E s" "live E (s\<lparr>logs := l\<rparr>) = live E s"
  "live E (s\<lparr>accessList := al\<rparr>) = live E s" "live E (s\<lparr>transientStorage := ts\<rparr>) = live E s"
  "live E (s\<lparr>snapshotter := sn\<rparr>) = live E s" "live E (s\<lparr>writeCache := wc\<rparr>) = live E s"
  "live E (s\<lparr>cacheEvents := ce\<rparr>) = live E s" "live E (s\<lparr>precompileCallsCounter := pc\<rparr>) = live E s"
  by (simp_all add: live_def fun_eq_iff cong: option.case_cong)

lemma view_other_fields [simp]:
  "view E (s\<lparr>refund := r\<rparr>) = view E s" "view E (s\<lparr>logs := l\<rparr>) = view E s"
  "view E (s\<lparr>accessList := al\<rparr>) = view E s" "view E (s\<lparr>transientStorage := ts\<rparr>) = view E s"
  "view E (s\<lparr>snapshotter := sn\<rparr>) = view E s" "view E (s\<lparr>writeCache := wc\<rparr>) = view E s"
  "view E (s\<lparr>cacheEvents := ce\<rparr>) = view E s" "view E (s\<lparr>precompileCallsCounter := pc\<rparr>) = view E s"
  by (simp_all add: view_def fun_eq_iff)

lemma cache_base_other_fields [simp]:
  "cache_base E (s\<lparr>refund := r\<rparr>) = cache_base E s" "cache_base E (s\<lparr>logs := l\<rparr>) = cache_base E s"
  "cache_base E (s\<lparr>accessList := al\<rparr>) = cache_base E s" "cache_base E (s\<lparr>transientStorage := ts\<rparr>) = cache_base E s"
  "cache_base E (s\<lparr>writeCache := wc\<rparr>) = cache_base E s" "cache_base E (s\<lparr>cacheEvents := ce\<rparr>) = cache_base E s"
  "cache_base E (s\<lparr>precompileCallsCounter := pc\<rparr>) = cache_base E s"
  by (simp_all add: cache_base_def cong: option.case_cong)

lemma transient_other_fields [simp]:
  "GetTransientState (s\<lparr>refund := r\<rparr>) = GetTransientState s" "GetTransientState (s\<lparr>logs := l\<rparr>) = GetTransientState s"
  "GetTransientState (s\<lparr>accessList := al\<rparr>) = GetTransientState s"
  "GetTransientState (s\<lparr>snapshotter := sn\<rparr>) = GetTransientState s"
  "GetTransientState (s\<lparr>writeCache := wc\<rparr>) = GetTransientState s"
  "GetTransientState (s\<lparr>cacheEvents := ce\<rparr>) = GetTransientState s"
  "GetTransientState (s\<lparr>precompileCallsCounter := pc\<rparr>) = GetTransientState s"
  by (simp_all add: GetTransientState_def fun_eq_iff)

lemma sdb_wf_other_fields [simp]:
  "sdb_wf (s\<lparr>refund := r\<rparr>) = sdb_wf s" "sdb_wf (s\<lparr>logs := l\<rparr>) = sdb_wf s"
  "sdb_wf (s\<lparr>transientStorage := ts\<rparr>) = sdb_wf s" "sdb_wf (s\<lparr>cacheEvents := ce\<rparr>) = sdb_wf s"
  by (simp_all add: sdb_wf_def)

lemma sdb_wf_accessList: "sdb_wf s \<Longrightarrow> sdb_wf (s\<lparr>accessList := al\<rparr>) = al_wf al"
  by (simp add: sdb_wf_def)

lemma tracks_none: "\<forall>e\<in>set es. Dirtied e = None \<Longrightarrow> loaded s' = loaded s \<Longrightarrow> tracks s es s'"
  by (force simp: tracks_def dirtied_def fresh_creates_def)

lemma undoes_refund:
  "sdb_wf s \<Longrightarrow> undoes E st s [refundChange (refund s)] ((log_entry s (refundChange (refund s)))\<lparr>refund := r\<rparr>)"
  by (rule undoes_one) (auto simp: sim_def tracks_none)

lemma undoes_log: "sdb_wf s \<Longrightarrow> undoes E st s [addLogChange] (AddLog s lg)"
  unfolding AddLog_def Let_def by (rule undoes_one) (auto simp: sim_def tracks_none)

lemma undoes_transient:
  assumes "sdb_wf s"
  shows "\<exists>es. undoes E st s es (SetTransientState s a k v)"
proof (cases "GetTransientState s a k = v")
  case True
  then show ?thesis using undoes_refl [OF assms] by (auto simp: SetTransientState_def)
next
  case False
  let ?e = "transientStorageChange a k (GetTransientState s a k)"
  have "undoes E st s [?e] (setTransientState (log_entry s ?e) a k v)"
  proof (rule undoes_one)
    fix t assume "sim E st t (setTransientState (log_entry s ?e) a k v)"
    then have "sim E st (setTransientState t a k (GetTransientState s a k)) s"
      using assms by (auto simp: sim_def setTransientState_def GetTransientState_def Transient_Get_Set)
    then show "\<exists>t'. Entry_Revert E ?e t = Ok t' \<and> sim E st t' s" by simp
  qed (use assms in \<open>simp_all add: setTransientState_def tracks_none\<close>)
  then show ?thesis using False by (auto simp: SetTransientState_def)
qed

lemma undoes_address:
  assumes "sdb_wf s"
  shows "\<exists>es. undoes E st s es (AddAddressToAccessList s a)"
proof -
  obtain c al where ad: "AddAddress (accessList s) a = (c, al)" by (cases "AddAddress (accessList s) a")
  have wf: "al_wf (accessList s)" using assms by (simp add: sdb_wf_def)
  note wf' = AddAddress_warm(1) [OF ad wf]
  show ?thesis
  proof (cases c)
    case True
    let ?s = "log_entry (s\<lparr>accessList := al\<rparr>) (accessListAddAccountChange a)"
    have "DeleteAddress al a = accessList s" using DeleteAddress_undo [OF wf] ad True by simp
    then have "undoes E st s [accessListAddAccountChange a] ?s"
      using assms wf wf' by (intro undoes_one) (auto simp: sim_def sdb_wf_accessList tracks_none)
    then show ?thesis using ad True by (auto simp: AddAddressToAccessList_def)
  next
    case False
    with ad have "al = accessList s" by (auto simp: AddAddress_def split: if_splits)
    then show ?thesis using ad False undoes_refl [OF assms] by (auto simp: AddAddressToAccessList_def)
  qed
qed

lemma undoes_slot:
  assumes "sdb_wf s"
  shows "\<exists>s' es. AddSlotToAccessList s a h = Ok s' \<and> undoes E st s es s'"
proof -
  have wf: "al_wf (accessList s)" using assms by (simp add: sdb_wf_def)
  obtain c d al where ad: "AddSlot (accessList s) a h = Ok ((c, d), al)" and wf': "al_wf al"
    and cd: "c \<Longrightarrow> d" "\<not> d \<Longrightarrow> al = accessList s"
  proof -
    from AddSlot_warm [OF wf, of a h] obtain al where
      al: "AddSlot (accessList s) a h = Ok ((a \<notin> warm (accessList s), (a, h) \<notin> warmSlots (accessList s)), al)" "al_wf al"
      by blast
    moreover have "a \<notin> warm (accessList s) \<Longrightarrow> (a, h) \<notin> warmSlots (accessList s)"
      by (auto simp: warm_def warmSlots_def)
    moreover have "al = accessList s" if "(a, h) \<in> warmSlots (accessList s)"
      using al(1) that by (auto simp: AddSlot_def Let_def res_bind_Ok split: if_splits)
    ultimately show thesis using that by blast
  qed
  show ?thesis
  proof (cases d)
    case False
    with cd have "al = accessList s" "\<not> c" by auto
    then show ?thesis using ad False undoes_refl [OF assms] by (fastforce simp: AddSlotToAccessList_def)
  next
    case True
    let ?es = "(if c then [accessListAddAccountChange a] else []) @ [accessListAddSlotChange a h]"
    let ?s = "(s\<lparr>accessList := al\<rparr>)\<lparr>journal := foldl Journal_append (journal s) ?es\<rparr>"
    have un: "res_bind (DeleteSlot al a h) (\<lambda>al''. Ok (if c then DeleteAddress al'' a else al'')) = Ok (accessList s)"
      using DeleteSlot_undo [OF wf] ad True by simp
    then obtain al2 where al2: "DeleteSlot al a h = Ok al2" "(if c then DeleteAddress al2 a else al2) = accessList s"
      by (auto simp: res_bind_Ok)
    have "\<exists>t'. revert_entries E (rev ?es) t = Ok t' \<and> sim E st t' s" if "sim E st t ?s" for t
    proof -
      have "accessList t = al" using that by (simp add: sim_def)
      moreover have "sim E st (t\<lparr>accessList := accessList s\<rparr>) s"
        using that wf by (auto simp: sim_def sdb_wf_accessList)
      moreover have "(drop_dirty e t)\<lparr>accessList := x\<rparr> = t\<lparr>accessList := x\<rparr>" if "Dirtied e = None" for e x t
        using that by (simp add: drop_dirty_def)
      ultimately show ?thesis using al2 by (cases c) (simp_all add: drop_dirty_def)
    qed
    then have "undoes E st s ?es ?s" using assms wf' by (simp add: undoes_def sdb_wf_accessList tracks_none)
    moreover have "AddSlotToAccessList s a h = Ok ?s" using ad True by (cases c) (simp_all add: AddSlotToAccessList_def)
    ultimately show ?thesis by blast
  qed
qed

section \<open>Reads and journalled writes as operations\<close>

datatype sdb_read =
    RExist address | REmpty address | RGetBalance address | RGetNonce address | RGetCode address | RGetCodeSize address
  | RGetCodeHash address | RGetState address hash | RGetCommittedState address hash
  | RGetStateAndCommittedState address hash | RHasSelfDestructed address

fun read_effect :: "'c sdbEnv \<Rightarrow> 'c StateDB \<Rightarrow> sdb_read \<Rightarrow> 'c StateDB" where
  "read_effect E s (RExist a) = snd (Exist E s a)"
| "read_effect E s (REmpty a) = snd (Empty E s a)"
| "read_effect E s (RGetBalance a) = snd (sdb_GetBalance E s a)"
| "read_effect E s (RGetNonce a) = snd (GetNonce E s a)"
| "read_effect E s (RGetCode a) = snd (GetCode E s a)"
| "read_effect E s (RGetCodeSize a) = snd (GetCodeSize E s a)"
| "read_effect E s (RGetCodeHash a) = snd (GetCodeHash E s a)"
| "read_effect E s (RGetState a k) = snd (GetState E s a k)"
| "read_effect E s (RGetCommittedState a k) = snd (GetCommittedState E s a k)"
| "read_effect E s (RGetStateAndCommittedState a k) = snd (GetStateAndCommittedState E s a k)"
| "read_effect E s (RHasSelfDestructed a) = snd (HasSelfDestructed E s a)"

lemma undoes_load_replace:
  assumes wf: "sdb_wf s" and f: "\<And>obj m. address (f m obj) = address obj \<and> obj_view E m (f m obj) = obj_view E m obj"
    and s': "s' = (case getStateObject E s a of (None, s1) \<Rightarrow> s1 | (Some obj, s1) \<Rightarrow> setStateObject s1 (f (ctxStore s1) obj))"
  shows "undoes E st s [] s'"
proof (cases "live E s a")
  case None
  then show ?thesis using s' wf by (simp add: getStateObject_none undoes_refl)
next
  case (Some obj)
  obtain s1 where s1: "getStateObject E s a = (Some obj, s1)" "undoes E st s [] s1" "live E s1 a = Some obj"
      "address obj = a" "sdb_wf s1"
    using getStateObject_some [OF wf Some, of st] by metis
  have "undoes E st s1 [] (setStateObject s1 (f (ctxStore s1) obj))"
    using f [of "ctxStore s1" obj] s1 by (intro undoes_replace [OF s1(5,3)]) simp_all
  with undoes_trans [OF s1(2)] s' s1(1) show ?thesis by fastforce
qed

lemma undoes_read:
  assumes "sdb_wf s"
  shows "undoes E st s [] (read_effect E s r)"
proof -
  note lr = undoes_load_replace [OF assms, where E = E and st = st]
  show ?thesis
  proof (cases r)
    case (RGetCode a)
    then show ?thesis
      by (intro lr [of "\<lambda>m obj. snd (obj_Code E m obj)" _ a])
        (auto simp: GetCode_def split: prod.splits option.splits)
  next
    case (RGetCodeSize a)
    then show ?thesis
      by (intro lr [of "\<lambda>m obj. snd (obj_Code E m obj)" _ a])
        (auto simp: GetCodeSize_def split: prod.splits option.splits)
  next
    case (RGetState a k)
    then show ?thesis
      by (intro lr [of "\<lambda>m obj. snd (obj_GetState E m obj k)" _ a])
        (auto simp: GetState_def split: prod.splits option.splits)
  next
    case (RGetCommittedState a k)
    then show ?thesis
      by (intro lr [of "\<lambda>m obj. snd (obj_GetCommittedState E m obj k)" _ a])
        (auto simp: GetCommittedState_def split: prod.splits option.splits)
  next
    case (RGetStateAndCommittedState a k)
    then show ?thesis
      by (intro lr [of "\<lambda>m obj. snd (obj_GetCommittedState E m (snd (obj_GetState E m obj k)) k)" _ a])
        (auto simp: GetStateAndCommittedState_def split: prod.splits option.splits)
  qed (use undoes_load [OF assms, of E st] in
      \<open>simp_all add: Exist_def Empty_def sdb_GetBalance_def GetNonce_def GetCodeHash_def HasSelfDestructed_def split_beta\<close>)
qed

lemma undoes_getOrNew:
  assumes wf: "sdb_wf s"
    and u: "\<And>obj s1. sdb_wf s1 \<Longrightarrow> live E s1 a = Some obj \<Longrightarrow> address obj = a \<Longrightarrow> \<exists>es. undoes E st s1 es (f obj s1)"
  shows "\<exists>es. undoes E st s es (f (fst (getOrNewStateObject E s a)) (snd (getOrNewStateObject E s a)))"
proof -
  obtain obj s1 where g: "getOrNewStateObject E s a = (obj, s1)" by (cases "getOrNewStateObject E s a")
  from getOrNew_undo [OF wf g] obtain es where es: "undoes E st s es s1" "live E s1 a = Some obj" "address obj = a" by blast
  then have "sdb_wf s1" by (simp add: undoes_def)
  with u es obtain es' where "undoes E st s1 es' (f obj s1)" by blast
  with undoes_trans [OF es(1)] g show ?thesis by auto
qed

lemma undoes_SetBalance:
  assumes "sdb_wf s"
  shows "\<exists>es. undoes E st s es (SetBalance E s a n)"
  unfolding SetBalance_def Let_def split_beta
  by (rule undoes_getOrNew [OF assms, where f = "\<lambda>obj s1. snd (obj_SetBalance s1 obj n)"]) (blast intro: undoes_balance)

lemma undoes_AddBalance:
  assumes "sdb_wf s"
  shows "\<exists>es. undoes E st s es (snd (AddBalance E s a n))"
  unfolding AddBalance_def Let_def split_beta
proof (rule undoes_getOrNew [OF assms, where f = "\<lambda>obj s1. snd (obj_AddBalance s1 obj n)"])
  fix obj s1 assume "sdb_wf s1" "live E s1 a = Some obj" "address obj = a"
  then show "\<exists>es. undoes E st s1 es (snd (obj_AddBalance s1 obj n))"
    by (cases "n = 0") (auto simp: obj_AddBalance_def intro: undoes_balance undoes_refl)
qed

lemma undoes_SubBalance:
  assumes "sdb_wf s"
  shows "\<exists>es. undoes E st s es (snd (SubBalance E s a n))"
proof -
  let ?f = "\<lambda>obj s1. if n = 0 then s1 else snd (obj_SubBalance s1 obj n)"
  have "\<exists>es. undoes E st s es (?f (fst (getOrNewStateObject E s a)) (snd (getOrNewStateObject E s a)))"
  proof (rule undoes_getOrNew [OF assms])
    fix obj s1 assume "sdb_wf s1" "live E s1 a = Some obj" "address obj = a"
    then show "\<exists>es. undoes E st s1 es (?f obj s1)"
      by (cases "n = 0") (auto simp: obj_SubBalance_def intro: undoes_balance undoes_refl)
  qed
  then show ?thesis by (cases "n = 0") (simp_all add: SubBalance_def split_beta)
qed

lemma undoes_SetNonce:
  assumes "sdb_wf s"
  shows "\<exists>es. undoes E st s es (SetNonce E s a n)"
  unfolding SetNonce_def Let_def split_beta
  by (rule undoes_getOrNew [OF assms, where f = "\<lambda>obj s1. obj_SetNonce s1 obj n"]) (blast intro: undoes_nonce)

lemma undoes_SetCode:
  assumes "sdb_wf s"
  shows "\<exists>es. undoes E st s es (snd (SetCode E s a c))"
  unfolding SetCode_def Let_def split_beta snd_conv
  by (rule undoes_getOrNew [OF assms, where f = "\<lambda>obj s1. obj_SetCode E s1 obj (keccak E (case c of None \<Rightarrow> [] | Some bz \<Rightarrow> bz)) c"])
    (blast intro: undoes_code)

lemma undoes_SetState:
  assumes "sdb_wf s"
  shows "\<exists>es. undoes E st s es (snd (SetState E s a k v))"
  unfolding SetState_def Let_def split_beta
  by (rule undoes_getOrNew [OF assms, where f = "\<lambda>obj s1. snd (obj_SetState E s1 obj k v)"]) (rule undoes_state)

lemma undoes_CreateAccount:
  assumes "sdb_wf s"
  shows "\<exists>es. undoes E st s es (CreateAccount E s a)"
proof -
  obtain n p s1 where c: "createObject E s a = ((n, p), s1)" by (metis surj_pair)
  note u = createObject_undo [OF assms c]
  show ?thesis
  proof (cases p)
    case None
    then show ?thesis using u(1) c by (simp add: CreateAccount_def)
  next
    case (Some q)
    then show ?thesis using u(4) u(5) [of "obj_setBalance n (accBalance q)"] c by (simp add: CreateAccount_def)
  qed
qed

lemma undoes_SelfDestruct:
  assumes "sdb_wf s"
  shows "\<exists>es. undoes E st s es (snd (SelfDestruct E s a))"
proof (cases "live E s a")
  case None
  then show ?thesis using assms undoes_refl [OF assms] by (auto simp: SelfDestruct_def getStateObject_none)
next
  case (Some obj)
  obtain s1 where s1: "getStateObject E s a = (Some obj, s1)" "undoes E st s [] s1" "live E s1 a = Some obj"
      "address obj = a" "sdb_wf s1"
    using getStateObject_some [OF assms Some, of st] by metis
  from undoes_trans [OF s1(2) undoes_selfDestruct [OF s1(5,3,4)]] show ?thesis
    by (auto simp: SelfDestruct_def s1 Let_def)
qed

lemma undoes_SelfDestruct6780:
  assumes "sdb_wf s"
  shows "\<exists>es. undoes E st s es (snd (SelfDestruct6780 E s a))"
proof (cases "live E s a")
  case None
  then show ?thesis using assms undoes_refl [OF assms] by (auto simp: SelfDestruct6780_def getStateObject_none)
next
  case (Some obj)
  obtain s1 where s1: "getStateObject E s a = (Some obj, s1)" "undoes E st s [] s1" "sdb_wf s1"
    using getStateObject_some [OF assms Some, of st] by metis
  from undoes_SelfDestruct [OF s1(3), of E st a] obtain es where "undoes E st s1 es (snd (SelfDestruct E s1 a))" by blast
  from undoes_trans [OF s1(2) this] s1(1,2) show ?thesis by (auto simp: SelfDestruct6780_def split: prod.splits)
qed

lemma undoes_CreateContract:
  assumes "sdb_wf s" "CreateContract E s a = Ok s'"
  shows "\<exists>es. undoes E st s es s'"
proof (cases "live E s a")
  case None
  then show ?thesis using assms by (simp add: CreateContract_def getStateObject_none)
next
  case (Some obj)
  obtain s1 where s1: "getStateObject E s a = (Some obj, s1)" "undoes E st s [] s1" "live E s1 a = Some obj"
      "address obj = a" "sdb_wf s1"
    using getStateObject_some [OF assms(1) Some, of st] by metis
  show ?thesis
  proof (cases "newContract obj")
    case True
    then show ?thesis using assms(2) s1 by (auto simp: CreateContract_def)
  next
    case False
    have "log_entry (setStateObject s1 o') e = setStateObject (log_entry s1 e) o'" for o' e
      by (simp add: setStateObject_def)
    with undoes_trans [OF s1(2) undoes_newContract [OF s1(5,3,4) False]] assms(2) s1 False show ?thesis
      by (fastforce simp: CreateContract_def)
  qed
qed

section \<open>A precompile call\<close>

text \<open>The stores below a snapshot, and the revert to it.\<close>

abbreviation truncated :: "nat \<Rightarrow> 'c snapmulti \<Rightarrow> (string, 'c snapkv) kv" where
  "truncated n ms \<equiv> map (\<lambda>(k, cs). (k, cs\<lparr>cacheStores := take n (cacheStores cs)\<rparr>)) (stores ms)"

lemma revert_to_snapshot_of:
  assumes "lockstep ms" "Multi_Snapshot C ms = (idx, ms1)" "lockstep ms'" "head ms' = head ms1"
    "truncated (nat idx) ms' = truncated (nat idx) ms1"
  shows "Multi_Revert ms' idx = Ok ms"
proof -
  have idx: "idx = head ms" "head ms1 = head ms + 1" and ms1: "stores ms1 = map (\<lambda>(k, cs). (k, snd (snap_Snapshot C cs))) (stores ms)"
    using assms(2) by (auto simp: Multi_Snapshot_def Let_def)
  have h: "0 \<le> head ms" "\<And>k cs. (k, cs) \<in> set (stores ms) \<Longrightarrow> nat (head ms) = length (cacheStores cs)"
    using assms(1) by (auto simp: lockstep_def)
  have "revert_stores (stores ms') idx = Ok (truncated (nat idx) ms')"
    using assms(3,4) idx h by (intro revert_stores_ok [where h = "head ms'"]) (auto simp: lockstep_def)
  moreover have "truncated (nat idx) ms1 = stores ms"
    unfolding ms1 map_map by (rule map_idI) (auto simp: snap_Snapshot_def Let_def idx h(2))
  ultimately show ?thesis using assms(5) idx by (simp add: Multi_Revert_def)
qed

text \<open>What a state in the middle of a precompile call keeps of the state before it.\<close>

definition in_call :: "'c sdbEnv \<Rightarrow> 'c StateDB \<Rightarrow> 'c snapmulti \<Rightarrow> int \<Rightarrow> Events \<Rightarrow> 'c StateDB \<Rightarrow> bool" where
  "in_call E s ms idx evs s' \<longleftrightarrow>
     sdb_wf s' \<and> journal s' = Journal_append (journal s) (precompileCallChange idx evs) \<and>
     validRevisions s' = validRevisions s \<and> nextRevisionID s' = nextRevisionID s \<and> ctxEvents s' = ctxEvents s \<and>
     ctxStore s' = ctxStore s \<and> (\<forall>a. map_option (blur False) (view E s' a) = map_option (blur False) (view E s a)) \<and>
     refund s' = refund s \<and> logs s' = logs s \<and> accessList s' = accessList s \<and> txConfig s' = txConfig s \<and>
     GetTransientState s' = GetTransientState s \<and>
     cache_base E s = Ok ms \<and> lockstep ms \<and> idx = head ms \<and> loaded s' = loaded s \<and>
     (\<exists>ms'. snapshotter s' = Some ms' \<and> head ms' = head ms + 1 \<and>
        truncated (nat idx) ms' = truncated (nat idx) (snd (Multi_Snapshot (cacheOps E) ms)))"

lemma undoes_in_call:
  assumes "in_call E s ms idx evs s'"
  shows "undoes E False s [precompileCallChange idx evs] s'"
proof (rule undoes_one)
  fix t assume t: "sim E False t s'"
  from assms obtain ms' where ms': "snapshotter s' = Some ms'" "head ms' = head ms + 1"
      "truncated (nat idx) ms' = truncated (nat idx) (snd (Multi_Snapshot (cacheOps E) ms))" "lockstep ms" "idx = head ms"
      "sdb_wf s'" "cache_base E s = Ok ms"
    by (auto simp: in_call_def)
  have "snapshotter t = Some ms'"
    using t ms'(1) by (auto simp: sim_def cache_base_def split: option.splits)
  moreover have "Multi_Revert ms' idx = Ok ms"
  proof (rule revert_to_snapshot_of [OF ms'(4)])
    show "Multi_Snapshot (cacheOps E) ms = (idx, snd (Multi_Snapshot (cacheOps E) ms))"
      by (simp add: Multi_Snapshot_def Let_def ms'(5))
    show "lockstep ms'" using ms'(1,6) by (simp add: sdb_wf_def)
    show "head ms' = head (snd (Multi_Snapshot (cacheOps E) ms))" using ms'(2) by (simp add: Multi_Snapshot_def Let_def)
  qed (rule ms'(3))
  ultimately have rev: "Entry_Revert E (precompileCallChange idx evs) t =
      Ok (t\<lparr>snapshotter := Some ms, writeCache := Some (WriteFixedEvents evs)\<rparr>)"
    by (simp add: RevertMultiStore_def)
  have "sdb_wf (t\<lparr>snapshotter := Some ms, writeCache := Some (WriteFixedEvents evs)\<rparr>)"
    using t ms'(4) by (auto simp: sim_def sdb_wf_def)
  moreover have "cache_base E (t\<lparr>snapshotter := Some ms\<rparr>) = Ok ms" by (simp add: cache_base_def)
  ultimately have "sim E False (t\<lparr>snapshotter := Some ms, writeCache := Some (WriteFixedEvents evs)\<rparr>) s"
    using t assms by (simp add: sim_def in_call_def)
  with rev show "\<exists>t'. Entry_Revert E (precompileCallChange idx evs) t = Ok t' \<and> sim E False t' s" by blast
qed (use assms in \<open>simp_all add: in_call_def tracks_none\<close>)

text \<open>Native code and the flush write at the top of the stacks only.\<close>

lemma in_call_put:
  assumes "in_call E s ms idx evs s'" "snapshotter s' = Some ms'"
  shows "in_call E s ms idx evs (s'\<lparr>snapshotter := Some (multi_put m ms')\<rparr>)"
proof -
  have i: "0 \<le> idx" using assms(1) by (auto simp: in_call_def lockstep_def)
  have l: "lockstep ms'" "head ms' = idx + 1" using assms by (auto simp: in_call_def sdb_wf_def)
  note p = multi_put_take [of "nat idx" ms' m, OF _ l(1)]
  have "sdb_wf (s'\<lparr>snapshotter := Some (multi_put m ms')\<rparr>)"
    using assms p(1) l i by (auto simp: in_call_def sdb_wf_def)
  then show ?thesis using assms p(2,3) l i by (auto simp: in_call_def)
qed

lemma in_call_objects:
  assumes "in_call E s ms idx evs s'" "kv_wf objs"
    and "\<And>a. case kv_get (stateObjects s') a of None \<Rightarrow> kv_get objs a = None
      | Some obj \<Rightarrow> (\<exists>x. kv_get objs a = Some (obj\<lparr>originStorage := x\<rparr>))"
  shows "in_call E s ms idx evs (s'\<lparr>stateObjects := objs\<rparr>)"
proof -
  have v: "blur False (obj_view E m (obj\<lparr>originStorage := x\<rparr>)) = blur False (obj_view E m obj)" for m obj x
    by (simp add: blur_def obj_view_def fst_obj_Code cong: option.case_cong)
  have "map_option (blur False) (view E (s'\<lparr>stateObjects := objs\<rparr>) a) = map_option (blur False) (view E s' a)" for a
    using assms(3) [of a] v by (auto simp: view_def live_def split: option.splits)
  moreover have "address obj = a" if "kv_get objs a = Some obj" for a obj
    using assms(1) assms(3) [of a] that by (force simp: in_call_def sdb_wf_def split: option.splits)
  moreover have "a \<in> loaded (s'\<lparr>stateObjects := objs\<rparr>) \<longleftrightarrow> a \<in> loaded s'" for a
    using assms(3) [of a] by (auto simp: loaded_def split: option.splits)
  then have "loaded (s'\<lparr>stateObjects := objs\<rparr>) = loaded s'" by blast
  ultimately show ?thesis using assms(1,2) by (auto simp: in_call_def sdb_wf_def)
qed

lemma commit_slots_origin:
  "foldl (commit_slot E True) (obj, m) ks = (obj', m') \<Longrightarrow> \<exists>x. obj' = obj\<lparr>originStorage := x\<rparr>"
proof (induction ks arbitrary: obj m)
  case Nil
  then have "obj' = obj\<lparr>originStorage := originStorage obj\<rparr>" by simp
  then show ?case ..
next
  case (Cons k ks)
  obtain obj1 m1 where c: "commit_slot E True (obj, m) k = (obj1, m1)" by (cases "commit_slot E True (obj, m) k")
  then obtain y where "obj1 = obj\<lparr>originStorage := y\<rparr>" by (auto simp: commit_slot_def Let_def)
  with Cons.IH [of obj1 m1] Cons.prems c show ?case by auto
qed

lemma commit_object_origin:
  assumes "commit_object E True obj m = Ok (err, obj', m')"
  shows "\<exists>x. obj' = obj\<lparr>originStorage := x\<rparr>"
proof -
  have same: "\<exists>x. obj = obj\<lparr>originStorage := x\<rparr>" by (intro exI [of _ "originStorage obj"]) simp
  show ?thesis
    using assms same
    by (auto simp: commit_object_def Let_def res_bind_Ok split: if_splits option.splits prod.splits
        dest!: commit_slots_origin)
qed

lemma commit_objects_origin:
  assumes "commit_objects E True as objs m = Ok (err, objs', m')" "kv_wf objs"
  shows "kv_wf objs' \<and> (\<forall>a. case kv_get objs a of None \<Rightarrow> kv_get objs' a = None
      | Some obj \<Rightarrow> (\<exists>x. kv_get objs' a = Some (obj\<lparr>originStorage := x\<rparr>)))"
  using assms
proof (induction as arbitrary: objs m)
  case Nil
  have "\<exists>x. obj = obj\<lparr>originStorage := x\<rparr>" for obj :: stateObject
    by (intro exI [of _ "originStorage obj"]) simp
  with Nil show ?case by (auto split: option.splits)
next
  case (Cons b as)
  from Cons.prems(1) obtain obj err1 obj1 m1 where
    o: "kv_get objs b = Some obj" "commit_object E True obj m = Ok (err1, obj1, m1)"
    and r: "(case err1 of Some e \<Rightarrow> Ok (Some e, kv_set b obj1 objs, m1)
      | None \<Rightarrow> commit_objects E True as (kv_set b obj1 objs) m1) = Ok (err, objs', m')"
    by (auto simp: res_bind_Ok Let_def split: option.splits)
  from commit_object_origin [OF o(2)] obtain y where y: "obj1 = obj\<lparr>originStorage := y\<rparr>" by blast
  have id: "\<exists>x. ob = ob\<lparr>originStorage := x\<rparr>" for ob :: stateObject
    by (intro exI [of _ "originStorage ob"]) simp
  have step: "case kv_get objs a of None \<Rightarrow> kv_get (kv_set b obj1 objs) a = None
      | Some ob \<Rightarrow> (\<exists>x. kv_get (kv_set b obj1 objs) a = Some (ob\<lparr>originStorage := x\<rparr>))" for a
    using o(1) y id by (auto split: option.splits)
  show ?case
  proof (cases err1)
    case (Some e)
    with r step Cons.prems(2) show ?thesis by auto
  next
    case None
    with r Cons.IH [of "kv_set b obj1 objs" m1] Cons.prems(2) have
      ih: "kv_wf objs'" "\<And>a. case kv_get (kv_set b obj1 objs) a of None \<Rightarrow> kv_get objs' a = None
        | Some ob \<Rightarrow> (\<exists>x. kv_get objs' a = Some (ob\<lparr>originStorage := x\<rparr>))" by auto
    have "case kv_get objs a of None \<Rightarrow> kv_get objs' a = None
        | Some ob \<Rightarrow> (\<exists>x. kv_get objs' a = Some (ob\<lparr>originStorage := x\<rparr>))" for a
      using step [of a] ih(2) [of a] by (auto split: option.splits)
    with ih(1) show ?thesis by blast
  qed
qed

lemma in_call_setup:
  assumes wf: "sdb_wf s" and ok: "native_setup E s = Ok (err, s')"
  shows "\<exists>ms idx evs. in_call E s ms idx evs s'"
proof -
  from ok obtain s1 snapshot s2 where c: "GetCacheContext E s = Ok s1" "MultiStoreSnapshot E s1 = Ok (snapshot, s2)"
    and r: "(case AddPrecompileFn s2 snapshot (cacheEvents s2) of (Some e, s3) \<Rightarrow> Ok (Some e, s3)
      | (None, s3) \<Rightarrow> CommitWithCacheCtx E s3) = Ok (err, s')"
    by (auto simp: native_setup_def res_bind_Ok)
  obtain ms wc ce where s1: "s1 = s\<lparr>snapshotter := Some ms, cacheEvents := ce, writeCache := Some wc\<rparr>"
    and ms: "cache_base E s = Ok ms" "lockstep ms"
  proof (cases "snapshotter s")
    case None
    then have "writeCache s = None" using wf by (simp add: sdb_wf_def)
    with c(1) obtain ms0 :: "'a snapmulti" where "cache_base E s = Ok ms0"
      "s1 = s\<lparr>snapshotter := Some ms0, cacheEvents := [], writeCache := Some WriteCacheEvents\<rparr>"
      by (auto simp: GetCacheContext_def cache_def res_bind_Ok cache_base_def None)
    moreover from this(1) have "lockstep ms0" using lockstep_open None by (auto simp: cache_base_def)
    ultimately show thesis using that by blast
  next
    case (Some ms0)
    then obtain wc0 where "writeCache s = Some wc0" using wf by (auto simp: sdb_wf_def)
    with c(1) Some wf show thesis
      by (intro that [where ms = ms0 and ce = "cacheEvents s" and wc = wc0]) (auto simp: GetCacheContext_def cache_base_def sdb_wf_def)
  qed
  let ?ms1 = "snd (Multi_Snapshot (cacheOps E) ms)"
  have idx: "snapshot = head ms" and s2: "s2 = s1\<lparr>snapshotter := Some ?ms1\<rparr>" and l: "lockstep ?ms1" "head ?ms1 = head ms + 1"
    using c(2) s1 lockstep_snapshot [OF ms(2), of "cacheOps E"]
    by (auto simp: MultiStoreSnapshot_def Multi_Snapshot_def Let_def)
  obtain e3 s3 where a: "AddPrecompileFn s2 snapshot (cacheEvents s2) = (e3, s3)"
    by (cases "AddPrecompileFn s2 snapshot (cacheEvents s2)")
  then have s3: "s3 = (log_entry s2 (precompileCallChange snapshot (cacheEvents s2)))
      \<lparr>precompileCallsCounter := precompileCallsCounter s2 + 1\<rparr>" by (simp add: AddPrecompileFn_def Let_def)
  have "sdb_wf s3" using wf l(1) by (auto simp: s3 s2 s1 sdb_wf_def)
  then have ic: "in_call E s ms snapshot (cacheEvents s2) s3"
    using ms l idx by (simp add: in_call_def s3 s2 s1)
  show ?thesis
  proof (cases e3)
    case (Some e)
    with r a ic show ?thesis by auto
  next
    case None
    with r a have cm: "CommitWithCacheCtx E s3 = Ok (err, s')" by simp
    have sn: "snapshotter s3 = Some ?ms1" by (simp add: s3 s2)
    from cm sn obtain objs m where
      o: "commit_objects E True (sortedDirties (journal s3)) (stateObjects s3) (multi_current ?ms1) = Ok (err, objs, m)"
      and s': "s' = (s3\<lparr>stateObjects := objs\<rparr>)\<lparr>snapshotter := Some (multi_put m ?ms1)\<rparr>"
      by (auto simp: CommitWithCacheCtx_def commitWithCtx_def res_bind_Ok split: prod.splits)
    from commit_objects_origin [OF o] \<open>sdb_wf s3\<close> have "in_call E s ms snapshot (cacheEvents s2) (s3\<lparr>stateObjects := objs\<rparr>)"
      by (intro in_call_objects [OF ic]) (auto simp: sdb_wf_def)
    from in_call_put [OF this, of ?ms1 m] sn s' show ?thesis by auto
  qed
qed

lemma undoes_logs:
  assumes "sdb_wf s"
  shows "\<exists>es. undoes E st s es (foldl AddLog s lgs)"
  using assms
proof (induction lgs arbitrary: s)
  case (Cons lg lgs)
  note u = undoes_log [OF Cons.prems, of E st lg]
  then have "sdb_wf (AddLog s lg)" by (simp add: undoes_def)
  with Cons.IH obtain es where "undoes E st (AddLog s lg) es (foldl AddLog (AddLog s lg) lgs)" by blast
  from undoes_trans [OF u this] show ?case by auto
qed (auto intro: undoes_refl)

lemma undoes_balance_changes:
  assumes "sdb_wf s" "AfterBalanceChange E B evs s = Ok (err, s')"
  shows "\<exists>es. undoes E st s es s'"
  using assms
proof (induction E B evs s rule: AfterBalanceChange.induct)
  case (1 E B s)
  then show ?case by (auto intro: undoes_refl)
next
  case (2 E B ev evs s)
  have step: "\<exists>es. undoes E st s es (apply_step E b s)" for b
    using 2(3) undoes_AddBalance undoes_SubBalance by (cases b) simp_all
  show ?case
  proof (cases "event_step B ev")
    case (Ok r)
    show ?thesis
    proof (cases r)
      case None
      then show ?thesis using 2 Ok by simp
    next
      case (Some b)
      from step [of b] obtain es where es: "undoes E st s es (apply_step E b s)" by blast
      then have "sdb_wf (apply_step E b s)" by (simp add: undoes_def)
      with 2(2) [OF Ok Some] 2(4) Ok Some obtain es' where "undoes E st (apply_step E b s) es' s'" by auto
      from undoes_trans [OF es this] show ?thesis by blast
    qed
  qed (use 2(3,4) in \<open>auto intro: undoes_refl\<close>)
qed

lemma undoes_precompile:
  assumes wf: "sdb_wf s" and ok: "runNativeAction E P g contract s = Ok (r, c, s')"
  shows "\<exists>es. undoes E False s es s'"
proof -
  from ok obtain err s1 where n: "native_setup E s = Ok (err, s1)"
    and k: "(case err of Some e \<Rightarrow> Ok (Inr e, contract, s1) | None \<Rightarrow> native_call E P g contract s1) = Ok (r, c, s')"
    by (auto simp: runNativeAction_def res_bind_Ok)
  from in_call_setup [OF wf n] obtain ms idx evs where ic: "in_call E s ms idx evs s1" by blast
  then obtain ms' where ms': "snapshotter s1 = Some ms'" by (auto simp: in_call_def)
  let ?out = "action P (multi_current ms')"
  define s0 where "s0 = s1\<lparr>snapshotter := Some (multi_put (noStore ?out) ms'), cacheEvents := cacheEvents s1 @ noEvents ?out\<rparr>"
  have "in_call E s ms idx evs s0"
    using in_call_put [OF ic ms', of "noStore ?out"] by (auto simp: s0_def in_call_def)
  note u0 = undoes_in_call [OF this]
  then have "sdb_wf s0" by (simp add: undoes_def)
  from undoes_logs [OF this, of E False "noLogs ?out"] obtain es where
    "undoes E False s0 es (foldl AddLog s0 (noLogs ?out))" by blast
  note u1 = undoes_trans [OF u0 this]
  define s2 where "s2 = foldl AddLog s0 (noLogs ?out)"
  have wf2: "sdb_wf s2" using u1 by (simp add: undoes_def s2_def)
  have "s' = s1 \<or> s' = s2 \<or> (\<exists>B evs err. AfterBalanceChange E B evs s2 = Ok (err, s'))"
    using k by (auto simp: native_call_def ms' Let_def s0_def [symmetric] s2_def [symmetric] res_bind_Ok
        split: option.splits if_splits nativeResult.splits prod.splits bool.splits)
  then show ?thesis
    using undoes_in_call [OF ic] u1 undoes_balance_changes [OF wf2] undoes_trans [OF u1] unfolding s2_def by metis
qed

end
