(* ===== verification/StateDBHistory.thy ===== *)
theory StateDBHistory
  imports StateDBUndo
begin

text \<open>
  Histories of the EVM state: any sequence of its operations, snapshots and reverts among them. The invariant of a
  history pairs every valid revision with the state it was taken in, and gives the theorems on \<open>RevertToSnapshot\<close>,
  with and without precompile calls in the history.
\<close>

section \<open>Operations\<close>

datatype 'c sdb_op =
    OpRead sdb_read
  | OpCreateContract address
  | OpAddLog Log
  | OpAddRefund "64 word"
  | OpSubRefund "64 word"
  | OpCreateAccount address
  | OpAddBalance address "256 word"
  | OpSubBalance address "256 word"
  | OpSetBalance address "256 word"
  | OpSetNonce address "64 word"
  | OpSetCode address "bytes option"
  | OpSetState address hash hash
  | OpSelfDestruct address
  | OpSelfDestruct6780 address
  | OpSetTransientState address hash hash
  | OpAddAddressToAccessList address
  | OpAddSlotToAccessList address hash
  | OpPrecompile "'c Precompile" "64 word" Contract
  | OpSnapshot
  | OpRevertToSnapshot int

fun sdb_exec :: "'c sdbEnv \<Rightarrow> 'c StateDB \<Rightarrow> 'c sdb_op \<Rightarrow> 'c StateDB res" where
  "sdb_exec E s (OpRead r) = Ok (read_effect E s r)"
| "sdb_exec E s (OpCreateContract a) = CreateContract E s a"
| "sdb_exec E s (OpAddLog lg) = Ok (AddLog s lg)"
| "sdb_exec E s (OpAddRefund gas) = Ok (AddRefund s gas)"
| "sdb_exec E s (OpSubRefund gas) = SubRefund s gas"
| "sdb_exec E s (OpCreateAccount a) = Ok (CreateAccount E s a)"
| "sdb_exec E s (OpAddBalance a n) = Ok (snd (AddBalance E s a n))"
| "sdb_exec E s (OpSubBalance a n) = Ok (snd (SubBalance E s a n))"
| "sdb_exec E s (OpSetBalance a n) = Ok (SetBalance E s a n)"
| "sdb_exec E s (OpSetNonce a n) = Ok (SetNonce E s a n)"
| "sdb_exec E s (OpSetCode a c) = Ok (snd (SetCode E s a c))"
| "sdb_exec E s (OpSetState a k v) = Ok (snd (SetState E s a k v))"
| "sdb_exec E s (OpSelfDestruct a) = Ok (snd (SelfDestruct E s a))"
| "sdb_exec E s (OpSelfDestruct6780 a) = Ok (snd (SelfDestruct6780 E s a))"
| "sdb_exec E s (OpSetTransientState a k v) = Ok (SetTransientState s a k v)"
| "sdb_exec E s (OpAddAddressToAccessList a) = Ok (AddAddressToAccessList s a)"
| "sdb_exec E s (OpAddSlotToAccessList a k) = AddSlotToAccessList s a k"
| "sdb_exec E s (OpPrecompile P gas contract) =
     res_bind (runNativeAction E P gas contract s) (\<lambda>(_, _, s'). Ok s')"
| "sdb_exec E s OpSnapshot = Ok (snd (Snapshot s))"
| "sdb_exec E s (OpRevertToSnapshot revid) = RevertToSnapshot E s revid"

fun run_ops :: "'c sdbEnv \<Rightarrow> 'c StateDB \<Rightarrow> 'c sdb_op list \<Rightarrow> 'c StateDB res" where
  "run_ops E s [] = Ok s"
| "run_ops E s (x # xs) = res_bind (sdb_exec E s x) (\<lambda>s'. run_ops E s' xs)"

fun is_precompile :: "'c sdb_op \<Rightarrow> bool" where
  "is_precompile (OpPrecompile P gas contract) = True"
| "is_precompile op = False"

fun is_revision_op :: "'c sdb_op \<Rightarrow> bool" where
  "is_revision_op OpSnapshot = True"
| "is_revision_op (OpRevertToSnapshot n) = True"
| "is_revision_op op = False"

lemma exec_undoes:
  assumes wf: "sdb_wf s" and ok: "sdb_exec E s x = Ok s'" and "\<not> is_revision_op x" "is_precompile x \<Longrightarrow> \<not> st"
  shows "\<exists>es. undoes E st s es s'"
proof (cases x)
  case (OpPrecompile P gas contract)
  then show ?thesis using assms undoes_precompile [OF wf] by (auto simp: res_bind_Ok)
next
  case (OpAddSlotToAccessList a k)
  then show ?thesis using ok undoes_slot [OF wf, of a k E st] by auto
next
  case (OpSubRefund gas)
  then show ?thesis using ok undoes_refund [OF wf, of E st "refund s - gas"]
    by (auto simp: SubRefund_def Let_def split: if_splits)
next
  case (OpAddRefund gas)
  then show ?thesis using ok undoes_refund [OF wf, of E st "refund s + gas"] by (auto simp: AddRefund_def)
next
  case (OpCreateContract a)
  then show ?thesis using ok undoes_CreateContract [OF wf] by simp
next
  case (OpRead r)
  then show ?thesis using ok undoes_read [OF wf] by auto
next
  case (OpAddLog lg)
  then show ?thesis using ok undoes_log [OF wf] by auto
qed (use assms in \<open>auto intro: undoes_CreateAccount undoes_AddBalance undoes_SubBalance undoes_SetBalance
    undoes_SetNonce undoes_SetCode undoes_SetState undoes_SelfDestruct undoes_SelfDestruct6780
    undoes_transient undoes_address\<close>)

section \<open>The dirty counters\<close>

definition dirties_ok :: "journal \<Rightarrow> bool" where
  "dirties_ok j \<longleftrightarrow>
     kv_wf (dirties j) \<and>
     (\<forall>a. kv_get (dirties j) a =
        (let n = length (filter (\<lambda>e. Dirtied e = Some a) (entries j)) in if n = 0 then None else Some (int n)))"

lemma dirties_ok_unique: "dirties_ok j \<Longrightarrow> dirties_ok j' \<Longrightarrow> entries j = entries j' \<Longrightarrow> j = j'"
  by (rule journal.equality) (auto simp: dirties_ok_def intro: kv_eqI)

lemma dirties_ok_append: "dirties_ok j \<Longrightarrow> dirties_ok (Journal_append j e)"
  by (auto simp: dirties_ok_def Journal_append_def Let_def kv_num_def split: option.splits)

lemma dirties_ok_appends: "dirties_ok j \<Longrightarrow> dirties_ok (foldl Journal_append j es)"
  by (induction es arbitrary: j) (auto intro: dirties_ok_append)

lemma entries_appends [simp]: "entries (foldl Journal_append j es) = entries j @ es"
  by (induction es arbitrary: j) (auto simp: Journal_append_def)

lemma Entry_Revert_keeps:
  assumes "Entry_Revert E e s = Ok s'"
  shows "journal s' = journal s \<and> validRevisions s' = validRevisions s \<and> nextRevisionID s' = nextRevisionID s \<and>
    ctxEvents s' = ctxEvents s"
proof -
  have g: "journal (snd (getStateObject E s a)) = journal s \<and> validRevisions (snd (getStateObject E s a)) = validRevisions s \<and>
    nextRevisionID (snd (getStateObject E s a)) = nextRevisionID s \<and> ctxEvents (snd (getStateObject E s a)) = ctxEvents s" for a
    by (auto simp: getStateObject_def Let_def split: option.splits)
  then have w: "journal s2 = journal s \<and> validRevisions s2 = validRevisions s \<and> nextRevisionID s2 = nextRevisionID s \<and>
      ctxEvents s2 = ctxEvents s" if "with_object E s a f = Ok s2" for a f s2
    using that g [of a] by (cases "getStateObject E s a") (auto simp: with_object_def split: option.splits)
  show ?thesis
  proof (cases e)
    case (selfDestructChange a p b)
    then show ?thesis using assms g [of a] by (cases "getStateObject E s a") (auto split: option.splits)
  qed (use assms w in \<open>auto simp: RevertMultiStore_def res_bind_Ok setTransientState_def split: option.splits if_splits\<close>)
qed

lemma drop_dirty_ok:
  assumes "dirties_ok (journal s\<lparr>entries := es @ [e]\<rparr>)"
  shows "dirties_ok (journal (drop_dirty e s)\<lparr>entries := es\<rparr>)"
  using assms by (auto simp: dirties_ok_def drop_dirty_def Let_def kv_num_def split: option.splits)

lemma revert_entries_keeps:
  assumes "revert_entries E es s = Ok s'" "dirties_ok (journal s\<lparr>entries := xs @ rev es\<rparr>)"
  shows "dirties_ok (journal s'\<lparr>entries := xs\<rparr>) \<and> entries (journal s') = entries (journal s) \<and>
    validRevisions s' = validRevisions s \<and> nextRevisionID s' = nextRevisionID s \<and> ctxEvents s' = ctxEvents s"
  using assms
proof (induction es arbitrary: s)
  case (Cons e es)
  from Cons.prems(1) obtain s1 where s1: "Entry_Revert E e s = Ok s1" "revert_entries E es (drop_dirty e s1) = Ok s'"
    by (auto simp: res_bind_Ok)
  note k = Entry_Revert_keeps [OF s1(1)]
  have "dirties_ok (journal (drop_dirty e s1)\<lparr>entries := xs @ rev es\<rparr>)"
    using Cons.prems(2) k by (intro drop_dirty_ok) simp
  from Cons.IH [OF s1(2) this] k show ?case by (auto simp: drop_dirty_def Let_def split: option.splits)
qed simp

text \<open>Every dirtied address has a live object, and keeps it as long as its entries are in the journal.\<close>

definition tracked :: "'c StateDB \<Rightarrow> bool" where
  "tracked s \<longleftrightarrow> dirtied (entries (journal s)) \<subseteq> loaded s \<and> fresh_creates {} (entries (journal s))"

lemma tracked_undoes: "tracked s \<Longrightarrow> undoes E st s es s' \<Longrightarrow> tracked s'"
  by (auto simp: tracked_def undoes_def tracks_def fresh_creates_append intro: fresh_creates_mono)

lemma Entry_Revert_loaded:
  assumes "Entry_Revert E e s = Ok s'"
  shows "loaded s - {a. e = createObjectChange a} \<subseteq> loaded s'"
proof -
  have g: "loaded s \<subseteq> loaded s1" if "getStateObject E s a = (r, s1)" for a r s1
    using loaded_load [of s E a] that by simp
  then have w: "loaded s \<subseteq> loaded s2" if "with_object E s a f = Ok s2" for a f s2
    using that by (cases "getStateObject E s a") (force simp: with_object_def split: option.splits)
  show ?thesis
  proof (cases e)
    case (selfDestructChange a p b)
    then show ?thesis using assms g by (cases "getStateObject E s a") (fastforce split: option.splits)
  next
    case (createObjectChange a)
    then show ?thesis using assms by (auto simp: loaded_def)
  qed (use assms w in \<open>auto simp: RevertMultiStore_def res_bind_Ok setTransientState_def split: option.splits if_splits\<close>)
qed

lemma revert_entries_loaded:
  assumes "revert_entries E es s = Ok s'" "dirtied (xs @ rev es) \<subseteq> loaded s" "fresh_creates {} (xs @ rev es)"
  shows "dirtied xs \<subseteq> loaded s'"
  using assms
proof (induction es arbitrary: s)
  case (Cons e es)
  from Cons.prems(1) obtain s1 where s1: "Entry_Revert E e s = Ok s1" "revert_entries E es (drop_dirty e s1) = Ok s'"
    by (auto simp: res_bind_Ok)
  have f: "fresh_creates {} (xs @ rev es)" "fresh_creates (dirtied (xs @ rev es)) [e]"
    using Cons.prems(3) by (simp_all add: fresh_creates_append [of "{}" "xs @ rev es" "[e]", simplified])
  have "loaded (drop_dirty e s1) = loaded s1" by (simp add: drop_dirty_def Let_def split: option.splits)
  moreover have "dirtied (xs @ rev es) \<subseteq> loaded s - {a. e = createObjectChange a}"
    using Cons.prems(2) f(2) by (auto simp: fresh_creates_one)
  ultimately have "dirtied (xs @ rev es) \<subseteq> loaded (drop_dirty e s1)" using Entry_Revert_loaded [OF s1(1)] by auto
  from Cons.IH [OF s1(2) this f(1)] show ?case .
qed simp

section \<open>Binary search\<close>

lemma sort_search_spec:
  assumes "i \<le> j" "\<And>k l. i \<le> k \<Longrightarrow> k \<le> l \<Longrightarrow> l < j \<Longrightarrow> f k \<Longrightarrow> f l"
  shows "i \<le> sort_search f i j \<and> sort_search f i j \<le> j \<and> (\<forall>k. i \<le> k \<longrightarrow> k < sort_search f i j \<longrightarrow> \<not> f k) \<and>
    (\<forall>k. sort_search f i j \<le> k \<longrightarrow> k < j \<longrightarrow> f k)"
  using assms
proof (induction f i j rule: sort_search.induct)
  case (1 f i j)
  show ?case
  proof (cases "i < j")
    case False
    with 1(3) show ?thesis by (simp add: sort_search.simps)
  next
    case True
    let ?h = "(i + j) div 2"
    have h: "i \<le> ?h" "?h < j" using True by auto
    show ?thesis
    proof (cases "f ?h")
      case False
      have eq: "sort_search f i j = sort_search f (?h + 1) j"
        using True False by (simp add: sort_search.simps [of f i j] Let_def)
      have low: "\<not> f k" if "i \<le> k" "k < ?h + 1" for k using 1(4) [of k ?h] that h(2) False by auto
      have ih: "?h + 1 \<le> sort_search f (?h + 1) j \<and> sort_search f (?h + 1) j \<le> j \<and>
          (\<forall>k. ?h + 1 \<le> k \<longrightarrow> k < sort_search f (?h + 1) j \<longrightarrow> \<not> f k) \<and> (\<forall>k. sort_search f (?h + 1) j \<le> k \<longrightarrow> k < j \<longrightarrow> f k)"
      proof (rule 1(1) [OF True refl False])
        fix k l assume kl: "?h + 1 \<le> k" "k \<le> l" "l < j" "f k"
        from kl(1) h(1) have "i \<le> k" by linarith
        then show "f l" using 1(4) kl(2-4) by blast
      qed (use h in simp)
      show ?thesis unfolding eq
      proof (intro conjI allI impI)
        fix k assume k: "i \<le> k" "k < sort_search f (?h + 1) j"
        show "\<not> f k" using low [OF k(1)] ih k(2) by (cases "k < ?h + 1") auto
      qed (use ih h in auto)
    next
      case fh: True
      then have eq: "sort_search f i j = sort_search f i ?h"
        using True by (simp add: sort_search.simps [of f i j] Let_def)
      have high: "f k" if "?h \<le> k" "k < j" for k using 1(4) [OF h(1) that fh] .
      have ih: "i \<le> sort_search f i ?h \<and> sort_search f i ?h \<le> ?h \<and>
          (\<forall>k. i \<le> k \<longrightarrow> k < sort_search f i ?h \<longrightarrow> \<not> f k) \<and> (\<forall>k. sort_search f i ?h \<le> k \<longrightarrow> k < ?h \<longrightarrow> f k)"
      proof (rule 1(2) [OF True refl])
        fix k l assume kl: "i \<le> k" "k \<le> l" "l < ?h" "f k"
        from kl(3) h(2) have "l < j" by linarith
        then show "f l" using 1(4) kl by blast
      qed (use h fh in simp_all)
      show ?thesis unfolding eq
      proof (intro conjI allI impI)
        fix k assume k: "sort_search f i ?h \<le> k" "k < j"
        show "f k" using high [OF _ k(2)] ih k(1) by (cases "k < ?h") auto
      qed (use ih h in auto)
    qed
  qed
qed

lemma sort_search_le: "i \<le> j \<Longrightarrow> sort_search f i j \<le> j"
proof (induction f i j rule: sort_search.induct)
  case (1 f i j)
  show ?case
  proof (cases "i < j")
    case True
    then have "(i + j) div 2 < j" "i \<le> (i + j) div 2" by auto
    with 1 True show ?thesis
      by (cases "f ((i + j) div 2)") (auto simp: sort_search.simps [of f i j] Let_def)
  qed (use 1(3) in \<open>auto simp: sort_search.simps [of f j j]\<close>)
qed

text \<open>With ascending revision ids the search finds exactly the revision that is asked for.\<close>

lemma find_revision:
  fixes revid :: int
  assumes asc: "sorted_wrt (<) (map revId vr)"
  defines "idx \<equiv> sort_search (\<lambda>i. revid \<le> revId (vr ! i)) 0 (length vr)"
  shows "idx < length vr \<and> revId (vr ! idx) = revid \<longleftrightarrow> revid \<in> revId ` set vr"
    and "i < length vr \<Longrightarrow> revId (vr ! i) = revid \<Longrightarrow> idx = i"
proof -
  have mono: "revId (vr ! k) < revId (vr ! l)" if "k < l" "l < length vr" for k l
    using sorted_wrt_nth_less [OF asc, of k l] that by simp
  have spec: "idx \<le> length vr \<and> (\<forall>k. k < idx \<longrightarrow> \<not> revid \<le> revId (vr ! k)) \<and>
      (\<forall>k. idx \<le> k \<longrightarrow> k < length vr \<longrightarrow> revid \<le> revId (vr ! k))"
  proof -
    have "revid \<le> revId (vr ! l)" if "k \<le> l" "l < length vr" "revid \<le> revId (vr ! k)" for k l
      using mono [of k l] that by (cases "k = l") auto
    then show ?thesis
      using sort_search_spec [of 0 "length vr" "\<lambda>i. revid \<le> revId (vr ! i)"] unfolding idx_def by blast
  qed
  have eq: "idx = i" if i: "i < length vr" "revId (vr ! i) = revid" for i
  proof (rule linorder_cases [of i idx])
    assume "i < idx" then show ?thesis using spec i by auto
  next
    assume l: "idx < i"
    then have "revid \<le> revId (vr ! idx)" using spec i(1) by auto
    with mono [OF l i(1)] i(2) show ?thesis by simp
  qed simp
  show "i < length vr \<Longrightarrow> revId (vr ! i) = revid \<Longrightarrow> idx = i" by (rule eq)
  show "idx < length vr \<and> revId (vr ! idx) = revid \<longleftrightarrow> revid \<in> revId ` set vr"
  proof
    assume "revid \<in> revId ` set vr"
    then obtain i where i: "i < length vr" "revId (vr ! i) = revid" by (auto simp: in_set_conv_nth)
    with eq [OF i] show "idx < length vr \<and> revId (vr ! idx) = revid" by simp
  qed auto
qed

section \<open>The invariant of a history\<close>

definition restores :: "'c sdbEnv \<Rightarrow> bool \<Rightarrow> 'c StateDB \<Rightarrow> revision \<Rightarrow> 'c StateDB \<Rightarrow> bool" where
  "restores E st s r s0 \<longleftrightarrow>
     journalIndex r \<le> length (entries (journal s)) \<and>
     take (journalIndex r) (entries (journal s)) = entries (journal s0) \<and>
     revEvents r = ctxEvents s0 \<and> dirties_ok (journal s0) \<and>
     (\<forall>t. sim E st t s \<longrightarrow>
        (\<exists>t'. revert_entries E (rev (drop (journalIndex r) (entries (journal s)))) t = Ok t' \<and> sim E st t' s0))"

text \<open>\<open>G\<close> holds, for every valid revision, its id and the state the snapshot was taken in.\<close>

definition hist_inv :: "'c sdbEnv \<Rightarrow> bool \<Rightarrow> 'c StateDB \<Rightarrow> (int \<times> 'c StateDB) list \<Rightarrow> bool" where
  "hist_inv E st s G \<longleftrightarrow>
     sdb_wf s \<and> dirties_ok (journal s) \<and> tracked s \<and>
     map fst G = map revId (validRevisions s) \<and> sorted_wrt (<) (map fst G) \<and> (\<forall>p\<in>set G. fst p < nextRevisionID s) \<and>
     (\<forall>i<length G. restores E st s (validRevisions s ! i) (snd (G ! i))) \<and>
     (\<forall>j<length G. \<forall>i<j. restores E st (snd (G ! j)) (validRevisions s ! i) (snd (G ! i)))"

lemma hist_inv_asc: "hist_inv E st s G \<Longrightarrow> sorted_wrt (<) (map revId (validRevisions s))"
  by (metis hist_inv_def)

lemma hist_inv_length: "hist_inv E st s G \<Longrightarrow> length G = length (validRevisions s)"
  by (metis hist_inv_def length_map)

lemma hist_inv_fst:
  assumes "hist_inv E st s G" "l < length G"
  shows "fst (G ! l) = revId (validRevisions s ! l)"
proof -
  have "map fst G = map revId (validRevisions s)" using assms(1) by (simp only: hist_inv_def)
  then have "map fst G ! l = map revId (validRevisions s) ! l" by (simp only:)
  with assms(2) hist_inv_length [OF assms(1)] show ?thesis by simp
qed

lemma restores_undoes:
  assumes "restores E st s r s0" "undoes E st s es s'"
  shows "restores E st s' r s0"
proof -
  have e: "entries (journal s') = entries (journal s) @ es" using assms(2) by (simp add: undoes_def)
  have "\<exists>t'. revert_entries E (rev (drop (journalIndex r) (entries (journal s')))) t = Ok t' \<and> sim E st t' s0"
    if t: "sim E st t s'" for t
  proof -
    from assms(2) t obtain t1 where t1: "revert_entries E (rev es) t = Ok t1" "sim E st t1 s" by (auto simp: undoes_def)
    with assms(1) obtain t2 where
      "revert_entries E (rev (drop (journalIndex r) (entries (journal s)))) t1 = Ok t2" "sim E st t2 s0"
      by (auto simp: restores_def)
    then show ?thesis using t1 assms(1) by (auto simp: e restores_def revert_entries_append)
  qed
  then show ?thesis using assms(1) by (auto simp: restores_def e)
qed

lemma restores_transfer:
  assumes "restores E st s r s0" "sim E st s' s" "entries (journal s') = entries (journal s)"
  shows "restores E st s' r s0"
  using assms sim_trans unfolding restores_def by metis

lemma hist_inv_undoes:
  assumes "hist_inv E st s G" "undoes E st s es s'"
  shows "hist_inv E st s' G"
  using assms restores_undoes [OF _ assms(2)] dirties_ok_appends tracked_undoes [OF _ assms(2)]
  by (auto simp: hist_inv_def undoes_def)

lemma hist_inv_snapshot:
  assumes inv: "hist_inv E st s G" and sn: "Snapshot s = (idn, s1)"
  shows "hist_inv E st s1 (G @ [(idn, s)])"
proof -
  let ?r = "\<lparr>revId = nextRevisionID s, journalIndex = length (entries (journal s)), revEvents = ctxEvents s\<rparr>"
  have s1: "s1 = s\<lparr>nextRevisionID := nextRevisionID s + 1, validRevisions := validRevisions s @ [?r]\<rparr>"
    and idn: "idn = nextRevisionID s"
    using sn by (auto simp: Snapshot_def Let_def Journal_length_def)
  note len = hist_inv_length [OF inv]
  have new: "restores E st s ?r s" using inv by (simp add: restores_def hist_inv_def)
  have tr: "restores E st s1 r s0 = restores E st s r s0" for r s0 by (simp add: restores_def s1)
  have vr1: "validRevisions s1 = validRevisions s @ [?r]" by (simp add: s1)
  have old: "restores E st s (validRevisions s ! i) (snd (G ! i))" if "i < length G" for i
    using inv that by (simp add: hist_inv_def)
  have "restores E st s1 (validRevisions s1 ! i) (snd ((G @ [(idn, s)]) ! i))" if "i < length (G @ [(idn, s)])" for i
    using that old new len by (cases "i < length G") (auto simp: tr vr1 nth_append less_Suc_eq)
  moreover have "restores E st (snd ((G @ [(idn, s)]) ! j)) (validRevisions s1 ! i) (snd ((G @ [(idn, s)]) ! i))"
    if "j < length (G @ [(idn, s)])" "i < j" for i j
  proof (cases "j < length G")
    case True
    then show ?thesis using that inv len by (simp add: hist_inv_def s1 nth_append)
  next
    case False
    then have "j = length G" using that by simp
    then show ?thesis using old [of i] that len by (simp add: s1 nth_append)
  qed
  moreover have "fst ` set G = revId ` set (validRevisions s)" using inv by (metis hist_inv_def list.set_map)
  then have "\<forall>r\<in>set (validRevisions s). revId r < nextRevisionID s"
    using inv by (metis (no_types, lifting) hist_inv_def imageE imageI)
  moreover have "tracked s1" using inv by (simp add: hist_inv_def tracked_def s1)
  ultimately show ?thesis using inv by (auto simp: hist_inv_def s1 idn sorted_wrt_append)
qed

lemma hist_inv_revert:
  assumes inv: "hist_inv E st s G" and i: "i < length G" and g: "G ! i = (revid, s0)"
  shows "\<exists>s'. RevertToSnapshot E s revid = Ok s' \<and> sim E st s' s0 \<and> journal s' = journal s0 \<and> ctxEvents s' = ctxEvents s0 \<and>
    nextRevisionID s' = nextRevisionID s \<and> validRevisions s' = take i (validRevisions s) \<and> hist_inv E st s' (take i G)"
proof -
  let ?vr = "validRevisions s" and ?r = "validRevisions s ! i"
  note len = hist_inv_length [OF inv]
  have asc: "sorted_wrt (<) (map revId ?vr)" using inv by (rule hist_inv_asc)
  have id: "revId ?r = revid" using hist_inv_fst [OF inv i] g by simp
  have idx: "sort_search (\<lambda>i. revid \<le> revId (?vr ! i)) 0 (length ?vr) = i"
    using find_revision(2) [OF asc _ id] i len by simp
  have res: "restores E st s ?r s0" using inv i g by (auto simp: hist_inv_def)
  let ?s = "s\<lparr>ctxEvents := revEvents ?r\<rparr>"
  have wf: "sdb_wf s" using inv by (simp add: hist_inv_def)
  then have "sim E st ?s s" by (simp add: sim_refl)
  with res obtain t where t: "revert_entries E (rev (drop (journalIndex ?r) (entries (journal s)))) ?s = Ok t" "sim E st t s0"
    unfolding restores_def by blast
  have d: "dirties_ok (journal ?s\<lparr>entries := take (journalIndex ?r) (entries (journal s)) @ rev (rev (drop (journalIndex ?r) (entries (journal s))))\<rparr>)"
    using inv by (simp add: hist_inv_def)
  note k = revert_entries_keeps [OF t(1) d]
  define s' where "s' = t\<lparr>journal := (journal t)\<lparr>entries := take (journalIndex ?r) (entries (journal t))\<rparr>, validRevisions := take i (validRevisions t)\<rparr>"
  have jl: "journalIndex ?r \<le> length (entries (journal s))" using res by (simp add: restores_def)
  have ok: "RevertToSnapshot E s revid = Ok s'"
    using i len id jl by (simp add: RevertToSnapshot_def idx Let_def Journal_Revert_def t(1) s'_def)
  have j: "journal s' = journal s0"
    using k res by (intro dirties_ok_unique) (auto simp: s'_def restores_def)
  have sim: "sim E st s' s0" using t(2) by (simp add: s'_def)
  have vr: "validRevisions s' = take i ?vr" "nextRevisionID s' = nextRevisionID s" "ctxEvents s' = ctxEvents s0"
    using k res by (auto simp: s'_def restores_def)
  have "restores E st s' (validRevisions s' ! l) (snd (take i G ! l))" if "l < length (take i G)" for l
  proof -
    have "restores E st s0 (?vr ! l) (snd (G ! l))" using inv i g that by (force simp: hist_inv_def)
    from restores_transfer [OF this sim] j that show ?thesis by (simp add: vr)
  qed
  moreover have "restores E st (snd (take i G ! m)) (validRevisions s' ! l) (snd (take i G ! l))"
    if "m < length (take i G)" "l < m" for l m
    using inv that i by (simp add: hist_inv_def vr)
  moreover have "map fst (take i G) = map revId (validRevisions s')"
    using inv by (simp add: hist_inv_def vr take_map [symmetric])
  moreover have "sorted_wrt (<) (map fst (take i G))" using inv unfolding hist_inv_def take_map [symmetric] by (blast intro: sorted_wrt_take)
  moreover have "sdb_wf s'" "dirties_ok (journal s')" using sim j res by (auto simp: sim_def restores_def)
  moreover have "tracked s'"
  proof -
    let ?es = "entries (journal s)" and ?n = "journalIndex ?r"
    have tr: "dirtied ?es \<subseteq> loaded ?s" "fresh_creates {} ?es" using inv by (simp_all add: hist_inv_def tracked_def)
    have "dirtied (take ?n ?es) \<subseteq> loaded t"
      using tr by (intro revert_entries_loaded [OF t(1)]) simp_all
    moreover have "fresh_creates {} (take ?n ?es)"
      using tr(2) fresh_creates_append [of "{}" "take ?n ?es" "drop ?n ?es"] by simp
    moreover have "entries (journal s') = take ?n ?es" using res by (simp add: j restores_def)
    ultimately show ?thesis by (simp add: tracked_def s'_def)
  qed
  ultimately have "hist_inv E st s' (take i G)" using inv by (auto simp: hist_inv_def vr dest: in_set_takeD)
  with ok j sim vr show ?thesis by blast
qed

lemma hist_inv_new: "hist_inv E st (New m evs cfg) []"
  by (simp add: hist_inv_def New_def sdb_wf_def newAccessList_wf dirties_ok_def newJournal_def tracked_def)

text \<open>One step keeps the invariant, and keeps every snapshot that it does not go back behind.\<close>

lemma hist_inv_step:
  assumes inv: "hist_inv E st s G" and ok: "sdb_exec E s x = Ok s'" and pc: "is_precompile x \<Longrightarrow> \<not> st"
  shows "\<exists>G'. hist_inv E st s' G' \<and> (\<forall>p\<in>set G. (\<forall>n. x = OpRevertToSnapshot n \<longrightarrow> fst p < n) \<longrightarrow> p \<in> set G')"
proof (cases "is_revision_op x")
  case False
  have "sdb_wf s" using inv by (simp add: hist_inv_def)
  from exec_undoes [OF this ok False pc] obtain es where "undoes E st s es s'" by blast
  from hist_inv_undoes [OF inv this] show ?thesis by blast
next
  case True
  then consider (snap) "x = OpSnapshot" | (rv) n where "x = OpRevertToSnapshot n" by (cases x) auto
  then show ?thesis
  proof cases
    case snap
    then have "Snapshot s = (fst (Snapshot s), s')" using ok by (cases "Snapshot s") simp
    from hist_inv_snapshot [OF inv this] show ?thesis by force
  next
    case (rv n)
    note len = hist_inv_length [OF inv]
    have asc: "sorted_wrt (<) (map revId (validRevisions s))" using inv by (rule hist_inv_asc)
    have "n \<in> revId ` set (validRevisions s)"
      using ok rv find_revision(1) [OF asc, of n]
        sort_search_le [of 0 "length (validRevisions s)" "\<lambda>i. n \<le> revId (validRevisions s ! i)"]
      by (auto simp: RevertToSnapshot_def Let_def split: if_splits)
    then obtain i where i: "i < length (validRevisions s)" "revId (validRevisions s ! i) = n" by (auto simp: in_set_conv_nth)
    note fst = hist_inv_fst [OF inv]
    have "G ! i = (n, snd (G ! i))" using fst [of i] i len by (cases "G ! i") simp
    from hist_inv_revert [OF inv _ this] i len ok rv have inv': "hist_inv E st s' (take i G)" by auto
    have "p \<in> set (take i G)" if "p \<in> set G" "fst p < n" for p
    proof -
      from that(1) obtain l where l: "l < length G" "G ! l = p" by (auto simp: in_set_conv_nth)
      have "l < i"
      proof (rule ccontr)
        assume "\<not> l < i"
        then have "revId (validRevisions s ! i) \<le> revId (validRevisions s ! l)"
          using sorted_wrt_nth_less [OF asc, of i l] l(1) len by (cases "i = l") auto
        with fst [OF l(1)] l(2) that(2) i(2) show False by simp
      qed
      with l show ?thesis by (force simp: in_set_conv_nth)
    qed
    with inv' rv show ?thesis by blast
  qed
qed

lemma hist_inv_run:
  assumes "hist_inv E st s G" "run_ops E s xs = Ok s'" "\<And>x. x \<in> set xs \<Longrightarrow> is_precompile x \<Longrightarrow> \<not> st"
  shows "\<exists>G'. hist_inv E st s' G' \<and> (\<forall>p\<in>set G. (\<forall>n. OpRevertToSnapshot n \<in> set xs \<longrightarrow> fst p < n) \<longrightarrow> p \<in> set G')"
  using assms
proof (induction xs arbitrary: s G)
  case (Cons x xs)
  from Cons.prems(2) obtain s1 where s1: "sdb_exec E s x = Ok s1" "run_ops E s1 xs = Ok s'" by (auto simp: res_bind_Ok)
  from hist_inv_step [OF Cons.prems(1) s1(1)] Cons.prems(3) obtain G1 where
    g1: "hist_inv E st s1 G1" "\<forall>p\<in>set G. (\<forall>n. x = OpRevertToSnapshot n \<longrightarrow> fst p < n) \<longrightarrow> p \<in> set G1" by force
  from Cons.IH [OF g1(1) s1(2)] Cons.prems(3) obtain G2 where
    g2: "hist_inv E st s' G2" "\<forall>p\<in>set G1. (\<forall>n. OpRevertToSnapshot n \<in> set xs \<longrightarrow> fst p < n) \<longrightarrow> p \<in> set G2" by auto
  then show ?case using g1(2) by (intro exI [of _ G2]) auto
qed auto

text \<open>The general form of the theorems on reverts.\<close>

lemma revert_general:
  assumes "run_ops E (New m evs cfg) hist = Ok s" "Snapshot s = (idn, s1)" "run_ops E s1 xs = Ok s2"
    "\<forall>n. OpRevertToSnapshot n \<in> set xs \<longrightarrow> idn < n" "\<And>x. x \<in> set (hist @ xs) \<Longrightarrow> is_precompile x \<Longrightarrow> \<not> st"
  shows "\<exists>s3. RevertToSnapshot E s2 idn = Ok s3 \<and> sim E st s3 s \<and> journal s3 = journal s \<and> ctxEvents s3 = ctxEvents s"
proof -
  from hist_inv_run [OF hist_inv_new assms(1)] assms(5) obtain G where g: "hist_inv E st s G" by auto
  from hist_inv_run [OF hist_inv_snapshot [OF g assms(2)] assms(3)] assms(4,5) obtain G' where
    g': "hist_inv E st s2 G'" "(idn, s) \<in> set G'" by auto
  then obtain i where "i < length G'" "G' ! i = (idn, s)" by (auto simp: in_set_conv_nth)
  from hist_inv_revert [OF g'(1) this] show ?thesis by blast
qed

end
