(* ===== verification/StateDBExamples.thy ===== *)
theory StateDBExamples
  imports StateDBHistory
begin

text \<open>
  The concrete keepers and states that the witnesses and the closed examples on the EVM state are evaluated on.
\<close>

section \<open>A concrete keeper\<close>

text \<open>The keeper of the examples: one account with a balance and one slot, over stores that are numbers.\<close>

definition exKeeper :: "nat multistore StateKeeper" where
  "exKeeper =
     \<lparr>kGetAccount = (\<lambda>m a. if a = 1 then Some \<lparr>Nonce = 4, Balance = Some 100, CodeHash = None\<rparr> else None),
      kGetState = (\<lambda>m a k. if a = 1 \<and> k = 2 then 9 else 0),
      kGetCode = (\<lambda>m h. None),
      kForEachStorage = (\<lambda>m a. if a = 1 then [(2, 9)] else []),
      kSetAccount = (\<lambda>m a acct. Ok (None, m)),
      kDeleteState = (\<lambda>m a k. m), kSetState = (\<lambda>m a k v. m),
      kDeleteCode = (\<lambda>m h. m), kSetCode = (\<lambda>m h c. m),
      kDeleteAccount = (\<lambda>m a. Ok (None, m)),
      kKVStoreKeys = [''evm'']\<rparr>"

definition exOps :: "nat cache_ops" where
  "exOps = \<lparr>ckNew = (\<lambda>p. p), ckWrite = (\<lambda>c p. c)\<rparr>"

definition exEnv :: "nat sdbEnv" where
  "exEnv = \<lparr>keeper = exKeeper, cacheOps = exOps, keccak = (\<lambda>bs. of_nat (length bs) + 1)\<rparr>"

definition exNew :: "nat StateDB" where
  "exNew = New [(''evm'', 5)] [] NewEmptyTxConfig"

text \<open>A keeper with one account whose slots are kept in the store of the module.\<close>

definition slots_of :: "Storage multistore \<Rightarrow> Storage" where
  "slots_of m = (case kv_get m ''evm'' of None \<Rightarrow> [] | Some st \<Rightarrow> st)"

definition slotKeeper :: "Storage multistore StateKeeper" where
  "slotKeeper =
     \<lparr>kGetAccount = (\<lambda>m a. if a = 1 then Some \<lparr>Nonce = 4, Balance = Some 100, CodeHash = None\<rparr> else None),
      kGetState = (\<lambda>m a k. case kv_get (slots_of m) k of None \<Rightarrow> 0 | Some v \<Rightarrow> v),
      kGetCode = (\<lambda>m h. None),
      kForEachStorage = (\<lambda>m a. slots_of m),
      kSetAccount = (\<lambda>m a acct. Ok (None, m)),
      kDeleteState = (\<lambda>m a k. kv_set ''evm'' (kv_delete k (slots_of m)) m),
      kSetState = (\<lambda>m a k v. kv_set ''evm'' (kv_set k (BytesToHash v) (slots_of m)) m),
      kDeleteCode = (\<lambda>m h. m), kSetCode = (\<lambda>m h c. m),
      kDeleteAccount = (\<lambda>m a. Ok (None, m)),
      kKVStoreKeys = [''evm'']\<rparr>"

definition slotEnv :: "Storage sdbEnv" where
  "slotEnv = \<lparr>keeper = slotKeeper, cacheOps = \<lparr>ckNew = (\<lambda>p. p), ckWrite = (\<lambda>c p. c)\<rparr>,
     keccak = (\<lambda>bs. of_nat (length bs) + 1)\<rparr>"

definition slotNew :: "Storage StateDB" where
  "slotNew = New [(''evm'', [(2, 9)])] [] NewEmptyTxConfig"

text \<open>Native code that returns at once, and native code that runs out of gas.\<close>

definition idlePrecompile :: "'c Precompile" where
  "idlePrecompile = \<lparr>balanceHandler = None,
     action = (\<lambda>m. \<lparr>noResult = NativeOk [], noStore = m, noEvents = [], noLogs = [], noGasConsumed = 30\<rparr>)\<rparr>"

definition hungryPrecompile :: "'c Precompile" where
  "hungryPrecompile = \<lparr>balanceHandler = None,
     action = (\<lambda>m. \<lparr>noResult = NativeOutOfGas, noStore = m, noEvents = [], noLogs = [], noGasConsumed = 100\<rparr>)\<rparr>"

definition exContract :: Contract where
  "exContract = \<lparr>cInput = [], cValue = 0, cGas = 100\<rparr>"

end
