(* ===== verification/StateDBTheorems.thy ===== *)
theory StateDBTheorems
  imports StateDBExamples
begin

text \<open>
  The theorems on the EVM state of a transaction: what its reads return, what its writes change, that reverts
  restore it, which revisions can be reverted to, and where the code departs from what it means to do.
\<close>

lemma view_of_sim:
  assumes "sim E True t s"
  shows "view E t = view E s"
proof -
  have "blur True = id" by (simp add: blur_def fun_eq_iff)
  then show ?thesis using assms by (auto simp: sim_def option.map_id)
qed

section \<open>Reads\<close>

lemma reads_view:
  assumes "sdb_wf s"
  shows "fst (sdb_GetBalance E s a) = (case view E s a of None \<Rightarrow> 0 | Some v \<Rightarrow> vBalance v)"
    "fst (GetNonce E s a) = (case view E s a of None \<Rightarrow> 0 | Some v \<Rightarrow> vNonce v)"
    "fst (GetCodeHash E s a) = (case view E s a of None \<Rightarrow> 0 | Some v \<Rightarrow> vCodeHash v)"
    "fst (GetCode E s a) = (case view E s a of None \<Rightarrow> None | Some v \<Rightarrow> vCode v)"
    "fst (GetState E s a k) = (case view E s a of None \<Rightarrow> 0 | Some v \<Rightarrow> vState v k)"
    "fst (GetCommittedState E s a k) = (case view E s a of None \<Rightarrow> 0 | Some v \<Rightarrow> vCommitted v k)"
    "fst (HasSelfDestructed E s a) = (case view E s a of None \<Rightarrow> False | Some v \<Rightarrow> vDestructed v)"
proof -
  note g = getStateObject_live [OF assms, where E = E and a = a]
  obtain so s1 where gs: "getStateObject E s a = (so, s1)" by (cases "getStateObject E s a")
  have so: "so = live E s a" "ctxStore s1 = ctxStore s" using g(1,9) by (simp_all add: gs)
  show "fst (sdb_GetBalance E s a) = (case view E s a of None \<Rightarrow> 0 | Some v \<Rightarrow> vBalance v)"
    "fst (GetNonce E s a) = (case view E s a of None \<Rightarrow> 0 | Some v \<Rightarrow> vNonce v)"
    "fst (GetCodeHash E s a) = (case view E s a of None \<Rightarrow> 0 | Some v \<Rightarrow> vCodeHash v)"
    "fst (GetCode E s a) = (case view E s a of None \<Rightarrow> None | Some v \<Rightarrow> vCode v)"
    "fst (GetState E s a k) = (case view E s a of None \<Rightarrow> 0 | Some v \<Rightarrow> vState v k)"
    "fst (GetCommittedState E s a k) = (case view E s a of None \<Rightarrow> 0 | Some v \<Rightarrow> vCommitted v k)"
    "fst (HasSelfDestructed E s a) = (case view E s a of None \<Rightarrow> False | Some v \<Rightarrow> vDestructed v)"
    by (cases "live E s a";
      simp add: sdb_GetBalance_def GetNonce_def GetCodeHash_def GetCode_def GetState_def GetCommittedState_def
        HasSelfDestructed_def gs so view_def obj_view_def split_beta)+
qed



section \<open>Writes\<close>

text \<open>What a write starts from: what the account shows, or a fresh account.\<close>

definition start_view :: "'c sdbEnv \<Rightarrow> 'c StateDB \<Rightarrow> address \<Rightarrow> objView" where
  "start_view E s a =
     (case view E s a of
        Some v \<Rightarrow> v
      | None \<Rightarrow> obj_view E (ctxStore s) (newObject E a \<lparr>Nonce = 0, Balance = None, CodeHash = None\<rparr>))"

lemma getOrNew_view:
  assumes wf: "sdb_wf s" and g: "getOrNewStateObject E s a = (obj, s1)"
  shows "view E s1 = (view E s)(a := Some (start_view E s a))" "obj_view E (ctxStore s1) obj = start_view E s a"
    "address obj = a" "ctxStore s1 = ctxStore s" "sdb_wf s1"
proof -
  have "view E s1 = (view E s)(a := Some (start_view E s a)) \<and> obj_view E (ctxStore s1) obj = start_view E s a \<and>
      address obj = a \<and> ctxStore s1 = ctxStore s \<and> sdb_wf s1"
  proof (cases "live E s a")
    case None
    note n = getStateObject_none [OF wf None]
    have "obj = newObject E a \<lparr>Nonce = 0, Balance = None, CodeHash = None\<rparr>"
      "s1 = setStateObject (log_entry s (createObjectChange a)) obj"
      using g by (auto simp: getOrNewStateObject_def createObject_def n Let_def)
    then show ?thesis using None wf by (auto simp: fun_eq_iff start_view_def view_def setStateObject_wf)
  next
    case (Some o1)
    note l = getStateObject_live [OF wf, where E = E and a = a]
    obtain s2 where s2: "getStateObject E s a = (Some o1, s2)" using l(1) Some by (metis prod.collapse)
    then have "obj = o1" "s1 = s2" using g by (auto simp: getOrNewStateObject_def)
    moreover have "view E s2 = view E s" using view_of_sim [OF l(2)] by (simp add: s2)
    moreover have "ctxStore s2 = ctxStore s" "sdb_wf s2" using l(8,9) by (simp_all add: s2)
    ultimately show ?thesis using Some live_address [OF wf Some] by (auto simp: fun_eq_iff start_view_def view_def)
  qed
  then show "view E s1 = (view E s)(a := Some (start_view E s a))" "obj_view E (ctxStore s1) obj = start_view E s a"
    "address obj = a" "ctxStore s1 = ctxStore s" "sdb_wf s1" by blast+
qed

lemma write_view:
  assumes wf: "sdb_wf s" and g: "getOrNewStateObject E s a = (obj, s1)" and adr: "address (f obj) = a"
    and s': "s' = setStateObject (log_entry s1 e) (f obj)"
  shows "view E s' = (view E s)(a := Some (obj_view E (ctxStore s1) (f obj)))"
  using getOrNew_view [OF wf g] adr by (auto simp: s' fun_eq_iff)

lemma SetState_view:
  assumes wf: "sdb_wf s1" and adr: "address obj = a" and shown: "view E s1 a = Some (obj_view E (ctxStore s1) obj)"
  shows "view E (snd (obj_SetState E s1 obj k v)) =
    (view E s1)(a := Some ((obj_view E (ctxStore s1) obj)\<lparr>vState := (vState (obj_view E (ctxStore s1) obj))(k := v)\<rparr>))"
proof -
  let ?m = "ctxStore s1"
  obtain prev obj1 where o1: "obj_GetState E ?m obj k = (prev, obj1)" by (cases "obj_GetState E ?m obj k")
  have k1: "address obj1 = a" "obj_view E ?m obj1 = obj_view E ?m obj"
    using obj_GetState_keeps [of E ?m obj k] adr by (simp_all add: o1)
  have prev: "prev = vState (obj_view E ?m obj) k" using o1 by (simp add: obj_view_def)
  show ?thesis
  proof (cases "prev = v")
    case True
    then show ?thesis using k1 prev shown o1 by (auto simp: obj_SetState_def fun_eq_iff)
  next
    case False
    obtain origin obj2 where o2: "obj_GetCommittedState E ?m obj1 k = (origin, obj2)"
      by (cases "obj_GetCommittedState E ?m obj1 k")
    have k2: "address obj2 = a" "obj_view E ?m obj2 = obj_view E ?m obj"
      using obj_GetCommittedState_keeps [of E ?m obj1 k] k1 by (simp_all add: o2)
    have origin: "origin = vCommitted (obj_view E ?m obj) k" using o2 k1(2) [symmetric] by (simp add: obj_view_def)
    have "obj_view E ?m (obj_setState obj2 k v origin) =
        (obj_view E ?m obj)\<lparr>vState := (vState (obj_view E ?m obj))(k := v)\<rparr>"
      using k2 origin by (simp add: obj_view_setState)
    then show ?thesis using False o1 o2 k2 by (auto simp: obj_SetState_def fun_eq_iff)
  qed
qed

text \<open>C27: A write changes exactly the field it names, of exactly the account it names, which it creates when it does
  not exist: a balance is set, added to or subtracted from modulo \<open>2^256\<close>, a nonce set, and one storage slot takes the
  value written while the committed value stays.\<close>

theorem writes_change_one_field:
  assumes wf: "sdb_wf s"
  shows "view E (snd (AddBalance E s a n)) =
      (view E s)(a := Some ((start_view E s a)\<lparr>vBalance := vBalance (start_view E s a) + n\<rparr>)) \<and>
    view E (snd (SubBalance E s a n)) =
      (view E s)(a := Some ((start_view E s a)\<lparr>vBalance := vBalance (start_view E s a) - n\<rparr>)) \<and>
    view E (SetBalance E s a n) = (view E s)(a := Some ((start_view E s a)\<lparr>vBalance := n\<rparr>)) \<and>
    view E (SetNonce E s a nonce) = (view E s)(a := Some ((start_view E s a)\<lparr>vNonce := nonce\<rparr>)) \<and>
    view E (snd (SetState E s a k v)) =
      (view E s)(a := Some ((start_view E s a)\<lparr>vState := (vState (start_view E s a))(k := v)\<rparr>))"
proof -
  obtain obj s1 where g: "getOrNewStateObject E s a = (obj, s1)" by (cases "getOrNewStateObject E s a")
  note gv = getOrNew_view [OF wf g]
  have bal: "accBalance obj = vBalance (start_view E s a)" unfolding gv(2) [symmetric] by (simp add: obj_view_def)
  have "view E (snd (obj_SetBalance s1 obj b)) = (view E s)(a := Some ((start_view E s a)\<lparr>vBalance := b\<rparr>))" for b
    using write_view [OF wf g, of "\<lambda>ob. obj_setBalance ob b"] gv(2,3) by (simp add: obj_SetBalance_def obj_setBalance_def)
  moreover have "(start_view E s a)\<lparr>vBalance := vBalance (start_view E s a)\<rparr> = start_view E s a" by simp
  ultimately have
    "view E (snd (AddBalance E s a n)) = (view E s)(a := Some ((start_view E s a)\<lparr>vBalance := vBalance (start_view E s a) + n\<rparr>))"
    "view E (snd (SubBalance E s a n)) = (view E s)(a := Some ((start_view E s a)\<lparr>vBalance := vBalance (start_view E s a) - n\<rparr>))"
    "view E (SetBalance E s a n) = (view E s)(a := Some ((start_view E s a)\<lparr>vBalance := n\<rparr>))"
    by (simp_all add: AddBalance_def SubBalance_def SetBalance_def g obj_AddBalance_def obj_SubBalance_def bal gv(1))
  moreover have "view E (SetNonce E s a nonce) = (view E s)(a := Some ((start_view E s a)\<lparr>vNonce := nonce\<rparr>))"
    using write_view [OF wf g, of "\<lambda>ob. obj_setNonce ob nonce"] gv(2,3)
    by (simp add: SetNonce_def g obj_SetNonce_def obj_setNonce_def)
  moreover have "view E (snd (obj_SetState E s1 obj k v)) =
      (view E s)(a := Some ((start_view E s a)\<lparr>vState := (vState (start_view E s a))(k := v)\<rparr>))"
    using SetState_view [OF gv(5,3), of E k v] by (simp add: gv(1,2))
  ultimately show ?thesis by (simp add: SetState_def g)
qed

theorem writes_change_one_field_witness:
  "fst (sdb_GetBalance exEnv (snd (SubBalance exEnv exNew 1 101)) 1) = - 1 \<and>
   fst (GetState exEnv (snd (SetState exEnv exNew 1 2 7)) 1 2) = 7"
proof -
  have wf: "sdb_wf exNew" by (simp add: exNew_def New_def sdb_wf_def newAccessList_wf)
  have v: "view exEnv exNew 1 \<noteq> None" "vBalance (start_view exEnv exNew 1) = 100"
    by (simp_all add: start_view_def view_def live_def obj_view_def exEnv_def exNew_def exKeeper_def New_def newObject_def)
  have "sdb_wf (snd (SubBalance exEnv exNew 1 101))" "sdb_wf (snd (SetState exEnv exNew 1 2 7))"
    using undoes_SubBalance [OF wf] undoes_SetState [OF wf] unfolding undoes_def by blast+
  then show ?thesis
    using writes_change_one_field [OF wf, of exEnv 1 101] writes_change_one_field [OF wf, of exEnv 1 _ _ 2 7] v
    by (simp add: reads_view)
qed

section \<open>Reverts\<close>



text \<open>C24: The same with precompile calls anywhere in the history: the revert succeeds and restores what the
  accounts show apart from their storage slots, the transaction's counters, logs and lists, and the module stores
  the precompiles wrote to, exactly as they were at the snapshot.\<close>

theorem revert_restores_native:
  assumes "run_ops E (New m evs cfg) hist = Ok s" "Snapshot s = (idn, s1)" "run_ops E s1 xs = Ok s2"
    "\<forall>n. OpRevertToSnapshot n \<in> set xs \<longrightarrow> idn < n"
  shows "\<exists>s3. RevertToSnapshot E s2 idn = Ok s3 \<and>
    (\<forall>a. map_option (\<lambda>v. (vNonce v, vBalance v, vCodeHash v, vCode v, vDestructed v, vNew v)) (view E s3 a) =
         map_option (\<lambda>v. (vNonce v, vBalance v, vCodeHash v, vCode v, vDestructed v, vNew v)) (view E s a)) \<and>
    refund s3 = refund s \<and> logs s3 = logs s \<and> accessList s3 = accessList s \<and>
    GetTransientState s3 = GetTransientState s \<and> cache_base E s3 = cache_base E s \<and>
    journal s3 = journal s \<and> ctxEvents s3 = ctxEvents s"
proof -
  let ?f = "\<lambda>v. (vNonce v, vBalance v, vCodeHash v, vCode v, vDestructed v, vNew v)"
  from revert_general [OF assms(1-4), of False] obtain s3 where
    s3: "RevertToSnapshot E s2 idn = Ok s3" "sim E False s3 s" "journal s3 = journal s" "ctxEvents s3 = ctxEvents s" by blast
  have "map_option ?f (view E s3 a) = map_option ?f (view E s a)" for a
  proof -
    have "map_option (blur False) (view E s3 a) = map_option (blur False) (view E s a)" using s3(2) by (simp add: sim_def)
    then have "map_option ?f (map_option (blur False) (view E s3 a)) = map_option ?f (map_option (blur False) (view E s a))"
      by simp
    then show ?thesis by (simp add: option.map_comp o_def blur_def)
  qed
  moreover from s3(2) have "refund s3 = refund s \<and> logs s3 = logs s \<and> accessList s3 = accessList s \<and>
      GetTransientState s3 = GetTransientState s \<and> cache_base E s3 = cache_base E s" by (auto simp: sim_def fun_eq_iff)
  ultimately show ?thesis using s3 by blast
qed

definition exPrecompile :: "nat Precompile" where
  "exPrecompile = \<lparr>balanceHandler = None,
     action = (\<lambda>m. \<lparr>noResult = NativeOk [], noStore = map (\<lambda>(k, c). (k, c + 1)) m, noEvents = [], noLogs = [], noGasConsumed = 30\<rparr>)\<rparr>"

theorem revert_restores_native_witness:
  "\<exists>s s1 s2 s3. run_ops exEnv exNew [OpAddBalance 1 5] = Ok s \<and> Snapshot s = (0, s1) \<and>
     run_ops exEnv s1 [OpSetNonce 1 9, OpPrecompile exPrecompile 0 \<lparr>cInput = [], cValue = 0, cGas = 100\<rparr>] = Ok s2 \<and>
     RevertToSnapshot exEnv s2 0 = Ok s3 \<and> cache_base exEnv s3 = cache_base exEnv s"
proof -
  let ?h = "[OpAddBalance 1 5] :: nat sdb_op list"
  let ?xs = "[OpSetNonce 1 9, OpPrecompile exPrecompile 0 \<lparr>cInput = [], cValue = 0, cGas = 100\<rparr>]"
  have "is_ok (run_ops exEnv exNew ?h)" by simp
  then obtain s where s: "run_ops exEnv exNew ?h = Ok s" unfolding is_ok_iff by blast
  have sv: "s = snd (AddBalance exEnv exNew 1 5)" using s by simp
  have "nextRevisionID s = 0" unfolding sv by code_simp
  then obtain s1 where s1: "Snapshot s = (0, s1)" by (simp add: Snapshot_def)
  have "is_ok (run_ops exEnv (snd (Snapshot (snd (AddBalance exEnv exNew 1 5)))) ?xs)" by code_simp
  then obtain s2 where s2: "run_ops exEnv s1 ?xs = Ok s2" unfolding is_ok_iff sv [symmetric] s1 snd_conv by blast
  from revert_restores_native [OF s [unfolded exNew_def] s1 s2] obtain s3 where
    "RevertToSnapshot exEnv s2 0 = Ok s3" "cache_base exEnv s3 = cache_base exEnv s" by auto
  with s s1 s2 show ?thesis by blast
qed

text \<open>C25: In every state a transaction reaches, \<open>RevertToSnapshot\<close> returns for exactly the ids of the valid
  revisions, whose ids ascend, and panics for every other id: the binary search never misses a revision, and no
  undo of an entry ever fails.\<close>

theorem revert_succeeds_iff:
  assumes "run_ops E (New m evs cfg) xs = Ok s"
  shows "sorted_wrt (<) (map revId (validRevisions s)) \<and>
    (if n \<in> revId ` set (validRevisions s) then is_ok (RevertToSnapshot E s n)
     else RevertToSnapshot E s n = Panic (ErrMsg ''revision id cannot be reverted''))"
proof -
  from hist_inv_run [OF hist_inv_new assms, of False] obtain G where g: "hist_inv E False s G" by auto
  note asc = hist_inv_asc [OF g] and len = hist_inv_length [OF g]
  show ?thesis
  proof (cases "n \<in> revId ` set (validRevisions s)")
    case True
    then obtain i where i: "i < length G" "revId (validRevisions s ! i) = n" by (auto simp: in_set_conv_nth len)
    have "G ! i = (n, snd (G ! i))" using hist_inv_fst [OF g i(1)] i(2) by (cases "G ! i") simp
    from hist_inv_revert [OF g i(1) this] asc True show ?thesis by auto
  next
    case False
    have "RevertToSnapshot E s n = Panic (ErrMsg ''revision id cannot be reverted'')"
      using find_revision(1) [OF asc, of n] False
        sort_search_le [of 0 "length (validRevisions s)" "\<lambda>i. n \<le> revId (validRevisions s ! i)"]
      by (auto simp: RevertToSnapshot_def Let_def)
    with asc False show ?thesis by simp
  qed
qed

theorem revert_succeeds_iff_witness:
  "is_ok (RevertToSnapshot exEnv (snd (Snapshot exNew)) 0) \<and> \<not> is_ok (RevertToSnapshot exEnv (snd (Snapshot exNew)) 1)"
proof -
  have r: "run_ops exEnv (New [(''evm'', 5)] [] NewEmptyTxConfig) [OpSnapshot] = Ok (snd (Snapshot exNew))"
    by (simp add: exNew_def)
  have v: "validRevisions (snd (Snapshot exNew)) = [\<lparr>revId = 0, journalIndex = 0, revEvents = []\<rparr>]" by code_simp
  show ?thesis
    using revert_succeeds_iff [OF r, of 0] revert_succeeds_iff [OF r, of 1] by (auto simp: v)
qed

section \<open>The journal\<close>

text \<open>C26: In every state a transaction reaches, the dirty counter of an address is the number of journal entries
  that dirty it, addresses without such entries are not listed, and every listed address has a live object under its
  own address: the commit never meets a nil object.\<close>

theorem dirties_count_live_objects:
  assumes "run_ops E (New m evs cfg) xs = Ok s"
  shows "kv_num (dirties (journal s)) a = int (length (filter (\<lambda>e. Dirtied e = Some a) (entries (journal s)))) \<and>
    (a \<in> set (sortedDirties (journal s)) \<longleftrightarrow> a \<in> dirtied (entries (journal s))) \<and>
    (a \<in> set (sortedDirties (journal s)) \<longrightarrow> (\<exists>obj. kv_get (stateObjects s) a = Some obj \<and> address obj = a))"
proof -
  from hist_inv_run [OF hist_inv_new assms, of False] obtain G where "hist_inv E False s G" by auto
  then have d: "dirties_ok (journal s)" and t: "tracked s" and w: "sdb_wf s" by (simp_all add: hist_inv_def)
  let ?n = "length (filter (\<lambda>e. Dirtied e = Some a) (entries (journal s)))"
  have g: "kv_get (dirties (journal s)) a = (if ?n = 0 then None else Some (int ?n))"
    using d by (simp add: dirties_ok_def Let_def)
  have k: "a \<in> set (sortedDirties (journal s)) \<longleftrightarrow> kv_get (dirties (journal s)) a \<noteq> None"
    by (auto simp: sortedDirties_def kv_get_def map_of_eq_None_iff)
  have m: "?n = 0 \<longleftrightarrow> a \<notin> dirtied (entries (journal s))"
    by (force simp: dirtied_def filter_empty_conv image_iff)
  have l: "\<exists>obj. kv_get (stateObjects s) a = Some obj \<and> address obj = a" if "a \<in> dirtied (entries (journal s))"
    using t w that by (auto simp: tracked_def loaded_def sdb_wf_def)
  show ?thesis using g k m l by (auto simp: kv_num_def)
qed

theorem dirties_count_live_objects_witness:
  "\<exists>s. run_ops exEnv exNew [OpAddBalance 1 5, OpSetNonce 1 6] = Ok s \<and> kv_num (dirties (journal s)) 1 = 2 \<and>
     (\<exists>obj. kv_get (stateObjects s) 1 = Some obj)"
proof -
  have "is_ok (run_ops exEnv exNew [OpAddBalance 1 5, OpSetNonce 1 6])" by simp
  then obtain s where s: "run_ops exEnv exNew [OpAddBalance 1 5, OpSetNonce 1 6] = Ok s" unfolding is_ok_iff by blast
  have sv: "s = SetNonce exEnv (snd (AddBalance exEnv exNew 1 5)) 1 6" using s by simp
  have e: "entries (journal s) = [balanceChange 1 100, nonceChange 1 4]" unfolding sv by code_simp
  have "1 \<in> set (sortedDirties (journal s))" unfolding sv by code_simp
  with dirties_count_live_objects [OF s [unfolded exNew_def], of 1] s e show ?thesis by auto
qed

end
