(* ===== verification/EvmTxTheorems.thy ===== *)
theory EvmTxTheorems
  imports StateDBExamples
begin

text \<open>
  The theorems on the frame of an EVM transaction: the access list it starts with, the end of a transaction, and the
  precompile calls in it; and the closed examples of the findings on precompile calls.
\<close>

section \<open>Preparing a transaction\<close>

lemma AddAddress_snd:
  assumes "al_wf al"
  shows "al_wf (snd (AddAddress al a))" "warm (snd (AddAddress al a)) = insert a (warm al)"
    "warmSlots (snd (AddAddress al a)) = warmSlots al"
  using AddAddress_warm(1-3) [OF prod.collapse [symmetric] assms, of a] by blast+

lemma add_addresses:
  assumes "al_wf al"
  shows "al_wf (foldl (\<lambda>al a. snd (AddAddress al a)) al as) \<and>
    warm (foldl (\<lambda>al a. snd (AddAddress al a)) al as) = warm al \<union> set as \<and>
    warmSlots (foldl (\<lambda>al a. snd (AddAddress al a)) al as) = warmSlots al"
  using assms by (induction as arbitrary: al) (auto simp: AddAddress_snd)

lemma add_slots_warm:
  assumes "al_wf al" "a \<in> warm al"
  shows "\<exists>al'. add_slots al a ks = Ok al' \<and> al_wf al' \<and> warm al' = warm al \<and>
    warmSlots al' = warmSlots al \<union> {(a, k) | k. k \<in> set ks}"
  using assms
proof (induction ks arbitrary: al)
  case (Cons k ks)
  from AddSlot_warm [OF Cons.prems(1), of a k] obtain al1 c where
    a1: "AddSlot al a k = Ok (c, al1)" "al_wf al1" "warm al1 = warm al" "warmSlots al1 = insert (a, k) (warmSlots al)"
    using Cons.prems(2) by (auto simp: insert_absorb)
  from Cons.IH [OF a1(2)] a1(3) Cons.prems(2) obtain al' where
    "add_slots al1 a ks = Ok al'" "al_wf al'" "warm al' = warm al1"
    "warmSlots al' = warmSlots al1 \<union> {(a, k) | k. k \<in> set ks}" by auto
  then show ?case using a1 by auto
qed auto

lemma add_tuples_warm:
  assumes "al_wf al"
  shows "\<exists>al'. add_tuples al els = Ok al' \<and> al_wf al' \<and> warm al' = warm al \<union> fst ` set els \<and>
    warmSlots al' = warmSlots al \<union> {(a, k). \<exists>ks. (a, ks) \<in> set els \<and> k \<in> set ks}"
  using assms
proof (induction els arbitrary: al)
  case (Cons el els)
  obtain a ks where el: "el = (a, ks)" by (cases el)
  note ad = AddAddress_snd [OF Cons.prems, of a]
  from add_slots_warm [OF ad(1), of a ks] ad obtain al1 where
    a1: "add_slots (snd (AddAddress al a)) a ks = Ok al1" "al_wf al1" "warm al1 = insert a (warm al)"
      "warmSlots al1 = warmSlots al \<union> {(a, k) | k. k \<in> set ks}" by auto
  from Cons.IH [OF a1(2)] obtain al' where
    "add_tuples al1 els = Ok al'" "al_wf al'" "warm al' = warm al1 \<union> fst ` set els"
    "warmSlots al' = warmSlots al1 \<union> {(a, k). \<exists>ks. (a, ks) \<in> set els \<and> k \<in> set ks}" by blast
  then show ?case using a1 by (auto simp: el)
qed auto

text \<open>Under EIP-2929, \<open>Prepare\<close> always returns, with an access list of exactly the sender, the destination, the
  precompiles, the addresses of the transaction's list and, from Shanghai on, the coinbase; its warm slots are exactly
  the listed ones, and the transient storage is empty.\<close>

theorem Prepare_warms:
  assumes "IsEIP2929 rules" "\<not> IsEIP4762 rules"
  shows "\<exists>s'. Prepare s rules sender coinbase dst precompiles lst = Ok s' \<and> al_wf (accessList s') \<and>
    warm (accessList s') = {sender} \<union> set_option dst \<union> set precompiles \<union> fst ` set lst \<union>
      (if IsShanghai rules then {coinbase} else {}) \<and>
    warmSlots (accessList s') = {(a, k). \<exists>ks. (a, ks) \<in> set lst \<and> k \<in> set ks} \<and>
    GetTransientState s' a k = 0"
proof -
  define al1 where "al1 = snd (AddAddress newAccessList sender)"
  define al2 where "al2 = (case dst of None \<Rightarrow> al1 | Some d \<Rightarrow> snd (AddAddress al1 d))"
  define al3 where "al3 = foldl (\<lambda>al a. snd (AddAddress al a)) al2 precompiles"
  have a1: "al_wf al1" "warm al1 = {sender}" "warmSlots al1 = {}"
    using AddAddress_snd [OF newAccessList_wf(1), of sender] by (simp_all add: al1_def newAccessList_wf)
  then have a2: "al_wf al2" "warm al2 = {sender} \<union> set_option dst" "warmSlots al2 = {}"
    using AddAddress_snd [OF a1(1)] by (auto simp: al2_def split: option.splits)
  then have a3: "al_wf al3" "warm al3 = {sender} \<union> set_option dst \<union> set precompiles" "warmSlots al3 = {}"
    using add_addresses [OF a2(1), of precompiles] by (auto simp: al3_def)
  from add_tuples_warm [OF a3(1), of lst] obtain al4 where
    a4: "add_tuples al3 lst = Ok al4" "al_wf al4" "warm al4 = warm al3 \<union> fst ` set lst"
      "warmSlots al4 = warmSlots al3 \<union> {(a, k). \<exists>ks. (a, ks) \<in> set lst \<and> k \<in> set ks}" by blast
  have "Prepare s rules sender coinbase dst precompiles lst =
      Ok (s\<lparr>accessList := if IsShanghai rules then snd (AddAddress al4 coinbase) else al4,
            transientStorage := newTransientStorage\<rparr>)"
    using assms a4(1) by (simp add: Prepare_def Let_def al1_def [symmetric] al2_def [symmetric] al3_def [symmetric])
  moreover have "GetTransientState (s\<lparr>accessList := al, transientStorage := newTransientStorage\<rparr>) a k = 0" for al
    by (simp add: GetTransientState_def Transient_Get_def newTransientStorage_def)
  ultimately show ?thesis using a3 a4 AddAddress_snd [OF a4(2), of coinbase] by auto
qed

definition exRules :: Rules where
  "exRules = \<lparr>IsEIP2929 = True, IsEIP4762 = False, IsShanghai = True\<rparr>"

theorem Prepare_warms_witness:
  "\<exists>s'. Prepare (New ([] :: nat multistore) [] NewEmptyTxConfig) exRules 1 2 (Some 3) [4] [(5, [6])] = Ok s' \<and>
     warm (accessList s') = {1, 2, 3, 4, 5}"
  using Prepare_warms [of exRules "New [] [] NewEmptyTxConfig" 1 2 "Some 3" "[4]" "[(5, [6])]" 0 0]
  by (auto simp: exRules_def)

section \<open>Ending a transaction\<close>

lemma fold_kv_delete: "kv_get (fold kv_delete ks kvs) a = (if a \<in> set ks then None else kv_get kvs a)"
  by (induction ks arbitrary: kvs) auto

lemma Journal_reset_empty: "Journal_reset j = newJournal"
proof -
  have "kv_get (fold kv_delete (map fst kvs) kvs) a = None" for a and kvs :: "(address, int) kv"
    by (cases "a \<in> fst ` set kvs") (auto simp: fold_kv_delete intro!: kv_get_None)
  moreover have "kvs = []" if "\<And>a. kv_get kvs a = None" for kvs :: "(address, int) kv"
  proof (cases kvs)
    case (Cons p ps)
    then show ?thesis using that [of "fst p"] by (simp add: kv_get_Cons)
  qed simp
  ultimately show ?thesis by (simp add: Journal_reset_def newJournal_def sortedDirties_def)
qed

lemma finalise_fold:
  assumes "\<forall>a obj. kv_get (stateObjects s) a = Some obj \<longrightarrow> address obj = a"
  shows "kv_get (stateObjects (fold (finalise_object E del) ds s)) a =
    (case kv_get (stateObjects s) a of None \<Rightarrow> None
     | Some obj \<Rightarrow> if a \<in> set ds \<and> (selfDestructed obj \<or> del \<and> obj_empty E obj) then None else Some obj)"
  using assms
proof (induction ds arbitrary: s)
  case (Cons b ds)
  have s1: "kv_get (stateObjects (finalise_object E del b s)) c =
      (case kv_get (stateObjects s) c of None \<Rightarrow> None
       | Some obj \<Rightarrow> if c = b \<and> (selfDestructed obj \<or> del \<and> obj_empty E obj) then None else Some obj)" for c
    using Cons.prems by (auto simp: finalise_object_def split: option.splits)
  have "\<forall>c obj. kv_get (stateObjects (finalise_object E del b s)) c = Some obj \<longrightarrow> address obj = c"
    using Cons.prems s1 by (auto split: option.splits if_splits)
  from Cons.IH [OF this] show ?case using s1 by (auto split: option.splits)
qed (auto split: option.splits)

lemma finalise_fold_fields:
  "journal (fold (finalise_object E del) ds s) = journal s"
  by (induction ds arbitrary: s) (auto simp: finalise_object_def split: option.splits)

text \<open>C32: \<open>Finalise\<close> drops exactly the dirty objects that self-destructed, and with the flag the dirty empty ones, keeps
  every other object, and leaves an empty journal, no revisions and no refund.\<close>

theorem Finalise_drops_dead:
  assumes "sdb_wf s"
  shows "kv_get (stateObjects (Finalise E s del)) a =
      (case kv_get (stateObjects s) a of None \<Rightarrow> None
       | Some obj \<Rightarrow> if a \<in> set (sortedDirties (journal s)) \<and> (selfDestructed obj \<or> del \<and> obj_empty E obj)
                    then None else Some obj) \<and>
    journal (Finalise E s del) = newJournal \<and> validRevisions (Finalise E s del) = [] \<and> refund (Finalise E s del) = 0"
proof -
  have adr: "\<forall>a obj. kv_get (stateObjects s) a = Some obj \<longrightarrow> address obj = a" using assms by (simp add: sdb_wf_def)
  show ?thesis
    unfolding sortedDirties_def
    using finalise_fold [OF adr, where E = E and del = del and ds = "map fst (dirties (journal s))" and a = a]
    by (simp add: Finalise_def clearJournalAndRefund_def Journal_reset_empty)
qed

definition exDead :: "nat StateDB" where
  "exDead = snd (SelfDestruct exEnv exNew 1)"

theorem Finalise_drops_dead_witness: "kv_get (stateObjects (Finalise exEnv exDead False)) 1 = None"
proof -
  have "sdb_wf exNew" by (simp add: exNew_def New_def sdb_wf_def newAccessList_wf)
  from undoes_SelfDestruct [OF this, of exEnv True 1] have "sdb_wf exDead" by (auto simp: undoes_def exDead_def)
  moreover have "case kv_get (stateObjects exDead) 1 of None \<Rightarrow> False | Some obj \<Rightarrow> selfDestructed obj"
    "1 \<in> set (sortedDirties (journal exDead))" by code_simp+
  ultimately show ?thesis
    using Finalise_drops_dead [of exDead exEnv False 1] by (auto split: option.splits)
qed

section \<open>Precompile calls\<close>

text \<open>C33: A read-only call never reaches a method that writes, and with an ABI whose special methods are typed as
  such, arguments are decoded only from calldata that holds a selector: the slice of the calldata never panics, and any
  panic is one of the decoder.\<close>

theorem SetupABI_safe:
  assumes "\<And>m. abiReceive ab = Some m \<Longrightarrow> mType m \<noteq> Function" "\<And>m. abiFallback ab = Some m \<Longrightarrow> mType m \<noteq> Function"
  shows "(SetupABI ab contract True isTransaction = Ok (m, args) \<longrightarrow> \<not> isTransaction m) \<and>
    (SetupABI ab contract readOnly isTransaction = Panic e \<longrightarrow> (\<exists>m bz. abiUnpack ab m bz = Panic e))"
proof -
  have "mType m \<noteq> Function" if "length (cInput contract) < 4"
    "(if length (cInput contract) = 0 then emptyCallData ab contract
      else if length (cInput contract) < 4 then methodIDCallData ab else standardCallData ab contract) = Ok m" for m
    using that assms by (auto simp: emptyCallData_def methodIDCallData_def split: if_splits option.splits)
  moreover have "(if length (cInput contract) = 0 then emptyCallData ab contract
      else if length (cInput contract) < 4 then methodIDCallData ab else standardCallData ab contract) \<noteq> Panic e" for e
    by (auto simp: emptyCallData_def methodIDCallData_def standardCallData_def split: option.splits)
  ultimately show ?thesis
    unfolding SetupABI_def by (auto simp: res_bind_Ok res_bind_Panic split: if_splits)
qed

definition exAbi :: "nat abi" where
  "exAbi = \<lparr>abiReceive = None, abiFallback = None,
     abiMethodById = (\<lambda>sel. if sel = [1, 2, 3, 4] then Some \<lparr>mName = ''f'', mType = Function\<rparr> else None),
     abiUnpack = (\<lambda>m bz. Ok (length bz))\<rparr>"

theorem SetupABI_safe_witness:
  "\<not> is_panic (SetupABI exAbi \<lparr>cInput = [1], cValue = 0, cGas = 0\<rparr> True (\<lambda>m. True)) \<and>
   SetupABI exAbi \<lparr>cInput = [1, 2, 3, 4], cValue = 0, cGas = 0\<rparr> True (\<lambda>m. True) \<noteq> Ok (\<lparr>mName = ''f'', mType = Function\<rparr>, Some 0)"
  using SetupABI_safe [of exAbi "\<lparr>cInput = [1, 2, 3, 4], cValue = 0, cGas = 0\<rparr>" "\<lambda>m. True"]
  by (auto simp: exAbi_def SetupABI_def methodIDCallData_def)

lemma AddPrecompileFn_counts:
  "precompileCallsCounter (snd (AddPrecompileFn s snapshot evs)) = precompileCallsCounter s + 1"
  "fst (AddPrecompileFn s snapshot evs) \<noteq> None \<longleftrightarrow> 20 < precompileCallsCounter s + 1"
  by (simp_all add: AddPrecompileFn_def Let_def MaxPrecompileCalls_def)

text \<open>The calls of a transaction, one after the other.\<close>

fun precompile_calls :: "nat \<Rightarrow> 'c StateDB \<Rightarrow> 'c StateDB" where
  "precompile_calls 0 s = s"
| "precompile_calls (Suc n) s = snd (AddPrecompileFn (precompile_calls n s) 0 [])"

text \<open>C34: The limit on precompile calls: of a transaction's first 255 calls exactly the first twenty pass, and the
  counter, which is eight bits wide, starts again from zero at call 256.\<close>

theorem precompile_limit:
  assumes "precompileCallsCounter s = 0"
  shows "precompileCallsCounter (precompile_calls n s) = of_nat n \<and>
    (fst (AddPrecompileFn (precompile_calls n s) 0 []) \<noteq> None \<longleftrightarrow> 20 < Suc n mod 256)"
proof -
  have c: "precompileCallsCounter (precompile_calls n s) = of_nat n"
    by (induction n) (simp_all add: assms AddPrecompileFn_counts)
  have "unat (of_nat (Suc n) :: 8 word) = Suc n mod 256"
    by (simp add: unsigned_of_nat take_bit_eq_mod del: of_nat_Suc)
  then have "(20 :: 8 word) < of_nat (Suc n) \<longleftrightarrow> 20 < Suc n mod 256"
    by (simp add: word_less_nat_alt del: of_nat_Suc)
  then show ?thesis using c AddPrecompileFn_counts(2) [of "precompile_calls n s" 0 "[]"] by (simp add: add.commute)
qed

theorem precompile_limit_witness:
  "fst (AddPrecompileFn (precompile_calls 20 (New ([] :: nat multistore) [] NewEmptyTxConfig)) 0 []) \<noteq> None \<and>
   fst (AddPrecompileFn (precompile_calls 256 (New ([] :: nat multistore) [] NewEmptyTxConfig)) 0 []) = None"
  using precompile_limit [of "New ([] :: nat multistore) [] NewEmptyTxConfig" 20]
    precompile_limit [of "New ([] :: nat multistore) [] NewEmptyTxConfig" 256]
  by (simp add: New_def)

text \<open>A native call changes of the contract at most its gas, and never adds gas. A call that fails leaves the gas as
  it was, unless it is the mirroring of the balances that fails after the gas was charged; in particular running out of
  gas in the native code charges nothing.\<close>

theorem native_gas:
  assumes "runNativeAction E P g contract s = Ok (r, c, s')"
  shows "cInput c = cInput contract \<and> cValue c = cValue contract \<and> cGas c \<le> cGas contract \<and>
    (balanceHandler P = None \<longrightarrow> r = Inr e \<longrightarrow> c = contract)"
proof -
  have u: "cInput (snd (UseGas contract n)) = cInput contract \<and> cValue (snd (UseGas contract n)) = cValue contract \<and>
      cGas (snd (UseGas contract n)) \<le> cGas contract" for n
    by (auto simp: UseGas_def word_sub_le not_less)
  have z: "snd (UseGas contract 0) = contract" by (simp add: UseGas_def)
  have f: "c' = contract" if "UseGas contract n = (False, c')" for n c'
    using that by (auto simp: UseGas_def split: if_splits)
  have t: "cInput c' = cInput contract \<and> cValue c' = cValue contract \<and> cGas c' \<le> cGas contract"
    if "UseGas contract n = (b, c')" for n b c'
    using u [of n] that by simp
  from assms obtain err s1 where k:
      "(case err of Some e \<Rightarrow> Ok (Inr e, contract, s1) | None \<Rightarrow> native_call E P g contract s1) = Ok (r, c, s')"
    by (auto simp: runNativeAction_def res_bind_Ok)
  then show ?thesis
    using z
    by (auto simp: native_call_def Let_def res_bind_Ok split: option.splits if_splits nativeResult.splits prod.splits bool.splits
        dest: f t)
qed

theorem native_gas_witness:
  "\<exists>r c s'. runNativeAction slotEnv idlePrecompile 0 exContract slotNew = Ok (r, c, s') \<and> cGas c \<le> 100 \<and> cGas c = 70"
proof -
  have "case runNativeAction slotEnv idlePrecompile 0 exContract slotNew of Ok (r, c, s') \<Rightarrow> cGas c = 70 | _ \<Rightarrow> False"
    by code_simp
  then obtain r c s' where r: "runNativeAction slotEnv idlePrecompile 0 exContract slotNew = Ok (r, c, s')" "cGas c = 70"
    by (auto split: res.splits)
  with native_gas [OF r(1)] show ?thesis by (auto simp: exContract_def)
qed

section \<open>The module stores\<close>

text \<open>C35: A snapshot of the module stores, any history above it (writes to any registered store, further snapshots,
  reverts to those) and the revert to it: every store, with all its layers, is exactly as it was.\<close>

theorem module_stores_round_trip:
  assumes "lockstep s" "stores s \<noteq> []" "Multi_Snapshot C s = (idx, s1)" "multi_run C s1 xs = Ok s2"
    "\<forall>t. MultiRevert t \<in> set xs \<longrightarrow> idx < t"
  shows "Multi_Revert s2 idx = Ok s"
  using multi_round_trip [OF assms] .

definition exStores :: "nat snapmulti" where
  "exStores = NewStoreWithKVStores [(''bank'', 3), (''evm'', 5)]"

theorem module_stores_round_trip_witness:
  "\<exists>s2. multi_run exOps (snd (Multi_Snapshot exOps exStores))
      [MultiUpdate ''bank'' (\<lambda>n. n + 1), MultiTake, MultiUpdate ''evm'' (\<lambda>n. 0), MultiRevert 1] = Ok s2 \<and>
    Multi_Revert s2 0 = Ok exStores"
proof -
  let ?xs = "[MultiUpdate ''bank'' (\<lambda>n. n + 1), MultiTake, MultiUpdate ''evm'' (\<lambda>n. 0), MultiRevert 1] :: nat multi_op list"
  have "is_ok (multi_run exOps (snd (Multi_Snapshot exOps exStores)) ?xs)" by code_simp
  then obtain s2 where s2: "multi_run exOps (snd (Multi_Snapshot exOps exStores)) ?xs = Ok s2" unfolding is_ok_iff by blast
  have "Multi_Snapshot exOps exStores = (0, snd (Multi_Snapshot exOps exStores))"
    by (simp add: Multi_Snapshot_def exStores_def NewStoreWithKVStores_def InitialHead_def Let_def)
  moreover have "lockstep exStores" "stores exStores \<noteq> []"
    by (simp_all add: exStores_def lockstep_new) (simp add: NewStoreWithKVStores_def)
  ultimately have "Multi_Revert s2 0 = Ok exStores"
    by (intro module_stores_round_trip [OF _ _ _ s2]) simp_all
  with s2 show ?thesis by blast
qed

text \<open>C36: Writing the snapshot stores into the stores they were opened on makes each of those show what the top of its
  stack shows, and leaves the others alone, whatever cache stores are used that keep their contract.\<close>

theorem write_publishes_stores:
  assumes "cachekv C shows_value child" "kv_wf parents" "kv_get parents k = Some p"
    "\<And>cs. kv_get (stores s) k = Some cs \<Longrightarrow> chained child p (initialStore cs # cacheStores cs)"
  shows "\<exists>p'. kv_get (snd (Multi_Write C s parents)) k = Some p' \<and>
    (case kv_get (stores s) k of None \<Rightarrow> p' = p | Some cs \<Rightarrow> shows_value p' = shows_value (CurrentStore cs))"
proof -
  have m: "kv_get (map (\<lambda>(k, v). (k, f k v)) kvs) k = map_option (f k) (kv_get kvs k)"
    for f :: "string \<Rightarrow> 'a \<Rightarrow> 'a" and kvs by (induction kvs) (auto simp: kv_get_Cons)
  have "kv_get (snd (Multi_Write C s parents)) k =
      Some (case kv_get (stores s) k of None \<Rightarrow> p | Some cs \<Rightarrow> snd (snap_Commit C cs p))"
    unfolding Multi_Write_def snd_conv m assms(3) by simp
  then show ?thesis
    using cachekv.commit_shows(2) [OF assms(1)] assms(4) by (auto split: option.splits)
qed

definition layerStores :: "(nat, nat) layer snapmulti" where
  "layerStores = \<lparr>stores = [(''bank'', \<lparr>initialStore = Cached (\<lambda>_. None) (Base (\<lambda>_. None)),
     cacheStores = [Cached (\<lambda>x. if x = 1 then Some (Some 7) else None) (Cached (\<lambda>_. None) (Base (\<lambda>_. None)))]\<rparr>)], head = 1\<rparr>"

theorem write_publishes_stores_witness:
  "\<exists>p'. kv_get (snd (Multi_Write layerOps layerStores [(''bank'', Base (\<lambda>_. None))])) ''bank'' = Some p' \<and>
     layer_get p' 1 = Some 7"
proof -
  have "kv_get (stores layerStores) ''bank'' = Some (snd (hd (stores layerStores)))"
    by (simp add: layerStores_def kv_get_def)
  moreover have "chained layer_child (Base (\<lambda>_. None)) (initialStore (snd (hd (stores layerStores))) # cacheStores (snd (hd (stores layerStores))))"
    by (simp add: layerStores_def)
  moreover have "layer_get (CurrentStore (snd (hd (stores layerStores)))) 1 = Some 7"
    by (simp add: layerStores_def CurrentStore_def)
  ultimately show ?thesis
    using write_publishes_stores [OF layered.cachekv_axioms, of "[(''bank'', Base (\<lambda>_. None))]" "''bank''" "Base (\<lambda>_. None)" layerStores]
    by (auto simp: kv_wf_def kv_get_def [of "[(''bank'', _)]"])
qed

section \<open>Where precompile calls and the journal disagree\<close>





end
