(* ===== verification/Erc20.thy ===== *)
theory Erc20
  imports PreciseBankHandlers Precompile
begin

text \<open>
  x/erc20, the registry that ties an ERC-20 contract to a bank denomination: its stores and the operations on them
  (\<open>src/x/erc20/keeper/params.go\<close>, \<open>token_pairs.go\<close>, \<open>allowance.go\<close>, \<open>precompiles.go\<close>) and its types
  (\<open>src/x/erc20/types\<close>).

  The state holds the module's own stores, the bank as x/precisebank presents it (the keeper the chain gives to x/erc20),
  and the rest of the chain, \<open>world\<close>: accounts, contracts and whatever else an EVM call may touch. The functions of
  go-ethereum, CometBFT and ibc-go that the module calls are fields of \<open>erc20_env\<close>, and so is the EVM keeper, whose
  calls run arbitrary contracts and may change every part of the state.
\<close>

section \<open>Types\<close>

datatype Owner = OWNER_UNSPECIFIED | OWNER_MODULE | OWNER_EXTERNAL

record TokenPair =
  Erc20Address :: string
  tpDenom :: denom
  Enabled :: bool
  ContractOwner :: Owner

record Allowance =
  alErc20Address :: string
  alOwner :: string
  alSpender :: string
  alValue :: int

record ERC20Params =
  EnableErc20 :: bool
  PermissionlessRegistration :: bool

text \<open>The stores of the module, one field per key prefix; a flag is kept as a key that is present or not. Byte strings
  are \<open>string\<close>.\<close>

record ('b, 'e) erc20_state =
  keyEnableErc20 :: bool
  keyPermissionlessRegistration :: bool
  storeTokenPair :: "(string, TokenPair) kv"
  storeByERC20 :: "(address, string) kv"
  storeByDenom :: "(string, string) kv"
  storeAllowance :: "(string, Allowance) kv"
  storeNativePrecompiles :: "(string, unit) kv"
  storeDynamicPrecompiles :: "(string, unit) kv"
  pb :: "'b pstate"
  world :: 'e

record DenomUnit =
  duDenom :: denom
  duExponent :: "32 word"
  duAliases :: "string list"

record Metadata =
  mdDescription :: string
  mdDenomUnits :: "DenomUnit list"
  mdBase :: denom
  mdDisplay :: denom
  mdName :: string
  mdSymbol :: string

text \<open>\<open>types.Log\<close> and \<open>MsgEthereumTxResponse\<close> of x/vm, as far as they are read.\<close>

record evmLog =
  lgAddress :: string
  lgTopics :: "string list"

record evmResponse =
  Ret :: bytes
  respLogs :: "evmLog list"

text \<open>The calls the module makes to an ERC-20 contract.\<close>

datatype erc20Call =
    CallTransfer address int
  | CallBalanceOf address
  | CallName
  | CallSymbol
  | CallDecimals

text \<open>A computation on the state that may return an error: the result or the error, and the state it leaves either
  way, since some callers drop the error and keep the state.\<close>

type_synonym ('a, 's) eff = "(('a + error) \<times> 's) res"

definition eff_bind :: "('a, 's) eff \<Rightarrow> ('a \<Rightarrow> 's \<Rightarrow> ('c, 's) eff) \<Rightarrow> ('c, 's) eff" where
  "eff_bind m f = res_bind m (\<lambda>(r, s). case r of Inl x \<Rightarrow> f x s | Inr e \<Rightarrow> Ok (Inr e, s))"

definition eff_ret :: "'s \<Rightarrow> 'a \<Rightarrow> ('a, 's) eff" where
  "eff_ret s x = Ok (Inl x, s)"

definition eff_fail :: "'s \<Rightarrow> error \<Rightarrow> ('a, 's) eff" where
  "eff_fail s e = Ok (Inr e, s)"

definition eff_wrap :: "(error \<Rightarrow> error) \<Rightarrow> ('a, 's) eff \<Rightarrow> ('a, 's) eff" where
  "eff_wrap g m = res_bind m (\<lambda>(r, s). Ok (case r of Inl x \<Rightarrow> Inl x | Inr e \<Rightarrow> Inr (g e), s))"

definition eff_read :: "'s \<Rightarrow> 'a res \<Rightarrow> ('a, 's) eff" where
  "eff_read s r = (case r of Ok x \<Rightarrow> Ok (Inl x, s) | Err e \<Rightarrow> Ok (Inr e, s) | Panic e \<Rightarrow> Panic e)"

text \<open>A bank call. One that fails leaves the bank as it was: x/precisebank hands a coin that is not the EVM's to x/bank,
  which checks the balance before it writes.\<close>

definition on_pb :: "('b, 'e) erc20_state \<Rightarrow> 'b pstate res \<Rightarrow> (unit, ('b, 'e) erc20_state) eff" where
  "on_pb s r = (case r of Ok p \<Rightarrow> Ok (Inl (), s\<lparr>pb := p\<rparr>) | Err e \<Rightarrow> Ok (Inr e, s) | Panic e \<Rightarrow> Panic e)"

section \<open>The environment\<close>

text \<open>The methods of x/vm's keeper that the module calls (\<open>EVMKeeper\<close> of \<open>types/interfaces.go\<close>).\<close>

record ('b, 'e) evm_keeper =
  ekGetAccount :: "('b, 'e) erc20_state \<Rightarrow> address \<Rightarrow> Account option"
  ekGetAccountWithoutBalance :: "('b, 'e) erc20_state \<Rightarrow> address \<Rightarrow> Account option"
  ekGetCode :: "('b, 'e) erc20_state \<Rightarrow> hash \<Rightarrow> bytes option"
  ekSetCode :: "('b, 'e) erc20_state \<Rightarrow> hash \<Rightarrow> bytes \<Rightarrow> ('b, 'e) erc20_state"
  ekSetAccount :: "('b, 'e) erc20_state \<Rightarrow> address \<Rightarrow> Account \<Rightarrow> (unit, ('b, 'e) erc20_state) eff"
  ekCallEVMWithData :: "('b, 'e) erc20_state \<Rightarrow> address \<Rightarrow> address option \<Rightarrow> bytes \<Rightarrow> bool \<Rightarrow>
    (evmResponse, ('b, 'e) erc20_state) eff"

text \<open>The packets and denominations of ibc-go.\<close>

record Hop =
  hopPort :: string
  hopChannel :: string

record ibcDenom =
  ibcBase :: string
  ibcTrace :: "Hop list"

record Packet =
  SourcePort :: string
  SourceChannel :: string
  DestinationPort :: string
  DestinationChannel :: string
  packetData :: string

record FungibleTokenPacketData =
  ftDenom :: string
  ftAmount :: string
  ftSender :: string
  ftReceiver :: string

text \<open>An acknowledgement: a result of the transfer application, or an error acknowledgement.\<close>

datatype Acknowledgement = AckResult | AckError error

record ('b, 'e) erc20_env =
  pk :: "'b Keeper"
  ek :: "('b, 'e) evm_keeper"
  emptyCodeHash :: hash
  erc20CodeHash :: hash
  erc20Bytecode :: bytes
  erc20Authority :: string
  addrCodec :: "string \<Rightarrow> AccAddress option"
  gethIsHexAddress :: "string \<Rightarrow> bool"
  gethHexToAddress :: "string \<Rightarrow> address"
  gethHex :: "address \<Rightarrow> string"
  keccakHex :: "string \<Rightarrow> string"
  tmhashSum :: "string \<Rightarrow> string"
  abiPack :: "erc20Call \<Rightarrow> bytes res"
  abiPackCtor :: "string \<Rightarrow> string \<Rightarrow> 8 word \<Rightarrow> bytes res"
  contractBin :: bytes
  createAddress :: "address \<Rightarrow> 64 word \<Rightarrow> address"
  unpackBool :: "bytes \<Rightarrow> bool option"
  unpackBigInt :: "bytes \<Rightarrow> int option"
  unpackString :: "bytes \<Rightarrow> string option"
  unpackUint8 :: "bytes \<Rightarrow> (8 word) option"
  akGetSequence :: "('b, 'e) erc20_state \<Rightarrow> AccAddress \<Rightarrow> (64 word) res"
  akIsModuleAccount :: "('b, 'e) erc20_state \<Rightarrow> AccAddress \<Rightarrow> bool"
  skBondDenom :: "('b, 'e) erc20_state \<Rightarrow> denom res"
  bkGetDenomMetaData :: "'b \<Rightarrow> denom \<Rightarrow> Metadata option"
  bkSetDenomMetaData :: "'b \<Rightarrow> Metadata \<Rightarrow> 'b"
  mdValidate :: "Metadata \<Rightarrow> error option"
  ParseHexHash :: "string \<Rightarrow> string option"
  ExtractDenomFromPath :: "string \<Rightarrow> ibcDenom"
  IBCDenom :: "ibcDenom \<Rightarrow> denom"
  denomHasPrefix :: "ibcDenom \<Rightarrow> string \<Rightarrow> string \<Rightarrow> bool"
  NewIntFromString :: "string \<Rightarrow> int option"
  UnmarshalPacket :: "string \<Rightarrow> FungibleTokenPacketData option"
  UnmarshalAck :: "string \<Rightarrow> Acknowledgement option"

section \<open>Addresses\<close>

text \<open>\<open>common.Address.Bytes\<close>: the twenty big-endian bytes.\<close>

definition AddrBytes :: "address \<Rightarrow> string" where
  "AddrBytes a = map (\<lambda>b. char_of (unat b)) (be_bytes 20 (unat a))"

definition erc20ModuleName :: string where "erc20ModuleName = ''erc20''"

definition ModuleAddress :: "('b, 'e) erc20_env \<Rightarrow> address" where
  "ModuleAddress E = BytesToAddress (moduleAddress (pk E) erc20ModuleName)"

definition ValidateAddress :: "('b, 'e) erc20_env \<Rightarrow> string \<Rightarrow> error option" where
  "ValidateAddress E a = (if \<not> gethIsHexAddress E a then Some ErrInvalidAddress else None)"

definition IsZeroAddress :: "('b, 'e) erc20_env \<Rightarrow> string \<Rightarrow> bool" where
  "IsZeroAddress E a \<longleftrightarrow> AddrBytes (gethHexToAddress E a) = AddrBytes 0"

definition ValidateNonZeroAddress :: "('b, 'e) erc20_env \<Rightarrow> string \<Rightarrow> error option" where
  "ValidateNonZeroAddress E a = (if IsZeroAddress E a then Some ErrInvalidAddress else ValidateAddress E a)"

definition hasPrefix :: "string \<Rightarrow> string \<Rightarrow> bool" where
  "hasPrefix s p \<longleftrightarrow> take (length p) s = p"

text \<open>\<open>strings.TrimSpace(s) == ""\<close> on the byte strings a denomination is made of.\<close>

definition isSpace :: "char \<Rightarrow> bool" where
  "isSpace c \<longleftrightarrow> c \<in> set [CHR '' '', CHR 0x09, CHR 0x0A, CHR 0x0B, CHR 0x0C, CHR 0x0D]"

definition GetIBCDenomAddress :: "('b, 'e) erc20_env \<Rightarrow> denom \<Rightarrow> address res" where
  "GetIBCDenomAddress E d =
     (if \<not> hasPrefix d ''ibc/'' then Err (ErrMsg ''coin does not have 'ibc/' prefix'')
      else if length d < 5 \<or> dropWhile isSpace (drop 4 d) = [] then Err (ErrMsg ''coin is not a valid IBC voucher hash'')
      else (case ParseHexHash E (drop 4 d) of
              None \<Rightarrow> Err (ErrMsg ''invalid denom for transfer'')
            | Some bz \<Rightarrow> Ok (BytesToAddress bz)))"

section \<open>Token pairs (types/token_pair.go)\<close>

definition NewTokenPairSTRv2 :: "('b, 'e) erc20_env \<Rightarrow> denom \<Rightarrow> TokenPair res" where
  "NewTokenPairSTRv2 E d =
     res_bind (GetIBCDenomAddress E d) (\<lambda>a.
       Ok \<lparr>Erc20Address = gethHex E a, tpDenom = d, Enabled = True, ContractOwner = OWNER_MODULE\<rparr>)"

definition NewTokenPair :: "('b, 'e) erc20_env \<Rightarrow> address \<Rightarrow> denom \<Rightarrow> Owner \<Rightarrow> TokenPair" where
  "NewTokenPair E a d own = \<lparr>Erc20Address = gethHex E a, tpDenom = d, Enabled = True, ContractOwner = own\<rparr>"

definition GetID :: "('b, 'e) erc20_env \<Rightarrow> TokenPair \<Rightarrow> string" where
  "GetID E tp = tmhashSum E (Erc20Address tp @ ''|'' @ tpDenom tp)"

definition GetERC20Contract :: "('b, 'e) erc20_env \<Rightarrow> TokenPair \<Rightarrow> address" where
  "GetERC20Contract E tp = gethHexToAddress E (Erc20Address tp)"

definition TokenPair_Validate :: "('b, 'e) erc20_env \<Rightarrow> TokenPair \<Rightarrow> error option" where
  "TokenPair_Validate E tp =
     (if \<not> cValidDenom (api (pk E)) (tpDenom tp) then Some (ErrMsg ''invalid denom'')
      else ValidateAddress E (Erc20Address tp))"

definition IsNativeCoin :: "TokenPair \<Rightarrow> bool" where
  "IsNativeCoin tp \<longleftrightarrow> ContractOwner tp = OWNER_MODULE"

definition IsNativeERC20 :: "TokenPair \<Rightarrow> bool" where
  "IsNativeERC20 tp \<longleftrightarrow> ContractOwner tp = OWNER_EXTERNAL"

section \<open>Parameters (keeper/params.go)\<close>

definition IsERC20Enabled :: "('b, 'e) erc20_state \<Rightarrow> bool" where
  "IsERC20Enabled s \<longleftrightarrow> keyEnableErc20 s"

definition setERC20Enabled :: "('b, 'e) erc20_state \<Rightarrow> bool \<Rightarrow> ('b, 'e) erc20_state" where
  "setERC20Enabled s enable =
     (if enable then s\<lparr>keyEnableErc20 := True\<rparr> else s\<lparr>keyEnableErc20 := False\<rparr>)"

definition isPermissionlessRegistration :: "('b, 'e) erc20_state \<Rightarrow> bool" where
  "isPermissionlessRegistration s \<longleftrightarrow> keyPermissionlessRegistration s"

definition SetPermissionlessRegistration :: "('b, 'e) erc20_state \<Rightarrow> bool \<Rightarrow> ('b, 'e) erc20_state" where
  "SetPermissionlessRegistration s permissionless =
     (if permissionless then s\<lparr>keyPermissionlessRegistration := True\<rparr>
      else s\<lparr>keyPermissionlessRegistration := False\<rparr>)"

definition Erc20_GetParams :: "('b, 'e) erc20_state \<Rightarrow> ERC20Params" where
  "Erc20_GetParams s =
     \<lparr>EnableErc20 = IsERC20Enabled s, PermissionlessRegistration = isPermissionlessRegistration s\<rparr>"

definition Erc20_SetParams :: "('b, 'e) erc20_state \<Rightarrow> ERC20Params \<Rightarrow> ('b, 'e) erc20_state" where
  "Erc20_SetParams s p =
     SetPermissionlessRegistration (setERC20Enabled s (EnableErc20 p)) (PermissionlessRegistration p)"

definition Erc20_DefaultParams :: ERC20Params where
  "Erc20_DefaultParams = \<lparr>EnableErc20 = True, PermissionlessRegistration = True\<rparr>"

section \<open>The registry (keeper/token_pairs.go)\<close>

text \<open>A nil byte slice is \<open>None\<close>.\<close>

definition GetERC20Map :: "('b, 'e) erc20_state \<Rightarrow> address \<Rightarrow> string option" where
  "GetERC20Map s a = kv_get (storeByERC20 s) a"

definition GetDenomMap :: "('b, 'e) erc20_state \<Rightarrow> denom \<Rightarrow> string option" where
  "GetDenomMap s d = kv_get (storeByDenom s) d"

definition SetERC20Map :: "('b, 'e) erc20_state \<Rightarrow> address \<Rightarrow> string \<Rightarrow> ('b, 'e) erc20_state" where
  "SetERC20Map s a pid = s\<lparr>storeByERC20 := kv_set a pid (storeByERC20 s)\<rparr>"

definition SetDenomMap :: "('b, 'e) erc20_state \<Rightarrow> denom \<Rightarrow> string \<Rightarrow> ('b, 'e) erc20_state" where
  "SetDenomMap s d pid = s\<lparr>storeByDenom := kv_set d pid (storeByDenom s)\<rparr>"

definition deleteERC20Map :: "('b, 'e) erc20_state \<Rightarrow> address \<Rightarrow> ('b, 'e) erc20_state" where
  "deleteERC20Map s a = s\<lparr>storeByERC20 := kv_delete a (storeByERC20 s)\<rparr>"

definition deleteDenomMap :: "('b, 'e) erc20_state \<Rightarrow> denom \<Rightarrow> ('b, 'e) erc20_state" where
  "deleteDenomMap s d = s\<lparr>storeByDenom := kv_delete d (storeByDenom s)\<rparr>"

definition IsTokenPairRegistered :: "('b, 'e) erc20_state \<Rightarrow> string \<Rightarrow> bool" where
  "IsTokenPairRegistered s pid \<longleftrightarrow> kv_get (storeTokenPair s) pid \<noteq> None"

definition IsERC20Registered :: "('b, 'e) erc20_state \<Rightarrow> address \<Rightarrow> bool" where
  "IsERC20Registered s a \<longleftrightarrow> kv_get (storeByERC20 s) a \<noteq> None"

definition IsDenomRegistered :: "('b, 'e) erc20_state \<Rightarrow> denom \<Rightarrow> bool" where
  "IsDenomRegistered s d \<longleftrightarrow> kv_get (storeByDenom s) d \<noteq> None"

definition GetTokenPairID :: "('b, 'e) erc20_env \<Rightarrow> ('b, 'e) erc20_state \<Rightarrow> string \<Rightarrow> string option" where
  "GetTokenPairID E s tok =
     (if gethIsHexAddress E tok then GetERC20Map s (gethHexToAddress E tok) else GetDenomMap s tok)"

definition emptyID :: "string option \<Rightarrow> bool" where
  "emptyID pid \<longleftrightarrow> (case pid of None \<Rightarrow> True | Some x \<Rightarrow> x = [])"

definition GetTokenPair :: "('b, 'e) erc20_state \<Rightarrow> string option \<Rightarrow> TokenPair option" where
  "GetTokenPair s pid = (case pid of None \<Rightarrow> None | Some x \<Rightarrow> kv_get (storeTokenPair s) x)"

definition SetTokenPair :: "('b, 'e) erc20_env \<Rightarrow> ('b, 'e) erc20_state \<Rightarrow> TokenPair \<Rightarrow> ('b, 'e) erc20_state" where
  "SetTokenPair E s tp = s\<lparr>storeTokenPair := kv_set (GetID E tp) tp (storeTokenPair s)\<rparr>"

definition deleteTokenPair_id :: "('b, 'e) erc20_state \<Rightarrow> string \<Rightarrow> ('b, 'e) erc20_state" where
  "deleteTokenPair_id s pid = s\<lparr>storeTokenPair := kv_delete pid (storeTokenPair s)\<rparr>"

definition SetToken :: "('b, 'e) erc20_env \<Rightarrow> ('b, 'e) erc20_state \<Rightarrow> TokenPair \<Rightarrow> (unit, ('b, 'e) erc20_state) eff" where
  "SetToken E s tp =
     (if IsDenomRegistered s (tpDenom tp) then eff_fail s (ErrMsg ''token already exists for denom'')
      else if IsERC20Registered s (GetERC20Contract E tp) then eff_fail s (ErrMsg ''token already exists for token'')
      else
        let s1 = SetTokenPair E s tp;
            s2 = SetDenomMap s1 (tpDenom tp) (GetID E tp);
            s3 = SetERC20Map s2 (GetERC20Contract E tp) (GetID E tp)
        in eff_ret s3 ())"

fun IterateTokenPairs :: "(string, TokenPair) kv \<Rightarrow> ('x \<Rightarrow> TokenPair \<Rightarrow> bool \<times> 'x) \<Rightarrow> 'x \<Rightarrow> 'x" where
  "IterateTokenPairs [] cb acc = acc"
| "IterateTokenPairs (p # ps) cb acc =
     (case cb acc (snd p) of (stop, acc') \<Rightarrow> if stop then acc' else IterateTokenPairs ps cb acc')"

definition GetTokenPairs :: "('b, 'e) erc20_state \<Rightarrow> TokenPair list" where
  "GetTokenPairs s = IterateTokenPairs (storeTokenPair s) (\<lambda>acc tp. (False, acc @ [tp])) []"

definition CreateNewTokenPair ::
    "('b, 'e) erc20_env \<Rightarrow> ('b, 'e) erc20_state \<Rightarrow> denom \<Rightarrow> (TokenPair, ('b, 'e) erc20_state) eff" where
  "CreateNewTokenPair E s d =
     eff_bind (eff_read s (NewTokenPairSTRv2 E d)) (\<lambda>tp s.
       case ekGetAccount (ek E) s (GetERC20Contract E tp) of
         Some acct \<Rightarrow>
           if CodeHash acct \<noteq> Some (emptyCodeHash E) then eff_fail s (ErrMsg ''token already exists for token'')
           else eff_bind (SetToken E s tp) (\<lambda>_ s. eff_ret s tp)
       | None \<Rightarrow> eff_bind (SetToken E s tp) (\<lambda>_ s. eff_ret s tp))"

definition GetCoinAddress :: "('b, 'e) erc20_env \<Rightarrow> ('b, 'e) erc20_state \<Rightarrow> denom \<Rightarrow> address res" where
  "GetCoinAddress E s d =
     (let pid = GetDenomMap s d in
      if emptyID pid then GetIBCDenomAddress E d
      else (case GetTokenPair s pid of
              None \<Rightarrow> Err (ErrMsg ''coin not registered'')
            | Some tp \<Rightarrow> Ok (GetERC20Contract E tp)))"

definition GetTokenDenom :: "('b, 'e) erc20_state \<Rightarrow> address \<Rightarrow> denom res" where
  "GetTokenDenom s a =
     (let pid = GetERC20Map s a in
      if emptyID pid then Err (ErrMsg ''token not registered'')
      else (case GetTokenPair s pid of
              None \<Rightarrow> Err (ErrMsg ''token not registered'')
            | Some tp \<Rightarrow> Ok (tpDenom tp)))"

section \<open>Allowances (keeper/allowance.go)\<close>

definition AllowanceKey :: "address \<Rightarrow> address \<Rightarrow> address \<Rightarrow> string" where
  "AllowanceKey erc20 ownr spender = (AddrBytes erc20 @ AddrBytes ownr) @ AddrBytes spender"

definition NewAllowance :: "('b, 'e) erc20_env \<Rightarrow> address \<Rightarrow> address \<Rightarrow> address \<Rightarrow> int \<Rightarrow> Allowance" where
  "NewAllowance E erc20 ownr spender v =
     \<lparr>alErc20Address = gethHex E erc20, alOwner = gethHex E ownr, alSpender = gethHex E spender, alValue = v\<rparr>"

definition Allowance_Validate :: "('b, 'e) erc20_env \<Rightarrow> Allowance \<Rightarrow> error option" where
  "Allowance_Validate E al =
     (if \<not> gethIsHexAddress E (alErc20Address al) then Some ErrInvalidAddress
      else if \<not> gethIsHexAddress E (alOwner al) then Some ErrInvalidAddress
      else if \<not> gethIsHexAddress E (alSpender al) then Some ErrInvalidAddress
      else if \<not> 0 < alValue al then Some (ErrMsg ''invalid allowance value'')
      else None)"

definition GetAllowance :: "('b, 'e) erc20_state \<Rightarrow> address \<Rightarrow> address \<Rightarrow> address \<Rightarrow> int" where
  "GetAllowance s erc20 ownr spender =
     (case kv_get (storeAllowance s) (AllowanceKey erc20 ownr spender) of
        None \<Rightarrow> 0 | Some al \<Rightarrow> alValue al)"

definition setAllowance ::
    "('b, 'e) erc20_env \<Rightarrow> ('b, 'e) erc20_state \<Rightarrow> address \<Rightarrow> address \<Rightarrow> address \<Rightarrow> int option \<Rightarrow> bool \<Rightarrow>
      (unit, ('b, 'e) erc20_state) eff" where
  "setAllowance E s erc20 ownr spender v allowDisabledTokenPair =
     (case GetTokenPair s (GetERC20Map s erc20) of
        None \<Rightarrow> eff_fail s (ErrMsg ''token pair not registered'')
      | Some tp \<Rightarrow>
          if \<not> allowDisabledTokenPair \<and> \<not> Enabled tp then eff_fail s (ErrMsg ''token pair is disabled'')
          else if ownr = 0 then eff_fail s ErrInvalidAddress
          else if spender = 0 then eff_fail s ErrInvalidAddress
          else (case v of
                  None \<Rightarrow> eff_fail s (ErrMsg ''value is nil'')
                | Some n \<Rightarrow>
                    if n < 0 then eff_fail s (ErrMsg ''value is less than zero'')
                    else if 2 ^ 256 \<le> n then eff_fail s (ErrMsg ''value is greater than max value of uint256'')
                    else if n = 0
                    then eff_ret (s\<lparr>storeAllowance := kv_delete (AllowanceKey erc20 ownr spender) (storeAllowance s)\<rparr>) ()
                    else eff_ret (s\<lparr>storeAllowance := kv_set (AllowanceKey erc20 ownr spender)
                           (NewAllowance E erc20 ownr spender n) (storeAllowance s)\<rparr>) ()))"

definition SetAllowance ::
    "('b, 'e) erc20_env \<Rightarrow> ('b, 'e) erc20_state \<Rightarrow> address \<Rightarrow> address \<Rightarrow> address \<Rightarrow> int option \<Rightarrow>
      (unit, ('b, 'e) erc20_state) eff" where
  "SetAllowance E s erc20 ownr spender v = setAllowance E s erc20 ownr spender v False"

definition DeleteAllowance ::
    "('b, 'e) erc20_env \<Rightarrow> ('b, 'e) erc20_state \<Rightarrow> address \<Rightarrow> address \<Rightarrow> address \<Rightarrow>
      (unit, ('b, 'e) erc20_state) eff" where
  "DeleteAllowance E s erc20 ownr spender = setAllowance E s erc20 ownr spender (Some 0) False"

definition UnsafeSetAllowance ::
    "('b, 'e) erc20_env \<Rightarrow> ('b, 'e) erc20_state \<Rightarrow> address \<Rightarrow> address \<Rightarrow> address \<Rightarrow> int option \<Rightarrow>
      (unit, ('b, 'e) erc20_state) eff" where
  "UnsafeSetAllowance E s erc20 ownr spender v = setAllowance E s erc20 ownr spender v True"

fun IterateAllowances :: "(string, Allowance) kv \<Rightarrow> ('x \<Rightarrow> Allowance \<Rightarrow> bool \<times> 'x) \<Rightarrow> 'x \<Rightarrow> 'x" where
  "IterateAllowances [] cb acc = acc"
| "IterateAllowances (p # ps) cb acc =
     (case cb acc (snd p) of (stop, acc') \<Rightarrow> if stop then acc' else IterateAllowances ps cb acc')"

definition GetAllowances :: "('b, 'e) erc20_state \<Rightarrow> Allowance list" where
  "GetAllowances s = IterateAllowances (storeAllowance s) (\<lambda>acc al. (False, acc @ [al])) []"

text \<open>The keys under the contract's prefix are collected first and deleted after.\<close>

definition deleteAllowances :: "('b, 'e) erc20_state \<Rightarrow> address \<Rightarrow> ('b, 'e) erc20_state" where
  "deleteAllowances s erc20 =
     (let keys = filter (\<lambda>k. hasPrefix k (AddrBytes erc20)) (map fst (storeAllowance s))
      in s\<lparr>storeAllowance := foldl (\<lambda>st k. kv_delete k st) (storeAllowance s) keys\<rparr>)"

definition DeleteTokenPair :: "('b, 'e) erc20_env \<Rightarrow> ('b, 'e) erc20_state \<Rightarrow> TokenPair \<Rightarrow> ('b, 'e) erc20_state" where
  "DeleteTokenPair E s tp =
     (let s1 = deleteTokenPair_id s (GetID E tp);
          s2 = deleteERC20Map s1 (GetERC20Contract E tp);
          s3 = deleteDenomMap s2 (tpDenom tp)
      in deleteAllowances s3 (GetERC20Contract E tp))"

end
