(* ===== verification/Erc20Register.thy ===== *)
theory Erc20Register
  imports Erc20
begin

text \<open>
  x/erc20: its calls into the EVM, the registration of contracts and precompiles, and the checks a conversion makes
  (\<open>keeper/evm.go\<close>, \<open>precompiles.go\<close>, \<open>dynamic_precompiles.go\<close>, \<open>proposals.go\<close>, \<open>mint.go\<close>, \<open>util.go\<close>,
  \<open>types/utils.go\<close> and \<open>types/proposal.go\<close>). Events and logging are left out.
\<close>

section \<open>Calls into the EVM (keeper/evm.go, x/vm/keeper/call_evm.go)\<close>

definition CallEVM ::
    "('b, 'e) erc20_env \<Rightarrow> ('b, 'e) erc20_state \<Rightarrow> address \<Rightarrow> address \<Rightarrow> bool \<Rightarrow> erc20Call \<Rightarrow>
      (evmResponse, ('b, 'e) erc20_state) eff" where
  "CallEVM E s from contract commit call =
     eff_bind (eff_wrap (ErrWrapped ''failed to create transaction data'') (eff_read s (abiPack E call))) (\<lambda>data s.
       eff_wrap (ErrWrapped ''contract call failed'') (ekCallEVMWithData (ek E) s from (Some contract) data commit))"

text \<open>A failed call and a result that cannot be read both give nil. The state the query leaves is returned too.\<close>

definition BalanceOf ::
    "('b, 'e) erc20_env \<Rightarrow> ('b, 'e) erc20_state \<Rightarrow> address \<Rightarrow> address \<Rightarrow> (int option \<times> ('b, 'e) erc20_state) res" where
  "BalanceOf E s contract account =
     res_bind (CallEVM E s (ModuleAddress E) contract False (CallBalanceOf account)) (\<lambda>(r, s).
       case r of Inr _ \<Rightarrow> Ok (None, s) | Inl resp \<Rightarrow> Ok (unpackBigInt E (Ret resp), s))"

definition Bytes32ToString :: "bytes \<Rightarrow> string" where
  "Bytes32ToString b = map (\<lambda>x. char_of (unat x)) (takeWhile (\<lambda>x. x \<noteq> 0) b)"

definition queryERC20String ::
    "('b, 'e) erc20_env \<Rightarrow> ('b, 'e) erc20_state \<Rightarrow> address \<Rightarrow> erc20Call \<Rightarrow> (string, ('b, 'e) erc20_state) eff" where
  "queryERC20String E s contract call =
     eff_bind (CallEVM E s (ModuleAddress E) contract False call) (\<lambda>resp s.
       case unpackString E (Ret resp) of
         Some str \<Rightarrow> eff_ret s str
       | None \<Rightarrow>
           if length (Ret resp) = 32 then eff_ret s (Bytes32ToString (Ret resp))
           else eff_fail s (ErrMsg ''failed to unpack as both string and raw bytes32''))"

record ERC20Data =
  edName :: string
  edSymbol :: string
  edDecimals :: "8 word"

definition QueryERC20 ::
    "('b, 'e) erc20_env \<Rightarrow> ('b, 'e) erc20_state \<Rightarrow> address \<Rightarrow> (ERC20Data, ('b, 'e) erc20_state) eff" where
  "QueryERC20 E s contract =
     eff_bind (queryERC20String E s contract CallName) (\<lambda>name s.
     eff_bind (queryERC20String E s contract CallSymbol) (\<lambda>symbol s.
     eff_bind (CallEVM E s (ModuleAddress E) contract False CallDecimals) (\<lambda>resp s.
       case unpackUint8 E (Ret resp) of
         None \<Rightarrow> eff_fail s (ErrMsg ''failed to unpack decimals'')
       | Some d \<Rightarrow> eff_ret s \<lparr>edName = name, edSymbol = symbol, edDecimals = d\<rparr>)))"

definition DeployERC20Contract ::
    "('b, 'e) erc20_env \<Rightarrow> ('b, 'e) erc20_state \<Rightarrow> Metadata \<Rightarrow> (address, ('b, 'e) erc20_state) eff" where
  "DeployERC20Contract E s coinMetadata =
     (let decimals = (if mdDenomUnits coinMetadata \<noteq> [] then ucast (duExponent (last (mdDenomUnits coinMetadata))) else 0)
      in eff_bind (eff_wrap (ErrWrapped ''coin metadata is invalid'')
             (eff_read s (abiPackCtor E (mdName coinMetadata) (mdSymbol coinMetadata) decimals))) (\<lambda>ctorArgs s.
         eff_bind (eff_read s (akGetSequence E s (AddrBytes (ModuleAddress E)))) (\<lambda>nonce s.
         let contractAddr = createAddress E (ModuleAddress E) nonce in
         eff_bind (eff_wrap (ErrWrapped ''failed to deploy contract'')
             (ekCallEVMWithData (ek E) s (ModuleAddress E) None (contractBin E @ ctorArgs) True)) (\<lambda>_ s.
           eff_ret s contractAddr))))"

section \<open>Precompile registries (keeper/precompiles.go, keeper/dynamic_precompiles.go)\<close>

datatype PrecompileType = PrecompileTypeNative | PrecompileTypeDynamic

definition IsNativePrecompileAvailable :: "('b, 'e) erc20_env \<Rightarrow> ('b, 'e) erc20_state \<Rightarrow> address \<Rightarrow> bool" where
  "IsNativePrecompileAvailable E s a \<longleftrightarrow> kv_get (storeNativePrecompiles s) (gethHex E a) \<noteq> None"

definition SetNativePrecompile :: "('b, 'e) erc20_env \<Rightarrow> ('b, 'e) erc20_state \<Rightarrow> address \<Rightarrow> ('b, 'e) erc20_state" where
  "SetNativePrecompile E s a = s\<lparr>storeNativePrecompiles := kv_set (gethHex E a) () (storeNativePrecompiles s)\<rparr>"

definition DeleteNativePrecompile :: "('b, 'e) erc20_env \<Rightarrow> ('b, 'e) erc20_state \<Rightarrow> address \<Rightarrow> ('b, 'e) erc20_state" where
  "DeleteNativePrecompile E s a = s\<lparr>storeNativePrecompiles := kv_delete (gethHex E a) (storeNativePrecompiles s)\<rparr>"

definition IsDynamicPrecompileAvailable :: "('b, 'e) erc20_env \<Rightarrow> ('b, 'e) erc20_state \<Rightarrow> address \<Rightarrow> bool" where
  "IsDynamicPrecompileAvailable E s a \<longleftrightarrow> kv_get (storeDynamicPrecompiles s) (gethHex E a) \<noteq> None"

definition SetDynamicPrecompile :: "('b, 'e) erc20_env \<Rightarrow> ('b, 'e) erc20_state \<Rightarrow> address \<Rightarrow> ('b, 'e) erc20_state" where
  "SetDynamicPrecompile E s a = s\<lparr>storeDynamicPrecompiles := kv_set (gethHex E a) () (storeDynamicPrecompiles s)\<rparr>"

definition DeleteDynamicPrecompile :: "('b, 'e) erc20_env \<Rightarrow> ('b, 'e) erc20_state \<Rightarrow> address \<Rightarrow> ('b, 'e) erc20_state" where
  "DeleteDynamicPrecompile E s a = s\<lparr>storeDynamicPrecompiles := kv_delete (gethHex E a) (storeDynamicPrecompiles s)\<rparr>"

definition GetNativePrecompiles :: "('b, 'e) erc20_state \<Rightarrow> string list" where
  "GetNativePrecompiles s = sort (map fst (storeNativePrecompiles s))"

definition GetDynamicPrecompiles :: "('b, 'e) erc20_state \<Rightarrow> string list" where
  "GetDynamicPrecompiles s = sort (map fst (storeDynamicPrecompiles s))"

text \<open>Which precompile an address has: the wrapped token with deposit and withdraw, or the plain one.\<close>

datatype erc20Precompile = Werc20Precompile TokenPair | Erc20Precompile TokenPair

definition InstantiateERC20Precompile ::
    "('b, 'e) erc20_env \<Rightarrow> ('b, 'e) erc20_state \<Rightarrow> address \<Rightarrow> bool \<Rightarrow> erc20Precompile res" where
  "InstantiateERC20Precompile E s contractAddr hasWrappedMethods =
     (let pid = GetTokenPairID E s (gethHex E contractAddr) in
      if emptyID pid then Err (ErrMsg ''precompile id not found'')
      else (case GetTokenPair s pid of
              None \<Rightarrow> Err (ErrMsg ''token pair not found'')
            | Some tp \<Rightarrow> if hasWrappedMethods then Ok (Werc20Precompile tp) else Ok (Erc20Precompile tp)))"

definition GetERC20PrecompileInstance ::
    "('b, 'e) erc20_env \<Rightarrow> ('b, 'e) erc20_state \<Rightarrow> address \<Rightarrow> erc20Precompile option res" where
  "GetERC20PrecompileInstance E s addr =
     (let isNative = IsNativePrecompileAvailable E s addr; isDynamic = IsDynamicPrecompileAvailable E s addr in
      if \<not> (isNative \<or> isDynamic) then Ok None
      else res_bind (res_map_err (ErrWrapped ''precompiled contract not initialized'')
             (InstantiateERC20Precompile E s addr isNative)) (\<lambda>p. Ok (Some p)))"

text \<open>The account keeps its nonce and balance and gets the given code hash.\<close>

definition set_code_hash ::
    "('b, 'e) erc20_env \<Rightarrow> ('b, 'e) erc20_state \<Rightarrow> address \<Rightarrow> hash \<Rightarrow> (unit, ('b, 'e) erc20_state) eff" where
  "set_code_hash E s addr h =
     (let (nonce, balance) =
            (case ekGetAccount (ek E) s addr of None \<Rightarrow> (0, Some 0) | Some acc \<Rightarrow> (Nonce acc, Balance acc))
      in ekSetAccount (ek E) s addr \<lparr>Nonce = nonce, Balance = balance, CodeHash = Some h\<rparr>)"

definition RegisterERC20CodeHash ::
    "('b, 'e) erc20_env \<Rightarrow> ('b, 'e) erc20_state \<Rightarrow> address \<Rightarrow> (unit, ('b, 'e) erc20_state) eff" where
  "RegisterERC20CodeHash E s erc20Addr =
     (let s1 = (case ekGetCode (ek E) s (erc20CodeHash E) of
                  None \<Rightarrow> ekSetCode (ek E) s (erc20CodeHash E) (erc20Bytecode E)
                | Some c \<Rightarrow> if c = [] then ekSetCode (ek E) s (erc20CodeHash E) (erc20Bytecode E) else s)
      in set_code_hash E s1 erc20Addr (erc20CodeHash E))"

definition UnRegisterERC20CodeHash ::
    "('b, 'e) erc20_env \<Rightarrow> ('b, 'e) erc20_state \<Rightarrow> address \<Rightarrow> (unit, ('b, 'e) erc20_state) eff" where
  "UnRegisterERC20CodeHash E s erc20Addr = set_code_hash E s erc20Addr (emptyCodeHash E)"

definition RegisterCodeHash ::
    "('b, 'e) erc20_env \<Rightarrow> ('b, 'e) erc20_state \<Rightarrow> address \<Rightarrow> PrecompileType \<Rightarrow> (unit, ('b, 'e) erc20_state) eff" where
  "RegisterCodeHash E s addr pType =
     (let shouldRegister =
            (case pType of
               PrecompileTypeNative \<Rightarrow> \<not> IsNativePrecompileAvailable E s addr
             | PrecompileTypeDynamic \<Rightarrow> \<not> IsDynamicPrecompileAvailable E s addr)
      in if shouldRegister then RegisterERC20CodeHash E s addr else eff_ret s ())"

definition EnableNativePrecompile ::
    "('b, 'e) erc20_env \<Rightarrow> ('b, 'e) erc20_state \<Rightarrow> address \<Rightarrow> (unit, ('b, 'e) erc20_state) eff" where
  "EnableNativePrecompile E s addr =
     eff_bind (RegisterCodeHash E s addr PrecompileTypeNative) (\<lambda>_ s. eff_ret (SetNativePrecompile E s addr) ())"

definition EnableDynamicPrecompile ::
    "('b, 'e) erc20_env \<Rightarrow> ('b, 'e) erc20_state \<Rightarrow> address \<Rightarrow> (unit, ('b, 'e) erc20_state) eff" where
  "EnableDynamicPrecompile E s addr =
     eff_bind (RegisterCodeHash E s addr PrecompileTypeDynamic) (\<lambda>_ s. eff_ret (SetDynamicPrecompile E s addr) ())"

definition RegisterERC20Extension ::
    "('b, 'e) erc20_env \<Rightarrow> ('b, 'e) erc20_state \<Rightarrow> denom \<Rightarrow> (TokenPair, ('b, 'e) erc20_state) eff" where
  "RegisterERC20Extension E s d =
     eff_bind (CreateNewTokenPair E s d) (\<lambda>tp s.
     eff_bind (EnableDynamicPrecompile E s (GetERC20Contract E tp)) (\<lambda>_ s. eff_ret s tp))"

section \<open>Names (types/utils.go, types/proposal.go)\<close>

definition isDigit :: "char \<Rightarrow> bool" where
  "isDigit c \<longleftrightarrow> 48 \<le> (of_char c :: nat) \<and> (of_char c :: nat) \<le> 57"

definition isLetter :: "char \<Rightarrow> bool" where
  "isLetter c \<longleftrightarrow> 65 \<le> (of_char c :: nat) \<and> (of_char c :: nat) \<le> 90 \<or>
     97 \<le> (of_char c :: nat) \<and> (of_char c :: nat) \<le> 122"

definition isNameChar :: "char \<Rightarrow> bool" where
  "isNameChar c \<longleftrightarrow> isLetter c \<or> isDigit c \<or> c \<in> set ''/:-''"

text \<open>The expression \<open>(?m)^(\d+)\<close>: the digits at the start of the text and of every line. The flag says that only
  removed digits stand between the start of the line and here.\<close>

fun leadingNumbers_loop :: "bool \<Rightarrow> string \<Rightarrow> string" where
  "leadingNumbers_loop start [] = []"
| "leadingNumbers_loop start (c # cs) =
     (if start \<and> isDigit c then leadingNumbers_loop True cs
      else c # leadingNumbers_loop (c = CHR 0x0A) cs)"

definition removeLeadingNumbers :: "string \<Rightarrow> string" where
  "removeLeadingNumbers str = leadingNumbers_loop True str"

text \<open>The expression \<open>^[^A-Za-z]|[^a-zA-Z0-9/:-]\<close>: the first character unless it is a letter, and every character
  outside the class.\<close>

definition removeSpecialChars :: "string \<Rightarrow> string" where
  "removeSpecialChars str =
     (case str of [] \<Rightarrow> []
      | c # cs \<Rightarrow> (if isLetter c then [c] else []) @ filter isNameChar cs)"

lemma hasPrefix_nonempty: "hasPrefix s (c # p) \<Longrightarrow> s \<noteq> []"
  by (auto simp: hasPrefix_def)

function removeInvalidPrefixes :: "string \<Rightarrow> string" where
  "removeInvalidPrefixes str =
     (if hasPrefix str ''ibc/'' then removeInvalidPrefixes (drop 4 str)
      else if hasPrefix str ''erc20/'' then removeInvalidPrefixes (drop 6 str)
      else if hasPrefix str ''erc20:'' then removeInvalidPrefixes (drop 6 str)
      else str)"
  by pat_completeness auto
termination by (relation "measure length") (auto dest: hasPrefix_nonempty)

declare removeInvalidPrefixes.simps [simp del]

definition SanitizeERC20Name :: "string \<Rightarrow> string" where
  "SanitizeERC20Name name =
     (let name = removeLeadingNumbers name;
          name = removeSpecialChars name;
          name = (if 128 < length name then take 128 name else name)
      in removeInvalidPrefixes name)"

definition Erc20NativeCoinDenomPrefix :: string where "Erc20NativeCoinDenomPrefix = ''erc20:''"

definition CreateDenomDescription :: "string \<Rightarrow> string" where
  "CreateDenomDescription addr = ''Cosmos coin token representation of '' @ addr"

definition CreateDenom :: "string \<Rightarrow> denom" where
  "CreateDenom addr = Erc20NativeCoinDenomPrefix @ addr"

definition ValidateErc20Denom :: "('b, 'e) erc20_env \<Rightarrow> denom \<Rightarrow> error option" where
  "ValidateErc20Denom E d =
     (if hasPrefix d Erc20NativeCoinDenomPrefix
      then (let trimmed = drop (length Erc20NativeCoinDenomPrefix) d in
            if trimmed = [] then Some (ErrMsg ''invalid denom: missing address after prefix'')
            else ValidateAddress E trimmed)
      else Some (ErrMsg ''invalid denom: denomination should be prefixed''))"

fun EqualStringSlice :: "string list \<Rightarrow> string list \<Rightarrow> bool" where
  "EqualStringSlice [] [] = True"
| "EqualStringSlice (x # xs) (y # ys) = (x = y \<and> EqualStringSlice xs ys)"
| "EqualStringSlice _ _ = False"

definition EqualMetadata :: "Metadata \<Rightarrow> Metadata \<Rightarrow> error option" where
  "EqualMetadata a b =
     (if mdBase a = mdBase b \<and> mdDescription a = mdDescription b \<and> mdDisplay a = mdDisplay b \<and>
         mdName a = mdName b \<and> mdSymbol a = mdSymbol b
      then (if length (mdDenomUnits a) \<noteq> length (mdDenomUnits b)
            then Some (ErrMsg ''metadata provided has different denom units from stored'')
            else if list_all (\<lambda>(v, w). duExponent v = duExponent w \<and> duDenom v = duDenom w \<and>
                       EqualStringSlice (duAliases v) (duAliases w)) (zip (mdDenomUnits a) (mdDenomUnits b))
            then None else Some (ErrMsg ''metadata provided has different denom unit from stored''))
      else Some (ErrMsg ''metadata provided is different from stored''))"

section \<open>Registering contracts (keeper/proposals.go)\<close>

definition set_metadata :: "('b, 'e) erc20_env \<Rightarrow> ('b, 'e) erc20_state \<Rightarrow> Metadata \<Rightarrow> ('b, 'e) erc20_state" where
  "set_metadata E s md = s\<lparr>pb := (pb s)\<lparr>bank := bkSetDenomMetaData E (bank (pb s)) md\<rparr>\<rparr>"

definition CreateCoinMetadata ::
    "('b, 'e) erc20_env \<Rightarrow> ('b, 'e) erc20_state \<Rightarrow> address \<Rightarrow> (Metadata, ('b, 'e) erc20_state) eff" where
  "CreateCoinMetadata E s contract =
     (let strContract = gethHex E contract in
      eff_bind (QueryERC20 E s contract) (\<lambda>erc20Data s.
        if bkGetDenomMetaData E (bank (pb s)) (CreateDenom strContract) \<noteq> None
        then eff_fail s (ErrMsg ''denom metadata already registered'')
        else if IsDenomRegistered s (CreateDenom strContract)
        then eff_fail s (ErrMsg ''coin denomination already registered'')
        else
          let base = CreateDenom strContract;
              metadata = \<lparr>mdDescription = CreateDenomDescription strContract,
                mdDenomUnits = [\<lparr>duDenom = base, duExponent = 0, duAliases = []\<rparr>],
                mdBase = base, mdDisplay = base, mdName = CreateDenom strContract, mdSymbol = edSymbol erc20Data\<rparr>;
              nameSanitized = SanitizeERC20Name (edName erc20Data);
              metadata =
                (if 0 < edDecimals erc20Data
                 then metadata\<lparr>mdDenomUnits := mdDenomUnits metadata @
                        [\<lparr>duDenom = nameSanitized, duExponent = ucast (edDecimals erc20Data), duAliases = []\<rparr>],
                        mdDisplay := nameSanitized\<rparr>
                 else metadata)
          in (case mdValidate E metadata of
                Some e \<Rightarrow> eff_fail s (ErrWrapped ''ERC20 token data is invalid'' e)
              | None \<Rightarrow> eff_ret (set_metadata E s metadata) metadata)))"

definition registerERC20 ::
    "('b, 'e) erc20_env \<Rightarrow> ('b, 'e) erc20_state \<Rightarrow> address \<Rightarrow> (TokenPair, ('b, 'e) erc20_state) eff" where
  "registerERC20 E s contract =
     (if IsERC20Registered s contract then eff_fail s (ErrMsg ''token ERC20 contract already registered'')
      else eff_bind (eff_wrap (ErrWrapped ''failed to create wrapped coin denom metadata for ERC20'')
             (CreateCoinMetadata E s contract)) (\<lambda>metadata s.
           let tp = NewTokenPair E contract (mdName metadata) OWNER_EXTERNAL in
           eff_bind (SetToken E s tp) (\<lambda>_ s. eff_ret s tp)))"

definition toggleConversion ::
    "('b, 'e) erc20_env \<Rightarrow> ('b, 'e) erc20_state \<Rightarrow> string \<Rightarrow> (TokenPair, ('b, 'e) erc20_state) eff" where
  "toggleConversion E s tok =
     (let pid = GetTokenPairID E s tok in
      if emptyID pid then eff_fail s (ErrMsg ''token not registered by id'')
      else (case GetTokenPair s pid of
              None \<Rightarrow> eff_fail s (ErrMsg ''token not registered'')
            | Some tp \<Rightarrow>
                let tp = tp\<lparr>Enabled := \<not> Enabled tp\<rparr> in eff_ret (SetTokenPair E s tp) tp))"

section \<open>When a conversion is allowed (keeper/mint.go)\<close>

definition MintingEnabled ::
    "('b, 'e) erc20_env \<Rightarrow> ('b, 'e) erc20_state \<Rightarrow> AccAddress \<Rightarrow> string \<Rightarrow> TokenPair res" where
  "MintingEnabled E s receiver tok =
     (if \<not> IsERC20Enabled s then Err (ErrMsg ''module is currently disabled by governance'')
      else
        let pid = GetTokenPairID E s tok in
        if emptyID pid then Err (ErrMsg ''token not registered by id'')
        else (case GetTokenPair s pid of
                None \<Rightarrow> Err (ErrMsg ''token not registered'')
              | Some tp \<Rightarrow>
                  if \<not> Enabled tp then Err (ErrMsg ''minting token is not enabled by governance'')
                  else if BlockedAddr (pk E) receiver then Err ErrUnauthorized
                  else if \<not> IsSendEnabledCoin (pk E) (pb s) (newCoin (tpDenom tp) 0) then Err ErrSendDisabled
                  else Ok tp))"

section \<open>Logs (keeper/util.go)\<close>

definition logTransferSigHash :: "('b, 'e) erc20_env \<Rightarrow> string" where
  "logTransferSigHash E = keccakHex E ''Transfer(address,address,uint256)''"

definition logApprovalSigHash :: "('b, 'e) erc20_env \<Rightarrow> string" where
  "logApprovalSigHash E = keccakHex E ''Approval(address,address,uint256)''"

fun validateApprovalEventDoesNotExist :: "('b, 'e) erc20_env \<Rightarrow> evmLog list \<Rightarrow> unit res" where
  "validateApprovalEventDoesNotExist E [] = Ok ()"
| "validateApprovalEventDoesNotExist E (lg # lgs) =
     (case lgTopics lg of
        [] \<Rightarrow> Panic (ErrMsg ''index out of range'')
      | t # _ \<Rightarrow> if t = logApprovalSigHash E then Err (ErrMsg ''unexpected Approval event'')
                 else validateApprovalEventDoesNotExist E lgs)"

fun transfer_event_loop :: "('b, 'e) erc20_env \<Rightarrow> address \<Rightarrow> bool \<Rightarrow> evmLog list \<Rightarrow> bool res" where
  "transfer_event_loop E tokenAddress found [] = Ok found"
| "transfer_event_loop E tokenAddress found (lg # lgs) =
     (case lgTopics lg of
        [] \<Rightarrow> Panic (ErrMsg ''index out of range'')
      | t # _ \<Rightarrow>
          if t = logTransferSigHash E
          then (if lgAddress lg \<noteq> gethHex E tokenAddress then Err (ErrMsg ''Transfer event from unexpected address'')
                else if found then Err (ErrMsg ''duplicate Transfer event'')
                else transfer_event_loop E tokenAddress True lgs)
          else transfer_event_loop E tokenAddress found lgs)"

definition validateTransferEventExists :: "('b, 'e) erc20_env \<Rightarrow> evmLog list \<Rightarrow> address \<Rightarrow> unit res" where
  "validateTransferEventExists E lgs tokenAddress =
     (if lgs = [] then Err (ErrMsg ''expected Transfer event'')
      else res_bind (transfer_event_loop E tokenAddress False lgs) (\<lambda>found.
             if \<not> found then Err (ErrMsg ''expected Transfer event'') else Ok ()))"

text \<open>The check of the response to a transfer that the two conversions share.\<close>

definition check_transfer :: "('b, 'e) erc20_env \<Rightarrow> address \<Rightarrow> evmResponse \<Rightarrow> unit res" where
  "check_transfer E contract resp =
     (if Ret resp = [] then validateTransferEventExists E (respLogs resp) contract
      else (case unpackBool E (Ret resp) of
              None \<Rightarrow> Err (ErrMsg ''abi unpack'')
            | Some b \<Rightarrow> if \<not> b then Err (ErrMsg ''failed to execute transfer'') else Ok ()))"

end
