(* ===== verification/Erc20Convert.thy ===== *)
theory Erc20Convert
  imports Erc20Register
begin

text \<open>
  x/erc20: the conversion between coins and tokens, the message server, the IBC callbacks, the queries and genesis
  (\<open>keeper/msg_server.go\<close>, \<open>ibc_callbacks.go\<close>, \<open>grpc_query.go\<close>, \<open>ibc_middleware.go\<close>, \<open>genesis.go\<close> and the
  validation functions of \<open>types\<close>). Events, logging, telemetry and the gas of the context are left out.
\<close>

section \<open>Conversions (keeper/msg_server.go)\<close>

record MsgConvertERC20 =
  ceContractAddress :: string
  ceAmount :: int
  ceReceiver :: string
  ceSender :: string

record MsgConvertCoin =
  ccCoin :: coin
  ccReceiver :: string
  ccSender :: string

text \<open>Nil for a balance that cannot be read.\<close>

definition balance_or_fail ::
    "('b, 'e) erc20_env \<Rightarrow> ('b, 'e) erc20_state \<Rightarrow> address \<Rightarrow> address \<Rightarrow> (int, ('b, 'e) erc20_state) eff" where
  "balance_or_fail E s contract account =
     res_bind (BalanceOf E s contract account) (\<lambda>(b, s).
       case b of None \<Rightarrow> eff_fail s (ErrMsg ''failed to retrieve balance'') | Some n \<Rightarrow> eff_ret s n)"

definition convertERC20IntoCoinsForNativeToken ::
    "('b, 'e) erc20_env \<Rightarrow> ('b, 'e) erc20_state \<Rightarrow> TokenPair \<Rightarrow> MsgConvertERC20 \<Rightarrow> AccAddress \<Rightarrow> address \<Rightarrow>
      (unit, ('b, 'e) erc20_state) eff" where
  "convertERC20IntoCoinsForNativeToken E s tp msg receiver sender =
     (let contract = GetERC20Contract E tp;
          balanceCoin = GetBalance (pk E) (pb s) receiver (tpDenom tp)
      in
      eff_bind (balance_or_fail E s contract (ModuleAddress E)) (\<lambda>balanceToken s.
      eff_bind (eff_read s (abiPack E (CallTransfer (ModuleAddress E) (ceAmount msg)))) (\<lambda>transferData s.
      eff_bind (ekCallEVMWithData (ek E) s sender (Some contract) transferData True) (\<lambda>resp s.
      eff_bind (eff_read s (check_transfer E contract resp)) (\<lambda>_ s.
      let coins = [newCoin (tpDenom tp) (ceAmount msg)]; tokens = ceAmount msg in
      eff_bind (balance_or_fail E s contract (ModuleAddress E)) (\<lambda>balanceTokenAfter s.
      if balanceTokenAfter \<noteq> balanceToken + tokens then eff_fail s (ErrMsg ''invalid token balance'')
      else
      eff_bind (on_pb s (MintCoins (pk E) (pb s) erc20ModuleName coins)) (\<lambda>_ s.
      eff_bind (on_pb s (SendCoinsFromModuleToAccount (pk E) (pb s) erc20ModuleName receiver coins)) (\<lambda>_ s.
      if GetBalance (pk E) (pb s) receiver (tpDenom tp) \<noteq> newCoin (tpDenom tp) (Amount balanceCoin + ceAmount msg)
      then eff_fail s (ErrMsg ''invalid coin balance'') else eff_ret s ()))))))))"

text \<open>The pair of a contract without code is removed, and the message succeeds without converting anything.\<close>

definition contract_gone :: "('b, 'e) erc20_env \<Rightarrow> ('b, 'e) erc20_state \<Rightarrow> TokenPair \<Rightarrow> bool" where
  "contract_gone E s tp =
     (case ekGetAccountWithoutBalance (ek E) s (GetERC20Contract E tp) of
        None \<Rightarrow> True | Some acct \<Rightarrow> CodeHash acct = Some (emptyCodeHash E))"

definition ConvertERC20 ::
    "('b, 'e) erc20_env \<Rightarrow> ('b, 'e) erc20_state \<Rightarrow> MsgConvertERC20 \<Rightarrow> (unit, ('b, 'e) erc20_state) eff" where
  "ConvertERC20 E s msg =
     (case accFromBech32 (pk E) (ceReceiver msg) of
        None \<Rightarrow> Panic (ErrMsg ''decoding bech32 failed'')
      | Some receiver \<Rightarrow>
          let sender = gethHexToAddress E (ceSender msg) in
          eff_bind (eff_read s (MintingEnabled E s receiver (ceContractAddress msg))) (\<lambda>tp s.
            if IsNativeERC20 tp then
              (if contract_gone E s tp then eff_ret (DeleteTokenPair E s tp) ()
               else convertERC20IntoCoinsForNativeToken E s tp msg receiver sender)
            else if IsNativeCoin tp then eff_fail s (ErrMsg ''native coins manual conversion is disabled'')
            else eff_fail s (ErrMsg ''undefined owner of contract pair'')))"

definition ConvertCoinNativeERC20 ::
    "('b, 'e) erc20_env \<Rightarrow> ('b, 'e) erc20_state \<Rightarrow> TokenPair \<Rightarrow> int \<Rightarrow> address \<Rightarrow> AccAddress \<Rightarrow>
      (unit, ('b, 'e) erc20_state) eff" where
  "ConvertCoinNativeERC20 E s tp amount receiver sender =
     (if \<not> 0 < amount then eff_fail s (ErrMsg ''converted coin amount must be positive'')
      else
      let contract = GetERC20Contract E tp; coins = [newCoin (tpDenom tp) amount] in
      eff_bind (balance_or_fail E s contract receiver) (\<lambda>balanceToken s.
      eff_bind (eff_wrap (ErrWrapped ''failed to escrow coins'')
        (on_pb s (SendCoinsFromAccountToModule (pk E) (pb s) sender erc20ModuleName coins))) (\<lambda>_ s.
      eff_bind (CallEVM E s (ModuleAddress E) contract True (CallTransfer receiver amount)) (\<lambda>resp s.
      eff_bind (eff_read s (check_transfer E contract resp)) (\<lambda>_ s.
      eff_bind (balance_or_fail E s contract receiver) (\<lambda>balanceTokenAfter s.
      if balanceTokenAfter \<noteq> balanceToken + amount then eff_fail s (ErrMsg ''invalid token balance'')
      else eff_wrap (ErrWrapped ''failed to burn coins'')
        (on_pb s (BurnCoins (pk E) (pb s) erc20ModuleName coins))))))))"

definition ConvertCoin ::
    "('b, 'e) erc20_env \<Rightarrow> ('b, 'e) erc20_state \<Rightarrow> MsgConvertCoin \<Rightarrow> (unit, ('b, 'e) erc20_state) eff" where
  "ConvertCoin E s msg =
     (case accFromBech32 (pk E) (ccSender msg) of
        None \<Rightarrow> Panic (ErrMsg ''decoding bech32 failed'')
      | Some sender \<Rightarrow>
          let receiver = gethHexToAddress E (ccReceiver msg) in
          eff_bind (eff_read s (MintingEnabled E s (AddrBytes receiver) (Denom (ccCoin msg)))) (\<lambda>tp s.
            if IsNativeERC20 tp then
              (if contract_gone E s tp then eff_ret (DeleteTokenPair E s tp) ()
               else ConvertCoinNativeERC20 E s tp (Amount (ccCoin msg)) receiver sender)
            else if IsNativeCoin tp then eff_fail s (ErrMsg ''native coins manual conversion is disabled'')
            else eff_fail s (ErrMsg ''undefined owner of contract pair'')))"

section \<open>Governance messages (keeper/msg_server.go)\<close>

definition Erc20_UpdateParams ::
    "('b, 'e) erc20_env \<Rightarrow> ('b, 'e) erc20_state \<Rightarrow> string \<Rightarrow> ERC20Params \<Rightarrow> (unit, ('b, 'e) erc20_state) eff" where
  "Erc20_UpdateParams E s authority params =
     (if erc20Authority E \<noteq> authority then eff_fail s (ErrMsg ''invalid authority'')
      else eff_ret (Erc20_SetParams s params) ())"

definition validateAuthority :: "('b, 'e) erc20_env \<Rightarrow> string \<Rightarrow> error option" where
  "validateAuthority E authority =
     (case addrCodec E authority of
        None \<Rightarrow> Some ErrInvalidAddress
      | Some _ \<Rightarrow> if erc20Authority E \<noteq> authority then Some (ErrMsg ''invalid authority'') else None)"

fun register_loop ::
    "('b, 'e) erc20_env \<Rightarrow> string list \<Rightarrow> ('b, 'e) erc20_state \<Rightarrow> (unit, ('b, 'e) erc20_state) eff" where
  "register_loop E [] s = eff_ret s ()"
| "register_loop E (addr # addrs) s =
     (if \<not> gethIsHexAddress E addr then eff_fail s ErrInvalidAddress
      else eff_bind (registerERC20 E s (gethHexToAddress E addr)) (\<lambda>_ s. register_loop E addrs s))"

definition RegisterERC20 ::
    "('b, 'e) erc20_env \<Rightarrow> ('b, 'e) erc20_state \<Rightarrow> string \<Rightarrow> string list \<Rightarrow> (unit, ('b, 'e) erc20_state) eff" where
  "RegisterERC20 E s signer erc20Addresses =
     (let params = Erc20_GetParams s in
      case (if \<not> PermissionlessRegistration params then validateAuthority E signer else None) of
        Some e \<Rightarrow> eff_fail s e
      | None \<Rightarrow>
          if \<not> IsERC20Enabled s then eff_fail s (ErrMsg ''registration is currently disabled by governance'')
          else register_loop E erc20Addresses s)"

definition ToggleConversion ::
    "('b, 'e) erc20_env \<Rightarrow> ('b, 'e) erc20_state \<Rightarrow> string \<Rightarrow> string \<Rightarrow> (unit, ('b, 'e) erc20_state) eff" where
  "ToggleConversion E s authority tok =
     (if \<not> IsERC20Enabled s then eff_fail s (ErrMsg ''toggle conversion is currently disabled by governance'')
      else (case validateAuthority E authority of
              Some e \<Rightarrow> eff_fail s e
            | None \<Rightarrow> eff_bind (toggleConversion E s tok) (\<lambda>_ s. eff_ret s ())))"

section \<open>Stateless checks of the messages (types/msg.go)\<close>

definition MsgConvertERC20_ValidateBasic :: "('b, 'e) erc20_env \<Rightarrow> MsgConvertERC20 \<Rightarrow> error option" where
  "MsgConvertERC20_ValidateBasic E msg =
     (if \<not> gethIsHexAddress E (ceContractAddress msg) then Some ErrInvalidAddress
      else if \<not> 0 < ceAmount msg then Some ErrInvalidCoins
      else if accFromBech32 (pk E) (ceReceiver msg) = None then Some (ErrMsg ''invalid receiver address'')
      else if \<not> gethIsHexAddress E (ceSender msg) then Some ErrInvalidAddress
      else None)"

definition MsgConvertCoin_ValidateBasic :: "('b, 'e) erc20_env \<Rightarrow> MsgConvertCoin \<Rightarrow> error option" where
  "MsgConvertCoin_ValidateBasic E msg =
     (if Denom (ccCoin msg) = [] then Some ErrInvalidCoins
      else if \<not> 0 < Amount (ccCoin msg) then Some ErrInvalidCoins
      else if accFromBech32 (pk E) (ccSender msg) = None then Some (ErrMsg ''invalid sender address'')
      else if \<not> gethIsHexAddress E (ccReceiver msg) then Some ErrInvalidAddress
      else None)"

definition Erc20_MsgUpdateParams_ValidateBasic :: "('b, 'e) erc20_env \<Rightarrow> string \<Rightarrow> error option" where
  "Erc20_MsgUpdateParams_ValidateBasic E authority =
     (if accFromBech32 (pk E) authority = None then Some (ErrMsg ''Invalid authority address'') else None)"

definition MsgRegisterERC20_ValidateBasic :: "('b, 'e) erc20_env \<Rightarrow> string \<Rightarrow> string list \<Rightarrow> error option" where
  "MsgRegisterERC20_ValidateBasic E signer addrs =
     (if accFromBech32 (pk E) signer = None then Some (ErrMsg ''invalid signer address'')
      else if list_all (gethIsHexAddress E) addrs then None else Some ErrInvalidAddress)"

definition MsgToggleConversion_ValidateBasic :: "('b, 'e) erc20_env \<Rightarrow> string \<Rightarrow> error option" where
  "MsgToggleConversion_ValidateBasic E authority =
     (if accFromBech32 (pk E) authority = None then Some (ErrMsg ''Invalid authority address'') else None)"

section \<open>Queries (keeper/grpc_query.go)\<close>

definition Query_TokenPair :: "('b, 'e) erc20_env \<Rightarrow> ('b, 'e) erc20_state \<Rightarrow> string \<Rightarrow> TokenPair res" where
  "Query_TokenPair E s tok =
     (if ValidateAddress E tok \<noteq> None \<and> \<not> cValidDenom (api (pk E)) tok
      then Err (ErrMsg ''invalid format for token, should be either hex or cosmos denom'')
      else
        let pid = GetTokenPairID E s tok in
        if emptyID pid then Err (ErrMsg ''token pair not found'')
        else (case GetTokenPair s pid of None \<Rightarrow> Err (ErrMsg ''token pair not found'') | Some tp \<Rightarrow> Ok tp))"

section \<open>Coins of a packet (ibc/utils.go)\<close>

text \<open>The amount was validated by the transfer application; one that cannot be parsed would be a nil integer.\<close>

definition GetReceivedCoin :: "('b, 'e) erc20_env \<Rightarrow> Packet \<Rightarrow> ibcDenom \<Rightarrow> string \<Rightarrow> (denom \<times> int option) res" where
  "GetReceivedCoin E packet d amt =
     (let amountInt = NewIntFromString E amt in
      if denomHasPrefix E d (SourcePort packet) (SourceChannel packet)
      then (case ibcTrace d of
              [] \<Rightarrow> Panic (ErrMsg ''slice bounds out of range'')
            | _ # trace \<Rightarrow> Ok (IBCDenom E (d\<lparr>ibcTrace := trace\<rparr>), amountInt))
      else Ok (IBCDenom E (d\<lparr>ibcTrace :=
              \<lparr>hopPort = DestinationPort packet, hopChannel = DestinationChannel packet\<rparr> # ibcTrace d\<rparr>), amountInt))"

definition GetSentCoin :: "('b, 'e) erc20_env \<Rightarrow> string \<Rightarrow> string \<Rightarrow> denom \<times> int option" where
  "GetSentCoin E rawDenom rawAmt = (IBCDenom E (ExtractDenomFromPath E rawDenom), NewIntFromString E rawAmt)"

section \<open>IBC callbacks (keeper/ibc_callbacks.go)\<close>

text \<open>A conversion of a nil amount dereferences it.\<close>

definition convert_received ::
    "('b, 'e) erc20_env \<Rightarrow> ('b, 'e) erc20_state \<Rightarrow> TokenPair \<Rightarrow> int option \<Rightarrow> AccAddress \<Rightarrow>
      (unit, ('b, 'e) erc20_state) eff" where
  "convert_received E s tp amt account =
     (case amt of None \<Rightarrow> nilDeref | Some n \<Rightarrow> ConvertCoinNativeERC20 E s tp n (BytesToAddress account) account)"

definition OnRecvPacket ::
    "('b, 'e) erc20_env \<Rightarrow> ('b, 'e) erc20_state \<Rightarrow> Packet \<Rightarrow> Acknowledgement \<Rightarrow>
      (Acknowledgement \<times> ('b, 'e) erc20_state) res" where
  "OnRecvPacket E s packet ack =
     (if \<not> IsERC20Enabled s then Ok (ack, s)
      else (case UnmarshalPacket E (packetData packet) of
        None \<Rightarrow> Ok (AckError (ErrMsg ''cannot unmarshal ICS-20 transfer packet data''), s)
      | Some data \<Rightarrow>
          res_bind (GetReceivedCoin E packet (ExtractDenomFromPath E (ftDenom data)) (ftAmount data)) (\<lambda>(cd, amt).
          if hasPrefix (ftDenom data) ''factory/'' then Ok (ack, s)
          else (case skBondDenom E s of
            Panic e \<Rightarrow> Panic e
          | Err e \<Rightarrow> Ok (AckError e, s)
          | Ok bondDenom \<Rightarrow>
              if cd = bondDenom then Ok (ack, s)
              else (case addrCodec E (ftReceiver data) of
                None \<Rightarrow> Ok (AckError (ErrMsg ''invalid recipient''), s)
              | Some recipient \<Rightarrow>
                  if akIsModuleAccount E s recipient then Ok (ack, s)
                  else (case GetTokenPair s (GetTokenPairID E s cd) of
                    None \<Rightarrow>
                      if hasPrefix cd ''ibc/''
                      then res_bind (RegisterERC20Extension E s cd) (\<lambda>(r, s).
                             Ok (case r of Inl _ \<Rightarrow> ack | Inr e \<Rightarrow> AckError e, s))
                      else Ok (ack, s)
                  | Some tp \<Rightarrow>
                      if IsNativeERC20 tp then
                        (if \<not> Enabled tp then Ok (ack, s)
                         else (case MintingEnabled E s recipient cd of
                                 Panic e \<Rightarrow> Panic e
                               | Err e \<Rightarrow> Ok (AckError e, s)
                               | Ok tp \<Rightarrow>
                                   res_bind (convert_received E s tp amt recipient) (\<lambda>(r, s).
                                     Ok (case r of Inl _ \<Rightarrow> ack | Inr e \<Rightarrow> AckError e, s))))
                      else Ok (ack, s)))))))"

definition ConvertCoinToERC20FromPacket ::
    "('b, 'e) erc20_env \<Rightarrow> ('b, 'e) erc20_state \<Rightarrow> FungibleTokenPacketData \<Rightarrow> (unit, ('b, 'e) erc20_state) eff" where
  "ConvertCoinToERC20FromPacket E s data =
     (case addrCodec E (ftSender data) of
        None \<Rightarrow> eff_fail s ErrInvalidAddress
      | Some sender \<Rightarrow>
          (case GetTokenPair s (GetTokenPairID E s (ftDenom data)) of
             None \<Rightarrow> eff_ret s ()
           | Some tp \<Rightarrow>
               (case GetSentCoin E (ftDenom data) (ftAmount data) of (cd, amt) \<Rightarrow>
                  if IsNativeCoin tp then eff_ret s ()
                  else if IsNativeERC20 tp then
                    (if \<not> EnableErc20 (Erc20_GetParams s) \<or> \<not> IsDenomRegistered s cd then eff_ret s ()
                     else if akIsModuleAccount E s sender then eff_ret s ()
                     else res_bind (convert_received E s tp amt sender) (\<lambda>(r, s). eff_ret s ()))
                  else eff_ret s ())))"

definition OnAcknowledgementPacket ::
    "('b, 'e) erc20_env \<Rightarrow> ('b, 'e) erc20_state \<Rightarrow> FungibleTokenPacketData \<Rightarrow> Acknowledgement \<Rightarrow>
      (unit, ('b, 'e) erc20_state) eff" where
  "OnAcknowledgementPacket E s data ack =
     (case ack of AckError _ \<Rightarrow> ConvertCoinToERC20FromPacket E s data | AckResult \<Rightarrow> eff_ret s ())"

definition OnTimeoutPacket ::
    "('b, 'e) erc20_env \<Rightarrow> ('b, 'e) erc20_state \<Rightarrow> FungibleTokenPacketData \<Rightarrow> (unit, ('b, 'e) erc20_state) eff" where
  "OnTimeoutPacket E s data = ConvertCoinToERC20FromPacket E s data"

section \<open>The IBC middleware and transfers (ibc_middleware.go, x/ibc/transfer/keeper/msg_server.go)\<close>

text \<open>The application the middleware wraps is a parameter: its callbacks on the same state.\<close>

definition Middleware_OnRecvPacket ::
    "('b, 'e) erc20_env \<Rightarrow> (('b, 'e) erc20_state \<Rightarrow> Packet \<Rightarrow> (Acknowledgement \<times> ('b, 'e) erc20_state) res) \<Rightarrow>
      ('b, 'e) erc20_state \<Rightarrow> Packet \<Rightarrow> (Acknowledgement \<times> ('b, 'e) erc20_state) res" where
  "Middleware_OnRecvPacket E app s packet =
     res_bind (app s packet) (\<lambda>(ack, s).
       case ack of AckError _ \<Rightarrow> Ok (ack, s) | AckResult \<Rightarrow> OnRecvPacket E s packet ack)"

definition Middleware_OnAcknowledgementPacket ::
    "('b, 'e) erc20_env \<Rightarrow> (('b, 'e) erc20_state \<Rightarrow> Packet \<Rightarrow> string \<Rightarrow> (unit, ('b, 'e) erc20_state) eff) \<Rightarrow>
      ('b, 'e) erc20_state \<Rightarrow> Packet \<Rightarrow> string \<Rightarrow> (unit, ('b, 'e) erc20_state) eff" where
  "Middleware_OnAcknowledgementPacket E app s packet acknowledgement =
     (case UnmarshalAck E acknowledgement of
        None \<Rightarrow> eff_fail s (ErrMsg ''cannot unmarshal ICS-20 transfer packet acknowledgement'')
      | Some ack \<Rightarrow>
     (case UnmarshalPacket E (packetData packet) of
        None \<Rightarrow> eff_fail s (ErrMsg ''cannot unmarshal ICS-20 transfer packet data'')
      | Some data \<Rightarrow>
          eff_bind (app s packet acknowledgement) (\<lambda>_ s. OnAcknowledgementPacket E s data ack)))"

definition Middleware_OnTimeoutPacket ::
    "('b, 'e) erc20_env \<Rightarrow> (('b, 'e) erc20_state \<Rightarrow> Packet \<Rightarrow> (unit, ('b, 'e) erc20_state) eff) \<Rightarrow>
      ('b, 'e) erc20_state \<Rightarrow> Packet \<Rightarrow> (unit, ('b, 'e) erc20_state) eff" where
  "Middleware_OnTimeoutPacket E app s packet =
     (case UnmarshalPacket E (packetData packet) of
        None \<Rightarrow> eff_fail s (ErrMsg ''cannot unmarshal ICS-20 transfer packet data'')
      | Some data \<Rightarrow> eff_bind (app s packet) (\<lambda>_ s. OnTimeoutPacket E s data))"

record MsgTransfer =
  mtToken :: coin
  mtSender :: string

text \<open>A transfer of a registered token first converts what the sender lacks of the coin. The transfer of ibc-go itself is
  a parameter.\<close>

definition IBC_Transfer ::
    "('b, 'e) erc20_env \<Rightarrow> (('b, 'e) erc20_state \<Rightarrow> MsgTransfer \<Rightarrow> (unit, ('b, 'e) erc20_state) eff) \<Rightarrow>
      ('b, 'e) erc20_state \<Rightarrow> MsgTransfer \<Rightarrow> (unit, ('b, 'e) erc20_state) eff" where
  "IBC_Transfer E transfer s msg =
     (let raw = Denom (mtToken msg);
          d = (if hasPrefix raw Erc20NativeCoinDenomPrefix then drop (length Erc20NativeCoinDenomPrefix) raw else raw);
          pid = GetTokenPairID E s d
      in
      if emptyID pid then transfer s msg
      else (case GetTokenPair s pid of
        None \<Rightarrow> transfer s msg
      | Some tp \<Rightarrow>
          if \<not> Enabled tp then transfer s msg
          else (case accFromBech32 (pk E) (mtSender msg) of
            None \<Rightarrow> Panic (ErrMsg ''decoding bech32 failed'')
          | Some sender \<Rightarrow>
              if \<not> IsERC20Enabled s then transfer s msg
              else
                let msg = msg\<lparr>mtToken := (mtToken msg)\<lparr>Denom := tpDenom tp\<rparr>\<rparr> in
                if \<not> IsNativeERC20 tp then transfer s msg
                else
                  let balance = SpendableCoin (pk E) (pb s) sender (tpDenom tp) in
                  if Amount (mtToken msg) \<le> Amount balance then transfer s msg
                  else
                    let difference = Amount (mtToken msg) - Amount balance in
                    eff_bind (ConvertERC20 E s \<lparr>ceContractAddress = gethHex E (GetERC20Contract E tp),
                        ceAmount = difference, ceReceiver = accString (pk E) sender,
                        ceSender = gethHex E (BytesToAddress sender)\<rparr>) (\<lambda>_ s. transfer s msg))))"

section \<open>Genesis (types/genesis.go, genesis.go)\<close>

record ERC20GenesisState =
  gsParams :: ERC20Params
  gsTokenPairs :: "TokenPair list"
  gsAllowances :: "Allowance list"
  gsNativePrecompiles :: "string list"
  gsDynamicPrecompiles :: "string list"

definition Erc20_DefaultGenesisState :: ERC20GenesisState where
  "Erc20_DefaultGenesisState = \<lparr>gsParams = Erc20_DefaultParams, gsTokenPairs = [], gsAllowances = [],
     gsNativePrecompiles = [], gsDynamicPrecompiles = []\<rparr>"

definition hasActiveTokenPair :: "TokenPair list \<Rightarrow> string \<Rightarrow> bool" where
  "hasActiveTokenPair pairs addr \<longleftrightarrow> list_ex (\<lambda>p. Erc20Address p = addr \<and> Enabled p) pairs"

fun validatePrecompiles :: "TokenPair list \<Rightarrow> string list \<Rightarrow> error option" where
  "validatePrecompiles pairs [] = None"
| "validatePrecompiles pairs (p # ps) =
     (if \<not> hasActiveTokenPair pairs p then Some (ErrMsg ''precompile address not found in token pairs'')
      else validatePrecompiles pairs ps)"

fun validatePairs_loop :: "('b, 'e) erc20_env \<Rightarrow> string list \<Rightarrow> denom list \<Rightarrow> TokenPair list \<Rightarrow> error option" where
  "validatePairs_loop E seenErc20 seenDenom [] = None"
| "validatePairs_loop E seenErc20 seenDenom (b # bs) =
     (if Erc20Address b \<in> set seenErc20 then Some (ErrMsg ''token ERC20 contract duplicated on genesis'')
      else if tpDenom b \<in> set seenDenom then Some (ErrMsg ''coin denomination duplicated on genesis'')
      else (case TokenPair_Validate E b of
              Some e \<Rightarrow> Some e
            | None \<Rightarrow> validatePairs_loop E (Erc20Address b # seenErc20) (tpDenom b # seenDenom) bs))"

fun validateAllowances_loop ::
    "('b, 'e) erc20_env \<Rightarrow> string list \<Rightarrow> string list \<Rightarrow> Allowance list \<Rightarrow> error option" where
  "validateAllowances_loop E seenErc20 seen [] = None"
| "validateAllowances_loop E seenErc20 seen (a # as) =
     (let k = alErc20Address a @ alOwner a @ alSpender a in
      if k \<in> set seen then Some (ErrMsg ''duplicated allowance on genesis'')
      else if alErc20Address a \<notin> set seenErc20
      then Some (ErrMsg ''allowance has no corresponding token pair on genesis'')
      else (case Allowance_Validate E a of
              Some e \<Rightarrow> Some (ErrWrapped ''invalid allowance on genesis'' e)
            | None \<Rightarrow> validateAllowances_loop E seenErc20 (k # seen) as))"

definition Erc20_GenesisState_Validate :: "('b, 'e) erc20_env \<Rightarrow> ERC20GenesisState \<Rightarrow> error option" where
  "Erc20_GenesisState_Validate E gs =
     (case validatePairs_loop E [] [] (gsTokenPairs gs) of
        Some e \<Rightarrow> Some e
      | None \<Rightarrow>
     (case validatePrecompiles (gsTokenPairs gs) (gsDynamicPrecompiles gs) of
        Some e \<Rightarrow> Some (ErrWrapped ''invalid dynamic precompiles on genesis'' e)
      | None \<Rightarrow>
     (case validatePrecompiles (gsTokenPairs gs) (gsNativePrecompiles gs) of
        Some e \<Rightarrow> Some (ErrWrapped ''invalid native precompiles on genesis'' e)
      | None \<Rightarrow> validateAllowances_loop E (map Erc20Address (gsTokenPairs gs)) [] (gsAllowances gs))))"

fun initPairs_loop ::
    "('b, 'e) erc20_env \<Rightarrow> TokenPair list \<Rightarrow> ('b, 'e) erc20_state \<Rightarrow> (unit, ('b, 'e) erc20_state) eff" where
  "initPairs_loop E [] s = eff_ret s ()"
| "initPairs_loop E (tp # tps) s = eff_bind (SetToken E s tp) (\<lambda>_ s. initPairs_loop E tps s)"

fun initPrecompiles_loop ::
    "(('b, 'e) erc20_state \<Rightarrow> address \<Rightarrow> (unit, ('b, 'e) erc20_state) eff) \<Rightarrow> ('b, 'e) erc20_env \<Rightarrow> string list \<Rightarrow>
      ('b, 'e) erc20_state \<Rightarrow> ('b, 'e) erc20_state res" where
  "initPrecompiles_loop enable E [] s = Ok s"
| "initPrecompiles_loop enable E (p # ps) s =
     res_bind (enable s (gethHexToAddress E p)) (\<lambda>(r, s).
       case r of Inr e \<Rightarrow> Panic (ErrWrapped ''error registering precompiles'' e)
       | Inl _ \<Rightarrow> initPrecompiles_loop enable E ps s)"

fun initAllowances_loop ::
    "('b, 'e) erc20_env \<Rightarrow> Allowance list \<Rightarrow> ('b, 'e) erc20_state \<Rightarrow> ('b, 'e) erc20_state res" where
  "initAllowances_loop E [] s = Ok s"
| "initAllowances_loop E (a # as) s =
     res_bind (UnsafeSetAllowance E s (gethHexToAddress E (alErc20Address a)) (gethHexToAddress E (alOwner a))
         (gethHexToAddress E (alSpender a)) (Some (alValue a))) (\<lambda>(r, s).
       case r of Inr e \<Rightarrow> Panic (ErrWrapped ''error setting allowance'' e) | Inl _ \<Rightarrow> initAllowances_loop E as s)"

text \<open>A pair that cannot be set ends the import without an error and without the rest of the genesis state.\<close>

definition Erc20_InitGenesis ::
    "('b, 'e) erc20_env \<Rightarrow> ('b, 'e) erc20_state \<Rightarrow> ERC20GenesisState \<Rightarrow> ('b, 'e) erc20_state res" where
  "Erc20_InitGenesis E s data =
     (let s = Erc20_SetParams s (gsParams data) in
      case akGetModuleAccount (ak (pk E)) erc20ModuleName of
        None \<Rightarrow> Panic (ErrMsg ''the erc20 module account has not been set'')
      | Some _ \<Rightarrow>
          res_bind (initPairs_loop E (gsTokenPairs data) s) (\<lambda>(r, s).
            case r of
              Inr _ \<Rightarrow> Ok s
            | Inl _ \<Rightarrow>
                res_bind (initPrecompiles_loop (EnableNativePrecompile E) E (gsNativePrecompiles data) s) (\<lambda>s.
                res_bind (initPrecompiles_loop (EnableDynamicPrecompile E) E (gsDynamicPrecompiles data) s) (\<lambda>s.
                initAllowances_loop E (gsAllowances data) s))))"

definition Erc20_ExportGenesis :: "('b, 'e) erc20_state \<Rightarrow> ERC20GenesisState" where
  "Erc20_ExportGenesis s =
     \<lparr>gsParams = Erc20_GetParams s, gsTokenPairs = GetTokenPairs s, gsAllowances = GetAllowances s,
      gsNativePrecompiles = GetNativePrecompiles s, gsDynamicPrecompiles = GetDynamicPrecompiles s\<rparr>"

end
