(* ===== verification/Erc20Props.thy ===== *)
theory Erc20Props
  imports Erc20Convert
begin

text \<open>
  The registry of x/erc20: what its three stores agree on, that every operation keeps it, and the histories of the module.
\<close>

section \<open>Addresses and keys\<close>

lemma AddrBytes_length [simp]: "length (AddrBytes a) = 20"
  by (simp add: AddrBytes_def)

lemma BytesToAddress_AddrBytes [simp]: "BytesToAddress (AddrBytes a) = a"
proof -
  have c: "of_char (char_of (unat b) :: char) = (ucast b :: 160 word)" for b :: "8 word"
  proof -
    have "unat b < 256" using unsigned_less [of b, where ?'a = nat] by simp
    then have "(of_char (char_of (unat b) :: char) :: nat) = unat b" by simp
    then have "of_char (char_of (unat b) :: char) = (of_nat (unat b) :: 160 word)" by (metis of_nat_of_char)
    then show ?thesis by simp
  qed
  have "foldl (\<lambda>acc ch. acc * 256 + of_char ch) (x :: 160 word) (map (\<lambda>b. char_of (unat b)) bs) =
      foldl (\<lambda>acc b. acc * 256 + ucast b) x bs" for x and bs :: bytes
    by (induction bs arbitrary: x) (simp_all add: c)
  moreover have "unat a mod 256 ^ 20 = unat a" using unsigned_less [of a, where ?'a = nat] by simp
  ultimately show ?thesis by (simp add: BytesToAddress_def AddrBytes_def be_bytes_decode del: power_numeral)
qed

lemma AddrBytes_inj [simp]: "AddrBytes a = AddrBytes b \<longleftrightarrow> a = b"
  by (metis BytesToAddress_AddrBytes)

lemma AllowanceKey_inj [simp]:
  "AllowanceKey c p q = AllowanceKey c' p' q' \<longleftrightarrow> c = c' \<and> p = p' \<and> q = q'"
  by (auto simp: AllowanceKey_def)

lemma AllowanceKey_prefix [simp]: "hasPrefix (AllowanceKey c p q) (AddrBytes c') \<longleftrightarrow> c = c'"
  by (auto simp: hasPrefix_def AllowanceKey_def)

section \<open>Computations that return an error with a state\<close>

lemma eff_bind_Ok: "eff_bind m f = Ok y \<longleftrightarrow>
    (\<exists>x s. m = Ok (Inl x, s) \<and> f x s = Ok y) \<or> (\<exists>e s. m = Ok (Inr e, s) \<and> y = (Inr e, s))"
  by (auto simp: eff_bind_def res_bind_Ok split: sum.splits) (metis surj_pair sum.exhaust)+

lemma eff_ret_Ok [simp]: "eff_ret s x = Ok y \<longleftrightarrow> y = (Inl x, s)"
  by (auto simp: eff_ret_def)

lemma eff_fail_Ok [simp]: "eff_fail s e = Ok y \<longleftrightarrow> y = (Inr e, s)"
  by (auto simp: eff_fail_def)

lemma eff_wrap_Ok: "eff_wrap g m = Ok y \<longleftrightarrow>
    (\<exists>x s. m = Ok (Inl x, s) \<and> y = (Inl x, s)) \<or> (\<exists>e s. m = Ok (Inr e, s) \<and> y = (Inr (g e), s))"
  by (auto simp: eff_wrap_def res_bind_Ok split: sum.splits) (metis surj_pair sum.exhaust)+

lemma eff_read_Ok: "eff_read s r = Ok y \<longleftrightarrow>
    (\<exists>x. r = Ok x \<and> y = (Inl x, s)) \<or> (\<exists>e. r = Err e \<and> y = (Inr e, s))"
  by (cases r) (auto simp: eff_read_def)

lemma on_pb_Ok: "on_pb s r = Ok y \<longleftrightarrow>
    (\<exists>p. r = Ok p \<and> y = (Inl (), s\<lparr>pb := p\<rparr>)) \<or> (\<exists>e. r = Err e \<and> y = (Inr e, s))"
  by (cases r) (auto simp: on_pb_def)

lemmas eff_eqs = eff_bind_Ok eff_wrap_Ok eff_read_Ok on_pb_Ok res_bind_Ok

section \<open>The invariant of the registry\<close>

text \<open>What the module relies on of the address and hash functions: an address reads back from its hex string, a hex
  string has no bar in it, and SHA-256 is taken as free of collisions.\<close>

locale erc20_codec =
  fixes E :: "('b, 'e) erc20_env"
  assumes hex_round: "gethHexToAddress E (gethHex E a) = a"
    and hex_valid: "gethIsHexAddress E (gethHex E a)"
    and hex_no_bar: "gethIsHexAddress E x \<Longrightarrow> CHR ''|'' \<notin> set x"
    and sum_inj: "tmhashSum E x = tmhashSum E y \<Longrightarrow> x = y"
    and sum_nonempty: "tmhashSum E x \<noteq> []"
begin

lemma split_at_bar: "x @ CHR ''|'' # y = x' @ CHR ''|'' # y' \<Longrightarrow> CHR ''|'' \<notin> set x \<Longrightarrow> CHR ''|'' \<notin> set x' \<Longrightarrow> x = x' \<and> y = y'"
  by (induction x arbitrary: x') (case_tac x'; auto)+

lemma GetID_inj:
  assumes "GetID E tp = GetID E tp'" "gethIsHexAddress E (Erc20Address tp)" "gethIsHexAddress E (Erc20Address tp')"
  shows "Erc20Address tp = Erc20Address tp' \<and> tpDenom tp = tpDenom tp'"
proof -
  from sum_inj assms(1) have "Erc20Address tp @ CHR ''|'' # tpDenom tp = Erc20Address tp' @ CHR ''|'' # tpDenom tp'"
    by (simp add: GetID_def)
  from split_at_bar [OF this] hex_no_bar assms(2,3) show ?thesis by blast
qed

end

text \<open>The three stores of token pairs agree, and every allowance is a positive 256-bit amount on a registered contract.\<close>

definition pairs_ok :: "('b, 'e) erc20_env \<Rightarrow> ('b, 'e) erc20_state \<Rightarrow> bool" where
  "pairs_ok E s \<longleftrightarrow>
     (\<forall>pid tp. kv_get (storeTokenPair s) pid = Some tp \<longrightarrow>
        pid = GetID E tp \<and> gethIsHexAddress E (Erc20Address tp) \<and>
        kv_get (storeByERC20 s) (GetERC20Contract E tp) = Some pid \<and> kv_get (storeByDenom s) (tpDenom tp) = Some pid) \<and>
     (\<forall>a pid. kv_get (storeByERC20 s) a = Some pid \<longrightarrow>
        (\<exists>tp. kv_get (storeTokenPair s) pid = Some tp \<and> GetERC20Contract E tp = a)) \<and>
     (\<forall>d pid. kv_get (storeByDenom s) d = Some pid \<longrightarrow>
        (\<exists>tp. kv_get (storeTokenPair s) pid = Some tp \<and> tpDenom tp = d))"

lemma pairs_okI:
  assumes "\<And>pid tp. kv_get (storeTokenPair s) pid = Some tp \<Longrightarrow> pid = GetID E tp \<and> gethIsHexAddress E (Erc20Address tp) \<and>
      kv_get (storeByERC20 s) (GetERC20Contract E tp) = Some pid \<and> kv_get (storeByDenom s) (tpDenom tp) = Some pid"
    "\<And>a pid. kv_get (storeByERC20 s) a = Some pid \<Longrightarrow>
      \<exists>tp. kv_get (storeTokenPair s) pid = Some tp \<and> GetERC20Contract E tp = a"
    "\<And>d pid. kv_get (storeByDenom s) d = Some pid \<Longrightarrow>
      \<exists>tp. kv_get (storeTokenPair s) pid = Some tp \<and> tpDenom tp = d"
  shows "pairs_ok E s"
  using assms unfolding pairs_ok_def by blast

lemma pairs_okD:
  assumes "pairs_ok E s"
  shows "kv_get (storeTokenPair s) pid = Some tp \<Longrightarrow> pid = GetID E tp \<and> gethIsHexAddress E (Erc20Address tp) \<and>
      kv_get (storeByERC20 s) (GetERC20Contract E tp) = Some pid \<and> kv_get (storeByDenom s) (tpDenom tp) = Some pid"
    "kv_get (storeByERC20 s) a = Some pid \<Longrightarrow>
      \<exists>tp. kv_get (storeTokenPair s) pid = Some tp \<and> GetERC20Contract E tp = a"
    "kv_get (storeByDenom s) d = Some pid \<Longrightarrow>
      \<exists>tp. kv_get (storeTokenPair s) pid = Some tp \<and> tpDenom tp = d"
  using assms unfolding pairs_ok_def by blast+

definition allowances_ok :: "('b, 'e) erc20_env \<Rightarrow> ('b, 'e) erc20_state \<Rightarrow> bool" where
  "allowances_ok E s \<longleftrightarrow>
     (\<forall>k al. kv_get (storeAllowance s) k = Some al \<longrightarrow>
        (\<exists>c p q n. k = AllowanceKey c p q \<and> IsERC20Registered s c \<and> p \<noteq> 0 \<and> q \<noteq> 0 \<and> 0 < n \<and> n < 2 ^ 256 \<and>
           al = NewAllowance E c p q n))"

definition erc20_inv :: "('b, 'e) erc20_env \<Rightarrow> ('b, 'e) erc20_state \<Rightarrow> bool" where
  "erc20_inv E s \<longleftrightarrow> pairs_ok E s \<and> allowances_ok E s"

text \<open>States with the same stores of the module apart from flags and precompile lists.\<close>

definition same_registry :: "('b, 'e) erc20_state \<Rightarrow> ('b, 'e) erc20_state \<Rightarrow> bool" where
  "same_registry s s' \<longleftrightarrow> storeTokenPair s' = storeTokenPair s \<and> storeByERC20 s' = storeByERC20 s \<and>
     storeByDenom s' = storeByDenom s \<and> storeAllowance s' = storeAllowance s"

lemma same_registry_inv: "same_registry s s' \<Longrightarrow> erc20_inv E s \<Longrightarrow> erc20_inv E s'"
  by (simp add: same_registry_def erc20_inv_def pairs_ok_def allowances_ok_def IsERC20Registered_def)

lemma same_registry_updates [simp]:
  "same_registry s (s\<lparr>pb := p\<rparr>)" "same_registry s (s\<lparr>world := w\<rparr>)" "same_registry s (Erc20_SetParams s ps)"
  "same_registry s (SetNativePrecompile E s a)" "same_registry s (SetDynamicPrecompile E s a)"
  "same_registry s (set_metadata E s md)" "same_registry s s"
  by (simp_all add: same_registry_def Erc20_SetParams_def SetPermissionlessRegistration_def setERC20Enabled_def
      SetNativePrecompile_def SetDynamicPrecompile_def set_metadata_def)

section \<open>Stores\<close>

lemma foldl_kv_delete: "kv_get (foldl (\<lambda>st k. kv_delete k st) kvs ks) k = (if k \<in> set ks then None else kv_get kvs k)"
  by (induction ks arbitrary: kvs) auto

lemma kv_get_key: "kv_get kvs k = Some v \<Longrightarrow> k \<in> fst ` set kvs"
  by (metis fst_conv image_eqI kv_get_SomeD)

lemma deleteAllowances_get:
  "kv_get (storeAllowance (deleteAllowances s c)) k =
     (if hasPrefix k (AddrBytes c) then None else kv_get (storeAllowance s) k)"
proof (cases "hasPrefix k (AddrBytes c) \<and> kv_get (storeAllowance s) k \<noteq> None")
  case True
  then show ?thesis using kv_get_key [of "storeAllowance s" k]
    by (auto simp: deleteAllowances_def foldl_kv_delete)
qed (auto simp: deleteAllowances_def foldl_kv_delete)

lemma deleteAllowances_other [simp]:
  "storeTokenPair (deleteAllowances s c) = storeTokenPair s" "storeByERC20 (deleteAllowances s c) = storeByERC20 s"
  "storeByDenom (deleteAllowances s c) = storeByDenom s" "pb (deleteAllowances s c) = pb s"
  "world (deleteAllowances s c) = world s"
  by (simp_all add: deleteAllowances_def Let_def)

lemmas registry_defs = SetTokenPair_def SetDenomMap_def SetERC20Map_def deleteTokenPair_id_def deleteERC20Map_def
  deleteDenomMap_def

lemma DeleteTokenPair_stores:
  "storeTokenPair (DeleteTokenPair E s tp) = kv_delete (GetID E tp) (storeTokenPair s)"
  "storeByERC20 (DeleteTokenPair E s tp) = kv_delete (GetERC20Contract E tp) (storeByERC20 s)"
  "storeByDenom (DeleteTokenPair E s tp) = kv_delete (tpDenom tp) (storeByDenom s)"
  "kv_get (storeAllowance (DeleteTokenPair E s tp)) k =
     (if hasPrefix k (AddrBytes (GetERC20Contract E tp)) then None else kv_get (storeAllowance s) k)"
  "pb (DeleteTokenPair E s tp) = pb s" "world (DeleteTokenPair E s tp) = world s"
  by (simp_all add: DeleteTokenPair_def registry_defs Let_def deleteAllowances_get)

lemma GetTokenPair_Some: "GetTokenPair s pid = Some tp \<longleftrightarrow> (\<exists>x. pid = Some x \<and> kv_get (storeTokenPair s) x = Some tp)"
  by (auto simp: GetTokenPair_def split: option.splits)

section \<open>The operations keep the invariant\<close>

context erc20_codec
begin

lemma fresh_id:
  assumes "pairs_ok E s" "gethIsHexAddress E (Erc20Address tp)" "\<not> IsDenomRegistered s (tpDenom tp)"
  shows "kv_get (storeTokenPair s) (GetID E tp) = None"
proof (rule ccontr)
  assume "kv_get (storeTokenPair s) (GetID E tp) \<noteq> None"
  then obtain tp' where g: "kv_get (storeTokenPair s) (GetID E tp) = Some tp'" by blast
  with assms(1) have tp': "GetID E tp = GetID E tp'" "gethIsHexAddress E (Erc20Address tp')"
    "kv_get (storeByDenom s) (tpDenom tp') = Some (GetID E tp)"
    unfolding pairs_ok_def by blast+
  from GetID_inj [OF tp'(1) assms(2) tp'(2)] tp'(3) assms(3) show False by (simp add: IsDenomRegistered_def)
qed

lemma SetToken_inv:
  assumes "erc20_inv E s" "gethIsHexAddress E (Erc20Address tp)" "SetToken E s tp = Ok (r, s')"
  shows "erc20_inv E s'"
proof (cases "IsDenomRegistered s (tpDenom tp) \<or> IsERC20Registered s (GetERC20Contract E tp)")
  case True
  with assms show ?thesis by (auto simp: SetToken_def split: if_splits)
next
  case False
  with assms(3) have st: "storeTokenPair s' = kv_set (GetID E tp) tp (storeTokenPair s)"
    "storeByERC20 s' = kv_set (GetERC20Contract E tp) (GetID E tp) (storeByERC20 s)"
    "storeByDenom s' = kv_set (tpDenom tp) (GetID E tp) (storeByDenom s)" "storeAllowance s' = storeAllowance s"
    by (auto simp: SetToken_def registry_defs Let_def)
  from assms(1) have p: "pairs_ok E s" "allowances_ok E s" by (simp_all add: erc20_inv_def)
  from fresh_id [OF p(1) assms(2)] False have "kv_get (storeTokenPair s) (GetID E tp) = None" by simp
  note fresh = this
  have "pairs_ok E s'"
  proof (rule pairs_okI, unfold st kv_get_set)
    fix pid tp' assume "(if pid = GetID E tp then Some tp else kv_get (storeTokenPair s) pid) = Some tp'"
    then show "pid = GetID E tp' \<and> gethIsHexAddress E (Erc20Address tp') \<and>
        (if GetERC20Contract E tp' = GetERC20Contract E tp then Some (GetID E tp)
         else kv_get (storeByERC20 s) (GetERC20Contract E tp')) = Some pid \<and>
        (if tpDenom tp' = tpDenom tp then Some (GetID E tp) else kv_get (storeByDenom s) (tpDenom tp')) = Some pid"
      using pairs_okD(1) [OF p(1), of pid tp'] False assms(2)
      by (auto simp: IsDenomRegistered_def IsERC20Registered_def split: if_splits)
  next
    fix a pid assume "(if a = GetERC20Contract E tp then Some (GetID E tp) else kv_get (storeByERC20 s) a) = Some pid"
    then show "\<exists>tp'. (if pid = GetID E tp then Some tp else kv_get (storeTokenPair s) pid) = Some tp' \<and>
        GetERC20Contract E tp' = a"
      using pairs_okD(2) [OF p(1), of a pid] fresh by (auto split: if_splits)
  next
    fix d pid assume "(if d = tpDenom tp then Some (GetID E tp) else kv_get (storeByDenom s) d) = Some pid"
    then show "\<exists>tp'. (if pid = GetID E tp then Some tp else kv_get (storeTokenPair s) pid) = Some tp' \<and> tpDenom tp' = d"
      using pairs_okD(3) [OF p(1), of d pid] fresh by (auto split: if_splits)
  qed
  moreover from p(2) have "allowances_ok E s'"
    unfolding allowances_ok_def st IsERC20Registered_def by (force simp: IsERC20Registered_def)
  ultimately show ?thesis by (simp add: erc20_inv_def)
qed

lemma toggle_inv:
  assumes "erc20_inv E s" "GetTokenPair s pid = Some tp"
  shows "erc20_inv E (SetTokenPair E s (tp\<lparr>Enabled := b\<rparr>))"
proof -
  have i: "GetID E (tp\<lparr>Enabled := b\<rparr>) = GetID E tp" "GetERC20Contract E (tp\<lparr>Enabled := b\<rparr>) = GetERC20Contract E tp"
    by (simp_all add: GetID_def GetERC20Contract_def)
  from assms obtain x where x: "pid = Some x" "kv_get (storeTokenPair s) x = Some tp" "pairs_ok E s" "allowances_ok E s"
    by (auto simp: GetTokenPair_Some erc20_inv_def)
  note pD = pairs_okD [OF x(3)]
  have "pairs_ok E (SetTokenPair E s (tp\<lparr>Enabled := b\<rparr>))"
  proof (rule pairs_okI)
    fix pid tp' assume "kv_get (storeTokenPair (SetTokenPair E s (tp\<lparr>Enabled := b\<rparr>))) pid = Some tp'"
    then show "pid = GetID E tp' \<and> gethIsHexAddress E (Erc20Address tp') \<and>
        kv_get (storeByERC20 (SetTokenPair E s (tp\<lparr>Enabled := b\<rparr>))) (GetERC20Contract E tp') = Some pid \<and>
        kv_get (storeByDenom (SetTokenPair E s (tp\<lparr>Enabled := b\<rparr>))) (tpDenom tp') = Some pid"
      using pD(1) [of pid tp'] pD(1) [OF x(2)] by (auto simp: SetTokenPair_def i split: if_splits)
  next
    fix a pid assume "kv_get (storeByERC20 (SetTokenPair E s (tp\<lparr>Enabled := b\<rparr>))) a = Some pid"
    then show "\<exists>tp'. kv_get (storeTokenPair (SetTokenPair E s (tp\<lparr>Enabled := b\<rparr>))) pid = Some tp' \<and> GetERC20Contract E tp' = a"
      using pD(2) [of a pid] pD(1) [OF x(2)] x(2) by (auto simp: SetTokenPair_def i)
  next
    fix d pid assume "kv_get (storeByDenom (SetTokenPair E s (tp\<lparr>Enabled := b\<rparr>))) d = Some pid"
    then show "\<exists>tp'. kv_get (storeTokenPair (SetTokenPair E s (tp\<lparr>Enabled := b\<rparr>))) pid = Some tp' \<and> tpDenom tp' = d"
      using pD(3) [of d pid] pD(1) [OF x(2)] x(2) by (auto simp: SetTokenPair_def i)
  qed
  moreover from x(4) have "allowances_ok E (SetTokenPair E s (tp\<lparr>Enabled := b\<rparr>))"
    by (simp add: allowances_ok_def SetTokenPair_def IsERC20Registered_def)
  ultimately show ?thesis by (simp add: erc20_inv_def)
qed

lemma DeleteTokenPair_inv:
  assumes "erc20_inv E s" "GetTokenPair s pid = Some tp"
  shows "erc20_inv E (DeleteTokenPair E s tp)"
proof -
  from assms obtain x where x: "kv_get (storeTokenPair s) x = Some tp" "pairs_ok E s" "allowances_ok E s"
    by (auto simp: GetTokenPair_Some erc20_inv_def)
  note pD = pairs_okD [OF x(2)]
  note tp = pD(1) [OF x(1)]
  have "pairs_ok E (DeleteTokenPair E s tp)"
  proof (rule pairs_okI, unfold DeleteTokenPair_stores kv_get_delete)
    fix pid tp' assume "(if pid = GetID E tp then None else kv_get (storeTokenPair s) pid) = Some tp'"
    then show "pid = GetID E tp' \<and> gethIsHexAddress E (Erc20Address tp') \<and>
        (if GetERC20Contract E tp' = GetERC20Contract E tp then None
         else kv_get (storeByERC20 s) (GetERC20Contract E tp')) = Some pid \<and>
        (if tpDenom tp' = tpDenom tp then None else kv_get (storeByDenom s) (tpDenom tp')) = Some pid"
      using pD(1) [of pid tp'] tp by (auto split: if_splits)
  next
    fix a pid assume "(if a = GetERC20Contract E tp then None else kv_get (storeByERC20 s) a) = Some pid"
    then show "\<exists>tp'. (if pid = GetID E tp then None else kv_get (storeTokenPair s) pid) = Some tp' \<and> GetERC20Contract E tp' = a"
      using pD(2) [of a pid] tp x(1) by (auto split: if_splits)
  next
    fix d pid assume "(if d = tpDenom tp then None else kv_get (storeByDenom s) d) = Some pid"
    then show "\<exists>tp'. (if pid = GetID E tp then None else kv_get (storeTokenPair s) pid) = Some tp' \<and> tpDenom tp' = d"
      using pD(3) [of d pid] tp x(1) by (auto split: if_splits)
  qed
  moreover have "allowances_ok E (DeleteTokenPair E s tp)"
  proof (unfold allowances_ok_def, intro allI impI)
    fix k al assume "kv_get (storeAllowance (DeleteTokenPair E s tp)) k = Some al"
    then have k: "\<not> hasPrefix k (AddrBytes (GetERC20Contract E tp))" "kv_get (storeAllowance s) k = Some al"
      by (auto simp: DeleteTokenPair_stores split: if_splits)
    with x(3) obtain c p q n where "k = AllowanceKey c p q \<and> IsERC20Registered s c \<and> p \<noteq> 0 \<and> q \<noteq> 0 \<and> 0 < n \<and>
        n < 2 ^ 256 \<and> al = NewAllowance E c p q n" unfolding allowances_ok_def by blast
    with k(1) show "\<exists>c p q n. k = AllowanceKey c p q \<and> IsERC20Registered (DeleteTokenPair E s tp) c \<and> p \<noteq> 0 \<and>
        q \<noteq> 0 \<and> 0 < n \<and> n < 2 ^ 256 \<and> al = NewAllowance E c p q n"
      by (intro exI [of _ c] exI [of _ p] exI [of _ q] exI [of _ n]) (auto simp: IsERC20Registered_def DeleteTokenPair_stores)
  qed
  ultimately show ?thesis by (simp add: erc20_inv_def)
qed

lemma setAllowance_inv:
  assumes "erc20_inv E s" "setAllowance E s c p q v al = Ok (r, s')"
  shows "erc20_inv E s'"
proof (cases "\<exists>x. r = Inl x")
  case True
  with assms(2) obtain tp n where st: "v = Some n" "GetTokenPair s (GetERC20Map s c) = Some tp" "p \<noteq> 0" "q \<noteq> 0" "0 \<le> n" "n < 2 ^ 256"
    "s' = (if n = 0 then s\<lparr>storeAllowance := kv_delete (AllowanceKey c p q) (storeAllowance s)\<rparr>
           else s\<lparr>storeAllowance := kv_set (AllowanceKey c p q) (NewAllowance E c p q n) (storeAllowance s)\<rparr>)"
    by (auto simp: setAllowance_def not_less not_le split: option.splits if_splits)
  from st(2) have reg: "IsERC20Registered s c"
    by (auto simp: GetTokenPair_Some GetERC20Map_def IsERC20Registered_def)
  from assms(1) have "allowances_ok E s" "pairs_ok E s" by (simp_all add: erc20_inv_def)
  moreover from st(7) have same: "storeTokenPair s' = storeTokenPair s" "storeByERC20 s' = storeByERC20 s"
    "storeByDenom s' = storeByDenom s" by (simp_all split: if_splits)
  moreover have "allowances_ok E s'"
  proof (unfold allowances_ok_def, intro allI impI)
    fix k al assume k: "kv_get (storeAllowance s') k = Some al"
    show "\<exists>c p q n. k = AllowanceKey c p q \<and> IsERC20Registered s' c \<and> p \<noteq> 0 \<and> q \<noteq> 0 \<and> 0 < n \<and> n < 2 ^ 256 \<and>
        al = NewAllowance E c p q n"
    proof (cases "k = AllowanceKey c p q")
      case True
      with k st(5,7) have "0 < n" "al = NewAllowance E c p q n" by (auto split: if_splits)
      with True st(3,4,6) reg show ?thesis unfolding IsERC20Registered_def same by blast
    next
      case False
      with k st(7) have "kv_get (storeAllowance s) k = Some al" by (auto split: if_splits)
      with \<open>allowances_ok E s\<close> show ?thesis unfolding allowances_ok_def IsERC20Registered_def same by blast
    qed
  qed
  ultimately show ?thesis by (simp add: erc20_inv_def pairs_ok_def)
next
  case False
  with assms show ?thesis by (auto simp: setAllowance_def split: option.splits if_splits)
qed

end

end
