(* ===== verification/Erc20History.thy ===== *)
theory Erc20History
  imports Erc20Props
begin

text \<open>
  Histories of x/erc20: the messages, callbacks and precompile writes as steps, and that every state they reach has a
  consistent registry.
\<close>

section \<open>Steps\<close>

datatype erc20_op =
    OpConvertERC20 MsgConvertERC20
  | OpConvertCoin MsgConvertCoin
  | OpUpdateParams string ERC20Params
  | OpRegisterERC20 string "string list"
  | OpToggleConversion string string
  | OpRecvPacket Packet
  | OpAcknowledgementPacket FungibleTokenPacketData Acknowledgement
  | OpTimeoutPacket FungibleTokenPacketData
  | OpSetAllowance address address address "int option"
  | OpDeleteAllowance address address address

fun exec_erc20 ::
    "('b, 'e) erc20_env \<Rightarrow> ('b, 'e) erc20_state \<Rightarrow> erc20_op \<Rightarrow> (unit, ('b, 'e) erc20_state) eff" where
  "exec_erc20 E s (OpConvertERC20 msg) = ConvertERC20 E s msg"
| "exec_erc20 E s (OpConvertCoin msg) = ConvertCoin E s msg"
| "exec_erc20 E s (OpUpdateParams auth ps) = Erc20_UpdateParams E s auth ps"
| "exec_erc20 E s (OpRegisterERC20 signer addrs) = RegisterERC20 E s signer addrs"
| "exec_erc20 E s (OpToggleConversion auth tok) = ToggleConversion E s auth tok"
| "exec_erc20 E s (OpRecvPacket packet) =
     res_bind (OnRecvPacket E s packet AckResult) (\<lambda>(ack, s).
       case ack of AckResult \<Rightarrow> eff_ret s () | AckError e \<Rightarrow> eff_fail s e)"
| "exec_erc20 E s (OpAcknowledgementPacket data ack) = OnAcknowledgementPacket E s data ack"
| "exec_erc20 E s (OpTimeoutPacket data) = OnTimeoutPacket E s data"
| "exec_erc20 E s (OpSetAllowance c p q v) = SetAllowance E s c p q v"
| "exec_erc20 E s (OpDeleteAllowance c p q) = DeleteAllowance E s c p q"

text \<open>The states of a chain: the stores start empty, a step that returns no error is kept, one that returns an error is
  dropped with its cached context, and other modules change the rest of the chain as they like.\<close>

inductive erc20_reach :: "('b, 'e) erc20_env \<Rightarrow> ('b, 'e) erc20_state \<Rightarrow> bool" for E :: "('b, 'e) erc20_env" where
  reach_start: "storeTokenPair s = [] \<Longrightarrow> storeByERC20 s = [] \<Longrightarrow> storeByDenom s = [] \<Longrightarrow> storeAllowance s = [] \<Longrightarrow>
    erc20_reach E s"
| reach_step: "erc20_reach E s \<Longrightarrow> exec_erc20 E s opr = Ok (Inl (), s') \<Longrightarrow> erc20_reach E s'"
| reach_other: "erc20_reach E s \<Longrightarrow> same_registry s s' \<Longrightarrow> erc20_reach E s'"

section \<open>A calculus for kept properties\<close>

text \<open>\<open>m\<close> leaves a state with property \<open>I\<close>, whether or not it returns an error.\<close>

definition keeps :: "('s \<Rightarrow> bool) \<Rightarrow> ('a \<times> 's) res \<Rightarrow> bool" where
  "keeps I m \<longleftrightarrow> (\<forall>r s. m = Ok (r, s) \<longrightarrow> I s)"

named_theorems keeps_rules \<open>when a computation keeps a property of the state\<close>

lemma keepsD: "keeps I m \<Longrightarrow> m = Ok (r, s) \<Longrightarrow> I s"
  by (simp add: keeps_def)

lemma keeps_ok [keeps_rules]: "I s \<Longrightarrow> keeps I (Ok (r, s))"
  by (simp add: keeps_def)

lemma keeps_panic [keeps_rules]: "keeps I (Panic e)"
  by (simp add: keeps_def)

lemma keeps_ret [keeps_rules]: "I s \<Longrightarrow> keeps I (eff_ret s x)"
  by (simp add: keeps_def)

lemma keeps_fail [keeps_rules]: "I s \<Longrightarrow> keeps I (eff_fail s e)"
  by (simp add: keeps_def)

lemma keeps_bind [keeps_rules]: "keeps I m \<Longrightarrow> (\<And>x s. I s \<Longrightarrow> keeps I (f x s)) \<Longrightarrow> keeps I (eff_bind m f)"
  by (auto simp: keeps_def eff_bind_Ok)

lemma keeps_res_bind [keeps_rules]:
  "keeps I m \<Longrightarrow> (\<And>x s. I s \<Longrightarrow> keeps I (f x s)) \<Longrightarrow> keeps I (res_bind m (\<lambda>(x, s). f x s))"
  by (auto simp: keeps_def res_bind_Ok)

lemma keeps_wrap [keeps_rules]: "keeps I m \<Longrightarrow> keeps I (eff_wrap g m)"
  by (auto simp: keeps_def eff_wrap_Ok)

lemma keeps_read [keeps_rules]: "I s \<Longrightarrow> keeps I (eff_read s r)"
  by (auto simp: keeps_def eff_read_Ok)

lemma keeps_read_bind: "I s \<Longrightarrow> (\<And>x. r = Ok x \<Longrightarrow> keeps I (f x s)) \<Longrightarrow> keeps I (eff_bind (eff_read s r) f)"
  by (auto simp: keeps_def eff_bind_Ok eff_read_Ok)

lemma keeps_pure_bind: "(\<And>x. r = Ok x \<Longrightarrow> keeps I (f x)) \<Longrightarrow> keeps I (res_bind r f)"
  by (auto simp: keeps_def res_bind_Ok)

lemma keeps_on_pb: "I s \<Longrightarrow> (\<And>p. I (s\<lparr>pb := p\<rparr>)) \<Longrightarrow> keeps I (on_pb s r)"
  by (auto simp: keeps_def on_pb_Ok)

lemma keeps_if [keeps_rules]: "(b \<Longrightarrow> keeps I m) \<Longrightarrow> (\<not> b \<Longrightarrow> keeps I n) \<Longrightarrow> keeps I (if b then m else n)"
  by simp

lemma keeps_option [keeps_rules]:
  "(x = None \<Longrightarrow> keeps I m) \<Longrightarrow> (\<And>y. x = Some y \<Longrightarrow> keeps I (f y)) \<Longrightarrow>
    keeps I (case x of None \<Rightarrow> m | Some y \<Rightarrow> f y)"
  by (simp split: option.splits)

lemma keeps_sum [keeps_rules]:
  "(\<And>y. x = Inl y \<Longrightarrow> keeps I (f y)) \<Longrightarrow> (\<And>y. x = Inr y \<Longrightarrow> keeps I (g y)) \<Longrightarrow>
    keeps I (case x of Inl y \<Rightarrow> f y | Inr y \<Rightarrow> g y)"
  by (simp split: sum.splits)

lemma keeps_ack [keeps_rules]:
  "(x = AckResult \<Longrightarrow> keeps I m) \<Longrightarrow> (\<And>e. x = AckError e \<Longrightarrow> keeps I (f e)) \<Longrightarrow>
    keeps I (case x of AckResult \<Rightarrow> m | AckError e \<Rightarrow> f e)"
  by (cases x) simp_all

lemma keeps_prod [keeps_rules]: "(\<And>y z. x = (y, z) \<Longrightarrow> keeps I (f y z)) \<Longrightarrow> keeps I (case x of (y, z) \<Rightarrow> f y z)"
  by (cases x) simp

lemma keeps_res_case [keeps_rules]:
  "(\<And>y. x = Ok y \<Longrightarrow> keeps I (f y)) \<Longrightarrow> (\<And>e. x = Err e \<Longrightarrow> keeps I (g e)) \<Longrightarrow> (\<And>e. x = Panic e \<Longrightarrow> keeps I (h e)) \<Longrightarrow>
    keeps I (case x of Ok y \<Rightarrow> f y | Err e \<Rightarrow> g e | Panic e \<Rightarrow> h e)"
  by (cases x) simp_all

lemma keeps_let [keeps_rules]: "keeps I (f x) \<Longrightarrow> keeps I (let y = x in f y)"
  by simp

section \<open>Every step keeps the registry consistent\<close>

text \<open>What the module relies on of x/vm: an EVM call reaches the registry only through the module's own operations, so
  a call made on a consistent registry leaves a consistent one; writing an account or a code does not touch it.\<close>

locale erc20_evm = erc20_codec E for E :: "('b, 'e) erc20_env" +
  assumes call_inv: "ekCallEVMWithData (ek E) s from contract data commit = Ok (r, s') \<Longrightarrow> erc20_inv E s \<Longrightarrow> erc20_inv E s'"
    and set_account_same: "ekSetAccount (ek E) s a acct = Ok (u, s') \<Longrightarrow> same_registry s s'"
    and set_code_same: "same_registry s (ekSetCode (ek E) s h c)"
begin

lemma same_inv: "erc20_inv E s \<Longrightarrow> erc20_inv E (s\<lparr>pb := p\<rparr>)"
  using same_registry_inv [OF same_registry_updates(1)] .

lemma inv_on_pb [keeps_rules]: "erc20_inv E s \<Longrightarrow> keeps (erc20_inv E) (on_pb s r)"
  by (intro keeps_on_pb same_inv)

lemma inv_call [keeps_rules]: "erc20_inv E s \<Longrightarrow> keeps (erc20_inv E) (ekCallEVMWithData (ek E) s from contract data commit)"
  using call_inv by (auto simp: keeps_def)

lemma inv_CallEVM [keeps_rules]: "erc20_inv E s \<Longrightarrow> keeps (erc20_inv E) (CallEVM E s from contract commit call)"
  unfolding CallEVM_def by (intro keeps_rules)

lemma inv_BalanceOf [keeps_rules]: "erc20_inv E s \<Longrightarrow> keeps (erc20_inv E) (BalanceOf E s contract account)"
  unfolding BalanceOf_def by (intro keeps_rules)

lemma inv_balance [keeps_rules]: "erc20_inv E s \<Longrightarrow> keeps (erc20_inv E) (balance_or_fail E s contract account)"
  unfolding balance_or_fail_def by (intro keeps_rules)

lemma inv_queryString [keeps_rules]: "erc20_inv E s \<Longrightarrow> keeps (erc20_inv E) (queryERC20String E s contract call)"
  unfolding queryERC20String_def by (intro keeps_rules)

lemma inv_QueryERC20 [keeps_rules]: "erc20_inv E s \<Longrightarrow> keeps (erc20_inv E) (QueryERC20 E s contract)"
  unfolding QueryERC20_def by (intro keeps_rules)

lemma inv_SetToken:
  "erc20_inv E s \<Longrightarrow> gethIsHexAddress E (Erc20Address tp) \<Longrightarrow> keeps (erc20_inv E) (SetToken E s tp)"
  using SetToken_inv by (auto simp: keeps_def)

lemma inv_set_metadata: "erc20_inv E s \<Longrightarrow> erc20_inv E (set_metadata E s md)"
  using same_registry_inv [OF same_registry_updates(6)] .

lemma inv_metadata [keeps_rules]: "erc20_inv E s \<Longrightarrow> keeps (erc20_inv E) (CreateCoinMetadata E s contract)"
  unfolding CreateCoinMetadata_def Let_def
  by (intro keeps_rules inv_set_metadata)

lemma inv_registerERC20 [keeps_rules]: "erc20_inv E s \<Longrightarrow> keeps (erc20_inv E) (registerERC20 E s contract)"
  unfolding registerERC20_def Let_def
  by (intro keeps_rules inv_SetToken) (simp_all add: NewTokenPair_def hex_valid)

lemma inv_register_loop [keeps_rules]: "erc20_inv E s \<Longrightarrow> keeps (erc20_inv E) (register_loop E addrs s)"
proof (induction addrs arbitrary: s)
  case Nil
  then show ?case by (auto intro: keeps_rules)
next
  case (Cons addr addrs)
  then show ?case by (auto intro!: keeps_rules Cons.IH)
qed

lemma inv_convertERC20 [keeps_rules]:
  "erc20_inv E s \<Longrightarrow> keeps (erc20_inv E) (convertERC20IntoCoinsForNativeToken E s tp msg receiver sender)"
  unfolding convertERC20IntoCoinsForNativeToken_def Let_def by (intro keeps_rules)

lemma inv_convertCoin [keeps_rules]: "erc20_inv E s \<Longrightarrow> keeps (erc20_inv E) (ConvertCoinNativeERC20 E s tp n receiver sender)"
  unfolding ConvertCoinNativeERC20_def Let_def by (intro keeps_rules)

lemma MintingEnabled_pair:
  "MintingEnabled E s a tok = Ok tp \<Longrightarrow> GetTokenPair s (GetTokenPairID E s tok) = Some tp"
  by (auto simp: MintingEnabled_def Let_def split: if_splits option.splits)

lemma inv_set_account [keeps_rules]: "erc20_inv E s \<Longrightarrow> keeps (erc20_inv E) (ekSetAccount (ek E) s a acct)"
  using set_account_same same_registry_inv by (fastforce simp: keeps_def)

lemma inv_set_code: "erc20_inv E s \<Longrightarrow> erc20_inv E (ekSetCode (ek E) s h c)"
  using set_code_same same_registry_inv by blast

lemma inv_extension [keeps_rules]: "erc20_inv E s \<Longrightarrow> keeps (erc20_inv E) (RegisterERC20Extension E s d)"
proof -
  have n: "gethIsHexAddress E (Erc20Address tp)" if "NewTokenPairSTRv2 E d = Ok tp" for tp
    using that by (auto simp: NewTokenPairSTRv2_def res_bind_Ok hex_valid)
  assume i: "erc20_inv E s"
  have "keeps (erc20_inv E) (CreateNewTokenPair E s d)"
  proof (cases "NewTokenPairSTRv2 E d")
    case (Ok tp)
    then show ?thesis
      using i n [OF Ok] unfolding CreateNewTokenPair_def
      by (auto simp: eff_read_def eff_bind_def [of "Ok _"] intro!: keeps_rules inv_SetToken)
  qed (use i in \<open>auto simp: CreateNewTokenPair_def eff_read_def eff_bind_def keeps_def\<close>)
  moreover have "keeps (erc20_inv E) (EnableDynamicPrecompile E s a)" if "erc20_inv E s" for s a
  proof -
    have "keeps (erc20_inv E) (RegisterCodeHash E s a PrecompileTypeDynamic)"
      unfolding RegisterCodeHash_def RegisterERC20CodeHash_def set_code_hash_def Let_def
      using that inv_set_code by (auto intro!: keeps_rules split: prod.splits option.splits)
    moreover have "erc20_inv E (SetDynamicPrecompile E s a)" if "erc20_inv E s" for s
      using that same_registry_inv same_registry_updates(5) by blast
    ultimately show ?thesis unfolding EnableDynamicPrecompile_def by (intro keeps_rules)
  qed
  ultimately show ?thesis unfolding RegisterERC20Extension_def by (intro keeps_rules)
qed

lemma inv_received [keeps_rules]: "erc20_inv E s \<Longrightarrow> keeps (erc20_inv E) (convert_received E s tp amt a)"
  unfolding convert_received_def by (intro keeps_rules)

lemma inv_DeleteTokenPair:
  "erc20_inv E s \<Longrightarrow> MintingEnabled E s a tok = Ok tp \<Longrightarrow> erc20_inv E (DeleteTokenPair E s tp)"
  using DeleteTokenPair_inv MintingEnabled_pair by blast

lemma inv_ConvertERC20: "erc20_inv E s \<Longrightarrow> keeps (erc20_inv E) (ConvertERC20 E s msg)"
  unfolding ConvertERC20_def Let_def
  by (rule keeps_option, rule keeps_panic, rule keeps_read_bind) (auto intro!: keeps_rules intro: inv_DeleteTokenPair)

lemma inv_ConvertCoin: "erc20_inv E s \<Longrightarrow> keeps (erc20_inv E) (ConvertCoin E s msg)"
  unfolding ConvertCoin_def Let_def
  by (rule keeps_option, rule keeps_panic, rule keeps_read_bind) (auto intro!: keeps_rules intro: inv_DeleteTokenPair)

lemma inv_toggle: "erc20_inv E s \<Longrightarrow> keeps (erc20_inv E) (toggleConversion E s tok)"
  unfolding toggleConversion_def Let_def by (auto intro!: keeps_rules toggle_inv)

lemma inv_FromPacket: "erc20_inv E s \<Longrightarrow> keeps (erc20_inv E) (ConvertCoinToERC20FromPacket E s data)"
  unfolding ConvertCoinToERC20FromPacket_def by (intro keeps_rules)

lemma inv_OnRecvPacket: "erc20_inv E s \<Longrightarrow> keeps (erc20_inv E) (OnRecvPacket E s packet ack)"
  unfolding OnRecvPacket_def
  by (rule keeps_if, erule keeps_ok, rule keeps_option, erule keeps_ok, rule keeps_pure_bind) (intro keeps_rules)

lemma exec_erc20_inv: "erc20_inv E s \<Longrightarrow> keeps (erc20_inv E) (exec_erc20 E s opr)"
proof (cases opr)
  case (OpRecvPacket packet)
  then show "erc20_inv E s \<Longrightarrow> ?thesis" by (auto intro!: keeps_rules inv_OnRecvPacket)
next
  case (OpUpdateParams auth ps)
  then show "erc20_inv E s \<Longrightarrow> ?thesis"
    using same_registry_inv [OF same_registry_updates(3)] by (auto simp: Erc20_UpdateParams_def intro!: keeps_rules)
next
  case (OpSetAllowance c p q v)
  then show "erc20_inv E s \<Longrightarrow> ?thesis" using setAllowance_inv by (auto simp: SetAllowance_def keeps_def)
next
  case (OpDeleteAllowance c p q)
  then show "erc20_inv E s \<Longrightarrow> ?thesis" using setAllowance_inv by (auto simp: DeleteAllowance_def keeps_def)
next
  case (OpAcknowledgementPacket data ack)
  then show "erc20_inv E s \<Longrightarrow> ?thesis"
    by (auto simp: OnAcknowledgementPacket_def intro!: keeps_rules inv_FromPacket)
next
  case (OpToggleConversion auth tok)
  then show "erc20_inv E s \<Longrightarrow> ?thesis" by (auto simp: ToggleConversion_def intro!: keeps_rules inv_toggle)
next
  case (OpRegisterERC20 signer addrs)
  show "erc20_inv E s \<Longrightarrow> ?thesis" unfolding OpRegisterERC20 exec_erc20.simps RegisterERC20_def Let_def by (intro keeps_rules)
qed (auto simp: OnTimeoutPacket_def intro: inv_ConvertERC20 inv_ConvertCoin inv_FromPacket)

lemma reach_inv: "erc20_reach E s \<Longrightarrow> erc20_inv E s"
proof (induction rule: erc20_reach.induct)
  case (reach_start s)
  then show ?case by (simp add: erc20_inv_def pairs_ok_def allowances_ok_def)
next
  case (reach_step s opr s')
  from keepsD [OF exec_erc20_inv [OF reach_step.IH] reach_step.hyps(2)] show ?case .
next
  case (reach_other s s')
  from same_registry_inv [OF reach_other.hyps(2) reach_other.IH] show ?case .
qed

end

end
