(* ===== verification/Erc20Backing.thy ===== *)
theory Erc20Backing
  imports Erc20History
begin

text \<open>
  The coins of a registered ERC-20 contract are backed by the tokens the module account holds: for a contract that
  behaves as an ERC-20 token, no conversion changes the surplus of escrowed tokens over issued coins.
\<close>

section \<open>Coins that x/precisebank passes on\<close>

context precisebank
begin

lemma single_pass:
  assumes "cValidDenom (api K) d" "0 < n" "d \<noteq> ExtendedCoinDenom K"
  shows "cIsValid (api K) [newCoin d n]" "amt_of K [newCoin d n] (ExtendedCoinDenom K) = 0"
    "passthrough K [newCoin d n] = [newCoin d n]"
  using assms by (simp_all add: coins_single_valid coins_single passthrough_def)

lemma SendCoins_other:
  assumes "cValidDenom (api K) d" "0 < n" "d \<noteq> ExtendedCoinDenom K"
  shows "SendCoins K s f t [newCoin d n] = on_bank s (bkSendCoins (bk K) (bank s) f t [newCoin d n])"
  using single_pass [OF assms] by (simp add: SendCoins_pass on_bank_def)
    (cases "bkSendCoins (bk K) (bank s) f t [newCoin d n]"; simp)

lemma MintCoins_other:
  assumes "cValidDenom (api K) d" "0 < n" "d \<noteq> ExtendedCoinDenom K" "has_perm K m Minter" "m \<noteq> ModuleName"
  shows "MintCoins K s m [newCoin d n] = on_bank s (bkMintCoins (bk K) (bank s) m [newCoin d n])"
  using single_pass [OF assms(1-3)] by (simp add: MintCoins_pass [OF assms(4,5)] on_bank_def)
    (cases "bkMintCoins (bk K) (bank s) m [newCoin d n]"; simp)

lemma BurnCoins_other:
  assumes "cValidDenom (api K) d" "0 < n" "d \<noteq> ExtendedCoinDenom K" "has_perm K m Burner" "m \<noteq> ModuleName"
  shows "BurnCoins K s m [newCoin d n] = on_bank s (bkBurnCoins (bk K) (bank s) m [newCoin d n])"
  using single_pass [OF assms(1-3)] by (simp add: BurnCoins_pass [OF assms(4,5)] on_bank_def)
    (cases "bkBurnCoins (bk K) (bank s) m [newCoin d n]"; simp)

lemma supply_SendCoins:
  assumes "cValidDenom (api K) d" "0 < n" "d \<noteq> ExtendedCoinDenom K" "SendCoins K s f t [newCoin d n] = Ok s'"
  shows "bkGetSupply (bk K) (bank s') x = bkGetSupply (bk K) (bank s) x"
  using assms(4) send_supply [OF single_pass(1) [OF assms(1-3)]]
  by (auto simp: SendCoins_other [OF assms(1-3)] on_bank_def res_bind_Ok)

lemma escrow_other:
  assumes "cValidDenom (api K) d" "0 < n" "d \<noteq> ExtendedCoinDenom K" "has_perm K m Minter" "m \<noteq> ModuleName"
    "n \<le> bspend K (bank s) a d"
  shows "\<exists>b'. SendCoinsFromAccountToModule K s a m [newCoin d n] = Ok (s\<lparr>bank := b'\<rparr>) \<and>
    (\<forall>x. bbal K b' x d = bbal K (bank s) x d - at_addr a n x + at_addr (moduleAddress K m) n x)"
proof -
  from perm_account [OF assms(4)] obtain acc where
    acc: "akGetModuleAccount (ak K) m = Some acc" "moduleAddress K m = maAddress acc"
    by (auto simp: moduleAddress_def)
  from send1_ok_iff [OF assms(1,2), of "bank s" a "maAddress acc"] assms(6) obtain b' where
    b': "bkSendCoins (bk K) (bank s) a (maAddress acc) [newCoin d n] = Ok b'" by (metis is_ok_iff)
  with acc assms(5) have "SendCoinsFromAccountToModule K s a m [newCoin d n] = Ok (s\<lparr>bank := b'\<rparr>)"
    by (simp add: SendCoinsFromAccountToModule_def SendCoins_other [OF assms(1-3)] on_bank_def)
  with send1_bal [OF assms(1,2) b', of _ d] acc(2) show ?thesis by auto
qed

end

section \<open>Tokens that behave\<close>

text \<open>
  What is asked of the contract behind a pair: a query leaves no trace and reports the balance; a transfer whose response
  the module accepts moved exactly the amount from the caller to the recipient, and any other response moved nothing; it
  touches nothing but the EVM's own state. The module account may mint and burn, and the denomination is not the EVM's.
\<close>

text \<open>The tokens an account holds beyond the supply of a coin.\<close>

definition surplus :: "'b Keeper \<Rightarrow> denom \<Rightarrow> ('e \<Rightarrow> address \<Rightarrow> int) \<Rightarrow> address \<Rightarrow> ('b, 'e) erc20_state \<Rightarrow> int" where
  "surplus K d tokBal a s = tokBal (world s) a - bkGetSupply (bk K) (bank (pb s)) d"

locale honest_token = precisebank "pk E" for E :: "('b, 'e) erc20_env" +
  fixes contract :: address and d :: denom and tokBal :: "'e \<Rightarrow> address \<Rightarrow> int"
  assumes denom_ok: "cValidDenom (api (pk E)) d" "d \<noteq> ExtendedCoinDenom (pk E)"
    and module_perm: "has_perm (pk E) erc20ModuleName Minter" "has_perm (pk E) erc20ModuleName Burner"
    and query: "\<exists>data resp. abiPack E (CallBalanceOf a) = Ok data \<and>
      ekCallEVMWithData (ek E) s from (Some contract) data False = Ok (Inl resp, s) \<and>
      unpackBigInt E (Ret resp) = Some (tokBal (world s) a)"
    and transfer: "abiPack E (CallTransfer to n) = Ok data \<Longrightarrow> 0 < n \<Longrightarrow>
      ekCallEVMWithData (ek E) s from (Some contract) data True = Ok (r, s') \<Longrightarrow>
      \<exists>w. s' = s\<lparr>world := w\<rparr> \<and>
        (if \<exists>resp. r = Inl resp \<and> check_transfer E contract resp = Ok ()
         then \<forall>a. tokBal w a = tokBal (world s) a - (if a = from then n else 0) + (if a = to then n else 0)
         else tokBal w = tokBal (world s))"
begin

lemma balance_known: "balance_or_fail E s contract a = Ok (Inl (tokBal (world s) a), s)"
proof -
  from query [of a s "ModuleAddress E"] obtain data resp where
    "abiPack E (CallBalanceOf a) = Ok data"
    "ekCallEVMWithData (ek E) s (ModuleAddress E) (Some contract) data False = Ok (Inl resp, s)"
    "unpackBigInt E (Ret resp) = Some (tokBal (world s) a)" by blast
  then show ?thesis
    by (simp add: balance_or_fail_def BalanceOf_def CallEVM_def eff_bind_def eff_wrap_def eff_read_def eff_ret_def)
qed

lemma transfer_by_CallEVM:
  assumes "CallEVM E s from contract True (CallTransfer to n) = Ok (r, s')" "0 < n"
  shows "\<exists>w. s' = s\<lparr>world := w\<rparr> \<and>
    (if \<exists>resp. r = Inl resp \<and> check_transfer E contract resp = Ok ()
     then \<forall>a. tokBal w a = tokBal (world s) a - (if a = from then n else 0) + (if a = to then n else 0)
     else tokBal w = tokBal (world s))"
proof -
  have same: "\<exists>w. s = s\<lparr>world := w\<rparr> \<and> tokBal w = tokBal (world s)" by (intro exI [of _ "world s"]) simp
  from assms(1) consider
      (pack) e where "abiPack E (CallTransfer to n) = Err e" "r = Inr (ErrWrapped ''failed to create transaction data'' e)" "s' = s"
    | (ok) data resp where "abiPack E (CallTransfer to n) = Ok data" "r = Inl resp"
        "ekCallEVMWithData (ek E) s from (Some contract) data True = Ok (Inl resp, s')"
    | (err) data e where "abiPack E (CallTransfer to n) = Ok data" "r = Inr (ErrWrapped ''contract call failed'' e)"
        "ekCallEVMWithData (ek E) s from (Some contract) data True = Ok (Inr e, s')"
    by (auto simp: CallEVM_def eff_eqs)
  then show ?thesis
  proof cases
    case pack
    then show ?thesis using same by simp
  next
    case ok
    from transfer [OF ok(1) assms(2) ok(3)] show ?thesis using ok(2) by simp
  next
    case err
    from transfer [OF err(1) assms(2) err(3)] show ?thesis using err(2) by simp
  qed
qed

abbreviation "escrowed \<equiv> surplus (pk E) d tokBal (ModuleAddress E)"

lemma module_names: "erc20ModuleName \<noteq> ModuleName"
  by (simp add: erc20ModuleName_def ModuleName_def)

lemma escrow_coins:
  assumes "SendCoinsFromAccountToModule (pk E) p sender erc20ModuleName [newCoin d n] = Ok p'" "0 < n"
  shows "bkGetSupply (bk (pk E)) (bank p') x = bkGetSupply (bk (pk E)) (bank p) x"
    "n \<le> bbal (pk E) (bank p') (moduleAddress (pk E) erc20ModuleName) d"
proof -
  note one = denom_ok(1) assms(2) denom_ok(2)
  from perm_account [OF module_perm(1)] obtain acc where
    acc: "akGetModuleAccount (ak (pk E)) erc20ModuleName = Some acc"
      "moduleAddress (pk E) erc20ModuleName = maAddress acc" by (auto simp: moduleAddress_def)
  with assms(1) module_names have "SendCoins (pk E) p sender (maAddress acc) [newCoin d n] = Ok p'"
    by (simp add: SendCoinsFromAccountToModule_def)
  then show "bkGetSupply (bk (pk E)) (bank p') x = bkGetSupply (bk (pk E)) (bank p) x"
    by (rule supply_SendCoins [OF one])
  from \<open>SendCoins _ p sender _ _ = Ok p'\<close> have
    s: "bkSendCoins (bk (pk E)) (bank p) sender (maAddress acc) [newCoin d n] = Ok (bank p')"
    by (auto simp: SendCoins_other [OF one] on_bank_def res_bind_Ok)
  have "n \<le> bspend (pk E) (bank p) sender d"
    using send1_ok_iff [OF one(1,2), of "bank p" sender "maAddress acc"] s by auto
  then have "n \<le> bbal (pk E) (bank p) sender d"
    using spend_le_bal [of "bank p" sender d] by linarith
  then show "n \<le> bbal (pk E) (bank p') (moduleAddress (pk E) erc20ModuleName) d"
    using send1_bal [OF one(1,2) s, of "maAddress acc" d] bal_nonneg [of "bank p" "maAddress acc" d]
    by (auto simp: acc(2) at_addr_def)
qed

lemma burn_escrowed:
  assumes "n \<le> bbal (pk E) (bank p) (moduleAddress (pk E) erc20ModuleName) d" "0 < n"
  shows "\<exists>p'. BurnCoins (pk E) p erc20ModuleName [newCoin d n] = Ok p' \<and>
    bkGetSupply (bk (pk E)) (bank p') d = bkGetSupply (bk (pk E)) (bank p) d - n"
proof -
  note one = denom_ok(1) assms(2) denom_ok(2)
  from perm_account [OF module_perm(2)] obtain a where a: "akGetModuleAddress (ak (pk E)) erc20ModuleName = Some a"
    "moduleAddress (pk E) erc20ModuleName = a" by (auto simp: moduleAddress_def)
  from burn1_ok_iff [OF module_perm(2) one(1,2) a(1), of "bank p"] assms(1) a(2) obtain b where
    b: "bkBurnCoins (bk (pk E)) (bank p) erc20ModuleName [newCoin d n] = Ok b" by auto
  with burn_supply [OF b single_pass(1) [OF one], of d] show ?thesis
    by (simp add: BurnCoins_other [OF one module_perm(2) module_names] on_bank_def coins_single)
qed

lemma convert_coin_surplus:
  assumes "GetERC20Contract E tp = contract" "tpDenom tp = d"
    "ConvertCoinNativeERC20 E s tp n receiver sender = Ok (r, s')"
  shows "escrowed s' = escrowed s"
proof (cases "0 < n")
  case False
  with assms(3) show ?thesis by (simp add: ConvertCoinNativeERC20_def)
next
  case n: True
  let ?send = "SendCoinsFromAccountToModule (pk E) (pb s) sender erc20ModuleName [newCoin d n]"
  let ?call = "\<lambda>s. CallEVM E s (ModuleAddress E) contract True (CallTransfer receiver n)"
  note run = assms(3) [unfolded ConvertCoinNativeERC20_def Let_def assms(1,2)]
  consider (start) "s' = s"
    | (called) p r2 s2 where "?send = Ok p" "?call (s\<lparr>pb := p\<rparr>) = Ok (r2, s2)"
        "\<not> (\<exists>resp. r2 = Inl resp \<and> check_transfer E contract resp = Ok ())" "s' = s2"
    | (self) p resp s2 where "?send = Ok p" "?call (s\<lparr>pb := p\<rparr>) = Ok (Inl resp, s2)"
        "check_transfer E contract resp = Ok ()" "s' = s2"
        "tokBal (world s2) receiver \<noteq> tokBal (world s) receiver + n"
    | (moved) p resp s2 r3 where "?send = Ok p" "?call (s\<lparr>pb := p\<rparr>) = Ok (Inl resp, s2)"
        "check_transfer E contract resp = Ok ()" "tokBal (world s2) receiver = tokBal (world s) receiver + n"
        "on_pb s2 (BurnCoins (pk E) (pb s2) erc20ModuleName [newCoin d n]) = Ok (r3, s')"
    using run n by (auto simp: balance_known eff_bind_Ok eff_wrap_Ok eff_read_Ok on_pb_Ok [of s] split: if_splits)
  then show ?thesis
  proof cases
    case called
    from transfer_by_CallEVM [OF called(2) n] called(3,4) escrow_coins(1) [OF called(1) n]
    show ?thesis by (auto simp: surplus_def)
  next
    case self
    from transfer_by_CallEVM [OF self(2) n] self(3) obtain w where w: "s2 = s\<lparr>pb := p, world := w\<rparr>"
      "\<forall>a. tokBal w a = tokBal (world s) a - (if a = ModuleAddress E then n else 0) + (if a = receiver then n else 0)"
      by auto
    with self(5) have "receiver = ModuleAddress E" by (auto split: if_splits)
    with w self(4) escrow_coins(1) [OF self(1) n] show ?thesis by (simp add: surplus_def)
  next
    case moved
    from transfer_by_CallEVM [OF moved(2) n] moved(3) obtain w where w: "s2 = s\<lparr>pb := p, world := w\<rparr>"
      "\<forall>a. tokBal w a = tokBal (world s) a - (if a = ModuleAddress E then n else 0) + (if a = receiver then n else 0)"
      by auto
    with moved(4) n have "receiver \<noteq> ModuleAddress E" by auto
    moreover from burn_escrowed [OF escrow_coins(2) [OF moved(1) n] n] obtain p' where
      "BurnCoins (pk E) p erc20ModuleName [newCoin d n] = Ok p'"
      "bkGetSupply (bk (pk E)) (bank p') d = bkGetSupply (bk (pk E)) (bank p) d - n" by blast
    ultimately show ?thesis
      using w moved(5) escrow_coins(1) [OF moved(1) n] by (auto simp: on_pb_def surplus_def)
  qed simp
qed

lemma mint_coins:
  assumes "MintCoins (pk E) p erc20ModuleName [newCoin d n] = Ok p'"
  shows "0 < n" "bkGetSupply (bk (pk E)) (bank p') d = bkGetSupply (bk (pk E)) (bank p) d + n"
proof -
  from assms have "cIsValid (api (pk E)) [newCoin d n]"
    by (auto simp: MintCoins_def split: if_splits option.splits)
  then show n: "0 < n" by (simp add: coins_single_valid)
  note one = denom_ok(1) n denom_ok(2)
  from assms obtain b where b: "bkMintCoins (bk (pk E)) (bank p) erc20ModuleName [newCoin d n] = Ok b" "p' = p\<lparr>bank := b\<rparr>"
    by (auto simp: MintCoins_other [OF one module_perm(1) module_names] on_bank_def res_bind_Ok)
  from mint_supply [OF b(1) single_pass(1) [OF one], of d] b(2)
  show "bkGetSupply (bk (pk E)) (bank p') d = bkGetSupply (bk (pk E)) (bank p) d + n"
    by (simp add: coins_single)
qed

lemma pay_out:
  assumes "SendCoinsFromModuleToAccount (pk E) p erc20ModuleName receiver [newCoin d n] = Ok p'" "0 < n"
  shows "bkGetSupply (bk (pk E)) (bank p') d = bkGetSupply (bk (pk E)) (bank p) d"
  using assms supply_SendCoins [OF denom_ok(1) assms(2) denom_ok(2)]
  by (auto simp: SendCoinsFromModuleToAccount_def split: option.splits if_splits)

lemma convert_erc20_surplus:
  assumes "GetERC20Contract E tp = contract" "tpDenom tp = d"
    "convertERC20IntoCoinsForNativeToken E s tp msg receiver sender = Ok (Inl u, s')"
  shows "escrowed s' = escrowed s"
proof -
  let ?n = "ceAmount msg" and ?M = "ModuleAddress E"
  from assms(3) [unfolded convertERC20IntoCoinsForNativeToken_def Let_def assms(1,2)]
  obtain data resp s2 p p' where t:
    "abiPack E (CallTransfer ?M ?n) = Ok data" "ekCallEVMWithData (ek E) s sender (Some contract) data True = Ok (Inl resp, s2)"
    "check_transfer E contract resp = Ok ()" "tokBal (world s2) ?M = tokBal (world s) ?M + ?n"
    "MintCoins (pk E) (pb s2) erc20ModuleName [newCoin d ?n] = Ok p"
    "SendCoinsFromModuleToAccount (pk E) p erc20ModuleName receiver [newCoin d ?n] = Ok p'" "s' = s2\<lparr>pb := p'\<rparr>"
    by (auto simp: balance_known eff_bind_Ok eff_wrap_Ok eff_read_Ok on_pb_Ok split: if_splits)
  note n = mint_coins(1) [OF t(5)]
  from transfer [OF t(1) n t(2)] t(3) obtain w where "s2 = s\<lparr>world := w\<rparr>" by auto
  then show ?thesis
    using t(4,7) mint_coins(2) [OF t(5)] pay_out [OF t(6) n] by (simp add: surplus_def)
qed

lemma ConvertERC20_surplus:
  assumes "GetTokenPair s (GetTokenPairID E s (ceContractAddress msg)) = Some tp"
    "GetERC20Contract E tp = contract" "tpDenom tp = d" "ConvertERC20 E s msg = Ok (Inl u, s')"
  shows "escrowed s' = escrowed s"
  using assms(4) convert_erc20_surplus [OF assms(2,3)]
  by (auto simp: ConvertERC20_def MintingEnabled_def Let_def assms(1) eff_bind_Ok eff_read_Ok surplus_def DeleteTokenPair_stores
      split: option.splits if_splits)

lemma ConvertCoin_surplus:
  assumes "GetTokenPair s (GetTokenPairID E s (Denom (ccCoin msg))) = Some tp"
    "GetERC20Contract E tp = contract" "tpDenom tp = d" "ConvertCoin E s msg = Ok (r, s')"
  shows "escrowed s' = escrowed s"
  using assms(4) convert_coin_surplus [OF assms(2,3)]
  by (auto simp: ConvertCoin_def MintingEnabled_def Let_def assms(1) eff_bind_Ok eff_read_Ok surplus_def DeleteTokenPair_stores
      split: option.splits if_splits)

lemma FromPacket_surplus:
  assumes "GetTokenPair s (GetTokenPairID E s (ftDenom data)) = Some tp"
    "GetERC20Contract E tp = contract" "tpDenom tp = d" "ConvertCoinToERC20FromPacket E s data = Ok (r, s')"
  shows "escrowed s' = escrowed s"
  using assms(4) convert_coin_surplus [OF assms(2,3)]
  by (auto simp: ConvertCoinToERC20FromPacket_def GetSentCoin_def convert_received_def assms(1) res_bind_Ok
      split: option.splits if_splits)

end

end
