(* ===== verification/Erc20Reference.thy ===== *)
theory Erc20Reference
  imports Erc20Backing PreciseBankTheorems
begin

text \<open>
  A reference chain for x/erc20, on which its interfaces hold: the bank of x/precisebank's reference ledger and
  one token contract, at address 7, with the transfer of ERC-20.
\<close>

section \<open>A reference chain\<close>

record refToken =
  rtBalances :: "(address, 256 word) kv"
  rtBroken :: bool

definition tokenAt :: address where "tokenAt = 7"

definition refBalance :: "refToken \<Rightarrow> address \<Rightarrow> 256 word" where
  "refBalance w a = (case kv_get (rtBalances w) a of None \<Rightarrow> 0 | Some n \<Rightarrow> n)"

definition refTokBal :: "refToken \<Rightarrow> address \<Rightarrow> int" where
  "refTokBal w a = uint (refBalance w a)"

fun refPack :: "erc20Call \<Rightarrow> bytes res" where
  "refPack (CallTransfer a n) =
     (if 0 \<le> n \<and> n < 2 ^ 256 then Ok (1 # be_bytes 20 (unat a) @ be_bytes 32 (nat n)) else Err (ErrMsg ''abi''))"
| "refPack (CallBalanceOf a) = Ok (2 # be_bytes 20 (unat a))"
| "refPack CallName = Ok [3]"
| "refPack CallSymbol = Ok [4]"
| "refPack CallDecimals = Ok [5]"

definition wordOf :: "bytes \<Rightarrow> 'a::len word" where
  "wordOf bs = foldl (\<lambda>acc b. acc * 256 + ucast b) 0 bs"

definition refTransfer :: "refToken \<Rightarrow> address \<Rightarrow> address \<Rightarrow> 256 word \<Rightarrow> refToken option" where
  "refTransfer w from to n =
     (if refTokBal w from < uint n \<or> (from \<noteq> to \<and> 2 ^ 256 \<le> refTokBal w to + uint n) then None
      else let w1 = w\<lparr>rtBalances := kv_set from (refBalance w from - n) (rtBalances w)\<rparr>
           in Some (w1\<lparr>rtBalances := kv_set to (refBalance w1 to + n) (rtBalances w1)\<rparr>))"

definition refResponse :: "bytes \<Rightarrow> evmResponse" where
  "refResponse bs = \<lparr>Ret = bs, respLogs = []\<rparr>"

definition refCall ::
    "('b, refToken) erc20_state \<Rightarrow> address \<Rightarrow> address option \<Rightarrow> bytes \<Rightarrow> bool \<Rightarrow> (evmResponse, ('b, refToken) erc20_state) eff" where
  "refCall s from to data commit =
     (case data of
        [] \<Rightarrow> eff_fail s (ErrMsg ''execution reverted'')
      | tag # args \<Rightarrow>
          if tag = 1 then
            (if rtBroken (world s) then eff_fail s (ErrMsg ''execution reverted'')
             else (case refTransfer (world s) from (wordOf (take 20 args)) (wordOf (drop 20 args)) of
                     None \<Rightarrow> eff_fail s (ErrMsg ''execution reverted'')
                   | Some w \<Rightarrow> eff_ret (s\<lparr>world := w\<rparr>) (refResponse [1])))
          else if tag = 2 then
            eff_ret s (refResponse (be_bytes 32 (nat (refTokBal (world s) (wordOf (take 20 args))))))
          else if tag = 5 then eff_ret s (refResponse [6])
          else eff_ret s (refResponse [84, 79, 75]))"

definition refEvm :: "(ref_bank, refToken) evm_keeper" where
  "refEvm = \<lparr>ekGetAccount = (\<lambda>s a. None),
     ekGetAccountWithoutBalance = (\<lambda>s a. if a = tokenAt then Some \<lparr>Nonce = 1, Balance = None, CodeHash = Some 1\<rparr> else None),
     ekGetCode = (\<lambda>s h. None), ekSetCode = (\<lambda>s h c. s), ekSetAccount = (\<lambda>s a acct. eff_ret s ()),
     ekCallEVMWithData = refCall\<rparr>"

definition refIsHex :: "string \<Rightarrow> bool" where
  "refIsHex x = (case refDecode x of None \<Rightarrow> False | Some a \<Rightarrow> length a = 20)"

definition refHexTo :: "string \<Rightarrow> address" where
  "refHexTo x = (case refDecode x of None \<Rightarrow> 0 | Some a \<Rightarrow> BytesToAddress a)"

definition refHex :: "address \<Rightarrow> string" where
  "refHex a = refString (AddrBytes a)"

definition refErc20 :: "(ref_bank, refToken) erc20_env" where
  "refErc20 = \<lparr>pk = K6, ek = refEvm, emptyCodeHash = 0, erc20CodeHash = 2, erc20Bytecode = [1], erc20Authority = ''gov'',
     addrCodec = refFromBech32, gethIsHexAddress = refIsHex, gethHexToAddress = refHexTo, gethHex = refHex,
     keccakHex = (\<lambda>x. x), tmhashSum = (\<lambda>x. CHR ''h'' # x), abiPack = refPack, abiPackCtor = (\<lambda>_ _ _. Ok []),
     contractBin = [], createAddress = (\<lambda>a n. a + ucast n), unpackBool = (\<lambda>bs. Some (bs = [1])),
     unpackBigInt = (\<lambda>bs. Some (uint (wordOf bs :: 256 word))), unpackString = (\<lambda>bs. Some (map (\<lambda>b. char_of (unat b)) bs)),
     unpackUint8 = (\<lambda>bs. case bs of [b] \<Rightarrow> Some b | _ \<Rightarrow> None), akGetSequence = (\<lambda>s a. Ok 0),
     akIsModuleAccount = (\<lambda>s a. a \<in> set (map fst refModules)), skBondDenom = (\<lambda>s. Ok ''stake''),
     bkGetDenomMetaData = (\<lambda>_ _. None), bkSetDenomMetaData = (\<lambda>b _. b), mdValidate = (\<lambda>_. None),
     ParseHexHash = refDecode, ExtractDenomFromPath = (\<lambda>x. \<lparr>ibcBase = x, ibcTrace = []\<rparr>), IBCDenom = ibcBase,
     denomHasPrefix = (\<lambda>_ _ _. False), NewIntFromString = (\<lambda>x. Some (int (length x))), UnmarshalPacket = (\<lambda>_. None),
     UnmarshalAck = (\<lambda>_. None)\<rparr>"

lemma refErc20_sel [simp]:
  "pk refErc20 = K6" "ek refErc20 = refEvm" "gethIsHexAddress refErc20 = refIsHex" "gethHexToAddress refErc20 = refHexTo"
  "gethHex refErc20 = refHex" "tmhashSum refErc20 = (\<lambda>x. CHR ''h'' # x)" "abiPack refErc20 = refPack"
  "unpackBool refErc20 = (\<lambda>bs. Some (bs = [1]))" "unpackBigInt refErc20 = (\<lambda>bs. Some (uint (wordOf bs :: 256 word)))"
  "ekCallEVMWithData refEvm = refCall" "ekSetAccount refEvm = (\<lambda>s a acct. eff_ret s ())" "ekSetCode refEvm = (\<lambda>s h c. s)"
  by (simp_all add: refErc20_def refEvm_def)

lemma encNib_no_bar: "n < 16 \<Longrightarrow> encNib n \<noteq> CHR ''|''"
proof
  assume "n < 16" "encNib n = CHR ''|''"
  then have "(of_char (encNib n) :: nat) = 124" by simp
  with \<open>n < 16\<close> show False by (simp add: encNib_def)
qed

lemma refString_no_bar: "CHR ''|'' \<notin> set (refString a)"
proof (induction a)
  case (Cons c cs)
  have "of_char c div 16 < (16 :: nat)" using byte_lt [of c] by (simp add: less_mult_imp_div_less)
  with Cons encNib_no_bar show ?case by (metis list.set_intros mod_less_divisor refString.simps(2) set_ConsD zero_less_numeral)
qed simp

lemma refCall_same: "refCall s from to data commit = Ok (r, s') \<Longrightarrow> same_registry s s'"
  by (auto simp: refCall_def eff_fail_def eff_ret_def same_registry_def split: list.splits if_splits option.splits)

interpretation refChain: erc20_evm refErc20
proof (unfold_locales, goal_cases)
  case (6 s "from" contract data commit r s')
  then show ?case using refCall_same same_registry_inv by (metis refErc20_sel(2,10))
next
  case 3
  then show ?case using refString_refDecode refString_no_bar
    by (auto simp: refIsHex_def split: option.splits)
qed (auto simp: refHexTo_def refIsHex_def refHex_def refDecode_refString)

lemma refString_length: "length (refString a) = 2 * length a"
  by (induction a) simp_all

definition refDenom :: denom where "refDenom = CreateDenom (refHex tokenAt)"

lemma wordOf_addr [simp]: "wordOf (be_bytes 20 (unat a)) = a" for a :: address
proof -
  have "unat a mod 256 ^ 20 = unat a" using unsigned_less [of a, where ?'a = nat] by simp
  then show ?thesis by (simp add: wordOf_def be_bytes_decode del: power_numeral)
qed

lemma wordOf_amount: "0 \<le> n \<Longrightarrow> n < 2 ^ 256 \<Longrightarrow> uint (wordOf (be_bytes 32 (nat n)) :: 256 word) = n"
proof -
  assume n: "0 \<le> n" "n < 2 ^ 256"
  then have "nat n < 256 ^ 32" by (simp add: nat_less_iff)
  then have "nat n mod 256 ^ 32 = nat n" by simp
  then have "wordOf (be_bytes 32 (nat n)) = (word_of_nat (nat n) :: 256 word)"
    by (simp only: wordOf_def be_bytes_decode)
  with n show ?thesis by (simp add: uint_word_of_int_eq take_bit_int_eq_self)
qed

lemma refTokBal_range: "0 \<le> refTokBal w a" "refTokBal w a < 2 ^ 256"
  using uint_lt2p [of "refBalance w a"] by (simp_all add: refTokBal_def)

lemma refTransfer_moves:
  assumes "refTransfer w from to n = Some w'"
  shows "refTokBal w' a = refTokBal w a - (if a = from then uint n else 0) + (if a = to then uint n else 0)"
proof -
  define w1 where "w1 = w\<lparr>rtBalances := kv_set from (refBalance w from - n) (rtBalances w)\<rparr>"
  from assms have g: "uint n \<le> uint (refBalance w from)" "from = to \<or> uint (refBalance w to) + uint n < 2 ^ 256"
    "w' = w1\<lparr>rtBalances := kv_set to (refBalance w1 to + n) (rtBalances w1)\<rparr>"
    by (auto simp: refTransfer_def w1_def Let_def refTokBal_def split: if_splits)
  have b: "refBalance w1 x = (if x = from then refBalance w from - n else refBalance w x)"
    "refBalance w' x = (if x = to then refBalance w1 to + n else refBalance w1 x)" for x
    by (simp_all add: refBalance_def w1_def g(3))
  have "uint (refBalance w from - n) = uint (refBalance w from) - uint n"
    using g(1) by (simp add: uint_sub_lem [symmetric])
  moreover from this have "uint (refBalance w1 to + n) = uint (refBalance w1 to) + uint n"
    using g(2) b(1) [of to] uint_lt2p [of "refBalance w from"] by (auto simp: uint_add_lem [symmetric])
  ultimately show ?thesis using b by (auto simp: refTokBal_def)
qed

lemma refDenom_valid: "cValidDenom (api K6) refDenom" "refDenom \<noteq> ''atoken''"
proof -
  have "length refDenom = 46" by (simp add: refDenom_def CreateDenom_def Erc20NativeCoinDenomPrefix_def refHex_def refString_length)
  then show "cValidDenom (api K6) refDenom" by (simp add: refValidDenom_def)
  show "refDenom \<noteq> ''atoken''" by (simp add: refDenom_def CreateDenom_def Erc20NativeCoinDenomPrefix_def)
qed

lemma refPerm: "has_perm K6 erc20ModuleName Minter" "has_perm K6 erc20ModuleName Burner"
  by (simp_all add: ref_perm refModuleAccount_def refModules_def erc20ModuleName_def)

lemma refCall_query:
  "refCall s from to (2 # be_bytes 20 (unat a)) commit =
     Ok (Inl (refResponse (be_bytes 32 (nat (refTokBal (world s) a)))), s)" for a :: address
  unfolding refCall_def by (simp add: eff_ret_def del: be_bytes.simps)

lemma refCall_transfer:
  "refCall s from to (1 # be_bytes 20 (unat a) @ be_bytes 32 n) commit =
     (if rtBroken (world s) then eff_fail s (ErrMsg ''execution reverted'')
      else (case refTransfer (world s) from a (wordOf (be_bytes 32 n)) of
              None \<Rightarrow> eff_fail s (ErrMsg ''execution reverted'')
            | Some w \<Rightarrow> eff_ret (s\<lparr>world := w\<rparr>) (refResponse [1])))" for a :: address
  unfolding refCall_def by (simp del: be_bytes.simps)

interpretation refTok: honest_token refErc20 tokenAt refDenom refTokBal
proof (intro honest_token.intro honest_token_axioms.intro, goal_cases)
  case 1
  show ?case using K6_precisebank by simp
next
  case (6 a s "from")
  have "refPack (CallBalanceOf a) = Ok (2 # be_bytes 20 (unat a))" by simp
  moreover have "uint (wordOf (Ret (refResponse (be_bytes 32 (nat (refTokBal (world s) a))))) :: 256 word) = refTokBal (world s) a"
    using wordOf_amount [OF refTokBal_range] by (simp add: refResponse_def)
  ultimately show ?case unfolding refErc20_sel using refCall_query by blast
next
  case (7 to n data s "from" r s')
  from 7(1) have d: "data = 1 # be_bytes 20 (unat to) @ be_bytes 32 (nat n)" "n < 2 ^ 256" by (auto split: if_splits)
  define n' where "n' = (wordOf (be_bytes 32 (nat n)) :: 256 word)"
  have u: "uint n' = n" unfolding n'_def using 7(2) d(2) by (intro wordOf_amount) simp_all
  have call: "(if rtBroken (world s) then eff_fail s (ErrMsg ''execution reverted'')
      else (case refTransfer (world s) from to n' of
              None \<Rightarrow> eff_fail s (ErrMsg ''execution reverted'')
            | Some w \<Rightarrow> eff_ret (s\<lparr>world := w\<rparr>) (refResponse [1]))) = Ok (r, s')"
    using 7(3) unfolding refErc20_sel d(1) refCall_transfer n'_def .
  have c: "check_transfer refErc20 tokenAt (refResponse [1]) = Ok ()" by (simp add: check_transfer_def refResponse_def)
  show ?case
  proof (cases "rtBroken (world s) \<or> refTransfer (world s) from to n' = None")
    case True
    with call have s: "s' = s" "\<exists>e. r = Inr e" by (auto split: if_splits)
    then have "\<not> (\<exists>resp. r = Inl resp \<and> check_transfer refErc20 tokenAt resp = Ok ())" by auto
    with s(1) show ?thesis by (intro exI [of _ "world s"]) (simp only: if_False, simp)
  next
    case False
    then obtain w where w: "refTransfer (world s) from to n' = Some w" by blast
    with False call have "s' = s\<lparr>world := w\<rparr>" "r = Inl (refResponse [1])" by simp_all
    with refTransfer_moves [OF w] c show ?thesis by (intro exI [of _ w]) (simp add: u)
  qed
qed (use refDenom_valid refPerm in simp_all)

end
