(* ===== verification/Erc20Examples.thy ===== *)
theory Erc20Examples
  imports Erc20Reference
begin

text \<open>States of the reference chain, on which the properties of x/erc20 are instantiated.\<close>

section \<open>States of the reference chain\<close>

definition refPair :: TokenPair where
  "refPair = NewTokenPair refErc20 tokenAt refDenom OWNER_EXTERNAL"

definition refID :: string where
  "refID = GetID refErc20 refPair"

text \<open>Their values, so that they are computed once.\<close>

lemma refDenom_code [code]: "refDenom = ''erc20:aaaaaaaaaaaaaaaaaaaaaaaaaaaaaaaaaaaaaaah''"
  by code_simp

lemma refPair_code [code]: "refPair = \<lparr>Erc20Address = ''aaaaaaaaaaaaaaaaaaaaaaaaaaaaaaaaaaaaaaah'', tpDenom = refDenom, Enabled = True, ContractOwner = OWNER_EXTERNAL\<rparr>"
  by code_simp

lemma refID_code [code]: "refID = ''haaaaaaaaaaaaaaaaaaaaaaaaaaaaaaaaaaaaaaah|erc20:aaaaaaaaaaaaaaaaaaaaaaaaaaaaaaaaaaaaaaah''"
  by code_simp

text \<open>An account holds five coins, backed by five tokens of the module account.\<close>

definition holder :: AccAddress where "holder = replicate 19 (CHR 0x00) @ [CHR 0x09]"

definition emptyErc20 :: "(ref_bank, refToken) erc20_state" where
  "emptyErc20 = \<lparr>keyEnableErc20 = True, keyPermissionlessRegistration = True, storeTokenPair = [], storeByERC20 = [],
     storeByDenom = [], storeAllowance = [], storeNativePrecompiles = [], storeDynamicPrecompiles = [],
     pb = exState, world = \<lparr>rtBalances = [(9, 100)], rtBroken = False\<rparr>\<rparr>"

definition heldBalance :: "AccAddress \<Rightarrow> denom \<Rightarrow> nat" where
  "heldBalance a d = (if a = holder \<and> d = refDenom then 5 else 0)"

definition heldLocked :: "AccAddress \<Rightarrow> denom \<Rightarrow> nat" where
  "heldLocked a d = 0"

definition heldSupply :: "denom \<Rightarrow> int" where
  "heldSupply d = (if d = refDenom then 5 else 0)"

definition heldBank :: ref_bank where
  "heldBank = \<lparr>rbBal = heldBalance, rbLocked = heldLocked, rbSupply = heldSupply\<rparr>"

definition heldErc20 :: "bool \<Rightarrow> (ref_bank, refToken) erc20_state" where
  "heldErc20 broken = \<lparr>keyEnableErc20 = True, keyPermissionlessRegistration = True,
     storeTokenPair = [(refID, refPair)], storeByERC20 = [(tokenAt, refID)],
     storeByDenom = [(refDenom, refID)], storeAllowance = [], storeNativePrecompiles = [],
     storeDynamicPrecompiles = [], pb = \<lparr>bank = heldBank, fractional = [], remainderKey = None\<rparr>,
     world = \<lparr>rtBalances = [(ModuleAddress refErc20, 5)], rtBroken = broken\<rparr>\<rparr>"

lemma refCallEVM:
  assumes "0 \<le> n" "n < 2 ^ 256"
  shows "CallEVM refErc20 s from tokenAt commit (CallTransfer to n) =
    (if rtBroken (world s) then Ok (Inr (ErrWrapped ''contract call failed'' (ErrMsg ''execution reverted'')), s)
     else (case refTransfer (world s) from to (word_of_int n) of
             None \<Rightarrow> Ok (Inr (ErrWrapped ''contract call failed'' (ErrMsg ''execution reverted'')), s)
           | Some w \<Rightarrow> Ok (Inl (refResponse [1]), s\<lparr>world := w\<rparr>)))"
proof -
  have "wordOf (be_bytes 32 (nat n)) = (word_of_int n :: 256 word)"
    using wordOf_amount [OF assms] by (metis word_of_int_uint)
  with assms show ?thesis
    by (simp add: CallEVM_def refCall_transfer eff_bind_def eff_wrap_def eff_read_def eff_ret_def eff_fail_def
        del: be_bytes.simps split: option.splits)
qed

lemma refPair_simps:
  "GetERC20Contract refErc20 refPair = tokenAt" "tpDenom refPair = refDenom" "IsNativeERC20 refPair"
  by code_simp+

lemma heldErc20_pair:
  "GetTokenPair (heldErc20 b) (GetTokenPairID refErc20 (heldErc20 b) refDenom) = Some refPair"
  by (cases b; simp; code_simp)

lemma isl_unit: "isl r \<longleftrightarrow> r = Inl ()" for r :: "unit + error"
  by (cases r) auto

lemma held_convert:
  "\<exists>s'. ConvertCoin refErc20 (heldErc20 False)
      \<lparr>ccCoin = newCoin refDenom 3, ccReceiver = refHex 9, ccSender = refString holder\<rparr> = Ok (Inl (), s')"
proof -
  let ?s = "heldErc20 False"
  have "case SendCoinsFromAccountToModule K6 (pb ?s) holder erc20ModuleName [newCoin refDenom 3] of
      Ok p \<Rightarrow> is_ok (BurnCoins K6 p erc20ModuleName [newCoin refDenom 3]) | _ \<Rightarrow> False"
    by code_simp
  then obtain p p' where p: "SendCoinsFromAccountToModule K6 (pb ?s) holder erc20ModuleName [newCoin refDenom 3] = Ok p"
    "BurnCoins K6 p erc20ModuleName [newCoin refDenom 3] = Ok p'"
    by (auto split: res.splits)
  have "case refTransfer (world ?s) (ModuleAddress refErc20) 9 3 of
      None \<Rightarrow> False | Some w \<Rightarrow> refTokBal w 9 = refTokBal (world ?s) 9 + 3"
    by code_simp
  then obtain w where w: "refTransfer (world ?s) (ModuleAddress refErc20) 9 3 = Some w"
    "refTokBal w 9 = refTokBal (world ?s) 9 + 3" by (auto split: option.splits)
  have c: "check_transfer refErc20 tokenAt (refResponse [1]) = Ok ()" "\<not> rtBroken (world ?s)" by code_simp+
  have "ConvertCoinNativeERC20 refErc20 ?s refPair 3 9 holder = Ok (Inl (), ?s\<lparr>pb := p', world := w\<rparr>)"
    by (simp add: ConvertCoinNativeERC20_def Let_def refPair_simps refTok.balance_known p w c refCallEVM
      eff_bind_def eff_wrap_def eff_read_def eff_ret_def on_pb_def)
  moreover have "MintingEnabled refErc20 ?s (AddrBytes 9) refDenom = Ok refPair" 
    "accFromBech32 K6 (refString holder) = Some holder" "refHexTo (refHex 9) = 9" "\<not> contract_gone refErc20 ?s refPair"
    by code_simp+
  ultimately show ?thesis by (simp add: ConvertCoin_def refPair_simps eff_bind_def eff_read_def)
qed

end
