(* ===== verification/Erc20Theorems.thy ===== *)
theory Erc20Theorems
  imports Erc20Examples
begin

text \<open>The properties of x/erc20, each with an instance on the reference chain.\<close>

section \<open>The registry\<close>

text \<open>C15: In every state the module reaches by its messages, callbacks and precompile writes, denominations and contracts
  are registered one to one: a contract has the denomination whose contract it is. Every allowance other than zero is a
  positive amount of at most 256 bits on a registered contract.\<close>

theorem registry_one_to_one:
  assumes "erc20_evm E" "erc20_reach E s"
  shows "(GetTokenDenom s a = Ok d \<longleftrightarrow> IsDenomRegistered s d \<and> GetCoinAddress E s d = Ok a) \<and>
    (GetAllowance s c p q \<noteq> 0 \<longrightarrow>
       IsERC20Registered s c \<and> 0 < GetAllowance s c p q \<and> GetAllowance s c p q < 2 ^ 256)"
proof -
  from erc20_evm.reach_inv [OF assms] have ok: "pairs_ok E s" "allowances_ok E s" by (simp_all add: erc20_inv_def)
  note pD = pairs_okD [OF ok(1)]
  have ne: "GetID E tp \<noteq> []" for tp
    using erc20_codec.sum_nonempty [OF erc20_evm.axioms(1) [OF assms(1)]] by (simp add: GetID_def)
  have "GetTokenDenom s a = Ok d \<longleftrightarrow> (\<exists>pid tp. kv_get (storeTokenPair s) pid = Some tp \<and> GetERC20Contract E tp = a \<and> tpDenom tp = d)"
    (is "_ = ?R")
  proof
    assume "GetTokenDenom s a = Ok d"
    then show ?R
      using pD(2) by (fastforce simp: GetTokenDenom_def GetERC20Map_def GetTokenPair_def Let_def emptyID_def split: if_splits option.splits)
  next
    assume ?R
    then obtain pid tp where "kv_get (storeTokenPair s) pid = Some tp" "GetERC20Contract E tp = a" "tpDenom tp = d" by blast
    then show "GetTokenDenom s a = Ok d"
      using pD(1) [of pid tp] ne [of tp] by (auto simp: GetTokenDenom_def GetERC20Map_def GetTokenPair_def Let_def emptyID_def)
  qed
  moreover have "IsDenomRegistered s d \<and> GetCoinAddress E s d = Ok a \<longleftrightarrow> ?R"
  proof
    assume "IsDenomRegistered s d \<and> GetCoinAddress E s d = Ok a"
    then obtain pid where "kv_get (storeByDenom s) d = Some pid" "GetCoinAddress E s d = Ok a"
      by (auto simp: IsDenomRegistered_def)
    moreover from this(1) obtain tp where "kv_get (storeTokenPair s) pid = Some tp" "tpDenom tp = d" using pD(3) by blast
    ultimately show ?R
      using pD(1) [of pid tp] ne [of tp] by (auto simp: GetCoinAddress_def GetDenomMap_def GetTokenPair_def emptyID_def)
  next
    assume ?R
    then obtain pid tp where "kv_get (storeTokenPair s) pid = Some tp" "GetERC20Contract E tp = a" "tpDenom tp = d" by blast
    then show "IsDenomRegistered s d \<and> GetCoinAddress E s d = Ok a"
      using pD(1) [of pid tp] ne [of tp]
      by (auto simp: IsDenomRegistered_def GetCoinAddress_def GetDenomMap_def GetTokenPair_def emptyID_def)
  qed
  moreover have "GetAllowance s c p q \<noteq> 0 \<longrightarrow>
      IsERC20Registered s c \<and> 0 < GetAllowance s c p q \<and> GetAllowance s c p q < 2 ^ 256"
  proof (cases "kv_get (storeAllowance s) (AllowanceKey c p q)")
    case (Some al)
    with ok(2) obtain n where "IsERC20Registered s c" "0 < n" "n < 2 ^ 256" "al = NewAllowance E c p q n"
      unfolding allowances_ok_def by fastforce
    with Some show ?thesis by (simp add: GetAllowance_def NewAllowance_def)
  qed (simp add: GetAllowance_def)
  ultimately show ?thesis by blast
qed

theorem registry_one_to_one_witness:
  "\<exists>s. erc20_reach refErc20 s \<and> GetTokenDenom s tokenAt = Ok refDenom \<and> GetCoinAddress refErc20 s refDenom = Ok tokenAt"
proof -
  let ?o = "OpRegisterERC20 [] [refHex tokenAt]"
  have "case exec_erc20 refErc20 emptyErc20 ?o of
      Ok (r, s) \<Rightarrow> isl r \<and> GetTokenDenom s tokenAt = Ok refDenom | _ \<Rightarrow> False"
    by code_simp
  then obtain s where s: "exec_erc20 refErc20 emptyErc20 ?o = Ok (Inl (), s)" "GetTokenDenom s tokenAt = Ok refDenom"
    by (auto simp: isl_unit split: res.splits)
  have "erc20_reach refErc20 s"
    by (rule erc20_reach.reach_step [OF erc20_reach.reach_start s(1)]) (simp_all add: emptyErc20_def)
  with registry_one_to_one [OF refChain.erc20_evm_axioms this, of tokenAt refDenom] s(2) show ?thesis by blast
qed

section \<open>Allowances\<close>

text \<open>C30: A successful \<open>SetAllowance\<close> is what is read back, for its contract, owner and spender, and changes no other
  allowance; deleting a token pair removes every allowance on its contract and no other.\<close>

theorem allowances_exact:
  assumes "SetAllowance E s c p q (Some n) = Ok (Inl u, s')"
  shows "GetAllowance s' c' p' q' = (if c' = c \<and> p' = p \<and> q' = q then n else GetAllowance s c' p' q') \<and>
    GetAllowance (DeleteTokenPair E s tp) c' p' q' = (if c' = GetERC20Contract E tp then 0 else GetAllowance s c' p' q')"
proof
  from assms have "s' = (if n = 0 then s\<lparr>storeAllowance := kv_delete (AllowanceKey c p q) (storeAllowance s)\<rparr>
      else s\<lparr>storeAllowance := kv_set (AllowanceKey c p q) (NewAllowance E c p q n) (storeAllowance s)\<rparr>)"
    by (auto simp: SetAllowance_def setAllowance_def split: option.splits if_splits)
  then show "GetAllowance s' c' p' q' = (if c' = c \<and> p' = p \<and> q' = q then n else GetAllowance s c' p' q')"
    by (simp add: GetAllowance_def NewAllowance_def)
  show "GetAllowance (DeleteTokenPair E s tp) c' p' q' =
      (if c' = GetERC20Contract E tp then 0 else GetAllowance s c' p' q')"
    by (simp add: GetAllowance_def DeleteTokenPair_stores)
qed

theorem allowances_exact_witness:
  "\<exists>s'. SetAllowance refErc20 (heldErc20 False) tokenAt 9 8 (Some 3) = Ok (Inl (), s') \<and> GetAllowance s' tokenAt 9 8 = 3"
proof -
  have "case SetAllowance refErc20 (heldErc20 False) tokenAt 9 8 (Some 3) of Ok (r, s) \<Rightarrow> isl r | _ \<Rightarrow> False" by code_simp
  then obtain s' where s: "SetAllowance refErc20 (heldErc20 False) tokenAt 9 8 (Some 3) = Ok (Inl (), s')"
    by (auto simp: isl_unit split: res.splits)
  with allowances_exact [OF s, of tokenAt 9 8] show ?thesis by simp
qed

section \<open>Backing\<close>

text \<open>C8: The coins of a registered contract that behaves as an ERC-20 token stay backed: \<open>ConvertERC20\<close>, \<open>ConvertCoin\<close> and
  the refund of a failed or timed-out transfer leave the surplus of the tokens the module holds over the coins it issued
  exactly as it was. For \<open>ConvertCoin\<close> and the refund, whose errors are dropped, this holds whatever step of it fails.\<close>

theorem conversions_keep_backing:
  assumes "honest_token E c d tokBal" "GetERC20Contract E tp = c" "tpDenom tp = d"
  shows "(GetTokenPair s (GetTokenPairID E s (ceContractAddress m)) = Some tp \<longrightarrow> ConvertERC20 E s m = Ok (Inl u, s') \<longrightarrow>
      surplus (pk E) d tokBal (ModuleAddress E) s' = surplus (pk E) d tokBal (ModuleAddress E) s) \<and>
    (GetTokenPair s (GetTokenPairID E s (Denom (ccCoin m'))) = Some tp \<longrightarrow> ConvertCoin E s m' = Ok (r, s') \<longrightarrow>
      surplus (pk E) d tokBal (ModuleAddress E) s' = surplus (pk E) d tokBal (ModuleAddress E) s) \<and>
    (GetTokenPair s (GetTokenPairID E s (ftDenom data)) = Some tp \<longrightarrow> OnTimeoutPacket E s data = Ok (r, s') \<longrightarrow>
      surplus (pk E) d tokBal (ModuleAddress E) s' = surplus (pk E) d tokBal (ModuleAddress E) s)"
  unfolding OnTimeoutPacket_def
  by (intro conjI impI; rule honest_token.ConvertERC20_surplus [OF assms(1) _ assms(2,3)]
      honest_token.ConvertCoin_surplus [OF assms(1) _ assms(2,3)] honest_token.FromPacket_surplus [OF assms(1) _ assms(2,3)])

theorem conversions_keep_backing_witness:
  "\<exists>s'. ConvertCoin refErc20 (heldErc20 False)
      \<lparr>ccCoin = newCoin refDenom 3, ccReceiver = refHex 9, ccSender = refString holder\<rparr> = Ok (Inl (), s') \<and>
    surplus K6 refDenom refTokBal (ModuleAddress refErc20) s' = 0"
proof -
  let ?m = "\<lparr>ccCoin = newCoin refDenom 3, ccReceiver = refHex 9, ccSender = refString holder\<rparr>"
  from held_convert obtain s' where s: "ConvertCoin refErc20 (heldErc20 False) ?m = Ok (Inl (), s')" by blast
  have t: "surplus K6 refDenom refTokBal (ModuleAddress refErc20) (heldErc20 False) = 0" by code_simp
  from conversions_keep_backing [OF refTok.honest_token_axioms refPair_simps(1,2), where s = "heldErc20 False" and m' = ?m]
    s t heldErc20_pair [of False] show ?thesis by auto
qed

section \<open>Refunds\<close>

text \<open>C29: A refund whose token transfer fails strands the coins: the callback reports success, the sender's coins have gone
  to the module account, and no token was paid out.\<close>

theorem failed_refund_strands_coins:
  assumes "precisebank (pk E)" "has_perm (pk E) erc20ModuleName Minter" "d = tpDenom tp"
    "cValidDenom (api (pk E)) d" "d \<noteq> ExtendedCoinDenom (pk E)"
    "addrCodec E (ftSender data) = Some sender" "GetTokenPair s (GetTokenPairID E s (ftDenom data)) = Some tp"
    "IsNativeERC20 tp" "IsERC20Enabled s" "IsDenomRegistered s (fst (GetSentCoin E (ftDenom data) (ftAmount data)))"
    "\<not> akIsModuleAccount E s sender" "sender \<noteq> moduleAddress (pk E) erc20ModuleName"
    "NewIntFromString E (ftAmount data) = Some n" "0 < n" "n \<le> Amount (SpendableCoin (pk E) (pb s) sender d)"
    "balance_or_fail E s (GetERC20Contract E tp) (BytesToAddress sender) = Ok (Inl b, s)"
    "\<And>p. \<exists>e. CallEVM E (s\<lparr>pb := p\<rparr>) (ModuleAddress E) (GetERC20Contract E tp) True (CallTransfer (BytesToAddress sender) n) =
      Ok (Inr e, s\<lparr>pb := p\<rparr>)"
  shows "\<exists>s'. OnTimeoutPacket E s data = Ok (Inl (), s') \<and> world s' = world s \<and>
    Amount (GetBalance (pk E) (pb s') sender d) = Amount (GetBalance (pk E) (pb s) sender d) - n \<and>
    Amount (GetBalance (pk E) (pb s') (moduleAddress (pk E) erc20ModuleName) d) =
      Amount (GetBalance (pk E) (pb s) (moduleAddress (pk E) erc20ModuleName) d) + n"
proof -
  note P = assms(1)
  note one = assms(4,14,5)
  let ?M = "moduleAddress (pk E) erc20ModuleName"
  have "n \<le> bspend (pk E) (bank (pb s)) sender d" using assms(5,15) by (simp add: SpendableCoin_def)
  from precisebank.escrow_other [OF P one assms(2) _ this] obtain b' where b':
    "SendCoinsFromAccountToModule (pk E) (pb s) sender erc20ModuleName [newCoin d n] = Ok ((pb s)\<lparr>bank := b'\<rparr>)"
    "\<And>a. bbal (pk E) b' a d = bbal (pk E) (bank (pb s)) a d - at_addr sender n a + at_addr ?M n a"
    by (auto simp: erc20ModuleName_def ModuleName_def)
  let ?s' = "s\<lparr>pb := (pb s)\<lparr>bank := b'\<rparr>\<rparr>"
  from assms(17) [of "(pb s)\<lparr>bank := b'\<rparr>"] obtain e where call:
    "CallEVM E ?s' (ModuleAddress E) (GetERC20Contract E tp) True (CallTransfer (BytesToAddress sender) n) = Ok (Inr e, ?s')"
    by blast
  have "ConvertCoinNativeERC20 E s tp n (BytesToAddress sender) sender = Ok (Inr e, ?s')"
    using assms(14,16) b'(1) call
    by (simp add: ConvertCoinNativeERC20_def Let_def assms(3) [symmetric] eff_bind_def eff_wrap_def on_pb_def)
  then have "OnTimeoutPacket E s data = Ok (Inl (), ?s')"
    using assms(6-11,13)
    by (simp add: OnTimeoutPacket_def ConvertCoinToERC20FromPacket_def GetSentCoin_def convert_received_def
        Erc20_GetParams_def IsNativeERC20_def IsNativeCoin_def eff_ret_def)
  then show ?thesis
    using assms(5,12) b'(2)
    by (auto simp: GetBalance_def at_addr_def)
qed

definition refundData :: FungibleTokenPacketData where
  "refundData = \<lparr>ftDenom = refDenom, ftAmount = ''...'', ftSender = refString holder, ftReceiver = []\<rparr>"

theorem failed_refund_strands_coins_witness:
  "\<exists>s'. OnTimeoutPacket refErc20 (heldErc20 True) refundData = Ok (Inl (), s') \<and>
    Amount (GetBalance K6 (pb s') holder refDenom) = 2 \<and>
    Amount (GetBalance K6 (pb s') (moduleAddress K6 erc20ModuleName) refDenom) = 3 \<and>
    refTokBal (world s') 9 = 0"
proof -
  let ?s = "heldErc20 True"
  have h: "addrCodec refErc20 (ftSender refundData) = Some holder" "IsERC20Enabled ?s" "ftDenom refundData = refDenom"
    "IsDenomRegistered ?s (fst (GetSentCoin refErc20 (ftDenom refundData) (ftAmount refundData)))"
    "\<not> akIsModuleAccount refErc20 ?s holder" "holder \<noteq> moduleAddress K6 erc20ModuleName"
    "NewIntFromString refErc20 (ftAmount refundData) = Some 3" "3 \<le> Amount (SpendableCoin K6 (pb ?s) holder refDenom)"
    "BytesToAddress holder = 9" "rtBroken (world ?s)"
    "Amount (GetBalance K6 (pb ?s) holder refDenom) = 5" "refTokBal (world ?s) 9 = 0"
    "Amount (GetBalance K6 (pb ?s) (moduleAddress K6 erc20ModuleName) refDenom) = 0"
    by code_simp+
  have "\<exists>e. CallEVM refErc20 (?s\<lparr>pb := p\<rparr>) (ModuleAddress refErc20) (GetERC20Contract refErc20 refPair) True
      (CallTransfer (BytesToAddress holder) 3) = Ok (Inr e, ?s\<lparr>pb := p\<rparr>)" for p
    using h(10) by (simp add: refCallEVM refPair_simps(1))
  from failed_refund_strands_coins [where E = refErc20 and s = ?s and data = refundData and tp = refPair and sender = holder
      and n = 3 and d = refDenom, OF _ _ _ _ _ h(1) _ refPair_simps(3) h(2,4,5) _ h(7) _ _ _ this]
  show ?thesis
    using K6_precisebank refPerm refDenom_valid h refPair_simps heldErc20_pair [of True] refTok.balance_known [of ?s 9] by fastforce
qed

section \<open>Names\<close>

text \<open>C31: Sanitising a token's name ends, for every name, with a name of at most 128 characters, all of them letters,
  digits, slashes, colons or dashes, that starts neither as an IBC denomination nor as an ERC-20 one.\<close>

theorem sanitized_name_is_safe:
  "length (SanitizeERC20Name name) \<le> 128 \<and> list_all isNameChar (SanitizeERC20Name name) \<and>
   \<not> hasPrefix (SanitizeERC20Name name) ''ibc/'' \<and> \<not> hasPrefix (SanitizeERC20Name name) ''erc20/'' \<and>
   \<not> hasPrefix (SanitizeERC20Name name) ''erc20:''"
proof -
  have drop: "\<exists>k. removeInvalidPrefixes x = drop k x" for x
  proof (induction x rule: removeInvalidPrefixes.induct)
    case (1 x)
    then show ?case by (subst removeInvalidPrefixes.simps) (auto intro: exI [of _ 0] simp: drop_drop)
  qed
  have clean: "\<not> hasPrefix (removeInvalidPrefixes x) ''ibc/'' \<and> \<not> hasPrefix (removeInvalidPrefixes x) ''erc20/'' \<and>
      \<not> hasPrefix (removeInvalidPrefixes x) ''erc20:''" for x
    by (induction x rule: removeInvalidPrefixes.induct) (simp add: removeInvalidPrefixes.simps)
  define x where "x = (let y = removeSpecialChars (removeLeadingNumbers name) in if 128 < length y then take 128 y else y)"
  have "list_all isNameChar (removeSpecialChars y)" for y
    by (cases y) (auto simp: removeSpecialChars_def isNameChar_def list_all_iff)
  then have x: "length x \<le> 128" "list_all isNameChar x"
    by (auto simp: x_def Let_def list_all_iff dest: in_set_takeD)
  have "SanitizeERC20Name name = removeInvalidPrefixes x" by (simp add: SanitizeERC20Name_def x_def Let_def)
  moreover have "length (drop k x) \<le> 128 \<and> list_all isNameChar (drop k x)" for k
    using x by (metis append_take_drop_id diff_le_self le_trans length_drop list_all_append)
  ultimately show ?thesis using drop [of x] clean [of x] by metis
qed

end
