(* ===== verification/VmParams.thy ===== *)
theory VmParams
  imports Erc20Convert FeeMarket "HOL-Library.Product_Lexorder"
begin

text \<open>
  The parameters of x/vm, the permission policy they configure and the precompiles they activate
  (\<open>src/x/vm/types/params.go\<close>, \<open>permissions.go\<close>, \<open>opcodes_hooks.go\<close>, \<open>preinstall.go\<close>,
  \<open>src/x/vm/keeper/static_precompiles.go\<close>). The functions of go-ethereum, ibc-go, x/auth and x/staking that the
  module calls are the fields of \<open>vm_env\<close>; the accounts of x/auth are part of the bank's state, because x/bank reads
  them to know what an account may spend.
\<close>

section \<open>What x/vm is run with\<close>

record ('b, 'k) vm_env =
  vpk :: "'b Keeper"
  vfe :: fm_env
  vKeccak :: "bytes \<Rightarrow> hash"
  vIsHexAddress :: "string \<Rightarrow> bool"
  vHexToAddress :: "string \<Rightarrow> address"
  vAddrHex :: "address \<Rightarrow> string"
  vFromHex :: "string \<Rightarrow> bytes"
  vHex2Bytes :: "string \<Rightarrow> bytes"
  vBytes2Hex :: "bytes \<Rightarrow> string"
  vHexToHash :: "string \<Rightarrow> hash"
  vHashString :: "hash \<Rightarrow> string"
  vValidEip :: "int \<Rightarrow> bool"
  vChannelValid :: "string \<Rightarrow> bool"
  vPragueAddresses :: "address list"
  vParseDelegation :: "bytes option \<Rightarrow> address option"
  vAddressToDelegation :: "address \<Rightarrow> bytes"
  vHistoryStorageAddress :: address
  vIsLondon :: "int \<Rightarrow> bool"
  vCreateBloom :: "Log list \<Rightarrow> int"
  vAuthority :: string
  vDefaultCoinInfo :: EvmCoinInfo
  auGetAccount :: "'b \<Rightarrow> AccAddress \<Rightarrow> 'k option"
  auNewAccount :: "'b \<Rightarrow> AccAddress \<Rightarrow> 'k \<times> 'b"
  auSetAccount :: "'b \<Rightarrow> 'k \<Rightarrow> 'b"
  auRemoveAccount :: "'b \<Rightarrow> 'k \<Rightarrow> 'b"
  auSequence :: "'k \<Rightarrow> 64 word"
  auSetSequence :: "'k \<Rightarrow> 64 word \<Rightarrow> 'k res"
  auBaseAccount :: "AccAddress \<Rightarrow> 'k \<Rightarrow> 'k"
  vDenomMetaData :: "'b \<Rightarrow> denom \<Rightarrow> Metadata option"
  skValidatorOperator :: "AccAddress \<Rightarrow> string res"
  valAddressFromBech32 :: "string \<Rightarrow> AccAddress res"

section \<open>Parameters (types/params.go)\<close>

text \<open>The access type is an enumeration of the wire format, so a message may carry any number.\<close>

datatype AccessType =
  AccessTypePermissionless | AccessTypeRestricted | AccessTypePermissioned | AccessTypeUnknown int

record AccessControlType =
  accessType :: AccessType
  accessControlList :: "string list"

record AccessControl =
  acCreate :: AccessControlType
  acCall :: AccessControlType

record VmParams =
  EvmDenom :: denom
  ExtraEIPs :: "int list"
  ActiveStaticPrecompiles :: "string list"
  EVMChannels :: "string list"
  accessControl :: AccessControl
  HistoryServeWindow :: "64 word"
  ExtendedDenomOptions :: "denom option"

definition DefaultHistoryServeWindow :: "64 word" where "DefaultHistoryServeWindow = 8192"

definition DefaultAccessControl :: AccessControl where
  "DefaultAccessControl = \<lparr>acCreate = \<lparr>accessType = AccessTypePermissionless, accessControlList = []\<rparr>,
     acCall = \<lparr>accessType = AccessTypePermissionless, accessControlList = []\<rparr>\<rparr>"

definition Vm_NewParams :: "int list \<Rightarrow> string list \<Rightarrow> string list \<Rightarrow> AccessControl \<Rightarrow> VmParams" where
  "Vm_NewParams extraEIPs activeStaticPrecompiles evmChannels ac =
     \<lparr>EvmDenom = [], ExtraEIPs = extraEIPs, ActiveStaticPrecompiles = activeStaticPrecompiles,
      EVMChannels = evmChannels, accessControl = ac, HistoryServeWindow = 0, ExtendedDenomOptions = None\<rparr>"

definition Vm_DefaultParams :: VmParams where
  "Vm_DefaultParams =
     \<lparr>EvmDenom = ''aatom'', ExtraEIPs = [], ActiveStaticPrecompiles = [], EVMChannels = [],
      accessControl = DefaultAccessControl, HistoryServeWindow = DefaultHistoryServeWindow,
      ExtendedDenomOptions = Some ''aatom''\<rparr>"

text \<open>The zero value, which a read of the store returns before the parameters are set.\<close>

definition Vm_zeroParams :: VmParams where
  "Vm_zeroParams = Vm_NewParams [] [] [] DefaultAccessControl"

definition validateChannels :: "('b, 'k) vm_env \<Rightarrow> string list \<Rightarrow> error option" where
  "validateChannels E channels =
     (if list_all (vChannelValid E) channels then None else Some (ErrMsg ''invalid channel identifier''))"

definition validateAccessType :: "AccessType \<Rightarrow> error option" where
  "validateAccessType t = (case t of AccessTypeUnknown _ \<Rightarrow> Some (ErrMsg ''invalid access type'') | _ \<Rightarrow> None)"

definition validateAllowlistAddresses :: "('b, 'k) vm_env \<Rightarrow> string list \<Rightarrow> error option" where
  "validateAllowlistAddresses E as =
     (if list_all (vIsHexAddress E) as then None else Some (ErrMsg ''invalid whitelist address''))"

definition AccessControlType_Validate :: "('b, 'k) vm_env \<Rightarrow> AccessControlType \<Rightarrow> error option" where
  "AccessControlType_Validate E act =
     (case validateAccessType (accessType act) of
        Some e \<Rightarrow> Some e
      | None \<Rightarrow> validateAllowlistAddresses E (accessControlList act))"

definition AccessControl_Validate :: "('b, 'k) vm_env \<Rightarrow> AccessControl \<Rightarrow> error option" where
  "AccessControl_Validate E ac =
     (case AccessControlType_Validate E (acCreate ac) of
        Some e \<Rightarrow> Some e
      | None \<Rightarrow> AccessControlType_Validate E (acCall ac))"

fun validateEIPs_loop :: "('b, 'k) vm_env \<Rightarrow> int list \<Rightarrow> int list \<Rightarrow> error option" where
  "validateEIPs_loop E seen [] = None"
| "validateEIPs_loop E seen (eip # eips) =
     (if \<not> vValidEip E eip then Some (ErrMsg ''EIP is not activateable'')
      else if eip \<in> set seen then Some (ErrMsg ''found duplicate EIP'')
      else validateEIPs_loop E (eip # seen) eips)"

definition validateEIPs :: "('b, 'k) vm_env \<Rightarrow> int list \<Rightarrow> error option" where
  "validateEIPs E eips = validateEIPs_loop E [] eips"

fun Vm_validatePrecompiles_loop :: "('b, 'k) vm_env \<Rightarrow> string list \<Rightarrow> string list \<Rightarrow> error option" where
  "Vm_validatePrecompiles_loop E seen [] = None"
| "Vm_validatePrecompiles_loop E seen (p # ps) =
     (if p \<in> set seen then Some (ErrMsg ''duplicate precompile'')
      else if \<not> vIsHexAddress E p then Some (ErrMsg ''invalid precompile'')
      else Vm_validatePrecompiles_loop E (p # seen) ps)"

definition ValidatePrecompiles :: "('b, 'k) vm_env \<Rightarrow> string list \<Rightarrow> error option" where
  "ValidatePrecompiles E ps =
     (case Vm_validatePrecompiles_loop E [] ps of
        Some e \<Rightarrow> Some e
      | None \<Rightarrow> if \<not> sorted ps then Some (ErrMsg ''precompiles need to be sorted'') else None)"

definition Vm_Params_Validate :: "('b, 'k) vm_env \<Rightarrow> VmParams \<Rightarrow> error option" where
  "Vm_Params_Validate E p =
     (case validateEIPs E (ExtraEIPs p) of Some e \<Rightarrow> Some e | None \<Rightarrow>
     (case ValidatePrecompiles E (ActiveStaticPrecompiles p) of Some e \<Rightarrow> Some e | None \<Rightarrow>
     (case AccessControl_Validate E (accessControl p) of Some e \<Rightarrow> Some e | None \<Rightarrow>
        validateChannels E (EVMChannels p))))"

definition GetActiveStaticPrecompilesAddrs :: "('b, 'k) vm_env \<Rightarrow> VmParams \<Rightarrow> address list" where
  "GetActiveStaticPrecompilesAddrs E p = map (vHexToAddress E) (ActiveStaticPrecompiles p)"

definition IsEVMChannel :: "VmParams \<Rightarrow> string \<Rightarrow> bool" where
  "IsEVMChannel p channel \<longleftrightarrow> channel \<in> set (EVMChannels p)"

section \<open>The permission policy (types/permissions.go)\<close>

definition permissionlessCheckFn :: "('b, 'k) vm_env \<Rightarrow> string list \<Rightarrow> address \<Rightarrow> address \<Rightarrow> bool" where
  "permissionlessCheckFn E as signer =
     (let isSignerBlocked = vAddrHex E signer \<notin> set as in
      (\<lambda>caller. isSignerBlocked \<and> vAddrHex E caller \<notin> set as))"

definition permissionedCheckFn :: "('b, 'k) vm_env \<Rightarrow> string list \<Rightarrow> address \<Rightarrow> address \<Rightarrow> bool" where
  "permissionedCheckFn E as signer =
     (let isSignerAllowed = vAddrHex E signer \<in> set as in
      (\<lambda>caller. isSignerAllowed \<or> vAddrHex E caller \<in> set as))"

definition getCanCreateFn :: "('b, 'k) vm_env \<Rightarrow> AccessControl \<Rightarrow> address \<Rightarrow> address \<Rightarrow> bool" where
  "getCanCreateFn E ac signer =
     (let addresses = accessControlList (acCreate ac) in
      case accessType (acCreate ac) of
        AccessTypePermissionless \<Rightarrow> permissionlessCheckFn E addresses signer
      | AccessTypeRestricted \<Rightarrow> (\<lambda>_. False)
      | AccessTypePermissioned \<Rightarrow> permissionedCheckFn E addresses signer
      | AccessTypeUnknown _ \<Rightarrow> (\<lambda>_. False))"

definition getCanCallFn :: "('b, 'k) vm_env \<Rightarrow> AccessControl \<Rightarrow> address \<Rightarrow> address \<Rightarrow> bool" where
  "getCanCallFn E ac signer =
     (let addresses = accessControlList (acCall ac) in
      case accessType (acCall ac) of
        AccessTypePermissionless \<Rightarrow> permissionlessCheckFn E addresses signer
      | AccessTypeRestricted \<Rightarrow> (\<lambda>_. False)
      | AccessTypePermissioned \<Rightarrow> permissionedCheckFn E addresses signer
      | AccessTypeUnknown _ \<Rightarrow> (\<lambda>_. False))"

record PermissionPolicy =
  canCreate :: "address \<Rightarrow> bool"
  canCall :: "address \<Rightarrow> bool"

definition NewRestrictedPermissionPolicy :: "('b, 'k) vm_env \<Rightarrow> AccessControl \<Rightarrow> address \<Rightarrow> PermissionPolicy" where
  "NewRestrictedPermissionPolicy E ac signer =
     \<lparr>canCreate = getCanCreateFn E ac signer, canCall = getCanCallFn E ac signer\<rparr>"

definition CanCreate :: "PermissionPolicy \<Rightarrow> address \<Rightarrow> address \<Rightarrow> bool" where
  "CanCreate p signer caller = canCreate p caller"

definition CanCall :: "PermissionPolicy \<Rightarrow> address \<Rightarrow> address \<Rightarrow> address \<Rightarrow> bool" where
  "CanCall p signer caller recipient = canCall p caller"

definition GetCallHook :: "PermissionPolicy \<Rightarrow> address \<Rightarrow> address \<Rightarrow> address \<Rightarrow> error option" where
  "GetCallHook p signer caller recipient =
     (if CanCall p signer caller recipient then None
      else Some (ErrMsg ''caller does not have permission to perform a call''))"

definition GetCreateHook :: "PermissionPolicy \<Rightarrow> address \<Rightarrow> address \<Rightarrow> error option" where
  "GetCreateHook p signer caller =
     (if CanCreate p signer caller then None
      else Some (ErrMsg ''caller does not have permission to deploy contracts''))"

text \<open>The hooks of an opcode run in the order they were added, over the state of the EVM (\<open>'s\<close>), up to the first error.\<close>

record 's OpCodesHooks =
  callHooks :: "('s \<Rightarrow> address \<Rightarrow> address \<Rightarrow> (unit, 's) eff) list"
  createHooks :: "('s \<Rightarrow> address \<Rightarrow> (unit, 's) eff) list"

definition NewDefaultOpCodesHooks :: "'s OpCodesHooks" where
  "NewDefaultOpCodesHooks = \<lparr>callHooks = [], createHooks = []\<rparr>"

definition AddCallHooks ::
    "'s OpCodesHooks \<Rightarrow> ('s \<Rightarrow> address \<Rightarrow> address \<Rightarrow> (unit, 's) eff) list \<Rightarrow> 's OpCodesHooks" where
  "AddCallHooks h hooks = h\<lparr>callHooks := callHooks h @ hooks\<rparr>"

definition AddCreateHooks :: "'s OpCodesHooks \<Rightarrow> ('s \<Rightarrow> address \<Rightarrow> (unit, 's) eff) list \<Rightarrow> 's OpCodesHooks" where
  "AddCreateHooks h hooks = h\<lparr>createHooks := createHooks h @ hooks\<rparr>"

fun run_callHooks :: "('s \<Rightarrow> address \<Rightarrow> address \<Rightarrow> (unit, 's) eff) list \<Rightarrow> 's \<Rightarrow> address \<Rightarrow> address \<Rightarrow> (unit, 's) eff" where
  "run_callHooks [] s caller recipient = eff_ret s ()"
| "run_callHooks (hook # hooks) s caller recipient =
     eff_bind (hook s caller recipient) (\<lambda>_ s. run_callHooks hooks s caller recipient)"

fun run_createHooks :: "('s \<Rightarrow> address \<Rightarrow> (unit, 's) eff) list \<Rightarrow> 's \<Rightarrow> address \<Rightarrow> (unit, 's) eff" where
  "run_createHooks [] s caller = eff_ret s ()"
| "run_createHooks (hook # hooks) s caller = eff_bind (hook s caller) (\<lambda>_ s. run_createHooks hooks s caller)"

definition CallHook :: "'s OpCodesHooks \<Rightarrow> 's \<Rightarrow> address \<Rightarrow> address \<Rightarrow> (unit, 's) eff" where
  "CallHook h s caller recipient = run_callHooks (callHooks h) s caller recipient"

definition CreateHook :: "'s OpCodesHooks \<Rightarrow> 's \<Rightarrow> address \<Rightarrow> (unit, 's) eff" where
  "CreateHook h s caller = run_createHooks (createHooks h) s caller"

section \<open>Static precompiles (keeper/static_precompiles.go)\<close>

type_synonym 'p precompileMap = "(address, 'p) kv option"

definition WithStaticPrecompiles :: "'p precompileMap \<Rightarrow> (address, 'p) kv \<Rightarrow> 'p precompileMap res" where
  "WithStaticPrecompiles k ps =
     (if k \<noteq> None then Panic (ErrMsg ''available precompiles map already set'')
      else if ps = [] then Panic (ErrMsg ''empty precompiled contract map'')
      else Ok (Some ps))"

definition RegisterStaticPrecompile :: "'p precompileMap \<Rightarrow> address \<Rightarrow> 'p \<Rightarrow> 'p precompileMap" where
  "RegisterStaticPrecompile k a p = Some (kv_set a p (case k of None \<Rightarrow> [] | Some m \<Rightarrow> m))"

definition IsAvailableStaticPrecompile :: "('b, 'k) vm_env \<Rightarrow> VmParams \<Rightarrow> address \<Rightarrow> bool" where
  "IsAvailableStaticPrecompile E params a \<longleftrightarrow>
     vAddrHex E a \<in> set (ActiveStaticPrecompiles params) \<or> a \<in> set (vPragueAddresses E)"

definition GetStaticPrecompileInstance ::
    "('b, 'k) vm_env \<Rightarrow> 'p precompileMap \<Rightarrow> VmParams \<Rightarrow> address \<Rightarrow> 'p option res" where
  "GetStaticPrecompileInstance E k params a =
     (if IsAvailableStaticPrecompile E params a
      then (case kv_get (case k of None \<Rightarrow> [] | Some m \<Rightarrow> m) a of
              None \<Rightarrow> Panic (ErrMsg ''precompiled contract not stored in memory'')
            | Some p \<Rightarrow> Ok (Some p))
      else Ok None)"

text \<open>\<open>appendPrecompiles\<close> of \<open>keeper/params.go\<close>: an address that is active already is an error.\<close>

fun new_precompiles :: "('b, 'k) vm_env \<Rightarrow> string list \<Rightarrow> address list \<Rightarrow> string list res" where
  "new_precompiles E existing [] = Ok []"
| "new_precompiles E existing (a # as) =
     (if vAddrHex E a \<in> set existing then Err (ErrMsg ''precompile already registered'')
      else res_bind (new_precompiles E existing as) (\<lambda>hs. Ok (vAddrHex E a # hs)))"

definition appendPrecompiles :: "('b, 'k) vm_env \<Rightarrow> string list \<Rightarrow> address list \<Rightarrow> string list res" where
  "appendPrecompiles E existing as = res_bind (new_precompiles E existing as) (\<lambda>hs. Ok (sort (existing @ hs)))"

section \<open>Preinstalled contracts (types/preinstall.go)\<close>

record Preinstall =
  piName :: string
  piAddress :: string
  piCode :: string

definition isHexDigit :: "char \<Rightarrow> bool" where
  "isHexDigit c \<longleftrightarrow> isDigit c \<or> (CHR ''a'' \<le> c \<and> c \<le> CHR ''f'') \<or> (CHR ''A'' \<le> c \<and> c \<le> CHR ''F'')"

definition hexDecodes :: "string \<Rightarrow> bool" where
  "hexDecodes s \<longleftrightarrow> even (length s) \<and> list_all isHexDigit s"

definition Preinstall_Validate :: "('b, 'k) vm_env \<Rightarrow> Preinstall \<Rightarrow> error option" where
  "Preinstall_Validate E p =
     (if piAddress p = [] then Some (ErrMsg ''preinstall address cannot be empty'')
      else if \<not> vIsHexAddress E (piAddress p) then Some (ErrMsg ''not a valid hex address'')
      else if piCode p = [] then Some (ErrMsg ''preinstall code cannot be empty'')
      else
        let codeStr = (if hasPrefix (piCode p) ''0x'' \<or> hasPrefix (piCode p) ''0X'' then drop 2 (piCode p) else piCode p) in
        if \<not> hexDecodes codeStr then Some (ErrMsg ''not a valid hex string'')
        else if vKeccak E (vFromHex E (piCode p)) = vKeccak E [] then Some (ErrMsg ''has empty code hash'')
        else None)"

end
