(* ===== verification/VmKeeper.thy ===== *)
theory VmKeeper
  imports VmParams
begin

text \<open>
  The keeper of x/vm (\<open>src/x/vm/keeper\<close>): its stores, the bank wrapper it moves the EVM coin with
  (\<open>src/x/vm/wrappers/bank.go\<close>), the accounts it loads for the EVM state and writes back when that state is
  committed (\<open>keeper/statedb.go\<close>), its parameters, the history of block hashes, preinstalled contracts and genesis.

  The state holds the module's prefix stores, the transient values of the block and of the transaction, the fee
  market and the bank with x/auth's accounts. A failed bank call reports its error; as in the other modules the
  writes it made before it failed are dropped by its caller, and the state is the one before the call.
\<close>

section \<open>The stores\<close>

record 'b vm_state =
  vmCode :: "(hash, bytes) kv"
  vmStorage :: "(address \<times> hash, bytes) kv"
  vmCodeHash :: "(address, hash) kv"
  vmParamsKey :: "VmParams option"
  vmCoinInfoKey :: "EvmCoinInfo option"
  vmBloom :: "int option"
  vmTxIndex :: "64 word option"
  vmLogSize :: "64 word option"
  vmGasUsed :: "64 word option"
  vpb :: "'b pstate"
  vfm :: fm_state

definition on_vpb :: "'b vm_state \<Rightarrow> 'b pstate res \<Rightarrow> 'b vm_state res" where
  "on_vpb s r = res_bind r (\<lambda>p. Ok (s\<lparr>vpb := p\<rparr>))"

definition vm_bank :: "'b vm_state \<Rightarrow> 'b" where
  "vm_bank s = bank (vpb s)"

definition set_vm_bank :: "'b vm_state \<Rightarrow> 'b \<Rightarrow> 'b vm_state" where
  "set_vm_bank s b = s\<lparr>vpb := (vpb s)\<lparr>bank := b\<rparr>\<rparr>"

definition evmModuleName :: string where "evmModuleName = ''evm''"

section \<open>The bank wrapper (wrappers/bank.go)\<close>

definition Bank_MintAmountToAccount :: "'b Keeper \<Rightarrow> 'b pstate \<Rightarrow> AccAddress \<Rightarrow> int \<Rightarrow> 'b pstate res" where
  "Bank_MintAmountToAccount K s recipient amt =
     res_bind (res_map_err (ErrWrapped ''failed to mint coin to account in bank wrapper'')
       (ConvertEvmCoinDenomToExtendedDenom (info K) (newCoin (eciDenom (info K)) amt))) (\<lambda>c.
     res_bind (res_map_err (ErrWrapped ''failed to mint coins to account in bank wrapper'')
       (MintCoins K s evmModuleName [c])) (\<lambda>s1.
     SendCoinsFromModuleToAccount K s1 evmModuleName recipient [c]))"

definition Bank_BurnAmountFromAccount :: "'b Keeper \<Rightarrow> 'b pstate \<Rightarrow> AccAddress \<Rightarrow> int \<Rightarrow> 'b pstate res" where
  "Bank_BurnAmountFromAccount K s account amt =
     res_bind (res_map_err (ErrWrapped ''failed to burn coins from account in bank wrapper'')
       (ConvertEvmCoinDenomToExtendedDenom (info K) (newCoin (eciDenom (info K)) amt))) (\<lambda>c.
     res_bind (res_map_err (ErrWrapped ''failed to burn coins from account in bank wrapper'')
       (SendCoinsFromAccountToModule K s account evmModuleName [c])) (\<lambda>s1.
     BurnCoins K s1 evmModuleName [c]))"

definition Bank_GetBalance :: "'b Keeper \<Rightarrow> 'b pstate \<Rightarrow> AccAddress \<Rightarrow> denom \<Rightarrow> coin res" where
  "Bank_GetBalance K s a d =
     (if d \<noteq> eciDenom (info K) then Panic (ErrMsg ''expected evm denom'')
      else Ok (GetBalance K s a (eciExtendedDenom (info K))))"

definition Bank_SpendableCoin :: "'b Keeper \<Rightarrow> 'b pstate \<Rightarrow> AccAddress \<Rightarrow> denom \<Rightarrow> coin res" where
  "Bank_SpendableCoin K s a d =
     (if d \<noteq> eciDenom (info K) then Panic (ErrMsg ''expected evm denom'')
      else Ok (SpendableCoin K s a (eciExtendedDenom (info K))))"

definition Bank_SendCoinsFromAccountToModule ::
    "'b Keeper \<Rightarrow> 'b pstate \<Rightarrow> AccAddress \<Rightarrow> string \<Rightarrow> coins \<Rightarrow> 'b pstate res" where
  "Bank_SendCoinsFromAccountToModule K s sender recipientModule cs =
     (let converted = ConvertCoinsDenomToExtendedDenom (api K) (info K) cs in
      if cIsZero (api K) converted then Ok s
      else SendCoinsFromAccountToModule K s sender recipientModule converted)"

definition Bank_SendCoinsFromModuleToAccount ::
    "'b Keeper \<Rightarrow> 'b pstate \<Rightarrow> string \<Rightarrow> AccAddress \<Rightarrow> coins \<Rightarrow> 'b pstate res" where
  "Bank_SendCoinsFromModuleToAccount K s senderModule recipient cs =
     (let converted = ConvertCoinsDenomToExtendedDenom (api K) (info K) cs in
      if cIsZero (api K) converted then Ok s
      else SendCoinsFromModuleToAccount K s senderModule recipient converted)"

section \<open>Reads of accounts, code and storage (keeper/statedb.go, keeper/keeper.go, keeper/utils.go)\<close>

definition Vm_EmptyCodeHash :: "('b, 'k) vm_env \<Rightarrow> hash" where
  "Vm_EmptyCodeHash E = vKeccak E []"

definition Vm_GetState :: "'b vm_state \<Rightarrow> address \<Rightarrow> hash \<Rightarrow> hash" where
  "Vm_GetState s a key =
     (case kv_get (vmStorage s) (a, key) of None \<Rightarrow> 0 | Some v \<Rightarrow> if v = [] then 0 else BytesToHash v)"

definition Vm_GetFastState :: "'b vm_state \<Rightarrow> address \<Rightarrow> hash \<Rightarrow> bytes option" where
  "Vm_GetFastState s a key = kv_get (vmStorage s) (a, key)"

definition Vm_GetCodeHash :: "('b, 'k) vm_env \<Rightarrow> 'b vm_state \<Rightarrow> address \<Rightarrow> hash" where
  "Vm_GetCodeHash E s a = (case kv_get (vmCodeHash s) a of None \<Rightarrow> Vm_EmptyCodeHash E | Some h \<Rightarrow> h)"

definition Vm_GetCode :: "'b vm_state \<Rightarrow> hash \<Rightarrow> bytes option" where
  "Vm_GetCode s h = kv_get (vmCode s) h"

text \<open>The callback of \<open>IterateContracts\<close> returns whether to stop, the one of \<open>ForEachStorage\<close> whether to go on.\<close>

fun iterate_contracts :: "(address \<times> hash) list \<Rightarrow> (address \<Rightarrow> hash \<Rightarrow> 'a \<Rightarrow> bool \<times> 'a) \<Rightarrow> 'a \<Rightarrow> 'a" where
  "iterate_contracts [] cb acc = acc"
| "iterate_contracts ((a, h) # cs) cb acc =
     (case cb a h acc of (stop, acc') \<Rightarrow> if stop then acc' else iterate_contracts cs cb acc')"

definition IterateContracts :: "'b vm_state \<Rightarrow> (address \<Rightarrow> hash \<Rightarrow> 'a \<Rightarrow> bool \<times> 'a) \<Rightarrow> 'a \<Rightarrow> 'a" where
  "IterateContracts s cb acc = iterate_contracts (vmCodeHash s) cb acc"

definition Vm_ForEachStorage :: "'b vm_state \<Rightarrow> address \<Rightarrow> (hash \<times> hash) list" where
  "Vm_ForEachStorage s a = map (\<lambda>((_, key), v). (key, BytesToHash v)) (filter (\<lambda>((a', _), _). a' = a) (vmStorage s))"

definition GetAccountStorage :: "('b, 'k) vm_env \<Rightarrow> 'b vm_state \<Rightarrow> address \<Rightarrow> (string \<times> string) list" where
  "GetAccountStorage E s a = map (\<lambda>(key, v). (vHashString E key, vHashString E v)) (Vm_ForEachStorage s a)"

definition IsContract :: "('b, 'k) vm_env \<Rightarrow> 'b vm_state \<Rightarrow> address \<Rightarrow> bool" where
  "IsContract E s a =
     (let c = Vm_GetCode s (Vm_GetCodeHash E s a) in
      (case c of None \<Rightarrow> False | Some bs \<Rightarrow> bs \<noteq> []) \<and> vParseDelegation E c = None)"

definition GetAccountWithoutBalance :: "('b, 'k) vm_env \<Rightarrow> 'b vm_state \<Rightarrow> address \<Rightarrow> Account option" where
  "GetAccountWithoutBalance E s a =
     (case auGetAccount E (vm_bank s) (AddrBytes a) of
        None \<Rightarrow> None
      | Some acct \<Rightarrow> Some \<lparr>Nonce = auSequence E acct, Balance = None, CodeHash = Some (Vm_GetCodeHash E s a)\<rparr>)"

definition word_of_res :: "256 word res \<Rightarrow> 256 word option" where
  "word_of_res r = (case r of Ok w \<Rightarrow> Some w | Err _ \<Rightarrow> None | Panic _ \<Rightarrow> None)"

definition Vm_SpendableCoin :: "('b, 'k) vm_env \<Rightarrow> 'b vm_state \<Rightarrow> address \<Rightarrow> 256 word option" where
  "Vm_SpendableCoin E s a =
     word_of_res (res_bind (Bank_SpendableCoin (vpk E) (vpb s) (AddrBytes a) (eciDenom (info (vpk E))))
       (\<lambda>c. Uint256FromBigInt (Amount c)))"

definition Vm_GetBalance :: "('b, 'k) vm_env \<Rightarrow> 'b vm_state \<Rightarrow> address \<Rightarrow> 256 word option" where
  "Vm_GetBalance E s a =
     word_of_res (res_bind (Bank_GetBalance (vpk E) (vpb s) (AddrBytes a) (eciDenom (info (vpk E))))
       (\<lambda>c. Uint256FromBigInt (Amount c)))"

definition Vm_GetAccount :: "('b, 'k) vm_env \<Rightarrow> 'b vm_state \<Rightarrow> address \<Rightarrow> Account option" where
  "Vm_GetAccount E s a =
     map_option (\<lambda>acct. acct\<lparr>Balance := Vm_SpendableCoin E s a\<rparr>) (GetAccountWithoutBalance E s a)"

definition GetAccountOrEmpty :: "('b, 'k) vm_env \<Rightarrow> 'b vm_state \<Rightarrow> address \<Rightarrow> Account" where
  "GetAccountOrEmpty E s a =
     (case Vm_GetAccount E s a of
        Some acct \<Rightarrow> acct
      | None \<Rightarrow> \<lparr>Nonce = 0, Balance = Some 0, CodeHash = Some (Vm_EmptyCodeHash E)\<rparr>)"

definition Vm_GetNonce :: "('b, 'k) vm_env \<Rightarrow> 'b vm_state \<Rightarrow> address \<Rightarrow> 64 word" where
  "Vm_GetNonce E s a =
     (case auGetAccount E (vm_bank s) (AddrBytes a) of None \<Rightarrow> 0 | Some acct \<Rightarrow> auSequence E acct)"

section \<open>Writes (keeper/statedb.go)\<close>

definition Vm_SetBalance :: "('b, 'k) vm_env \<Rightarrow> 'b vm_state \<Rightarrow> address \<Rightarrow> 256 word option \<Rightarrow> 'b vm_state res" where
  "Vm_SetBalance E s a amount =
     (case amount of
        None \<Rightarrow> Ok s
      | Some w \<Rightarrow>
          let K = vpk E; cosmosAddr = AddrBytes a in
          res_bind (Bank_SpendableCoin K (vpb s) cosmosAddr (eciDenom (info K))) (\<lambda>c.
            let delta = uint w - Amount c in
            if 0 < delta then on_vpb s (Bank_MintAmountToAccount K (vpb s) cosmosAddr delta)
            else if delta < 0 then on_vpb s (Bank_BurnAmountFromAccount K (vpb s) cosmosAddr (- delta))
            else Ok s))"

definition SetCodeHash :: "'b vm_state \<Rightarrow> address \<Rightarrow> hash option \<Rightarrow> 'b vm_state res" where
  "SetCodeHash s a h =
     (case h of
        None \<Rightarrow> Panic (ErrMsg ''value is nil'')
      | Some x \<Rightarrow> Ok (s\<lparr>vmCodeHash := kv_set a x (vmCodeHash s)\<rparr>))"

definition DeleteCodeHash :: "'b vm_state \<Rightarrow> address \<Rightarrow> 'b vm_state" where
  "DeleteCodeHash s a = s\<lparr>vmCodeHash := kv_delete a (vmCodeHash s)\<rparr>"

definition Vm_SetAccount :: "('b, 'k) vm_env \<Rightarrow> 'b vm_state \<Rightarrow> address \<Rightarrow> Account \<Rightarrow> 'b vm_state res" where
  "Vm_SetAccount E s a account =
     (let (acct, s1) = (case auGetAccount E (vm_bank s) (AddrBytes a) of
                          Some acct \<Rightarrow> (acct, s)
                        | None \<Rightarrow> (case auNewAccount E (vm_bank s) (AddrBytes a) of (acct, b) \<Rightarrow> (acct, set_vm_bank s b)))
      in res_bind (auSetSequence E acct (Nonce account)) (\<lambda>acct.
         res_bind (if CodeHash account = Some (Vm_EmptyCodeHash E) then Ok (DeleteCodeHash s1 a)
                   else SetCodeHash s1 a (CodeHash account)) (\<lambda>s2.
         Vm_SetBalance E (set_vm_bank s2 (auSetAccount E (vm_bank s2) acct)) a (Balance account))))"

definition Vm_SetState :: "'b vm_state \<Rightarrow> address \<Rightarrow> hash \<Rightarrow> bytes \<Rightarrow> 'b vm_state" where
  "Vm_SetState s a key value = s\<lparr>vmStorage := kv_set (a, key) value (vmStorage s)\<rparr>"

definition Vm_DeleteState :: "'b vm_state \<Rightarrow> address \<Rightarrow> hash \<Rightarrow> 'b vm_state" where
  "Vm_DeleteState s a key = s\<lparr>vmStorage := kv_delete (a, key) (vmStorage s)\<rparr>"

definition Vm_SetCode :: "'b vm_state \<Rightarrow> hash \<Rightarrow> bytes \<Rightarrow> 'b vm_state" where
  "Vm_SetCode s h c = s\<lparr>vmCode := kv_set h c (vmCode s)\<rparr>"

definition Vm_DeleteCode :: "'b vm_state \<Rightarrow> hash \<Rightarrow> 'b vm_state" where
  "Vm_DeleteCode s h = s\<lparr>vmCode := kv_delete h (vmCode s)\<rparr>"

definition Vm_DeleteAccount :: "('b, 'k) vm_env \<Rightarrow> 'b vm_state \<Rightarrow> address \<Rightarrow> 'b vm_state res" where
  "Vm_DeleteAccount E s a =
     (case auGetAccount E (vm_bank s) (AddrBytes a) of
        None \<Rightarrow> Ok s
      | Some acct \<Rightarrow>
          if \<not> IsContract E s a then Err (ErrMsg ''only smart contracts can be self-destructed'')
          else
            let s1 = set_vm_bank s (auSetAccount E (vm_bank s) (auBaseAccount E (AddrBytes a) acct)) in
            res_bind (Vm_SetBalance E s1 a (Some 0)) (\<lambda>s2.
              let keys = map fst (Vm_ForEachStorage s2 a);
                  s3 = foldl (\<lambda>s key. Vm_DeleteState s a key) s2 keys;
                  s4 = DeleteCodeHash s3 a
              in Ok (set_vm_bank s4 (auRemoveAccount E (vm_bank s4) acct))))"

text \<open>The keeper as the EVM state sees it: it reads and writes the module's stores in the multi store of the context.\<close>

definition keeper_result :: "('m \<Rightarrow> 's \<Rightarrow> 'm) \<Rightarrow> 'm \<Rightarrow> 's res \<Rightarrow> (error option \<times> 'm) res" where
  "keeper_result save m r =
     (case r of Ok s \<Rightarrow> Ok (None, save m s) | Err e \<Rightarrow> Ok (Some e, m) | Panic e \<Rightarrow> Panic e)"

definition vm_StateKeeper ::
    "('b, 'k) vm_env \<Rightarrow> ('m \<Rightarrow> 'b vm_state) \<Rightarrow> ('m \<Rightarrow> 'b vm_state \<Rightarrow> 'm) \<Rightarrow> string list \<Rightarrow> 'm StateKeeper" where
  "vm_StateKeeper E load save keys =
     \<lparr>kGetAccount = (\<lambda>m. Vm_GetAccount E (load m)),
      kGetState = (\<lambda>m. Vm_GetState (load m)),
      kGetCode = (\<lambda>m. Vm_GetCode (load m)),
      kForEachStorage = (\<lambda>m. Vm_ForEachStorage (load m)),
      kSetAccount = (\<lambda>m a acct. keeper_result save m (Vm_SetAccount E (load m) a acct)),
      kDeleteState = (\<lambda>m a key. save m (Vm_DeleteState (load m) a key)),
      kSetState = (\<lambda>m a key v. save m (Vm_SetState (load m) a key v)),
      kDeleteCode = (\<lambda>m h. save m (Vm_DeleteCode (load m) h)),
      kSetCode = (\<lambda>m h c. save m (Vm_SetCode (load m) h c)),
      kDeleteAccount = (\<lambda>m a. keeper_result save m (Vm_DeleteAccount E (load m) a)),
      kKVStoreKeys = keys\<rparr>"

end
