(* ===== verification/VmModule.thy ===== *)
theory VmModule
  imports VmKeeper
begin

text \<open>
  The rest of x/vm's keeper that a block and genesis need: parameters and coin info, the transient values of a
  block (bloom filter, transaction index, log index, gas used), the EIP-2935 history of block hashes, the
  configuration a transaction runs with, preinstalled contracts, genesis, and the governance messages.
\<close>

section \<open>Parameters and coin info (keeper/params.go, keeper/coin_info.go)\<close>

definition Vm_GetParams :: "'b vm_state \<Rightarrow> VmParams" where
  "Vm_GetParams s = (case vmParamsKey s of None \<Rightarrow> Vm_zeroParams | Some p \<Rightarrow> p)"

definition Vm_SetParams :: "('b, 'k) vm_env \<Rightarrow> 'b vm_state \<Rightarrow> VmParams \<Rightarrow> 'b vm_state res" where
  "Vm_SetParams E s params =
     (let params = params\<lparr>ActiveStaticPrecompiles := sort (ActiveStaticPrecompiles params)\<rparr> in
      case Vm_Params_Validate E params of
        Some e \<Rightarrow> Err e
      | None \<Rightarrow> Ok (s\<lparr>vmParamsKey := Some params\<rparr>))"

definition EnableStaticPrecompiles :: "('b, 'k) vm_env \<Rightarrow> 'b vm_state \<Rightarrow> address list \<Rightarrow> 'b vm_state res" where
  "EnableStaticPrecompiles E s as =
     (let params = Vm_GetParams s in
      res_bind (appendPrecompiles E (ActiveStaticPrecompiles params) as) (\<lambda>updated.
        Vm_SetParams E s (params\<lparr>ActiveStaticPrecompiles := updated\<rparr>)))"

definition EnableEIPs :: "('b, 'k) vm_env \<Rightarrow> 'b vm_state \<Rightarrow> int list \<Rightarrow> 'b vm_state res" where
  "EnableEIPs E s eips =
     (let params = Vm_GetParams s in Vm_SetParams E s (params\<lparr>ExtraEIPs := sort (ExtraEIPs params @ eips)\<rparr>))"

text \<open>The decimals are the exponent of the last unit whose denomination is the display one.\<close>

definition display_decimals :: "Metadata \<Rightarrow> Decimals" where
  "display_decimals md =
     foldl (\<lambda>dec u. if duDenom u = mdDisplay md then duExponent u else dec) 0 (mdDenomUnits md)"

definition LoadEvmCoinInfo :: "('b, 'k) vm_env \<Rightarrow> 'b vm_state \<Rightarrow> EvmCoinInfo res" where
  "LoadEvmCoinInfo E s =
     (let params = Vm_GetParams s in
      case vDenomMetaData E (vm_bank s) (EvmDenom params) of
        None \<Rightarrow> Err (ErrMsg ''denom metadata could not be found'')
      | Some md \<Rightarrow>
          let decimals = display_decimals md in
          res_bind
            (if decimals = 18 then Ok (EvmDenom params)
             else (case ExtendedDenomOptions params of
                     None \<Rightarrow> Err (ErrMsg ''extended denom options cannot be nil for non-18-decimal chains'')
                   | Some d \<Rightarrow> Ok d))
            (\<lambda>extendedDenom.
               Ok \<lparr>eciDenom = EvmDenom params, eciExtendedDenom = extendedDenom, eciDisplayDenom = mdDisplay md,
                   eciDecimals = decimals\<rparr>))"

definition SetEvmCoinInfo :: "'b vm_state \<Rightarrow> EvmCoinInfo \<Rightarrow> 'b vm_state" where
  "SetEvmCoinInfo s ci = s\<lparr>vmCoinInfoKey := Some ci\<rparr>"

definition GetEvmCoinInfo :: "('b, 'k) vm_env \<Rightarrow> 'b vm_state \<Rightarrow> EvmCoinInfo" where
  "GetEvmCoinInfo E s = (case vmCoinInfoKey s of None \<Rightarrow> vDefaultCoinInfo E | Some ci \<Rightarrow> ci)"

definition InitEvmCoinInfo :: "('b, 'k) vm_env \<Rightarrow> 'b vm_state \<Rightarrow> 'b vm_state res" where
  "InitEvmCoinInfo E s = res_bind (LoadEvmCoinInfo E s) (\<lambda>ci. Ok (SetEvmCoinInfo s ci))"

section \<open>Transient values (keeper/keeper.go)\<close>

definition GetBlockBloomTransient :: "'b vm_state \<Rightarrow> int" where
  "GetBlockBloomTransient s = (case vmBloom s of None \<Rightarrow> 0 | Some b \<Rightarrow> b)"

definition SetBlockBloomTransient :: "'b vm_state \<Rightarrow> int \<Rightarrow> 'b vm_state" where
  "SetBlockBloomTransient s bloom = s\<lparr>vmBloom := Some bloom\<rparr>"

definition SetTxIndexTransient :: "'b vm_state \<Rightarrow> 64 word \<Rightarrow> 'b vm_state" where
  "SetTxIndexTransient s index = s\<lparr>vmTxIndex := Some index\<rparr>"

definition GetTxIndexTransient :: "'b vm_state \<Rightarrow> 64 word" where
  "GetTxIndexTransient s = word_or_zero (vmTxIndex s)"

definition GetLogSizeTransient :: "'b vm_state \<Rightarrow> 64 word" where
  "GetLogSizeTransient s = word_or_zero (vmLogSize s)"

definition SetLogSizeTransient :: "'b vm_state \<Rightarrow> 64 word \<Rightarrow> 'b vm_state" where
  "SetLogSizeTransient s logSize = s\<lparr>vmLogSize := Some logSize\<rparr>"

definition ResetTransientGasUsed :: "'b vm_state \<Rightarrow> 'b vm_state" where
  "ResetTransientGasUsed s = s\<lparr>vmGasUsed := None\<rparr>"

definition GetTransientGasUsed :: "'b vm_state \<Rightarrow> 64 word" where
  "GetTransientGasUsed s = word_or_zero (vmGasUsed s)"

definition SetTransientGasUsed :: "'b vm_state \<Rightarrow> 64 word \<Rightarrow> 'b vm_state" where
  "SetTransientGasUsed s gasUsed = s\<lparr>vmGasUsed := Some gasUsed\<rparr>"

definition AddTransientGasUsed :: "'b vm_state \<Rightarrow> 64 word \<Rightarrow> (64 word \<times> 'b vm_state) res" where
  "AddTransientGasUsed s gasUsed =
     (let result = GetTransientGasUsed s + gasUsed in
      if result < gasUsed then Err (ErrWrapped ''transient gas used'' (ErrMsg ''gas overflow''))
      else Ok (result, SetTransientGasUsed s result))"

section \<open>The context and the history of block hashes\<close>

text \<open>What the keeper reads of the SDK context: the height, the header hash (empty in a query), the hash of the
  header recomputed (\<open>None\<close> when the header does not convert) and the proposer.\<close>

record vm_ctx =
  cxHeight :: int
  cxHeaderHash :: bytes
  cxComputedHash :: "bytes option"
  cxProposer :: AccAddress

definition ring_index :: "'b vm_state \<Rightarrow> 64 word \<Rightarrow> hash" where
  "ring_index s height =
     (let params = Vm_GetParams s;
          window = (if 0 < HistoryServeWindow params then HistoryServeWindow params else DefaultHistoryServeWindow)
      in ucast (height mod window))"

definition SetHeaderHash :: "('b, 'k) vm_env \<Rightarrow> vm_ctx \<Rightarrow> 'b vm_state \<Rightarrow> 'b vm_state" where
  "SetHeaderHash E ctx s =
     (let a = vHistoryStorageAddress E in
      if Vm_GetAccount E s a \<noteq> None \<and> IsContract E s a
      then Vm_SetState s a (ring_index s (word_of_int (cxHeight ctx))) (cxHeaderHash ctx)
      else s)"

definition GetHeaderHash :: "('b, 'k) vm_env \<Rightarrow> 'b vm_state \<Rightarrow> 64 word \<Rightarrow> hash" where
  "GetHeaderHash E s height = Vm_GetState s (vHistoryStorageAddress E) (ring_index s height)"

definition SafeInt64 :: "64 word \<Rightarrow> int res" where
  "SafeInt64 value = (if 2 ^ 63 \<le> uint value then Err (ErrMsg ''value cannot exceed MaxInt64'') else Ok (uint value))"

definition GetHashFn :: "('b, 'k) vm_env \<Rightarrow> vm_ctx \<Rightarrow> 'b vm_state \<Rightarrow> 64 word \<Rightarrow> hash" where
  "GetHashFn E ctx s height =
     (case SafeInt64 height of
        Ok h \<Rightarrow>
          if cxHeight ctx = h then
            (if cxHeaderHash ctx \<noteq> [] then BytesToHash (cxHeaderHash ctx)
             else (case cxComputedHash ctx of None \<Rightarrow> 0 | Some bz \<Rightarrow> BytesToHash bz))
          else if h < cxHeight ctx then GetHeaderHash E s height
          else 0
      | Err _ \<Rightarrow> 0
      | Panic _ \<Rightarrow> 0)"

section \<open>The configuration of a transaction (keeper/config.go, keeper/block_proposer.go)\<close>

definition GetProposerAddress :: "vm_ctx \<Rightarrow> AccAddress \<Rightarrow> AccAddress" where
  "GetProposerAddress ctx proposer = (if proposer = [] then cxProposer ctx else proposer)"

definition GetCoinbaseAddress :: "('b, 'k) vm_env \<Rightarrow> vm_ctx \<Rightarrow> AccAddress \<Rightarrow> address res" where
  "GetCoinbaseAddress E ctx proposer =
     (let proposer = GetProposerAddress ctx proposer in
      if proposer = [] then Ok 0
      else
        res_bind (res_map_err (ErrWrapped ''failed to retrieve validator from block proposer address'')
          (skValidatorOperator E proposer)) (\<lambda>operator.
        res_bind (res_map_err (ErrWrapped ''failed to convert validator operator address to bytes'')
          (valAddressFromBech32 E operator)) (\<lambda>bz.
        Ok (BytesToAddress bz))))"

text \<open>\<open>GetBaseFee\<close> of the keeper: nil before London.\<close>

definition Vm_GetBaseFee :: "('b, 'k) vm_env \<Rightarrow> vm_ctx \<Rightarrow> 'b vm_state \<Rightarrow> int option" where
  "Vm_GetBaseFee E ctx s =
     (if \<not> vIsLondon E (cxHeight ctx) then None
      else Some (Wrapper_GetBaseFee (vfe E) (vfm s) (eciDecimals (GetEvmCoinInfo E s))))"

definition Vm_GetMinGasPrice :: "('b, 'k) vm_env \<Rightarrow> 'b vm_state \<Rightarrow> int option res" where
  "Vm_GetMinGasPrice E s = res_bind (Wrapper_GetParams (vfe E) (vfm s)) (\<lambda>p. Ok (MinGasPrice p))"

record EVMConfig =
  cfgParams :: VmParams
  cfgFeeMarketParams :: Params
  cfgCoinBase :: address
  cfgBaseFee :: "int option"

definition Vm_EVMConfig :: "('b, 'k) vm_env \<Rightarrow> vm_ctx \<Rightarrow> 'b vm_state \<Rightarrow> AccAddress \<Rightarrow> EVMConfig res" where
  "Vm_EVMConfig E ctx s proposer =
     (let params = Vm_GetParams s in
      res_bind (Wrapper_GetParams (vfe E) (vfm s)) (\<lambda>feemarketParams.
      res_bind (res_map_err (ErrWrapped ''failed to obtain coinbase address'') (GetCoinbaseAddress E ctx proposer)) (\<lambda>coinbase.
      Ok \<lparr>cfgParams = params, cfgFeeMarketParams = feemarketParams, cfgCoinBase = coinbase,
          cfgBaseFee = Vm_GetBaseFee E ctx s\<rparr>)))"

definition Vm_TxConfig :: "'b vm_state \<Rightarrow> hash \<Rightarrow> TxConfig" where
  "Vm_TxConfig s txHash = NewTxConfig txHash (GetTxIndexTransient s) (GetLogSizeTransient s)"

section \<open>Preinstalled contracts and genesis (keeper/preinstalls.go, genesis.go, types/genesis.go)\<close>

definition add_preinstall :: "('b, 'k) vm_env \<Rightarrow> 'b vm_state \<Rightarrow> Preinstall \<Rightarrow> 'b vm_state res" where
  "add_preinstall E s p =
     (let a = vHexToAddress E (piAddress p); accAddress = AddrBytes a in
      if piCode p = [] then Err (ErrMsg ''preinstall has no code'')
      else
        let codeHash = vKeccak E (vFromHex E (piCode p)) in
        if codeHash = Vm_EmptyCodeHash E then Err (ErrMsg ''preinstall has empty code hash'')
        else if Vm_GetCodeHash E s a \<noteq> Vm_EmptyCodeHash E \<and> Vm_GetCodeHash E s a \<noteq> codeHash
        then Err (ErrMsg ''preinstall already has a code hash with a different code hash'')
        else if auGetAccount E (vm_bank s) accAddress \<noteq> None
        then Err (ErrMsg ''preinstall already has an account in account keeper'')
        else
          (case auNewAccount E (vm_bank s) accAddress of (account, b) \<Rightarrow>
             let s1 = set_vm_bank s (auSetAccount E b account) in
             res_bind (SetCodeHash s1 a (Some codeHash)) (\<lambda>s2.
               Ok (Vm_SetCode s2 codeHash (vFromHex E (piCode p))))))"

fun AddPreinstalls :: "('b, 'k) vm_env \<Rightarrow> Preinstall list \<Rightarrow> 'b vm_state \<Rightarrow> 'b vm_state res" where
  "AddPreinstalls E [] s = Ok s"
| "AddPreinstalls E (p # ps) s = res_bind (add_preinstall E s p) (AddPreinstalls E ps)"

record GenesisAccount =
  gaAddress :: string
  gaCode :: string
  gaStorage :: "(string \<times> string) list"

record VmGenesisState =
  vgAccounts :: "GenesisAccount list"
  vgParams :: VmParams
  vgPreinstalls :: "Preinstall list"

definition State_Validate :: "string \<times> string \<Rightarrow> error option" where
  "State_Validate st = (if list_all isSpace (fst st) then Some (ErrMsg ''state key hash cannot be blank'') else None)"

fun Storage_Validate_loop :: "string list \<Rightarrow> (string \<times> string) list \<Rightarrow> error option" where
  "Storage_Validate_loop seen [] = None"
| "Storage_Validate_loop seen (st # sts) =
     (if fst st \<in> set seen then Some (ErrMsg ''duplicate state key'')
      else (case State_Validate st of Some e \<Rightarrow> Some e | None \<Rightarrow> Storage_Validate_loop (fst st # seen) sts))"

definition GenesisAccount_Validate :: "('b, 'k) vm_env \<Rightarrow> GenesisAccount \<Rightarrow> error option" where
  "GenesisAccount_Validate E ga =
     (if \<not> vIsHexAddress E (gaAddress ga) then Some ErrInvalidAddress
      else Storage_Validate_loop [] (gaStorage ga))"

fun genesis_accounts_loop :: "('b, 'k) vm_env \<Rightarrow> string list \<Rightarrow> GenesisAccount list \<Rightarrow> error + string list" where
  "genesis_accounts_loop E seen [] = Inr seen"
| "genesis_accounts_loop E seen (acc # accs) =
     (if gaAddress acc \<in> set seen then Inl (ErrMsg ''duplicated genesis account'')
      else (case GenesisAccount_Validate E acc of
              Some e \<Rightarrow> Inl (ErrWrapped ''invalid genesis account'' e)
            | None \<Rightarrow> genesis_accounts_loop E (gaAddress acc # seen) accs))"

fun genesis_preinstalls_loop :: "('b, 'k) vm_env \<Rightarrow> string list \<Rightarrow> string list \<Rightarrow> Preinstall list \<Rightarrow> error option" where
  "genesis_preinstalls_loop E accounts seen [] = None"
| "genesis_preinstalls_loop E accounts seen (p # ps) =
     (if piAddress p \<in> set seen then Some (ErrMsg ''duplicated preinstall address'')
      else (case Preinstall_Validate E p of
              Some e \<Rightarrow> Some (ErrWrapped ''invalid preinstall'' e)
            | None \<Rightarrow>
                if piAddress p \<in> set accounts then Some (ErrMsg ''preinstall address conflicts with genesis account'')
                else genesis_preinstalls_loop E accounts (piAddress p # seen) ps))"

definition VmGenesisState_Validate :: "('b, 'k) vm_env \<Rightarrow> VmGenesisState \<Rightarrow> error option" where
  "VmGenesisState_Validate E gs =
     (case genesis_accounts_loop E [] (vgAccounts gs) of
        Inl e \<Rightarrow> Some e
      | Inr accounts \<Rightarrow>
          (case genesis_preinstalls_loop E accounts [] (vgPreinstalls gs) of
             Some e \<Rightarrow> Some e
           | None \<Rightarrow> Vm_Params_Validate E (vgParams gs)))"

definition Vm_DefaultGenesisState :: VmGenesisState where
  "Vm_DefaultGenesisState = \<lparr>vgAccounts = [], vgParams = Vm_DefaultParams, vgPreinstalls = []\<rparr>"

definition init_account :: "('b, 'k) vm_env \<Rightarrow> 'b vm_state \<Rightarrow> GenesisAccount \<Rightarrow> 'b vm_state res" where
  "init_account E s account =
     (let a = vHexToAddress E (gaAddress account) in
      case auGetAccount E (vm_bank s) (AddrBytes a) of
        None \<Rightarrow> Panic (ErrMsg ''account not found'')
      | Some _ \<Rightarrow>
          let c = vHex2Bytes E (gaCode account); codeHash = vKeccak E c in
          res_bind (if codeHash = Vm_EmptyCodeHash E then Ok s else SetCodeHash s a (Some codeHash)) (\<lambda>s1.
            let s2 = (if c = [] then s1 else Vm_SetCode s1 codeHash c) in
            Ok (foldl (\<lambda>s (key, value). Vm_SetState s a (vHexToHash E key) (Hash_Bytes (vHexToHash E value)))
                  s2 (gaStorage account))))"

fun init_accounts :: "('b, 'k) vm_env \<Rightarrow> GenesisAccount list \<Rightarrow> 'b vm_state \<Rightarrow> 'b vm_state res" where
  "init_accounts E [] s = Ok s"
| "init_accounts E (acc # accs) s = res_bind (init_account E s acc) (init_accounts E accs)"

text \<open>The global coin info of the process is set once, by a callback that this module shares with the pre-blocker;
  it is the \<open>coin_globals\<close> of theory EvmDenom and not part of the stores.\<close>

definition Vm_InitGenesis :: "('b, 'k) vm_env \<Rightarrow> 'b vm_state \<Rightarrow> VmGenesisState \<Rightarrow> 'b vm_state res" where
  "Vm_InitGenesis E s data =
     res_bind (res_must (ErrWrapped ''error setting params'') (Vm_SetParams E s (vgParams data))) (\<lambda>s1.
     if akGetModuleAddress (ak (vpk E)) evmModuleName = None then Panic (ErrMsg ''the EVM module account has not been set'')
     else
       res_bind (init_accounts E (vgAccounts data) s1) (\<lambda>s2.
       res_bind (res_must (ErrWrapped ''error initializing evm coin info'') (InitEvmCoinInfo E s2)) (\<lambda>s3.
       res_must (ErrWrapped ''error adding preinstalls'') (AddPreinstalls E (vgPreinstalls data) s3))))"

definition code_or_nil :: "bytes option \<Rightarrow> bytes" where
  "code_or_nil c = (case c of None \<Rightarrow> [] | Some bs \<Rightarrow> bs)"

definition Vm_ExportGenesis :: "('b, 'k) vm_env \<Rightarrow> 'b vm_state \<Rightarrow> VmGenesisState" where
  "Vm_ExportGenesis E s =
     \<lparr>vgAccounts = IterateContracts s
        (\<lambda>a h accs. (False, accs @ [\<lparr>gaAddress = vAddrHex E a, gaCode = vBytes2Hex E (code_or_nil (Vm_GetCode s h)),
           gaStorage = GetAccountStorage E s a\<rparr>])) [],
      vgParams = Vm_GetParams s, vgPreinstalls = []\<rparr>"

section \<open>Governance messages (keeper/msg_server.go)\<close>

definition Vm_UpdateParams :: "('b, 'k) vm_env \<Rightarrow> 'b vm_state \<Rightarrow> string \<Rightarrow> VmParams \<Rightarrow> 'b vm_state res" where
  "Vm_UpdateParams E s authority params =
     (if vAuthority E \<noteq> authority then Err (ErrMsg ''invalid authority'') else Vm_SetParams E s params)"

definition RegisterPreinstalls :: "('b, 'k) vm_env \<Rightarrow> 'b vm_state \<Rightarrow> string \<Rightarrow> Preinstall list \<Rightarrow> 'b vm_state res" where
  "RegisterPreinstalls E s authority ps =
     (if vAuthority E \<noteq> authority then Err (ErrMsg ''invalid authority'') else AddPreinstalls E ps s)"

section \<open>Block hooks (keeper/abci.go)\<close>

text \<open>Of the begin blocker the history write is a state change; the base fee event is not modelled. The end blocker
  emits the bloom filter of the block.\<close>

definition Vm_BeginBlock :: "('b, 'k) vm_env \<Rightarrow> vm_ctx \<Rightarrow> 'b vm_state \<Rightarrow> 'b vm_state" where
  "Vm_BeginBlock E ctx s = SetHeaderHash E ctx s"

end
