(* ===== verification/VmTransition.thy ===== *)
theory VmTransition
  imports VmModule
begin

text \<open>
  The state transition of one EVM transaction (\<open>src/x/vm/keeper/state_transition.go\<close>, \<open>gas.go\<close>, \<open>fees.go\<close>,
  \<open>call_evm.go\<close>, \<open>hooks.go\<close>, the message handler of \<open>msg_server.go\<close>, the gas meter of
  \<open>src/x/vm/types/gasmeter.go\<close> and the state overrides of \<open>src/rpc/types/types.go\<close>): the fees of a
  transaction, the run of its message over an EVM state, the gas it is charged and the refund of the rest.

  The interpreter of go-ethereum is a parameter (\<open>evm_api\<close>): a call or a creation that takes the EVM state and
  the gas it may use and returns what it returned, the gas it left and the state. So are its gas tables, its
  transactions and the recovery of signatures. Gas is a 64-bit word and every sum and difference is the wrapping one
  of the code. The context of a transaction is the multi store it works on and its gas meter; a cached context is a
  copy of the store that its commit writes back. Events, tracing and telemetry are not modelled.
\<close>

section \<open>The gas meter (types/gasmeter.go)\<close>

text \<open>The meter the ante handler installs for Ethereum transactions is unbounded. Other messages run with the
  bounded meter of the SDK, which panics when more than its limit is consumed.\<close>

record gasMeter =
  gmConsumed :: "64 word"
  gmLimit :: "64 word"
  gmBounded :: bool

definition NewInfiniteGasMeterWithLimit :: "64 word \<Rightarrow> gasMeter" where
  "NewInfiniteGasMeterWithLimit limit = \<lparr>gmConsumed = 0, gmLimit = limit, gmBounded = False\<rparr>"

definition addUint64Overflow :: "64 word \<Rightarrow> 64 word \<Rightarrow> 64 word \<times> bool" where
  "addUint64Overflow a b = (if - 1 - a < b then (0, True) else (a + b, False))"

definition ConsumeGas :: "gasMeter \<Rightarrow> 64 word \<Rightarrow> gasMeter res" where
  "ConsumeGas g amount =
     (case addUint64Overflow (gmConsumed g) amount of (consumed, overflow) \<Rightarrow>
        if overflow then Panic (ErrMsg ''gas overflow'')
        else if gmBounded g \<and> gmLimit g < consumed then Panic (ErrMsg ''out of gas'')
        else Ok (g\<lparr>gmConsumed := consumed\<rparr>))"

definition meter_RefundGas :: "gasMeter \<Rightarrow> 64 word \<Rightarrow> gasMeter res" where
  "meter_RefundGas g amount =
     (if gmConsumed g < amount then Panic (ErrMsg ''negative gas consumed'')
      else Ok (g\<lparr>gmConsumed := gmConsumed g - amount\<rparr>))"

definition GasRemaining :: "gasMeter \<Rightarrow> 64 word" where
  "GasRemaining g = (if gmLimit g < gmConsumed g then 0 else gmLimit g - gmConsumed g)"

section \<open>Messages, transactions and the interpreter\<close>

record SetCodeAuthorization =
  auChainID :: "256 word"
  auAddress :: address
  auNonce :: "64 word"
  auSignature :: bytes

record coreMessage =
  mFrom :: address
  mTo :: "address option"
  mNonce :: "64 word"
  mValue :: int
  mGasLimit :: "64 word"
  mGasPrice :: int
  mData :: bytes
  mAccessList :: "(address \<times> hash list) list"
  mAuthorizations :: "SetCodeAuthorization list"

text \<open>A transaction of go-ethereum: its fields, and what its methods return.\<close>

record ethTx =
  etHash :: hash
  etTo :: "address option"
  etGas :: "64 word"
  etData :: bytes
  etAccessList :: "(address \<times> hash list) list"
  etAuthorizations :: "SetCodeAuthorization list"
  etGasFeeCap :: int
  etCost :: int
  etEffectiveGasTip :: "int option \<Rightarrow> int"
  etSender :: "address res"
  etMessage :: "int option \<Rightarrow> coreMessage res"

text \<open>An instance of the interpreter: the block and transaction context and the configuration it is created with.\<close>

record evmInstance =
  evCoinbase :: address
  evGasLimit :: "64 word"
  evNumber :: int
  evBaseFee :: "int option"
  evGetHash :: "64 word \<Rightarrow> hash"
  evOrigin :: address
  evGasPrice :: int
  evNoBaseFee :: bool
  evExtraEips :: "int list"
  evPolicy :: PermissionPolicy
  evKeeperPrecompiles :: bool

record 'c evmOutcome =
  eoRet :: bytes
  eoLeftoverGas :: "64 word"
  eoErr :: "error option"
  eoReturnData :: bytes
  eoState :: "'c StateDB"

record ('c, 'p) evm_api =
  evmCreate :: "evmInstance \<Rightarrow> 'c StateDB \<Rightarrow> address \<Rightarrow> bytes \<Rightarrow> 64 word \<Rightarrow> 256 word \<Rightarrow> 'c evmOutcome res"
  evmCall :: "evmInstance \<Rightarrow> 'c StateDB \<Rightarrow> address \<Rightarrow> address \<Rightarrow> bytes \<Rightarrow> 64 word \<Rightarrow> 256 word \<Rightarrow> 'c evmOutcome res"
  ErrExecutionReverted :: error
  IntrinsicGas :: "bytes \<Rightarrow> (address \<times> hash list) list \<Rightarrow> SetCodeAuthorization list \<Rightarrow> bool \<Rightarrow> 64 word res"
  FloorDataGas :: "bytes \<Rightarrow> 64 word res"
  ethRules :: "int \<Rightarrow> Rules"
  isPrague :: "int \<Rightarrow> bool"
  gethPrecompiles :: "int \<Rightarrow> (address, 'p) kv"
  activePrecompiles :: "evmInstance \<Rightarrow> (address, 'p) kv option \<Rightarrow> address list"
  recoverAuthority :: "SetCodeAuthorization \<Rightarrow> address res"
  createAddr :: "address \<Rightarrow> 64 word \<Rightarrow> address"
  chainID :: int
  RefundQuotient :: "64 word"
  RefundQuotientEIP3529 :: "64 word"
  CallNewAccountGas :: "64 word"
  TxAuthTupleGas :: "64 word"

text \<open>What the handlers of a chain run with: the keeper's environment, the EVM state's, the interpreter, where the
  module finds its stores in a multi store, and the hooks that are set.\<close>

record txReceipt =
  rcCumulativeGasUsed :: "64 word"
  rcBloom :: int
  rcLogs :: "Log list"
  rcContractAddress :: address
  rcGasUsed :: "64 word"
  rcSuccessful :: bool

record 'c tx_ctx =
  txStore :: "'c multistore"
  txMeter :: gasMeter

type_synonym 'c evm_hook = "'c tx_ctx \<Rightarrow> address \<Rightarrow> coreMessage \<Rightarrow> txReceipt \<Rightarrow> (txReceipt, 'c tx_ctx) eff"

record ('b, 'k, 'c, 'p) chain =
  venv :: "('b, 'k) vm_env"
  senv :: "'c sdbEnv"
  evmApi :: "('c, 'p) evm_api"
  loadVm :: "'c multistore \<Rightarrow> 'b vm_state"
  saveVm :: "'c multistore \<Rightarrow> 'b vm_state \<Rightarrow> 'c multistore"
  vmHooks :: "'c evm_hook list option"
  blockGasLimit :: "64 word"
  deductFees :: "('b pstate \<Rightarrow> AccAddress \<Rightarrow> string \<Rightarrow> coins \<Rightarrow> 'b pstate res) \<Rightarrow>
    'b pstate \<Rightarrow> AccAddress \<Rightarrow> coins \<Rightarrow> 'b pstate res"

definition vm_of :: "('b, 'k, 'c, 'p) chain \<Rightarrow> 'c tx_ctx \<Rightarrow> 'b vm_state" where
  "vm_of C ctx = loadVm C (txStore ctx)"

definition put_vm :: "('b, 'k, 'c, 'p) chain \<Rightarrow> 'c tx_ctx \<Rightarrow> 'b vm_state \<Rightarrow> 'c tx_ctx" where
  "put_vm C ctx s = ctx\<lparr>txStore := saveVm C (txStore ctx) s\<rparr>"

section \<open>Gas (keeper/gas.go)\<close>

definition GasToRefund :: "64 word \<Rightarrow> 64 word \<Rightarrow> 64 word \<Rightarrow> 64 word" where
  "GasToRefund availableRefund gasConsumed refundQuotient =
     (let refund = gasConsumed div refundQuotient in
      if availableRefund < refund then availableRefund else refund)"

definition GetEthIntrinsicGas :: "('b, 'k, 'c, 'p) chain \<Rightarrow> coreMessage \<Rightarrow> bool \<Rightarrow> 64 word res" where
  "GetEthIntrinsicGas C msg isContractCreation =
     IntrinsicGas (evmApi C) (mData msg) (mAccessList msg) (mAuthorizations msg) isContractCreation"

definition FeeCollectorName :: string where "FeeCollectorName = ''fee_collector''"

text \<open>\<open>sdk.NewCoin\<close> panics on an invalid denomination.\<close>

definition RefundGas :: "'b Keeper \<Rightarrow> 'b pstate \<Rightarrow> coreMessage \<Rightarrow> 64 word \<Rightarrow> denom \<Rightarrow> 'b pstate res" where
  "RefundGas K s msg leftoverGas d =
     (let remaining = uint leftoverGas * mGasPrice msg in
      if remaining < 0 then Err (ErrMsg ''refunded amount value cannot be negative'')
      else if 0 < remaining then
        (if \<not> cValidDenom (api K) d then Panic (ErrMsg ''invalid denom'')
         else res_map_err (ErrWrapped ''fee collector account failed to refund fees'')
           (Bank_SendCoinsFromModuleToAccount K s FeeCollectorName (AddrBytes (mFrom msg)) [newCoin d remaining]))
      else Ok s)"

definition ResetGasMeterAndConsumeGas :: "gasMeter \<Rightarrow> 64 word \<Rightarrow> gasMeter res" where
  "ResetGasMeterAndConsumeGas g gasUsed =
     res_bind (meter_RefundGas g (gmConsumed g)) (\<lambda>g1. ConsumeGas g1 gasUsed)"

definition calculateCumulativeGasFromEthResponse :: "gasMeter option \<Rightarrow> 64 word \<Rightarrow> 64 word" where
  "calculateCumulativeGasFromEthResponse meter gasUsed =
     (case meter of
        None \<Rightarrow> gasUsed
      | Some g \<Rightarrow>
          let cumulativeGasUsed = gasUsed + gmConsumed g in
          if gmLimit g < cumulativeGasUsed then gmLimit g else cumulativeGasUsed)"

section \<open>Fees (keeper/fees.go)\<close>

definition CheckSenderBalance :: "int \<Rightarrow> ethTx \<Rightarrow> error option" where
  "CheckSenderBalance balance tx =
     (if etCost tx < 0 then Some ErrInvalidCoins
      else if balance < 0 \<or> balance < etCost tx then Some (ErrMsg ''sender balance < tx cost'')
      else None)"

definition DeductTxCostsFromUserBalance ::
    "('b, 'k, 'c, 'p) chain \<Rightarrow> 'b vm_state \<Rightarrow> coins \<Rightarrow> address \<Rightarrow> 'b vm_state res" where
  "DeductTxCostsFromUserBalance C s fees from =
     (let E = venv C in
      case auGetAccount E (vm_bank s) (AddrBytes from) of
        None \<Rightarrow> Err (ErrWrapped ''account not found for sender'' ErrUnknownAddress)
      | Some _ \<Rightarrow>
          on_vpb s (res_map_err (ErrWrapped ''failed to deduct full gas cost from the user balance'')
            (deductFees C (Bank_SendCoinsFromAccountToModule (vpk E)) (vpb s) (AddrBytes from) fees)))"

text \<open>A nil base fee is guarded in the comparison and then added: \<open>big.Int.Add\<close> of a nil pointer panics.\<close>

definition VerifyFee :: "('c, 'p) evm_api \<Rightarrow> ethTx \<Rightarrow> denom \<Rightarrow> int option \<Rightarrow> bool \<Rightarrow> coins res" where
  "VerifyFee A tx d baseFee isCheckTx =
     res_bind (res_map_err (ErrWrapped ''failed to retrieve intrinsic gas'')
       (IntrinsicGas A (etData tx) (etAccessList tx) (etAuthorizations tx) (etTo tx = None))) (\<lambda>intrinsicGas.
     if isCheckTx \<and> etGas tx < intrinsicGas then Err (ErrMsg ''gas limit too low'')
     else if (case baseFee of None \<Rightarrow> False | Some bf \<Rightarrow> etGasFeeCap tx < bf)
     then Err (ErrMsg ''the tx gasfeecap is lower than the tx baseFee'')
     else
       (case baseFee of
          None \<Rightarrow> nilDeref
        | Some bf \<Rightarrow>
            let price = etEffectiveGasTip tx baseFee + bf;
                feeAmt = uint (etGas tx) * price
            in if feeAmt = 0 then Ok []
               else if 2 ^ 256 \<le> \<bar>feeAmt\<bar> then Panic (ErrMsg ''NewIntFromBigInt() out of bound'')
               else Ok [newCoin d feeAmt]))"

section \<open>State overrides (rpc/types/types.go)\<close>

record OverrideAccount =
  ovNonce :: "64 word option"
  ovCode :: "bytes option"
  ovBalance :: "int option"
  ovState :: "Storage option"
  ovStateDiff :: "(hash \<times> hash) list option"
  ovMovePrecompileTo :: "address option"

text \<open>The loop over the map of overrides, in the order Go happens to visit it. \<open>uint256.FromBig\<close> keeps the low 256
  bits; the overflow it reports is ignored.\<close>

definition override_account :: "'c sdbEnv \<Rightarrow> address \<Rightarrow> OverrideAccount \<Rightarrow> 'c StateDB \<Rightarrow> 'c StateDB res" where
  "override_account S a acc s =
     (let s1 = (case ovNonce acc of None \<Rightarrow> s | Some n \<Rightarrow> SetNonce S s a n);
          s2 = (case ovCode acc of None \<Rightarrow> s1 | Some c \<Rightarrow> snd (SetCode S s1 a (Some c)));
          s3 = (case ovBalance acc of None \<Rightarrow> s2 | Some b \<Rightarrow> SetBalance S s2 a (word_of_int b))
      in if ovState acc \<noteq> None \<and> ovStateDiff acc \<noteq> None then Err (ErrMsg ''account has both 'state' and 'stateDiff' '')
      else
        let s4 = (case ovState acc of None \<Rightarrow> s3 | Some st \<Rightarrow> SetStorage S s3 a (Some st))
        in Ok (case ovStateDiff acc of
                 None \<Rightarrow> s4
               | Some diff \<Rightarrow> foldl (\<lambda>s (key, value). SetStateOverride S s a key value) s4 diff))"

fun override_loop ::
    "'c sdbEnv \<Rightarrow> address list \<Rightarrow> address list \<Rightarrow> (address \<times> OverrideAccount) list \<Rightarrow> 'c StateDB \<Rightarrow> (address, 'p) kv \<Rightarrow>
      ('c StateDB \<times> (address, 'p) kv) res" where
  "override_loop S overridden moved [] s ps = Ok (s, ps)"
| "override_loop S overridden moved ((a, acc) # accs) s ps =
     (if a \<in> set moved then Err (ErrMsg ''account has already been overridden by a precompile'')
      else
        res_bind
          (case ovMovePrecompileTo acc of
             None \<Rightarrow> Ok (moved, ps)
           | Some to \<Rightarrow>
               (case kv_get ps a of
                  None \<Rightarrow> Err (ErrMsg ''account is not a precompile'')
                | Some p \<Rightarrow>
                    if to \<in> set overridden then Err (ErrMsg ''account is already overridden'')
                    else Ok (to # moved, kv_set to p ps)))
          (\<lambda>(moved, ps').
             let ps'' = (if kv_get ps a = None then ps' else kv_delete a ps') in
             res_bind (override_account S a acc s) (\<lambda>s'. override_loop S overridden moved accs s' ps'')))"

definition StateOverride_Apply ::
    "'c sdbEnv \<Rightarrow> (address \<times> OverrideAccount) list \<Rightarrow> 'c StateDB \<Rightarrow> (address, 'p) kv \<Rightarrow> ('c StateDB \<times> (address, 'p) kv) res" where
  "StateOverride_Apply S diff s ps =
     res_bind (override_loop S (map fst diff) [] diff s ps) (\<lambda>(s', ps'). Ok (Finalise S s' False, ps'))"

section \<open>Authorizations of EIP-7702\<close>

text \<open>The error and the state: the authority is warmed before the last two checks.\<close>

definition validateAuthorization ::
    "('b, 'k, 'c, 'p) chain \<Rightarrow> SetCodeAuthorization \<Rightarrow> 'c StateDB \<Rightarrow> (address + error) \<times> 'c StateDB" where
  "validateAuthorization C auth s =
     (if auChainID auth \<noteq> 0 \<and> uint (auChainID auth) \<noteq> chainID (evmApi C) then (Inr (ErrMsg ''wrong chain ID''), s)
      else if auNonce auth + 1 < auNonce auth then (Inr (ErrMsg ''nonce overflow''), s)
      else
        (case recoverAuthority (evmApi C) auth of
           Ok authority \<Rightarrow>
             let s1 = AddAddressToAccessList s authority;
                 (c, s2) = GetCode (senv C) s1 authority
             in if (case c of None \<Rightarrow> False | Some bs \<Rightarrow> bs \<noteq> []) \<and> vParseDelegation (venv C) c = None
                then (Inr (ErrMsg ''destination has code''), s2)
                else (let (have, s3) = GetNonce (senv C) s2 authority in
                      if have \<noteq> auNonce auth then (Inr (ErrMsg ''nonce mismatch''), s3) else (Inl authority, s3))
         | Err e \<Rightarrow> (Inr (ErrWrapped ''invalid signature'' e), s)
         | Panic e \<Rightarrow> (Inr (ErrWrapped ''invalid signature'' e), s)))"

definition applyAuthorization ::
    "('b, 'k, 'c, 'p) chain \<Rightarrow> SetCodeAuthorization \<Rightarrow> 'c StateDB \<Rightarrow> error option \<times> 'c StateDB" where
  "applyAuthorization C auth s =
     (case validateAuthorization C auth s of
        (Inr e, s1) \<Rightarrow> (Some e, s1)
      | (Inl authority, s1) \<Rightarrow>
          let S = senv C; A = evmApi C;
              (ex, s2) = Exist S s1 authority;
              s3 = (if ex then AddRefund s2 (CallNewAccountGas A - TxAuthTupleGas A) else s2);
              s4 = SetNonce S s3 authority (auNonce auth + 1)
          in if auAddress auth = 0 then (None, snd (SetCode S s4 authority None))
             else (None, snd (SetCode S s4 authority (Some (vAddressToDelegation (venv C) (auAddress auth))))))"

end
