(* ===== verification/VmMessage.thy ===== *)
theory VmMessage
  imports VmTransition
begin

text \<open>
  Running a message: \<open>ApplyMessageWithConfig\<close>, \<open>ApplyTransaction\<close>, \<open>ApplyMessage\<close>, \<open>CallEVMWithData\<close>, the
  hooks that run after a transaction and the handler \<open>EthereumTx\<close>.
\<close>

section \<open>Applying a message\<close>

record MsgEthereumTxResponse =
  rsGasUsed :: "64 word"
  rsMaxUsedGas :: "64 word"
  rsVmError :: "error option"
  rsRet :: bytes
  rsLogs :: "Log list"
  rsHash :: hash

definition Failed :: "MsgEthereumTxResponse \<Rightarrow> bool" where
  "Failed r \<longleftrightarrow> rsVmError r \<noteq> None"

text \<open>\<open>VMConfig\<close> and \<open>NewEVMWithOverridePrecompiles\<close>: the keeper's precompiles are looked up on a call unless the
  state is overridden.\<close>

definition NewEVMWithOverridePrecompiles ::
    "('b, 'k, 'c, 'p) chain \<Rightarrow> vm_ctx \<Rightarrow> 'b vm_state \<Rightarrow> coreMessage \<Rightarrow> EVMConfig \<Rightarrow> bool \<Rightarrow> evmInstance" where
  "NewEVMWithOverridePrecompiles C vctx s msg cfg overridePrecompiles =
     \<lparr>evCoinbase = cfgCoinBase cfg, evGasLimit = blockGasLimit C, evNumber = cxHeight vctx, evBaseFee = cfgBaseFee cfg,
      evGetHash = GetHashFn (venv C) vctx s, evOrigin = mFrom msg, evGasPrice = mGasPrice msg,
      evNoBaseFee = (if vIsLondon (venv C) (cxHeight vctx) then NoBaseFee (cfgFeeMarketParams cfg) else True),
      evExtraEips = ExtraEIPs (cfgParams cfg),
      evPolicy = NewRestrictedPermissionPolicy (venv C) (accessControl (cfgParams cfg)) (mFrom msg),
      evKeeperPrecompiles = overridePrecompiles\<rparr>"

definition NewEVM :: "('b, 'k, 'c, 'p) chain \<Rightarrow> vm_ctx \<Rightarrow> 'b vm_state \<Rightarrow> coreMessage \<Rightarrow> EVMConfig \<Rightarrow> evmInstance" where
  "NewEVM C vctx s msg cfg = NewEVMWithOverridePrecompiles C vctx s msg cfg True"

text \<open>The run of the interpreter: a creation takes over the nonce of the sender, a call first applies the
  authorizations of the message and warms the delegate of the recipient.\<close>

definition run_create ::
    "('b, 'k, 'c, 'p) chain \<Rightarrow> evmInstance \<Rightarrow> coreMessage \<Rightarrow> 64 word \<Rightarrow> 256 word \<Rightarrow> 'c StateDB \<Rightarrow> 'c evmOutcome res" where
  "run_create C ev msg gas value s =
     (let S = senv C; s1 = SetNonce S s (mFrom msg) (mNonce msg) in
      res_bind (evmCreate (evmApi C) ev s1 (mFrom msg) (mData msg) gas value) (\<lambda>out.
        case GetNonce S (eoState out) (mFrom msg) of (nonce, s2) \<Rightarrow>
          Ok (out\<lparr>eoState := if nonce = mNonce msg then SetNonce S s2 (mFrom msg) (mNonce msg + 1) else s2\<rparr>)))"

definition run_call ::
    "('b, 'k, 'c, 'p) chain \<Rightarrow> evmInstance \<Rightarrow> coreMessage \<Rightarrow> address \<Rightarrow> 64 word \<Rightarrow> 256 word \<Rightarrow> 'c StateDB \<Rightarrow>
      'c evmOutcome res" where
  "run_call C ev msg to gas value s =
     (let s1 = foldl (\<lambda>s auth. snd (applyAuthorization C auth s)) s (mAuthorizations msg);
          (c, s2) = GetCode (senv C) s1 to;
          s3 = (case vParseDelegation (venv C) c of None \<Rightarrow> s2 | Some a \<Rightarrow> AddAddressToAccessList s2 a)
      in evmCall (evmApi C) ev s3 (mFrom msg) to (mData msg) gas value)"

text \<open>The charge for what the interpreter used: the refund counter is capped by a fraction of it, the calldata has a
  floor price, and a message from a user pays at least the configured share of its limit. The amount passes through
  a signed 64-bit integer.\<close>

record gasCharge =
  gcMaxUsed :: "64 word"
  gcUsed :: "64 word"
  gcLeftover :: "64 word"

definition temporary_gas :: "('b, 'k, 'c, 'p) chain \<Rightarrow> vm_ctx \<Rightarrow> 64 word \<Rightarrow> 64 word \<Rightarrow> 64 word \<Rightarrow> 64 word \<Rightarrow> gasCharge" where
  "temporary_gas C vctx limit leftover availableRefund floorDataGas =
     (let A = evmApi C;
          refundQuotient = (if vIsLondon (venv C) (cxHeight vctx) then RefundQuotientEIP3529 A else RefundQuotient A);
          maxUsedGas = limit - leftover;
          refund = GasToRefund availableRefund maxUsedGas refundQuotient;
          leftover = leftover + refund;
          temporaryGasUsed = maxUsedGas - refund
      in if isPrague A (cxHeight vctx)
         then \<lparr>gcMaxUsed = (if maxUsedGas < floorDataGas then floorDataGas else maxUsedGas),
               gcUsed = (if temporaryGasUsed < floorDataGas then floorDataGas else temporaryGasUsed),
               gcLeftover = (if temporaryGasUsed < floorDataGas then limit - floorDataGas else leftover)\<rparr>
         else \<lparr>gcMaxUsed = maxUsedGas, gcUsed = temporaryGasUsed, gcLeftover = leftover\<rparr>)"

definition Int_Uint64 :: "int \<Rightarrow> 64 word res" where
  "Int_Uint64 i = (if 0 \<le> i \<and> i < 2 ^ 64 then Ok (word_of_int i) else Panic (ErrMsg ''Int64() out of bound''))"

definition charge_gas :: "dec_ops \<Rightarrow> int option \<Rightarrow> 64 word \<Rightarrow> gasCharge \<Rightarrow> bool \<Rightarrow> 64 word res" where
  "charge_gas D minGasMultiplier limit gc internal =
     (let multiplier = (case minGasMultiplier of None \<Rightarrow> 0 | Some m \<Rightarrow> m);
          minimumGasUsed = decMul D (LegacyNewDec (uint limit)) multiplier;
          truncated = decTruncateInt D minimumGasUsed
      in if \<not> (0 \<le> truncated \<and> truncated < 2 ^ 64) then Err (ErrMsg ''minimumGasUsed is not a uint64'')
         else if limit < gcLeftover gc then Err (ErrMsg ''message gas limit < leftover gas'')
         else
           let gasUsed = LegacyNewDec (sint (gcUsed gc));
               gasUsed = (if internal then gasUsed else max gasUsed minimumGasUsed)
           in Int_Uint64 (decTruncateInt D gasUsed))"

definition ApplyMessageWithConfig ::
    "('b, 'k, 'c, 'p) chain \<Rightarrow> vm_ctx \<Rightarrow> 'c tx_ctx \<Rightarrow> coreMessage \<Rightarrow> bool \<Rightarrow> EVMConfig \<Rightarrow> TxConfig \<Rightarrow> bool \<Rightarrow>
      (address \<times> OverrideAccount) list option \<Rightarrow> (MsgEthereumTxResponse, 'c tx_ctx) eff" where
  "ApplyMessageWithConfig C vctx ctx msg commit cfg txcfg internal overrides =
     (let A = evmApi C; S = senv C; height = cxHeight vctx;
          ev = NewEVMWithOverridePrecompiles C vctx (vm_of C ctx) msg cfg (overrides = None)
      in
      eff_bind (eff_read ctx (case overrides of
          None \<Rightarrow> Ok (New (txStore ctx) [] txcfg, None)
        | Some diff \<Rightarrow> res_map_err (ErrWrapped ''failed to apply state override'')
            (res_bind (StateOverride_Apply S diff (New (txStore ctx) [] txcfg) (gethPrecompiles A height))
              (\<lambda>(s, ps). Ok (s, Some ps))))) (\<lambda>(s, ps) ctx.
      eff_bind (eff_read ctx (res_map_err (ErrWrapped ''intrinsic gas failed'') (GetEthIntrinsicGas C msg (mTo msg = None))))
        (\<lambda>intrinsicGas ctx.
      if mGasLimit msg < intrinsicGas then eff_fail ctx (ErrWrapped ''apply message'' (ErrMsg ''intrinsic gas too low'')) else
      eff_bind (eff_read ctx (if isPrague A height then FloorDataGas A (mData msg) else Ok 0)) (\<lambda>floorDataGas ctx.
      if isPrague A height \<and> mGasLimit msg < floorDataGas then eff_fail ctx (ErrMsg ''insufficient gas for floor data gas cost'')
      else
      eff_bind (eff_read ctx (Prepare s (ethRules A height) (mFrom msg) 0 (mTo msg) (activePrecompiles A ev ps) (mAccessList msg)))
        (\<lambda>s ctx.
      eff_bind (eff_read ctx (Uint256FromBigInt (mValue msg))) (\<lambda>value ctx.
      eff_bind (eff_read ctx (case mTo msg of
          None \<Rightarrow> run_create C ev msg (mGasLimit msg - intrinsicGas) value s
        | Some to \<Rightarrow> run_call C ev msg to (mGasLimit msg - intrinsicGas) value s)) (\<lambda>out ctx.
      if mGasLimit msg < eoLeftoverGas out then eff_fail ctx (ErrWrapped ''apply message'' (ErrMsg ''gas overflow'')) else
      let gc = temporary_gas C vctx (mGasLimit msg) (eoLeftoverGas out) (refund (eoState out)) floorDataGas in
      eff_bind (if commit
                then (case Commit S (eoState out) of
                        Ok (None, s') \<Rightarrow> eff_ret (ctx\<lparr>txStore := ctxStore s'\<rparr>) ()
                      | Ok (Some e, s') \<Rightarrow> eff_fail (ctx\<lparr>txStore := ctxStore s'\<rparr>) (ErrWrapped ''failed to commit stateDB'' e)
                      | Err e \<Rightarrow> eff_fail ctx (ErrWrapped ''failed to commit stateDB'' e)
                      | Panic e \<Rightarrow> Panic e)
                else eff_ret ctx ()) (\<lambda>_ ctx.
      eff_bind (eff_read ctx (charge_gas (fmDec (vfe (venv C))) (MinGasMultiplier (cfgFeeMarketParams cfg))
          (mGasLimit msg) gc internal)) (\<lambda>gasUsed ctx.
      eff_ret ctx
        \<lparr>rsGasUsed = gasUsed, rsMaxUsedGas = gcMaxUsed gc, rsVmError = eoErr out,
         rsRet = (if eoErr out = Some (ErrExecutionReverted A) then eoReturnData out else eoRet out),
         rsLogs = logs (eoState out), rsHash = TxHash txcfg\<rparr>)))))))))"

section \<open>Applying a transaction\<close>

definition initializeBloomFromLogs :: "('b, 'k, 'c, 'p) chain \<Rightarrow> 'c tx_ctx \<Rightarrow> Log list \<Rightarrow> int option \<times> int" where
  "initializeBloomFromLogs C ctx lgs =
     (if lgs = [] then (None, 0)
      else let bloom = or (GetBlockBloomTransient (vm_of C ctx)) (vCreateBloom (venv C) lgs) in (Some bloom, bloom))"

fun MultiEvmHooks_PostTxProcessing ::
    "'c evm_hook list \<Rightarrow> 'c tx_ctx \<Rightarrow> address \<Rightarrow> coreMessage \<Rightarrow> txReceipt \<Rightarrow> (txReceipt, 'c tx_ctx) eff" where
  "MultiEvmHooks_PostTxProcessing [] ctx sender msg receipt = eff_ret ctx receipt"
| "MultiEvmHooks_PostTxProcessing (h # hs) ctx sender msg receipt =
     eff_bind (eff_wrap (ErrWrapped ''EVM hook failed'') (h ctx sender msg receipt)) (\<lambda>receipt ctx.
       MultiEvmHooks_PostTxProcessing hs ctx sender msg receipt)"

definition PostTxProcessing ::
    "('b, 'k, 'c, 'p) chain \<Rightarrow> 'c tx_ctx \<Rightarrow> address \<Rightarrow> coreMessage \<Rightarrow> txReceipt \<Rightarrow> (txReceipt, 'c tx_ctx) eff" where
  "PostTxProcessing C ctx sender msg receipt =
     (case vmHooks C of
        None \<Rightarrow> eff_ret ctx receipt
      | Some hs \<Rightarrow> MultiEvmHooks_PostTxProcessing hs ctx sender msg receipt)"

text \<open>What becomes of the cached context after the run: without hooks it is committed when the transaction
  succeeded; with hooks it is committed when they succeed, and a failed transaction gives them a fresh one. The gas
  meter is shared by the contexts.\<close>

definition finish_context ::
    "('b, 'k, 'c, 'p) chain \<Rightarrow> 'c tx_ctx \<Rightarrow> 'c tx_ctx \<Rightarrow> address \<Rightarrow> coreMessage \<Rightarrow> MsgEthereumTxResponse \<Rightarrow> txReceipt \<Rightarrow>
      (MsgEthereumTxResponse \<times> 'c tx_ctx) res" where
  "finish_context C ctx tmp sender msg r receipt =
     (case vmHooks C of
        None \<Rightarrow> Ok (r, if Failed r then ctx else ctx\<lparr>txStore := txStore tmp\<rparr>)
      | Some _ \<Rightarrow>
          (case PostTxProcessing C (if Failed r then ctx else tmp) sender msg receipt of
             Ok (Inl receipt', tmp') \<Rightarrow>
               Ok (r\<lparr>rsLogs := if Failed r then [] else rcLogs receipt'\<rparr>, ctx\<lparr>txStore := txStore tmp'\<rparr>)
           | Ok (Inr e, _) \<Rightarrow>
               Ok (r\<lparr>rsVmError := Some (ErrWrapped ''failed to execute post transaction processing'' e), rsLogs := []\<rparr>, ctx)
           | Err e \<Rightarrow> Err e
           | Panic e \<Rightarrow> Panic e))"

definition settle_gas ::
    "('b, 'k, 'c, 'p) chain \<Rightarrow> 'c tx_ctx \<Rightarrow> coreMessage \<Rightarrow> MsgEthereumTxResponse \<Rightarrow> 'c tx_ctx res" where
  "settle_gas C ctx msg r =
     (let K = vpk (venv C); s = vm_of C ctx;
          remainingGas = (if rsGasUsed r < mGasLimit msg then mGasLimit msg - rsGasUsed r else 0)
      in res_bind (res_map_err (ErrWrapped ''failed to refund gas leftover gas to sender'')
           (RefundGas K (vpb s) msg remainingGas (eciDenom (info K)))) (\<lambda>p. Ok (put_vm C ctx (s\<lparr>vpb := p\<rparr>))))"

definition ApplyTransaction ::
    "('b, 'k, 'c, 'p) chain \<Rightarrow> vm_ctx \<Rightarrow> 'c tx_ctx \<Rightarrow> ethTx \<Rightarrow> (MsgEthereumTxResponse, 'c tx_ctx) eff" where
  "ApplyTransaction C vctx ctx tx =
     eff_bind (eff_read ctx (res_map_err (ErrWrapped ''failed to load evm config'')
       (Vm_EVMConfig (venv C) vctx (vm_of C ctx) (cxProposer vctx)))) (\<lambda>cfg ctx.
     let txcfg = Vm_TxConfig (vm_of C ctx) (etHash tx) in
     eff_bind (eff_read ctx (res_map_err (ErrWrapped ''failed to return ethereum transaction as core message'')
       (etMessage tx (cfgBaseFee cfg)))) (\<lambda>msg ctx.
     (case ApplyMessageWithConfig C vctx ctx msg True cfg txcfg False None of
        Ok (Inr e, _) \<Rightarrow>
          res_bind (ResetGasMeterAndConsumeGas (txMeter ctx) (gmLimit (txMeter ctx))) (\<lambda>g.
            eff_fail (ctx\<lparr>txMeter := g\<rparr>) (ErrWrapped ''failed to apply ethereum core message'' e))
      | Ok (Inl r, tmp) \<Rightarrow>
          let (_, bloomReceipt) = initializeBloomFromLogs C ctx (rsLogs r);
              receipt = \<lparr>rcCumulativeGasUsed = calculateCumulativeGasFromEthResponse (Some (txMeter ctx)) (rsGasUsed r),
                rcBloom = bloomReceipt, rcLogs = rsLogs r,
                rcContractAddress = (if mTo msg = None then createAddr (evmApi C) (mFrom msg) (mNonce msg) else 0),
                rcGasUsed = rsGasUsed r, rcSuccessful = \<not> Failed r\<rparr>
          in
          eff_bind (eff_read ctx (res_map_err (ErrWrapped ''failed to extract sender address from ethereum transaction'')
            (etSender tx))) (\<lambda>sender ctx.
          eff_bind (eff_read ctx (finish_context C ctx tmp sender msg r receipt)) (\<lambda>(r, ctx1) _.
          let (bloom, _) = initializeBloomFromLogs C ctx1 (rsLogs r) in
          eff_bind (eff_read ctx1 (settle_gas C ctx1 msg r)) (\<lambda>ctx2 _.
          let s = vm_of C ctx2;
              s1 = (case bloom of
                      None \<Rightarrow> s
                    | Some b \<Rightarrow> SetLogSizeTransient (SetBlockBloomTransient s b)
                        (LogIndex txcfg + word_of_nat (length (rsLogs r))));
              s2 = SetTxIndexTransient s1 (TxIndex txcfg + 1)
          in
          (case AddTransientGasUsed s2 (rsGasUsed r) of
             Ok (totalGasUsed, s3) \<Rightarrow>
               res_bind (ResetGasMeterAndConsumeGas (txMeter ctx2) totalGasUsed) (\<lambda>g.
                 eff_ret ((put_vm C ctx2 s3)\<lparr>txMeter := g\<rparr>) r)
           | Err e \<Rightarrow> eff_fail (put_vm C ctx2 s2) (ErrWrapped ''failed to add transient gas used'' e)
           | Panic e \<Rightarrow> Panic e))))
      | Err e \<Rightarrow> Err e
      | Panic e \<Rightarrow> Panic e)))"

definition ApplyMessage ::
    "('b, 'k, 'c, 'p) chain \<Rightarrow> vm_ctx \<Rightarrow> 'c tx_ctx \<Rightarrow> coreMessage \<Rightarrow> bool \<Rightarrow> bool \<Rightarrow> (MsgEthereumTxResponse, 'c tx_ctx) eff" where
  "ApplyMessage C vctx ctx msg commit internal =
     eff_bind (eff_read ctx (res_map_err (ErrWrapped ''failed to load evm config'')
       (Vm_EVMConfig (venv C) vctx (vm_of C ctx) (cxProposer vctx)))) (\<lambda>cfg ctx.
     ApplyMessageWithConfig C vctx ctx msg commit cfg NewEmptyTxConfig internal None)"

section \<open>Calls from other modules (keeper/call_evm.go)\<close>

definition DefaultGasCap :: "64 word" where "DefaultGasCap = 25000000"

definition call_gas_limit :: "int option \<Rightarrow> 64 word" where
  "call_gas_limit gasCap =
     (case gasCap of
        None \<Rightarrow> DefaultGasCap
      | Some c \<Rightarrow>
          if 0 < c \<and> c < 2 ^ 64 \<and> (word_of_int c :: 64 word) < DefaultGasCap then word_of_int c else DefaultGasCap)"

definition CallEVMWithData ::
    "('b, 'k, 'c, 'p) chain \<Rightarrow> vm_ctx \<Rightarrow> 'c tx_ctx \<Rightarrow> address \<Rightarrow> address option \<Rightarrow> bytes \<Rightarrow> bool \<Rightarrow> int option \<Rightarrow>
      (MsgEthereumTxResponse, 'c tx_ctx) eff" where
  "CallEVMWithData C vctx ctx from contract data commit gasCap =
     (case auGetAccount (venv C) (vm_bank (vm_of C ctx)) (AddrBytes from) of
        None \<Rightarrow> eff_fail ctx ErrUnknownAddress
      | Some acct \<Rightarrow>
          let msg = \<lparr>mFrom = from, mTo = contract, mNonce = auSequence (venv C) acct, mValue = 0,
                mGasLimit = call_gas_limit gasCap, mGasPrice = 0, mData = data, mAccessList = [], mAuthorizations = []\<rparr>
          in
          eff_bind (ApplyMessage C vctx ctx msg commit True) (\<lambda>r ctx.
            case rsVmError r of
              Some e \<Rightarrow>
                res_bind (ResetGasMeterAndConsumeGas (txMeter ctx) (gmLimit (txMeter ctx))) (\<lambda>g.
                  eff_fail (ctx\<lparr>txMeter := g\<rparr>) (ErrWrapped ''evm execution failed'' e))
            | None \<Rightarrow>
                res_bind (ConsumeGas (txMeter ctx) (rsGasUsed r)) (\<lambda>g. eff_ret (ctx\<lparr>txMeter := g\<rparr>) r)))"

section \<open>The message handler (keeper/msg_server.go)\<close>

definition EthereumTx ::
    "('b, 'k, 'c, 'p) chain \<Rightarrow> vm_ctx \<Rightarrow> 'c tx_ctx \<Rightarrow> ethTx \<Rightarrow> (MsgEthereumTxResponse, 'c tx_ctx) eff" where
  "EthereumTx C vctx ctx tx =
     eff_wrap (ErrWrapped ''failed to apply transaction'') (ApplyTransaction C vctx ctx tx)"

end
