(* ===== verification/VmBank.thy ===== *)
theory VmBank
  imports VmMessage PreciseBankRun Erc20Props
begin

text \<open>
  The bank under x/vm: what x/auth promises about its accounts, that a bank operation of x/precisebank keeps whatever
  the operations of x/bank keep, and what minting to an account, burning from it and setting its balance do.
\<close>

section \<open>What the operations of x/bank keep\<close>

definition bank_stable :: "'b Keeper \<Rightarrow> ('b \<Rightarrow> bool) \<Rightarrow> bool" where
  "bank_stable K P \<longleftrightarrow>
     (\<forall>b. P b \<longrightarrow>
        (\<forall>f t cs b'. bkSendCoins (bk K) b f t cs = Ok b' \<longrightarrow> P b') \<and>
        (\<forall>f m cs b'. bkSendCoinsFromAccountToModule (bk K) b f m cs = Ok b' \<longrightarrow> P b') \<and>
        (\<forall>m m' cs b'. bkSendCoinsFromModuleToModule (bk K) b m m' cs = Ok b' \<longrightarrow> P b') \<and>
        (\<forall>m cs b'. bkMintCoins (bk K) b m cs = Ok b' \<longrightarrow> P b') \<and>
        (\<forall>m cs b'. bkBurnCoins (bk K) b m cs = Ok b' \<longrightarrow> P b'))"

lemma bank_stableD:
  assumes "bank_stable K P" "P b"
  shows "bkSendCoins (bk K) b f t cs = Ok b' \<Longrightarrow> P b'"
    "bkSendCoinsFromAccountToModule (bk K) b f m cs = Ok b' \<Longrightarrow> P b'"
    "bkSendCoinsFromModuleToModule (bk K) b m m' cs = Ok b' \<Longrightarrow> P b'"
    "bkMintCoins (bk K) b m cs = Ok b' \<Longrightarrow> P b'"
    "bkBurnCoins (bk K) b m cs = Ok b' \<Longrightarrow> P b'"
  using assms(1) [unfolded bank_stable_def, rule_format, OF assms(2)] by blast+

definition leaves :: "('b \<Rightarrow> bool) \<Rightarrow> 'b pstate res \<Rightarrow> bool" where
  "leaves P r \<longleftrightarrow> (\<forall>s'. r = Ok s' \<longrightarrow> P (bank s'))"

named_theorems leaves_rules \<open>what a computation over the bank leaves true\<close>

lemma leavesD: "leaves P r \<Longrightarrow> r = Ok s' \<Longrightarrow> P (bank s')"
  by (simp add: leaves_def)

lemma leaves_bind [leaves_rules]:
  "leaves P m \<Longrightarrow> (\<And>s. P (bank s) \<Longrightarrow> leaves P (f s)) \<Longrightarrow> leaves P (res_bind m f)"
  by (auto simp: leaves_def res_bind_Ok)

lemma leaves_pure_bind: "(\<And>x. leaves P (f x)) \<Longrightarrow> leaves P (res_bind m f)"
  by (auto simp: leaves_def res_bind_Ok)

lemma leaves_Ok [leaves_rules]: "P (bank s) \<Longrightarrow> leaves P (Ok s)"
  by (simp add: leaves_def)

lemma leaves_fail [leaves_rules]: "leaves P (Err e)" "leaves P (Panic e)"
  by (simp_all add: leaves_def)

lemma leaves_map_err [leaves_rules]: "leaves P r \<Longrightarrow> leaves P (res_map_err g r)" "leaves P r \<Longrightarrow> leaves P (res_must g r)"
  by (simp_all add: leaves_def)

lemma leaves_if [leaves_rules]: "(c \<Longrightarrow> leaves P x) \<Longrightarrow> (\<not> c \<Longrightarrow> leaves P y) \<Longrightarrow> leaves P (if c then x else y)"
  by simp

lemma leaves_SetFractional [leaves_rules]: "P (bank s) \<Longrightarrow> leaves P (SetFractionalBalance K s a n)"
  by (auto simp: leaves_def SetFractionalBalance_def DeleteFractionalBalance_def split: if_splits option.splits)

lemma leaves_SetRemainder [leaves_rules]: "P (bank s) \<Longrightarrow> leaves P (SetRemainderAmount K s n)"
  by (auto simp: leaves_def SetRemainderAmount_def DeleteRemainderAmount_def split: if_splits option.splits)

lemma leaves_on_bank: "(\<And>b'. r = Ok b' \<Longrightarrow> P b') \<Longrightarrow> leaves P (on_bank s r)"
  by (auto simp: leaves_def on_bank_def res_bind_Ok)

lemma leaves_bkSendCoins [leaves_rules]:
  "bank_stable K P \<Longrightarrow> P (bank s) \<Longrightarrow> leaves P (on_bank s (bkSendCoins (bk K) (bank s) f t cs))"
  by (rule leaves_on_bank) (rule bank_stableD)

lemma leaves_bkToModule [leaves_rules]:
  "bank_stable K P \<Longrightarrow> P (bank s) \<Longrightarrow>
     leaves P (on_bank s (bkSendCoinsFromAccountToModule (bk K) (bank s) f m cs))"
  by (rule leaves_on_bank) (rule bank_stableD)

lemma leaves_bkModules [leaves_rules]:
  "bank_stable K P \<Longrightarrow> P (bank s) \<Longrightarrow>
     leaves P (on_bank s (bkSendCoinsFromModuleToModule (bk K) (bank s) m m' cs))"
  by (rule leaves_on_bank) (rule bank_stableD)

lemma leaves_bkMintCoins [leaves_rules]:
  "bank_stable K P \<Longrightarrow> P (bank s) \<Longrightarrow> leaves P (on_bank s (bkMintCoins (bk K) (bank s) m cs))"
  by (rule leaves_on_bank) (rule bank_stableD)

lemma leaves_bkBurnCoins [leaves_rules]:
  "bank_stable K P \<Longrightarrow> P (bank s) \<Longrightarrow> leaves P (on_bank s (bkBurnCoins (bk K) (bank s) m cs))"
  by (rule leaves_on_bank) (rule bank_stableD)

lemma leaves_sendExtended [leaves_rules]:
  "bank_stable K P \<Longrightarrow> P (bank s) \<Longrightarrow> leaves P (sendExtendedCoins K s f t n)"
  unfolding sendExtendedCoins_def Let_def split_def
  by (rule leaves_rules leaves_pure_bind | assumption)+

lemma leaves_mintExtended [leaves_rules]:
  "bank_stable K P \<Longrightarrow> P (bank s) \<Longrightarrow> leaves P (mintExtendedCoin K s m n)"
  unfolding mintExtendedCoin_def Let_def by (rule leaves_rules | assumption)+

lemma leaves_burnExtended [leaves_rules]:
  "bank_stable K P \<Longrightarrow> P (bank s) \<Longrightarrow> leaves P (burnExtendedCoin K s m n)"
  unfolding burnExtendedCoin_def Let_def by (rule leaves_rules | assumption)+

lemma leaves_coins [leaves_rules]:
  assumes "bank_stable K P" "P (bank s)"
  shows "leaves P (SendCoins K s f t cs)" "leaves P (MintCoins K s m cs)" "leaves P (BurnCoins K s m cs)"
    "leaves P (SendCoinsFromAccountToModule K s f m cs)" "leaves P (SendCoinsFromModuleToAccount K s m t cs)"
  unfolding SendCoinsFromAccountToModule_def SendCoinsFromModuleToAccount_def
    SendCoins_def MintCoins_def BurnCoins_def Let_def option.case_eq_if
  by (goal_cases, (rule leaves_rules assms | assumption)+)

lemma leaves_mint_burn [leaves_rules]:
  assumes "bank_stable K P" "P (bank s)"
  shows "leaves P (Bank_MintAmountToAccount K s a n)" "leaves P (Bank_BurnAmountFromAccount K s a n)"
  unfolding Bank_MintAmountToAccount_def Bank_BurnAmountFromAccount_def
  by (goal_cases, (rule leaves_rules leaves_pure_bind assms | assumption)+)

lemma leaves_to_module [leaves_rules]:
  "bank_stable K P \<Longrightarrow> P (bank s) \<Longrightarrow> leaves P (Bank_SendCoinsFromAccountToModule K s f m cs)"
  unfolding Bank_SendCoinsFromAccountToModule_def Let_def by (rule leaves_rules | assumption)+

section \<open>The bank wrapper\<close>

text \<open>What x/vm relies on besides the laws of x/bank: the extended denomination is valid, the module may mint and burn,
  and a set of one coin is sorted and is zero when its amount is.\<close>

locale vm_coin = precisebank K for K :: "'b Keeper" +
  assumes ext_denom_valid: "cValidDenom (api K) (ExtendedCoinDenom K)"
    and evm_minter: "has_perm K evmModuleName Minter"
    and evm_burner: "has_perm K evmModuleName Burner"
    and sort_single: "cSort (api K) [c] = [c]"
    and zero_none: "cIsZero (api K) []"
    and zero_single: "cIsZero (api K) [c] \<longleftrightarrow> Amount c = 0"
begin

abbreviation extCoin :: "int \<Rightarrow> coin" where
  "extCoin n \<equiv> newCoin (ExtendedCoinDenom K) n"

abbreviation evmAddr :: AccAddress where
  "evmAddr \<equiv> moduleAddress K evmModuleName"

lemma ext_coin:
  "cIsValid (api K) [extCoin n] \<longleftrightarrow> 0 < n" "coinsValue K [extCoin n] = n"
  "d \<noteq> ExtendedCoinDenom K \<Longrightarrow> amt_of K [extCoin n] d = 0"
  by (simp_all add: coins_single_valid ext_denom_valid coinsValue_def coins_single)

lemma extBalance_nonneg: "pb_inv K s \<Longrightarrow> 0 \<le> extBalance K s x"
  using spend_le_bal [of "bank s" x "IntegerCoinDenom K"] frac_range [of s x] CF_pos
  by (auto simp: pb_inv_def extBalance_def GetFractionalBalance_num)

lemma send_ext:
  assumes "pb_inv K s" "plain K f" "plain K t" "f \<noteq> t" "0 < n" "n \<le> extSpendable K s f"
  shows "\<exists>s'. SendCoins K s f t [extCoin n] = Ok s' \<and> pb_inv K s' \<and> extSupply K s' = extSupply K s \<and>
    (\<forall>x. x \<noteq> reserveAddr K \<longrightarrow> extBalance K s' x = extBalance K s x - at_addr f n x + at_addr t n x)"
proof -
  note ne = assms(4) assms(2,3) [unfolded plain_def]
  have v: "cIsValid (api K) [extCoin n]" using assms(5) by (simp add: ext_coin)
  have "is_ok (SendCoins K s f t [extCoin n])"
    using SendCoins_total(1) [OF assms(1) v] ne assms(6) spend_le_bal by (simp add: ext_coin)
  then obtain s' where ok: "SendCoins K s f t [extCoin n] = Ok s'" by auto
  with SendCoins_refines [OF assms(1) v _ _ _ _ _ ok] ne show ?thesis by (simp add: ext_coin)
qed

lemma evm_addr:
  "akGetModuleAddress (ak K) evmModuleName = Some evmAddr" "plain K evmAddr" "evmModuleName \<noteq> ModuleName"
  "\<exists>acc. akGetModuleAccount (ak K) evmModuleName = Some acc \<and> maAddress acc = evmAddr"
proof -
  show m: "akGetModuleAddress (ak K) evmModuleName = Some evmAddr" by (rule module_addr(1) [OF evm_minter])
  show n: "evmModuleName \<noteq> ModuleName" by (simp add: evmModuleName_def ModuleName_def)
  show "plain K evmAddr" by (rule plain_module [OF m n])
qed (rule module_addr(3) [OF evm_minter])

lemma convert_ext: "ConvertEvmCoinDenomToExtendedDenom (info K) (newCoin (eciDenom (info K)) n) = Ok (extCoin n)"
  by (simp add: ConvertEvmCoinDenomToExtendedDenom_def ExtendedCoinDenom_def newCoin_def)

lemma mint_to_account:
  assumes "pb_inv K s" "plain K a" "a \<noteq> evmAddr" "\<not> bkBlockedAddr (bk K) a" "0 < n"
  shows "\<exists>s'. Bank_MintAmountToAccount K s a n = Ok s' \<and> pb_inv K s' \<and> extSupply K s' = extSupply K s + n \<and>
    (\<forall>x. x \<noteq> reserveAddr K \<longrightarrow> extBalance K s' x = extBalance K s x + at_addr a n x)"
proof -
  have v: "cIsValid (api K) [extCoin n]" using assms(5) by (simp add: ext_coin)
  from MintCoins_refines [OF assms(1) evm_minter evm_addr(3) v] obtain s1 where
    m: "MintCoins K s evmModuleName [extCoin n] = Ok s1" "pb_inv K s1" "extSupply K s1 = extSupply K s + n"
    and b1: "\<And>x. x \<noteq> reserveAddr K \<Longrightarrow> extBalance K s1 x = extBalance K s x + at_addr evmAddr n x"
    by (auto simp: ext_coin)
  have "n \<le> extSpendable K s1 evmAddr"
    using b1 [of evmAddr] extBalance_nonneg [OF assms(1), of evmAddr] module_ext_spendable [OF evm_minter] evm_addr(2)
    by (simp add: plain_def)
  from send_ext [OF m(2) evm_addr(2) assms(2) _ assms(5) this] assms(3) obtain s2 where
    "SendCoins K s1 evmAddr a [extCoin n] = Ok s2" "pb_inv K s2" "extSupply K s2 = extSupply K s1"
    "\<And>x. x \<noteq> reserveAddr K \<Longrightarrow> extBalance K s2 x = extBalance K s1 x - at_addr evmAddr n x + at_addr a n x"
    by auto
  with m b1 assms(4) evm_addr(1,3) show ?thesis
    by (simp add: Bank_MintAmountToAccount_def convert_ext SendCoinsFromModuleToAccount_def)
qed

lemma burn_from_account:
  assumes "pb_inv K s" "plain K a" "a \<noteq> evmAddr" "0 < n" "n \<le> extSpendable K s a"
  shows "\<exists>s'. Bank_BurnAmountFromAccount K s a n = Ok s' \<and> pb_inv K s' \<and> extSupply K s' = extSupply K s - n \<and>
    (\<forall>x. x \<noteq> reserveAddr K \<longrightarrow> extBalance K s' x = extBalance K s x - at_addr a n x)"
proof -
  have v: "cIsValid (api K) [extCoin n]" using assms(4) by (simp add: ext_coin)
  from send_ext [OF assms(1,2) evm_addr(2) assms(3-5)] obtain s1 where
    m: "SendCoins K s a evmAddr [extCoin n] = Ok s1" "pb_inv K s1" "extSupply K s1 = extSupply K s"
    and b1: "\<And>x. x \<noteq> reserveAddr K \<Longrightarrow> extBalance K s1 x = extBalance K s x - at_addr a n x + at_addr evmAddr n x"
    by auto
  have "n \<le> extBalance K s1 evmAddr"
    using b1 [of evmAddr] extBalance_nonneg [OF assms(1), of evmAddr] assms(3) evm_addr(2) by (simp add: plain_def)
  then have "is_ok (BurnCoins K s1 evmModuleName [extCoin n])"
    using BurnCoins_total(1) [OF m(2) evm_burner evm_addr(3) v] spend_le_bal [of "bank s1" evmAddr]
    by (auto simp: ext_coin intro: order_trans)
  then obtain s2 where "BurnCoins K s1 evmModuleName [extCoin n] = Ok s2" by auto
  with BurnCoins_refines [OF m(2) evm_burner evm_addr(3) v this] m b1 evm_addr(3,4) show ?thesis
    by (auto simp: Bank_BurnAmountFromAccount_def convert_ext SendCoinsFromAccountToModule_def ext_coin)
qed

end

end
