(* ===== verification/VmAccounts.thy ===== *)
theory VmAccounts
  imports VmBank
begin

text \<open>
  The accounts of x/auth as x/vm uses them, and what the keeper's account operations do: \<open>SetBalance\<close> sets the spendable
  balance exactly by minting or burning the difference, and \<open>SetAccount\<close> is what \<open>GetAccount\<close> reads back.

  An account type is known by its address and by whether it is an account without locked coins.
\<close>

lemma AddrBytes_nonempty [simp]: "AddrBytes a \<noteq> []"
  using AddrBytes_length [of a] by (metis list.size(3) zero_neq_numeral)

text \<open>An address x/vm may hold a balance at: not a module account that the bank wrapper passes through, not blocked.\<close>

definition usable :: "'b Keeper \<Rightarrow> address \<Rightarrow> bool" where
  "usable K a \<longleftrightarrow> AddrBytes a \<noteq> reserveAddr K \<and> AddrBytes a \<noteq> moduleAddress K evmModuleName \<and>
     \<not> bkBlockedAddr (bk K) (AddrBytes a)"

definition baseAt :: "('b, 'k) vm_env \<Rightarrow> ('k \<Rightarrow> bool) \<Rightarrow> 'b vm_state \<Rightarrow> address \<Rightarrow> bool" where
  "baseAt E isBase s a = (case auGetAccount E (vm_bank s) (AddrBytes a) of None \<Rightarrow> False | Some k \<Rightarrow> isBase k)"

definition freeAt :: "('b, 'k) vm_env \<Rightarrow> ('k \<Rightarrow> bool) \<Rightarrow> 'b \<Rightarrow> AccAddress \<Rightarrow> bool" where
  "freeAt E isBase b x = (case auGetAccount E b x of None \<Rightarrow> True | Some k \<Rightarrow> isBase k)"

definition vbal :: "('b, 'k) vm_env \<Rightarrow> 'b vm_state \<Rightarrow> address \<Rightarrow> int" where
  "vbal E s a = extBalance (vpk E) (vpb s) (AddrBytes a)"

locale vm_accounts = vm_coin "vpk E" for E :: "('b, 'k) vm_env" +
  fixes addrOf :: "'k \<Rightarrow> AccAddress" and isBase :: "'k \<Rightarrow> bool"
  assumes get_addr: "auGetAccount E b x = Some k \<Longrightarrow> addrOf k = x"
    and new_account: "auNewAccount E b x = (k, b') \<Longrightarrow> addrOf k = x \<and> isBase k \<and>
      auGetAccount E b' = auGetAccount E b \<and> bbal (vpk E) b' = bbal (vpk E) b \<and>
      bkGetSupply (bk (vpk E)) b' = bkGetSupply (bk (vpk E)) b"
    and set_sequence: "isBase k \<Longrightarrow> \<exists>k'. auSetSequence E k n = Ok k' \<and> addrOf k' = addrOf k \<and> isBase k' \<and>
      auSequence E k' = n"
    and set_account: "auGetAccount E (auSetAccount E b k) = (auGetAccount E b)(addrOf k \<mapsto> k)"
    and set_account_bank: "bbal (vpk E) (auSetAccount E b k) = bbal (vpk E) b"
      "bkGetSupply (bk (vpk E)) (auSetAccount E b k) = bkGetSupply (bk (vpk E)) b"
    and base_account: "addrOf (auBaseAccount E x k) = x" "isBase (auBaseAccount E x k)"
    and remove_account: "auGetAccount E (auRemoveAccount E b k) = (auGetAccount E b)(addrOf k := None)"
      "bbal (vpk E) (auRemoveAccount E b k) = bbal (vpk E) b"
      "bkGetSupply (bk (vpk E)) (auRemoveAccount E b k) = bkGetSupply (bk (vpk E)) b"
    and base_spend: "auGetAccount E b x = Some k \<Longrightarrow> isBase k \<Longrightarrow> bspend (vpk E) b x d = bbal (vpk E) b x d"
    and accounts_stay: "bank_stable (vpk E) (\<lambda>b. auGetAccount E b x = Some k)"
    and accounts_base: "bank_stable (vpk E) (\<lambda>b. freeAt E isBase b x)"
begin

abbreviation K :: "'b Keeper" where "K \<equiv> vpk E"

lemma usable_plain: "usable K a \<Longrightarrow> plain K (AddrBytes a) \<and> AddrBytes a \<noteq> evmAddr \<and> \<not> bkBlockedAddr (bk K) (AddrBytes a)"
  by (simp add: usable_def plain_def)

lemma base_extSpendable: "baseAt E isBase s a \<Longrightarrow> extSpendable K (vpb s) (AddrBytes a) = vbal E s a"
  by (auto simp: baseAt_def vbal_def extSpendable_def extBalance_def vm_bank_def base_spend split: option.splits)

lemma Bank_SpendableCoin_base:
  assumes "baseAt E isBase s a" "AddrBytes a \<noteq> reserveAddr K"
  shows "\<exists>c. Bank_SpendableCoin K (vpb s) (AddrBytes a) (eciDenom (info K)) = Ok c \<and> Amount c = vbal E s a"
  using assms base_extSpendable [OF assms(1)]
  by (simp add: Bank_SpendableCoin_def SpendableCoin_def ExtendedCoinDenom_def extSpendable_def)

lemma Vm_SpendableCoin_base:
  assumes "baseAt E isBase s a" "AddrBytes a \<noteq> reserveAddr K" "pb_inv K (vpb s)"
  shows "Vm_SpendableCoin E s a = (if vbal E s a < 2 ^ 256 then Some (word_of_int (vbal E s a)) else None)"
  using Bank_SpendableCoin_base [OF assms(1,2)] extBalance_nonneg [OF assms(3), of "AddrBytes a"]
  by (auto simp: vbal_def Vm_SpendableCoin_def word_of_res_def Uint256FromBigInt_def)

lemma SetBalance_exact:
  assumes inv: "pb_inv K (vpb s)" and u: "usable K a" and b: "baseAt E isBase s a"
  shows "\<exists>s'. Vm_SetBalance E s a (Some w) = Ok s' \<and> s' = s\<lparr>vpb := vpb s'\<rparr> \<and> pb_inv K (vpb s') \<and>
    vbal E s' a = uint w \<and> extSupply K (vpb s') = extSupply K (vpb s) + (uint w - vbal E s a) \<and>
    (\<forall>x. x \<noteq> reserveAddr K \<longrightarrow> x \<noteq> AddrBytes a \<longrightarrow> extBalance K (vpb s') x = extBalance K (vpb s) x) \<and>
    (\<forall>x k. auGetAccount E (vm_bank s) x = Some k \<longrightarrow> auGetAccount E (vm_bank s') x = Some k) \<and>
    (\<forall>x. freeAt E isBase (vm_bank s) x \<longrightarrow> freeAt E isBase (vm_bank s') x)"
proof -
  let ?A = "AddrBytes a" and ?d = "uint w - vbal E s a"
  note p = usable_plain [OF u]
  from Bank_SpendableCoin_base [OF b] u obtain c where
    c: "Bank_SpendableCoin K (vpb s) ?A (eciDenom (info K)) = Ok c" "Amount c = vbal E s a" by (auto simp: usable_def)
  have stay: "leaves (\<lambda>b. auGetAccount E b x = Some k) (Bank_MintAmountToAccount K (vpb s) ?A n)"
    "leaves (\<lambda>b. auGetAccount E b x = Some k) (Bank_BurnAmountFromAccount K (vpb s) ?A n)"
    if "auGetAccount E (vm_bank s) x = Some k" for x k n
    using leaves_mint_burn [OF accounts_stay] that by (simp_all add: vm_bank_def)
  have free: "leaves (\<lambda>b. freeAt E isBase b x) (Bank_MintAmountToAccount K (vpb s) ?A n)"
    "leaves (\<lambda>b. freeAt E isBase b x) (Bank_BurnAmountFromAccount K (vpb s) ?A n)"
    if "freeAt E isBase (vm_bank s) x" for x n
    using leaves_mint_burn [OF accounts_base] that by (simp_all add: vm_bank_def)
  consider "0 < ?d" | "?d < 0" | "?d = 0" by linarith
  then show ?thesis
  proof cases
    case 1
    from mint_to_account [OF inv _ _ _ 1] p obtain q where
      q: "Bank_MintAmountToAccount K (vpb s) ?A ?d = Ok q" "pb_inv K q" "extSupply K q = extSupply K (vpb s) + ?d"
      "\<And>x. x \<noteq> reserveAddr K \<Longrightarrow> extBalance K q x = extBalance K (vpb s) x + at_addr ?A ?d x" by blast
    have "auGetAccount E (bank q) x = Some k" if "auGetAccount E (vm_bank s) x = Some k" for x k
      using leavesD [OF stay(1) [OF that] q(1)] .
    moreover have "freeAt E isBase (bank q) x" if "freeAt E isBase (vm_bank s) x" for x
      using leavesD [OF free(1) [OF that] q(1)] .
    ultimately show ?thesis using 1 c p q
      by (simp add: Vm_SetBalance_def Let_def on_vpb_def plain_def vm_bank_def vbal_def)
  next
    case 2
    then have "0 < - ?d" "- ?d \<le> extSpendable K (vpb s) ?A" using base_extSpendable [OF b] by auto
    from burn_from_account [OF inv _ _ this] p obtain q where
      q: "Bank_BurnAmountFromAccount K (vpb s) ?A (- ?d) = Ok q" "pb_inv K q" "extSupply K q = extSupply K (vpb s) - (- ?d)"
      "\<And>x. x \<noteq> reserveAddr K \<Longrightarrow> extBalance K q x = extBalance K (vpb s) x - at_addr ?A (- ?d) x" by blast
    have "auGetAccount E (bank q) x = Some k" if "auGetAccount E (vm_bank s) x = Some k" for x k
      using leavesD [OF stay(2) [OF that] q(1)] .
    moreover have "freeAt E isBase (bank q) x" if "freeAt E isBase (vm_bank s) x" for x
      using leavesD [OF free(2) [OF that] q(1)] .
    ultimately show ?thesis using 2 c p q
      by (simp add: Vm_SetBalance_def Let_def on_vpb_def plain_def vm_bank_def vbal_def)
  next
    case 3
    with c inv show ?thesis by (simp add: Vm_SetBalance_def Let_def)
  qed
qed

text \<open>The account is written first, then its balance is set: the writes to x/auth move no coins.\<close>

definition same_funds :: "'b vm_state \<Rightarrow> 'b vm_state \<Rightarrow> bool" where
  "same_funds s s' \<longleftrightarrow> fractional (vpb s') = fractional (vpb s) \<and> remainderKey (vpb s') = remainderKey (vpb s) \<and>
     bbal K (vm_bank s') = bbal K (vm_bank s) \<and>
     bkGetSupply (bk K) (vm_bank s') = bkGetSupply (bk K) (vm_bank s)"

lemma same_funds:
  assumes "same_funds s s'"
  shows "pb_inv K (vpb s') \<longleftrightarrow> pb_inv K (vpb s)" "extBalance K (vpb s') = extBalance K (vpb s)"
    "extSupply K (vpb s') = extSupply K (vpb s)"
  using assms by (auto simp: same_funds_def vm_bank_def pb_inv_def frac_ok_def total_sum_eq extBalance_def
      extSupply_def GetRemainderAmount_def GetFractionalBalance_num)

lemma SetAccount_prepares:
  assumes "freeAt E isBase (vm_bank s) (AddrBytes a)" "CodeHash acct = Some h"
  shows "\<exists>s1 k. Vm_SetAccount E s a acct = Vm_SetBalance E s1 a (Balance acct) \<and> same_funds s s1 \<and>
    auGetAccount E (vm_bank s1) = (auGetAccount E (vm_bank s))(AddrBytes a \<mapsto> k) \<and> isBase k \<and>
    auSequence E k = Nonce acct \<and> vmStorage s1 = vmStorage s \<and> vmCode s1 = vmCode s \<and>
    vmCodeHash s1 = (if h = Vm_EmptyCodeHash E then kv_delete a (vmCodeHash s) else kv_set a h (vmCodeHash s))"
proof -
  obtain k0 s0 where s0: "(case auGetAccount E (vm_bank s) (AddrBytes a) of Some k \<Rightarrow> (k, s)
      | None \<Rightarrow> (case auNewAccount E (vm_bank s) (AddrBytes a) of (k, b) \<Rightarrow> (k, set_vm_bank s b))) = (k0, s0)"
    by fastforce
  have k0: "addrOf k0 = AddrBytes a" "isBase k0" "same_funds s s0"
    "auGetAccount E (vm_bank s0) = auGetAccount E (vm_bank s)"
    "vmStorage s0 = vmStorage s" "vmCode s0 = vmCode s" "vmCodeHash s0 = vmCodeHash s"
    using assms(1) s0 get_addr new_account
    by (fastforce simp: freeAt_def same_funds_def set_vm_bank_def vm_bank_def split: option.splits prod.splits)+
  from set_sequence [OF k0(2)] obtain k where k: "auSetSequence E k0 (Nonce acct) = Ok k"
    "addrOf k = AddrBytes a" "isBase k" "auSequence E k = Nonce acct" using k0(1) by metis
  define s2 where "s2 = s0\<lparr>vmCodeHash :=
    if h = Vm_EmptyCodeHash E then kv_delete a (vmCodeHash s0) else kv_set a h (vmCodeHash s0)\<rparr>"
  have v2: "vm_bank s2 = vm_bank s0" by (simp add: s2_def vm_bank_def)
  define s3 where "s3 = set_vm_bank s2 (auSetAccount E (vm_bank s2) k)"
  have "Vm_SetAccount E s a acct = Vm_SetBalance E s3 a (Balance acct)"
    using k(1) assms(2) by (simp add: Vm_SetAccount_def s0 s3_def s2_def DeleteCodeHash_def SetCodeHash_def)
  moreover have "same_funds s s3"
    using k0(3) by (simp add: same_funds_def set_vm_bank_def vm_bank_def s3_def s2_def set_account_bank)
  moreover have "auGetAccount E (vm_bank s3) = (auGetAccount E (vm_bank s))(AddrBytes a \<mapsto> k)"
    using k(2) k0(4) v2 by (simp add: s3_def set_vm_bank_def vm_bank_def set_account)
  moreover have "vmStorage s3 = vmStorage s" "vmCode s3 = vmCode s" "vmCodeHash s3 =
      (if h = Vm_EmptyCodeHash E then kv_delete a (vmCodeHash s) else kv_set a h (vmCodeHash s))"
    using k0 by (simp_all add: s3_def s2_def set_vm_bank_def)
  ultimately show ?thesis using k by blast
qed

lemma account_kept:
  assumes "baseAt E isBase s b" "AddrBytes b \<noteq> reserveAddr K" "pb_inv K (vpb s)" "pb_inv K (vpb s')"
    "auGetAccount E (vm_bank s') (AddrBytes b) = auGetAccount E (vm_bank s) (AddrBytes b)" "vbal E s' b = vbal E s b"
    "kv_get (vmCodeHash s') b = kv_get (vmCodeHash s) b"
  shows "Vm_GetAccount E s' b = Vm_GetAccount E s b"
proof -
  have "baseAt E isBase s' b" using assms(1,5) by (simp add: baseAt_def)
  from Vm_SpendableCoin_base [OF this assms(2,4)] Vm_SpendableCoin_base [OF assms(1-3)] assms(5-7) show ?thesis
    by (simp add: Vm_GetAccount_def GetAccountWithoutBalance_def Vm_GetCodeHash_def split: option.splits)
qed

lemma SetAccount_roundtrip:
  assumes inv: "pb_inv K (vpb s)" and u: "usable K a"
    and acc: "freeAt E isBase (vm_bank s) (AddrBytes a)"
    and new: "Balance acct = Some w" "CodeHash acct = Some h"
  shows "\<exists>s'. Vm_SetAccount E s a acct = Ok s' \<and> pb_inv K (vpb s') \<and> Vm_GetAccount E s' a = Some acct \<and>
    baseAt E isBase s' a \<and> vmStorage s' = vmStorage s \<and> vmCode s' = vmCode s \<and>
    extSupply K (vpb s') = extSupply K (vpb s) + (uint w - vbal E s a) \<and>
    (\<forall>b. b \<noteq> a \<longrightarrow> AddrBytes b \<noteq> reserveAddr K \<longrightarrow> baseAt E isBase s b \<longrightarrow>
       baseAt E isBase s' b \<and> Vm_GetAccount E s' b = Vm_GetAccount E s b) \<and>
    (\<forall>x. freeAt E isBase (vm_bank s) x \<longrightarrow> freeAt E isBase (vm_bank s') x)"
proof -
  let ?A = "AddrBytes a"
  from SetAccount_prepares [OF acc new(2)] obtain s1 k where
    s1: "Vm_SetAccount E s a acct = Vm_SetBalance E s1 a (Some w)" "same_funds s s1"
    and g1: "auGetAccount E (vm_bank s1) = (auGetAccount E (vm_bank s))(?A \<mapsto> k)" "isBase k" "auSequence E k = Nonce acct"
    and st: "vmStorage s1 = vmStorage s" "vmCode s1 = vmCode s"
    and ch: "vmCodeHash s1 = (if h = Vm_EmptyCodeHash E then kv_delete a (vmCodeHash s) else kv_set a h (vmCodeHash s))"
    using new(1) by auto
  note f = same_funds [OF s1(2)]
  have "baseAt E isBase s1 a" using g1 by (simp add: baseAt_def)
  from SetBalance_exact [OF _ u this, of w] inv f obtain s' where
    ok: "Vm_SetBalance E s1 a (Some w) = Ok s'" "s' = s1\<lparr>vpb := vpb s'\<rparr>" "pb_inv K (vpb s')" "vbal E s' a = uint w"
    "extSupply K (vpb s') = extSupply K (vpb s) + (uint w - vbal E s a)"
    and oth: "\<And>x. x \<noteq> reserveAddr K \<Longrightarrow> x \<noteq> ?A \<Longrightarrow> extBalance K (vpb s') x = extBalance K (vpb s) x"
    and keep: "\<And>x k. auGetAccount E (vm_bank s1) x = Some k \<Longrightarrow> auGetAccount E (vm_bank s') x = Some k"
    and free: "\<And>x. freeAt E isBase (vm_bank s1) x \<Longrightarrow> freeAt E isBase (vm_bank s') x"
    by (auto simp: vbal_def)
  from ok(2) have fields: "vmStorage s' = vmStorage s" "vmCode s' = vmCode s" "vmCodeHash s' = vmCodeHash s1"
    using st by (metis vm_state.select_convs vm_state.update_convs vm_state.surjective)+
  have base': "baseAt E isBase s' a" "auGetAccount E (vm_bank s') ?A = Some k"
    using keep [of ?A k] g1 by (simp_all add: baseAt_def)
  have "Vm_SpendableCoin E s' a = Some w"
    using Vm_SpendableCoin_base [OF base'(1) _ ok(3)] ok(4) u unsigned_less [of w, where ?'a = int] by (simp add: usable_def)
  then have get: "Vm_GetAccount E s' a = Some acct"
    using base'(2) g1(3) new fields(3) ch
    by (simp add: Vm_GetAccount_def GetAccountWithoutBalance_def Vm_GetCodeHash_def)
  have others: "baseAt E isBase s' b \<and> Vm_GetAccount E s' b = Vm_GetAccount E s b"
    if b: "b \<noteq> a" "AddrBytes b \<noteq> reserveAddr K" "baseAt E isBase s b" for b
  proof -
    have "auGetAccount E (vm_bank s') (AddrBytes b) = auGetAccount E (vm_bank s) (AddrBytes b)"
      using b(1,3) keep [of "AddrBytes b"] g1(1) by (auto simp: baseAt_def split: option.splits)
    moreover have "kv_get (vmCodeHash s') b = kv_get (vmCodeHash s) b" using b(1) fields(3) ch by simp
    ultimately show ?thesis using account_kept [OF b(3,2) inv, of s'] oth [OF b(2)] b(1,3) ok(3) by (simp add: vbal_def baseAt_def)
  qed
  have "freeAt E isBase (vm_bank s1) x" if "freeAt E isBase (vm_bank s) x" for x
    using that g1 by (simp add: freeAt_def split: option.splits)
  then show ?thesis using s1(1) ok get base'(1) fields others free by auto
qed

lemma vpb_only: "s' = s\<lparr>vpb := p\<rparr> \<Longrightarrow> vmStorage s' = vmStorage s \<and> vmCode s' = vmCode s \<and> vmCodeHash s' = vmCodeHash s"
  by simp

text \<open>Deleting an account: the slots of the address are dropped and every other slot stays.\<close>

lemma delete_slots:
  "kv_get (vmStorage (foldl (\<lambda>s key. Vm_DeleteState s a key) s ks)) (b, k) =
     (if b = a \<and> k \<in> set ks then None else kv_get (vmStorage s) (b, k))"
  "vpb (foldl (\<lambda>s key. Vm_DeleteState s a key) s ks) = vpb s"
  "vmCode (foldl (\<lambda>s key. Vm_DeleteState s a key) s ks) = vmCode s"
  "vmCodeHash (foldl (\<lambda>s key. Vm_DeleteState s a key) s ks) = vmCodeHash s"
  by (induction ks arbitrary: s) (auto simp: Vm_DeleteState_def)

lemma stored_keys: "kv_get (vmStorage s) (a, k) \<noteq> None \<Longrightarrow> k \<in> set (map fst (Vm_ForEachStorage s a))"
  by (force simp: Vm_ForEachStorage_def kv_get_def dest: map_of_SomeD)

lemma cleared_slots:
  "Vm_GetState (foldl (\<lambda>s key. Vm_DeleteState s a key) s (map fst (Vm_ForEachStorage s a))) b k =
     (if b = a then 0 else Vm_GetState s b k)"
  using stored_keys [of s a k] by (auto simp: Vm_GetState_def delete_slots split: option.splits)

lemma DeleteAccount_exact:
  assumes inv: "pb_inv K (vpb s)" and u: "usable K a" and acc: "auGetAccount E (vm_bank s) (AddrBytes a) = Some k0"
    and con: "IsContract E s a"
  shows "\<exists>s'. Vm_DeleteAccount E s a = Ok s' \<and> pb_inv K (vpb s') \<and> Vm_GetAccount E s' a = None \<and> vbal E s' a = 0 \<and>
    extSupply K (vpb s') = extSupply K (vpb s) - vbal E s a \<and> vmCode s' = vmCode s \<and>
    (\<forall>b k. Vm_GetState s' b k = (if b = a then 0 else Vm_GetState s b k)) \<and>
    (\<forall>b. b \<noteq> a \<longrightarrow> AddrBytes b \<noteq> reserveAddr K \<longrightarrow> baseAt E isBase s b \<longrightarrow> Vm_GetAccount E s' b = Vm_GetAccount E s b)"
proof -
  let ?A = "AddrBytes a"
  define s1 where "s1 = set_vm_bank s (auSetAccount E (vm_bank s) (auBaseAccount E ?A k0))"
  have f1: "same_funds s s1" by (simp add: same_funds_def s1_def set_vm_bank_def vm_bank_def set_account_bank)
  have g1: "auGetAccount E (vm_bank s1) = (auGetAccount E (vm_bank s))(?A \<mapsto> auBaseAccount E ?A k0)"
    by (simp add: s1_def set_vm_bank_def vm_bank_def set_account base_account)
  have "baseAt E isBase s1 a" by (simp add: baseAt_def g1 base_account)
  from SetBalance_exact [OF _ u this, of 0] inv same_funds [OF f1] obtain s2 where
    s2: "Vm_SetBalance E s1 a (Some 0) = Ok s2" "s2 = s1\<lparr>vpb := vpb s2\<rparr>" "pb_inv K (vpb s2)" "vbal E s2 a = 0"
      "extSupply K (vpb s2) = extSupply K (vpb s) - vbal E s a"
    and bal: "\<And>x. x \<noteq> reserveAddr K \<Longrightarrow> x \<noteq> ?A \<Longrightarrow> extBalance K (vpb s2) x = extBalance K (vpb s) x"
    and acct: "\<And>x k. auGetAccount E (vm_bank s1) x = Some k \<Longrightarrow> auGetAccount E (vm_bank s2) x = Some k"
    by (auto simp: vbal_def)
  define s3 where "s3 = foldl (\<lambda>s key. Vm_DeleteState s a key) s2 (map fst (Vm_ForEachStorage s2 a))"
  define s4 where "s4 = DeleteCodeHash s3 a"
  define s' where "s' = set_vm_bank s4 (auRemoveAccount E (vm_bank s4) k0)"
  have e: "vmStorage s2 = vmStorage s" "vmCode s2 = vmCode s" "vmCodeHash s2 = vmCodeHash s"
    using vpb_only [OF s2(2)] by (simp_all add: s1_def set_vm_bank_def)
  have f2: "same_funds s2 s'"
    by (simp add: same_funds_def s'_def s4_def s3_def set_vm_bank_def vm_bank_def DeleteCodeHash_def delete_slots remove_account)
  have k0: "addrOf k0 = ?A" using get_addr [OF acc] .
  have g': "auGetAccount E (vm_bank s') = (auGetAccount E (vm_bank s2))(?A := None)"
    by (simp add: s'_def s4_def s3_def set_vm_bank_def vm_bank_def DeleteCodeHash_def delete_slots remove_account k0)
  have ok: "Vm_DeleteAccount E s a = Ok s'"
    using acc con s2(1) by (simp add: Vm_DeleteAccount_def Let_def s1_def [symmetric] s3_def [symmetric] s4_def [symmetric] s'_def)
  have st: "Vm_GetState s' b k = (if b = a then 0 else Vm_GetState s b k)" for b k
    using cleared_slots [of a s2 b k] e(1)
    by (simp add: s'_def s4_def s3_def set_vm_bank_def DeleteCodeHash_def Vm_GetState_def)
  have "Vm_GetAccount E s' b = Vm_GetAccount E s b"
    if b: "b \<noteq> a" "AddrBytes b \<noteq> reserveAddr K" "baseAt E isBase s b" for b
  proof -
    have "auGetAccount E (vm_bank s') (AddrBytes b) = auGetAccount E (vm_bank s) (AddrBytes b)"
      using b(1,3) acct [of "AddrBytes b"] g1 g' by (auto simp: baseAt_def split: option.splits)
    moreover have "kv_get (vmCodeHash s') b = kv_get (vmCodeHash s) b"
      using b(1) e(3) by (simp add: s'_def s4_def s3_def set_vm_bank_def DeleteCodeHash_def delete_slots)
    ultimately show ?thesis
      using account_kept [OF b(3,2) inv, of s'] bal [OF b(2)] b(1) s2(3) same_funds [OF f2] by (simp add: vbal_def)
  qed
  moreover have "Vm_GetAccount E s' a = None" by (simp add: Vm_GetAccount_def GetAccountWithoutBalance_def g')
  moreover have "vmCode s' = vmCode s"
    using e(2) by (simp add: s'_def s4_def s3_def set_vm_bank_def DeleteCodeHash_def delete_slots)
  ultimately show ?thesis using ok st s2(3-5) same_funds [OF f2] by (auto simp: vbal_def)
qed

end

end
