(* ===== verification/VmCommit.thy ===== *)
theory VmCommit
  imports VmAccounts
begin

text \<open>
  The commit of an EVM state over the keeper of x/vm: the dirty accounts and slots of the state are what the module's
  stores hold afterwards, and the accounts and slots it did not touch are the same.
\<close>

text \<open>What the commit of a live object leaves in the stores: the code it writes when its code is dirty, and its dirty
  slots over the stored ones.\<close>

definition writesCode :: "stateObject \<Rightarrow> bool" where
  "writesCode obj \<longleftrightarrow> code obj \<noteq> None \<and> dirtyCode obj"

definition writtenCode :: "stateObject \<Rightarrow> bytes option" where
  "writtenCode obj = (if code obj = Some [] then None else code obj)"

definition slot_after :: "stateObject \<Rightarrow> 'b vm_state \<Rightarrow> hash \<Rightarrow> hash" where
  "slot_after obj s k = (case kv_get (dirtyStorage obj) k of None \<Rightarrow> Vm_GetState s (address obj) k | Some v \<Rightarrow> v)"

definition published_at :: "('b, 'k) vm_env \<Rightarrow> ('k \<Rightarrow> bool) \<Rightarrow> stateObject \<Rightarrow> 'b vm_state \<Rightarrow> 'b vm_state \<Rightarrow> bool" where
  "published_at E isBase obj s s' \<longleftrightarrow>
     Vm_GetAccount E s' (address obj) = Some (objAccount obj) \<and> baseAt E isBase s' (address obj) \<and>
     (\<forall>k. Vm_GetState s' (address obj) k = slot_after obj s k) \<and>
     (writesCode obj \<longrightarrow> Vm_GetCode s' (accCodeHash obj) = writtenCode obj)"

definition untouched :: "('b, 'k) vm_env \<Rightarrow> ('k \<Rightarrow> bool) \<Rightarrow> 'b vm_state \<Rightarrow> 'b vm_state \<Rightarrow> address \<Rightarrow> bool" where
  "untouched E isBase s s' b \<longleftrightarrow>
     (\<forall>k. Vm_GetState s' b k = Vm_GetState s b k) \<and>
     (AddrBytes b \<noteq> reserveAddr (vpk E) \<longrightarrow> baseAt E isBase s b \<longrightarrow>
        baseAt E isBase s' b \<and> Vm_GetAccount E s' b = Vm_GetAccount E s b)"

definition published ::
    "('b, 'k) vm_env \<Rightarrow> ('k \<Rightarrow> bool) \<Rightarrow> (address, stateObject) kv \<Rightarrow> address list \<Rightarrow> 'b vm_state \<Rightarrow> 'b vm_state \<Rightarrow> bool" where
  "published E isBase objs ds s s' \<longleftrightarrow>
     (\<forall>a\<in>set ds. \<forall>obj. kv_get objs a = Some obj \<longrightarrow> published_at E isBase obj s s') \<and>
     (\<forall>b. b \<notin> set ds \<longrightarrow> untouched E isBase s s' b) \<and>
     (\<forall>h. (\<forall>a\<in>set ds. \<forall>obj. kv_get objs a = Some obj \<longrightarrow> writesCode obj \<longrightarrow> accCodeHash obj \<noteq> h) \<longrightarrow>
        Vm_GetCode s' h = Vm_GetCode s h)"

text \<open>The objects a commit writes: each is the live object of its address, at an address that can hold a balance, and
  two objects with the same code hash have the same code.\<close>

definition committable :: "('b, 'k) vm_env \<Rightarrow> ('k \<Rightarrow> bool) \<Rightarrow> 'b \<Rightarrow> (address, stateObject) kv \<Rightarrow> address \<Rightarrow> bool" where
  "committable E isBase b objs a =
     (case kv_get objs a of
        None \<Rightarrow> False
      | Some obj \<Rightarrow> address obj = a \<and> \<not> selfDestructed obj \<and> kv_wf (dirtyStorage obj) \<and> usable (vpk E) a \<and>
          freeAt E isBase b (AddrBytes a))"

definition codes_agree :: "(address, stateObject) kv \<Rightarrow> address list \<Rightarrow> bool" where
  "codes_agree objs ds \<longleftrightarrow>
     (\<forall>a\<in>set ds. \<forall>b\<in>set ds. case (kv_get objs a, kv_get objs b) of
        (Some x, Some y) \<Rightarrow> writesCode x \<longrightarrow> writesCode y \<longrightarrow> accCodeHash x = accCodeHash y \<longrightarrow> code x = code y
      | _ \<Rightarrow> True)"

lemma published_code:
  assumes "published E isBase objs [a] s s1" "published E isBase objs ds s1 s'" "codes_agree objs (a # ds)"
    "kv_get objs a = Some obj" "writesCode obj"
  shows "Vm_GetCode s' (accCodeHash obj) = writtenCode obj"
proof (cases "\<exists>b\<in>set ds. \<exists>y. kv_get objs b = Some y \<and> writesCode y \<and> accCodeHash y = accCodeHash obj")
  case True
  then obtain b y where y: "b \<in> set ds" "kv_get objs b = Some y" "writesCode y" "accCodeHash y = accCodeHash obj" by blast
  with assms(3-5) have "code y = code obj" by (force simp: codes_agree_def)
  with y assms(2) show ?thesis by (auto simp: published_def published_at_def writtenCode_def)
next
  case False
  then have "Vm_GetCode s' (accCodeHash obj) = Vm_GetCode s1 (accCodeHash obj)"
    using assms(2) unfolding published_def by blast
  with assms(1,4,5) show ?thesis by (simp add: published_def published_at_def)
qed

lemma published_Cons:
  assumes s1: "published E isBase objs [a] s s1" and s2: "published E isBase objs ds s1 s'"
    and new: "a \<notin> set ds" and agree: "codes_agree objs (a # ds)"
    and addr: "\<And>b obj. b \<in> set (a # ds) \<Longrightarrow> kv_get objs b = Some obj \<Longrightarrow> address obj = b"
    and res: "AddrBytes a \<noteq> reserveAddr (vpk E)"
  shows "published E isBase objs (a # ds) s s'"
proof -
  have u1: "untouched E isBase s s1 b" if "b \<noteq> a" for b using s1 that by (simp add: published_def)
  have u2: "untouched E isBase s1 s' b" if "b \<notin> set ds" for b using s2 that by (simp add: published_def)
  have head: "published_at E isBase obj s s'" if "kv_get objs a = Some obj" for obj
  proof -
    have p: "published_at E isBase obj s s1" using s1 that by (simp add: published_def)
    from addr [of a obj] that have "address obj = a" by simp
    with p u2 [OF new] res published_code [OF s1 s2 agree that] show ?thesis
      by (simp add: published_at_def untouched_def)
  qed
  have tail: "published_at E isBase obj s s'" if "b \<in> set ds" "kv_get objs b = Some obj" for b obj
  proof -
    have p: "published_at E isBase obj s1 s'" using s2 that by (auto simp: published_def)
    from addr [of b obj] that have "address obj = b" by simp
    with u1 [of b] new that(1) have "slot_after obj s1 k = slot_after obj s k" for k
      by (auto simp: slot_after_def untouched_def split: option.splits)
    with p show ?thesis by (simp add: published_at_def)
  qed
  have rest: "untouched E isBase s s' b" if "b \<notin> set (a # ds)" for b
    using u1 [of b] u2 [of b] that by (simp add: untouched_def)
  have "Vm_GetCode s' h = Vm_GetCode s h"
    if "\<forall>b\<in>set (a # ds). \<forall>obj. kv_get objs b = Some obj \<longrightarrow> writesCode obj \<longrightarrow> accCodeHash obj \<noteq> h" for h
    using s1 s2 that by (simp add: published_def)
  with head tail rest show ?thesis unfolding published_def by auto
qed

locale vm_commit = vm_accounts E addrOf isBase
  for E :: "('b, 'k) vm_env" and addrOf isBase +
  fixes X :: "'c sdbEnv" and load :: "'c multistore \<Rightarrow> 'b vm_state" and save :: "'c multistore \<Rightarrow> 'b vm_state \<Rightarrow> 'c multistore"
    and keys :: "string list"
  assumes load_save: "load (save m s) = s"
    and keeper_is: "keeper X = vm_StateKeeper E load save keys"
begin

lemma keeper_sel [simp]:
  "kSetAccount (keeper X) m a acct = keeper_result save m (Vm_SetAccount E (load m) a acct)"
  "kSetState (keeper X) m a key v = save m (Vm_SetState (load m) a key v)"
  "kDeleteState (keeper X) m a key = save m (Vm_DeleteState (load m) a key)"
  "kDeleteCode (keeper X) m h = save m (Vm_DeleteCode (load m) h)"
  "kSetCode (keeper X) m h c = save m (Vm_SetCode (load m) h c)"
  by (simp_all add: keeper_is vm_StateKeeper_def)

text \<open>The fields a write to storage or code leaves alone.\<close>

definition same_accounts :: "'b vm_state \<Rightarrow> 'b vm_state \<Rightarrow> bool" where
  "same_accounts s s' \<longleftrightarrow> vpb s' = vpb s \<and> vmCodeHash s' = vmCodeHash s"

lemma same_accounts:
  assumes "same_accounts s s'"
  shows "Vm_GetAccount E s' a = Vm_GetAccount E s a" "baseAt E isBase s' a = baseAt E isBase s a"
    "vm_bank s' = vm_bank s" "vpb s' = vpb s"
  using assms by (simp_all add: same_accounts_def Vm_GetAccount_def GetAccountWithoutBalance_def vm_bank_def
      Vm_SpendableCoin_def Vm_GetCodeHash_def baseAt_def cong: option.case_cong)

lemma commit_slot_step:
  assumes "commit_slot X keep (obj, m) key = (obj', m')"
  shows "address obj' = address obj" "kv_get (dirtyStorage obj') k' = (if k' = key \<and> \<not> keep then None else kv_get (dirtyStorage obj) k')"
    "same_accounts (load m) (load m')" "vmCode (load m') = vmCode (load m)"
    "Vm_GetState (load m') b k = (if b = address obj \<and> k = key
       then (case kv_get (dirtyStorage obj) key of None \<Rightarrow> 0 | Some v \<Rightarrow> v) else Vm_GetState (load m) b k)"
  using assms by (auto simp: commit_slot_def Let_def load_save Vm_SetState_def same_accounts_def Vm_GetState_def
      split: if_splits)

lemma commit_slots:
  assumes "distinct ks" "foldl (commit_slot X keep) (obj, m) ks = (obj', m')"
  shows "same_accounts (load m) (load m') \<and> vmCode (load m') = vmCode (load m) \<and>
    Vm_GetState (load m') b k = (if b = address obj \<and> k \<in> set ks
       then (case kv_get (dirtyStorage obj) k of None \<Rightarrow> 0 | Some v \<Rightarrow> v) else Vm_GetState (load m) b k)"
  using assms
proof (induction ks arbitrary: obj m)
  case Nil
  then show ?case by (simp add: same_accounts_def)
next
  case (Cons key ks)
  obtain o1 m1 where s1: "commit_slot X keep (obj, m) key = (o1, m1)" by fastforce
  note st = commit_slot_step [OF s1]
  from Cons.IH [of o1 m1] Cons.prems s1 have
    "same_accounts (load m1) (load m') \<and> vmCode (load m') = vmCode (load m1) \<and>
     Vm_GetState (load m') b k = (if b = address o1 \<and> k \<in> set ks
       then (case kv_get (dirtyStorage o1) k of None \<Rightarrow> 0 | Some v \<Rightarrow> v) else Vm_GetState (load m1) b k)" by simp
  then show ?case using st Cons.prems(1) by (auto simp: same_accounts_def)
qed

lemma commit_object_publishes:
  assumes inv: "pb_inv K (vpb (load m))" and u: "usable K (address obj)"
    and free: "freeAt E isBase (vm_bank (load m)) (AddrBytes (address obj))"
    and live: "\<not> selfDestructed obj" and wf: "kv_wf (dirtyStorage obj)"
  shows "\<exists>obj' m'. commit_object X keep obj m = Ok (None, obj', m') \<and> pb_inv K (vpb (load m')) \<and>
    Vm_GetAccount E (load m') (address obj) = Some (objAccount obj) \<and> baseAt E isBase (load m') (address obj) \<and>
    (\<forall>k. Vm_GetState (load m') (address obj) k = slot_after obj (load m) k) \<and>
    (\<forall>b k. b \<noteq> address obj \<longrightarrow> Vm_GetState (load m') b k = Vm_GetState (load m) b k) \<and>
    (\<forall>h. Vm_GetCode (load m') h = (if writesCode obj \<and> h = accCodeHash obj then writtenCode obj else Vm_GetCode (load m) h)) \<and>
    (\<forall>b. b \<noteq> address obj \<longrightarrow> AddrBytes b \<noteq> reserveAddr K \<longrightarrow> baseAt E isBase (load m) b \<longrightarrow>
       baseAt E isBase (load m') b \<and> Vm_GetAccount E (load m') b = Vm_GetAccount E (load m) b) \<and>
    (\<forall>x. freeAt E isBase (vm_bank (load m)) x \<longrightarrow> freeAt E isBase (vm_bank (load m')) x)"
proof -
  let ?a = "address obj"
  define m1 where "m1 = (if code obj \<noteq> None \<and> dirtyCode obj then
      (if the (code obj) = [] then kDeleteCode (keeper X) m (accCodeHash obj)
       else kSetCode (keeper X) m (accCodeHash obj) (the (code obj))) else m)"
  have c1: "same_accounts (load m) (load m1)" "vmStorage (load m1) = vmStorage (load m)"
    and code1: "Vm_GetCode (load m1) h = (if writesCode obj \<and> h = accCodeHash obj then writtenCode obj else Vm_GetCode (load m) h)" for h
    by (auto simp: m1_def same_accounts_def load_save Vm_DeleteCode_def Vm_SetCode_def Vm_GetCode_def writesCode_def writtenCode_def)
  note e1 = same_accounts [OF c1(1)]
  from SetAccount_roundtrip [of "load m1" ?a "objAccount obj" "accBalance obj" "accCodeHash obj"] inv u free e1
  obtain s' where s': "Vm_SetAccount E (load m1) ?a (objAccount obj) = Ok s'" "pb_inv K (vpb s')"
    "Vm_GetAccount E s' ?a = Some (objAccount obj)" "baseAt E isBase s' ?a" "vmStorage s' = vmStorage (load m1)"
    "vmCode s' = vmCode (load m1)"
    and oth: "\<And>b. b \<noteq> ?a \<Longrightarrow> AddrBytes b \<noteq> reserveAddr K \<Longrightarrow> baseAt E isBase (load m) b \<Longrightarrow>
       baseAt E isBase s' b \<and> Vm_GetAccount E s' b = Vm_GetAccount E (load m) b"
    and fr: "\<And>x. freeAt E isBase (vm_bank (load m)) x \<Longrightarrow> freeAt E isBase (vm_bank s') x"
    by (auto simp: objAccount_def)
  obtain obj' m' where f: "foldl (commit_slot X keep) (obj, save m1 s') (SortedKeys (dirtyStorage obj)) = (obj', m')"
    by fastforce
  have d: "distinct (SortedKeys (dirtyStorage obj))" using wf by (simp add: SortedKeys_def kv_wf_def strict_sorted_iff)
  note sl = commit_slots [OF d f, unfolded load_save]
  have ss: "same_accounts s' (load m')" "vmCode (load m') = vmCode s'" using sl by blast+
  note e2 = same_accounts [OF ss(1)]
  have ok: "commit_object X keep obj m = Ok (None, obj', m')"
    using live s'(1) f unfolding commit_object_def Let_def m1_def [symmetric] by (simp add: keeper_result_def)
  have key: "k \<in> set (SortedKeys (dirtyStorage obj)) \<longleftrightarrow> kv_get (dirtyStorage obj) k \<noteq> None" for k
    by (force simp: SortedKeys_def kv_get_def map_of_eq_None_iff)
  have gs: "Vm_GetState s' b k = Vm_GetState (load m) b k" for b k using s'(5) c1(2) by (simp add: Vm_GetState_def)
  have slots: "Vm_GetState (load m') ?a k = slot_after obj (load m) k" for k
    using sl [of ?a k] key [of k] gs by (auto simp: slot_after_def)
  have frame: "Vm_GetState (load m') b k = Vm_GetState (load m) b k" if "b \<noteq> ?a" for b k
    using sl [of b k] that gs by simp
  have "Vm_GetCode (load m') h = (if writesCode obj \<and> h = accCodeHash obj then writtenCode obj else Vm_GetCode (load m) h)" for h
    using code1 [of h] ss(2) s'(6) by (simp add: Vm_GetCode_def)
  then show ?thesis using ok e2 s' slots frame oth fr by auto
qed

lemma commit_objects_publish:
  assumes "pb_inv K (vpb (load m))" "distinct ds" "codes_agree objs ds"
    "\<forall>a\<in>set ds. committable E isBase (vm_bank (load m)) objs a"
  shows "\<exists>objs' m'. commit_objects X keep ds objs m = Ok (None, objs', m') \<and> pb_inv K (vpb (load m')) \<and>
    published E isBase objs ds (load m) (load m')"
  using assms
proof (induction ds arbitrary: objs m)
  case Nil
  then show ?case by (simp add: published_def untouched_def)
next
  case (Cons a ds)
  from Cons.prems(4) obtain obj where obj: "kv_get objs a = Some obj" "address obj = a" "\<not> selfDestructed obj"
    "kv_wf (dirtyStorage obj)" "usable K a" "freeAt E isBase (vm_bank (load m)) (AddrBytes a)"
    by (auto simp: committable_def split: option.splits)
  from commit_object_publishes [of m obj keep] Cons.prems(1) obj obtain obj' m1 where
    c: "commit_object X keep obj m = Ok (None, obj', m1)" "pb_inv K (vpb (load m1))"
    and p1: "published E isBase objs [a] (load m) (load m1)"
    and fr: "\<And>x. freeAt E isBase (vm_bank (load m)) x \<Longrightarrow> freeAt E isBase (vm_bank (load m1)) x"
    by (auto simp: published_def published_at_def untouched_def)
  let ?objs = "kv_set a obj' objs"
  have d: "a \<notin> set ds" "distinct ds" using Cons.prems(2) by auto
  have same: "kv_get ?objs b = kv_get objs b" if "b \<in> set ds" for b using that d(1) by auto
  have "codes_agree ?objs ds" using Cons.prems(3) same by (simp add: codes_agree_def)
  moreover have "\<forall>b\<in>set ds. committable E isBase (vm_bank (load m1)) ?objs b"
    using Cons.prems(4) same fr by (simp add: committable_def split: option.splits)
  ultimately obtain objs' m' where
    r: "commit_objects X keep ds ?objs m1 = Ok (None, objs', m')" "pb_inv K (vpb (load m'))"
    "published E isBase ?objs ds (load m1) (load m')"
    using Cons.IH [OF c(2) d(2), of ?objs] by auto
  have "published E isBase objs ds (load m1) (load m')" using r(3) same by (simp add: published_def)
  moreover have "address x = b" if "b \<in> set (a # ds)" "kv_get objs b = Some x" for b x
    using Cons.prems(4) that by (auto simp: committable_def)
  moreover have "AddrBytes a \<noteq> reserveAddr K" using obj(5) by (simp add: usable_def)
  ultimately have "published E isBase objs (a # ds) (load m) (load m')"
    using published_Cons [OF p1 _ d(1) Cons.prems(3)] by blast
  with obj(1) c(1) r(1,2) show ?case by simp
qed

lemma Commit_publishes:
  assumes "writeCache s = None" "pb_inv K (vpb (load (ctxStore s)))" "kv_wf (dirties (journal s))"
    "codes_agree (stateObjects s) (sortedDirties (journal s))"
    "\<forall>a\<in>set (sortedDirties (journal s)). committable E isBase (vm_bank (load (ctxStore s))) (stateObjects s) a"
  shows "\<exists>s'. Commit X s = Ok (None, s') \<and> pb_inv K (vpb (load (ctxStore s'))) \<and>
    published E isBase (stateObjects s) (sortedDirties (journal s)) (load (ctxStore s)) (load (ctxStore s'))"
proof -
  have "distinct (sortedDirties (journal s))"
    using assms(3) by (simp add: sortedDirties_def kv_wf_def strict_sorted_iff)
  from commit_objects_publish [OF assms(2) this assms(4,5), of False] assms(1) show ?thesis
    by (auto simp: Commit_def commitWithCtx_def)
qed

end

end
