(* ===== verification/VmReference.thy ===== *)
theory VmReference
  imports VmCommit RefLedger FeeMarketTheorems Erc20Reference
begin

text \<open>
  The ledger of \<open>RefLedger\<close> with the accounts of x/auth: an account holds its sequence and the coins that are locked in
  it, as a vesting account does, and the bank reads the locked coins of an account from it. It keeps the laws of
  \<open>vm_coin\<close>, \<open>vm_accounts\<close> and \<open>vm_commit\<close>, and the concrete instances of the properties of x/vm run on it.
\<close>

section \<open>The bank over accounts\<close>

record refAcct =
  raAddr :: AccAddress
  raSeq :: "64 word"
  raLocked :: "(denom \<times> nat) list"

record ref_abank =
  abBal :: "AccAddress \<Rightarrow> denom \<Rightarrow> nat"
  abSupply :: "denom \<Rightarrow> int"
  abAccounts :: "(AccAddress, refAcct) kv"

definition lockedIn :: "(AccAddress, refAcct) kv \<Rightarrow> AccAddress \<Rightarrow> denom \<Rightarrow> nat" where
  "lockedIn accs a d =
     (case kv_get accs a of None \<Rightarrow> 0 | Some k \<Rightarrow> (case map_of (raLocked k) d of None \<Rightarrow> 0 | Some n \<Rightarrow> n))"

definition ledgerOf :: "ref_abank \<Rightarrow> ref_bank" where
  "ledgerOf s = \<lparr>rbBal = abBal s, rbLocked = lockedIn (abAccounts s), rbSupply = abSupply s\<rparr>"

definition onLedger :: "ref_abank \<Rightarrow> ref_bank res \<Rightarrow> ref_abank res" where
  "onLedger s r = res_bind r (\<lambda>b. Ok \<lparr>abBal = rbBal b, abSupply = rbSupply b, abAccounts = abAccounts s\<rparr>)"

definition refABank :: "ref_abank bank_keeper" where
  "refABank = \<lparr>bkGetBalance = (\<lambda>s a d. int (abBal s a d)), bkSpendableCoin = (\<lambda>s a d. int (refSpendable (ledgerOf s) a d)),
     bkGetSupply = abSupply, bkBlockedAddr = (\<lambda>a. a \<in> set (map fst refModules)),
     bkIsSendEnabledCoin = (\<lambda>_ _. True),
     bkSendCoins = (\<lambda>s f t cs. onLedger s (refSend (ledgerOf s) f t cs)),
     bkSendCoinsFromAccountToModule = (\<lambda>s f m cs.
       case refModuleAccount m of None \<Rightarrow> Panic ErrUnknownAddress
       | Some acc \<Rightarrow> onLedger s (refSend (ledgerOf s) f (maAddress acc) cs)),
     bkSendCoinsFromModuleToModule = (\<lambda>s m m' cs.
       case refModuleAddress m of None \<Rightarrow> Panic ErrUnknownAddress
       | Some a \<Rightarrow> (case refModuleAccount m' of None \<Rightarrow> Panic ErrUnknownAddress
           | Some acc \<Rightarrow> onLedger s (refSend (ledgerOf s) a (maAddress acc) cs))),
     bkMintCoins = (\<lambda>s m cs. onLedger s (refMint (ledgerOf s) m cs)),
     bkBurnCoins = (\<lambda>s m cs. onLedger s (refBurn (ledgerOf s) m cs))\<rparr>"

definition KA :: "ref_abank Keeper" where
  "KA = \<lparr>bk = refABank,
     ak = \<lparr>akGetModuleAddress = refModuleAddress, akGetModuleAccount = refModuleAccount,
           akStringToBytes = refFromBech32\<rparr>,
     api = refApi, accFromBech32 = refFromBech32, accString = refString, info = sixDecimals\<rparr>"

lemma KA_sel [simp]:
  "api KA = api K6" "ak KA = ak K6" "info KA = info K6"
  "bkBlockedAddr (bk KA) = bkBlockedAddr (bk K6)"
  "bbal KA s a d = bbal K6 (ledgerOf s) a d" "bspend KA s a d = bspend K6 (ledgerOf s) a d"
  "bkGetSupply (bk KA) s d = bkGetSupply (bk K6) (ledgerOf s) d"
  "bkSendCoins (bk KA) s f t cs = onLedger s (bkSendCoins (bk K6) (ledgerOf s) f t cs)"
  "bkMintCoins (bk KA) s m cs = onLedger s (bkMintCoins (bk K6) (ledgerOf s) m cs)"
  "bkBurnCoins (bk KA) s m cs = onLedger s (bkBurnCoins (bk K6) (ledgerOf s) m cs)"
  by (simp_all add: KA_def refABank_def ref_keeper_def refBank_def ledgerOf_def)

lemma KA_perm [simp]: "has_perm KA m p = has_perm K6 m p"
  by (simp add: has_perm_def)

text \<open>No operation changes what is locked, so running on the ledger loses nothing.\<close>

lemma ref_locked:
  "refSend b f t cs = Ok b' \<Longrightarrow> rbLocked b' = rbLocked b"
  "refMint b m cs = Ok b' \<Longrightarrow> rbLocked b' = rbLocked b"
  "refBurn b m cs = Ok b' \<Longrightarrow> rbLocked b' = rbLocked b"
  by (auto simp: refSend_def refMint_def refBurn_def split: if_splits option.splits)

lemma onLedger_Ok:
  assumes "onLedger s r = Ok s'" "\<And>b. r = Ok b \<Longrightarrow> rbLocked b = rbLocked (ledgerOf s)"
  shows "r = Ok (ledgerOf s') \<and> abAccounts s' = abAccounts s"
  using assms by (auto simp: onLedger_def res_bind_Ok ledgerOf_def)

lemma onLedger_fails [simp]:
  "is_ok (onLedger s r) = is_ok r" "onLedger s r = Err e \<longleftrightarrow> r = Err e" "onLedger s r = Panic e \<longleftrightarrow> r = Panic e"
  by (cases r; simp add: onLedger_def)+

lemma KA_Ok:
  "bkSendCoins (bk KA) s f t cs = Ok s' \<Longrightarrow>
     bkSendCoins (bk K6) (ledgerOf s) f t cs = Ok (ledgerOf s') \<and> abAccounts s' = abAccounts s"
  "bkMintCoins (bk KA) s m cs = Ok s' \<Longrightarrow>
     bkMintCoins (bk K6) (ledgerOf s) m cs = Ok (ledgerOf s') \<and> abAccounts s' = abAccounts s"
  "bkBurnCoins (bk KA) s m cs = Ok s' \<Longrightarrow>
     bkBurnCoins (bk K6) (ledgerOf s) m cs = Ok (ledgerOf s') \<and> abAccounts s' = abAccounts s"
  using onLedger_Ok ref_locked by (simp_all add: onLedger_Ok ref_locked)

lemma KA_modules:
  "bkSendCoinsFromAccountToModule (bk KA) s f m cs =
     (case refModuleAccount m of None \<Rightarrow> Panic ErrUnknownAddress | Some acc \<Rightarrow> bkSendCoins (bk KA) s f (maAddress acc) cs)"
  "bkSendCoinsFromModuleToModule (bk KA) s m m' cs =
     (case refModuleAddress m of None \<Rightarrow> Panic ErrUnknownAddress
      | Some a \<Rightarrow> (case refModuleAccount m' of None \<Rightarrow> Panic ErrUnknownAddress
          | Some acc \<Rightarrow> bkSendCoins (bk KA) s a (maAddress acc) cs))"
  by (simp_all add: KA_def refABank_def split: option.splits)

interpretation refA: sdk_bank KA
proof unfold_locales
  fix m m' :: string and cs :: coins and b b' :: ref_abank and e :: error and f t a :: AccAddress
    and d d' :: denom and n :: int and acc :: module_account
  note [simp del] = ref_sel
  show "cAmountOf (api KA) [newCoin d n] d' = (if d' = d then n else 0)" by (simp add: ref.coins_single)
  show "cIsValid (api KA) [newCoin d n] \<longleftrightarrow> cValidDenom (api KA) d \<and> 0 < n" by (simp add: ref.coins_single_valid)
  show "cAmountOf (api KA) [] d = 0" by (simp add: ref.coins_nil)
  show "cIsValid (api KA) cs \<Longrightarrow> 0 \<le> cAmountOf (api KA) cs d" by (simp add: ref.coins_nonneg)
  show "cAmountOf (api KA) (cSub (api KA) cs (newCoin d n)) d' = (if d' = d then 0 else cAmountOf (api KA) cs d')"
    if "cIsValid (api KA) cs" "cAmountOf (api KA) cs d = n" "0 < n"
    using ref.coins_sub [OF that [unfolded KA_sel]] by simp
  show "cIsValid (api KA) (cSub (api KA) cs (newCoin d n))"
    if "cIsValid (api KA) cs" "cAmountOf (api KA) cs d = n" "0 < n"
    using ref.coins_sub_valid [OF that [unfolded KA_sel]] by simp
  show "cIsValid (api KA) cs \<Longrightarrow> cIsAllPositive (api KA) cs \<longleftrightarrow> cs \<noteq> []" by (simp add: ref.coins_all_positive)
  show "0 \<le> bspend KA b a d \<and> bspend KA b a d \<le> bbal KA b a d" by (simp add: ref.spend_le_bal)
  show "akGetModuleAddress (ak KA) m = Some a \<Longrightarrow> bspend KA b a d = bbal KA b a d" using ref.module_spend by simp
  show "akGetModuleAccount (ak KA) m = Some acc \<Longrightarrow> akGetModuleAddress (ak KA) m = Some (maAddress acc)"
    using ref.module_account_address by simp
  show "akGetModuleAddress (ak KA) m = Some a \<Longrightarrow> a \<noteq> []" using ref.module_addr_nonempty by simp
  show "akGetModuleAddress (ak KA) m = Some a \<Longrightarrow> akGetModuleAddress (ak KA) m' = Some a \<Longrightarrow> m = m'"
    using ref.module_addr_inj by simp
  show "cIsValid (api KA) cs \<Longrightarrow> is_ok (bkSendCoins (bk KA) b f t cs) \<longleftrightarrow> (\<forall>d. amt_of KA cs d \<le> bspend KA b f d)"
    by (simp add: ref.send_ok_iff del: is_ok_iff)
  show "cIsValid (api KA) cs \<Longrightarrow> bkSendCoins (bk KA) b f t cs = Err e \<Longrightarrow> isInsufficientFunds e"
    using ref.send_err by simp
  show "cIsValid (api KA) cs \<Longrightarrow> bkSendCoins (bk KA) b f t cs \<noteq> Panic e" using ref.send_no_panic by simp
  show "bbal KA b' a d = bbal KA b a d - at_addr f (amt_of KA cs d) a + at_addr t (amt_of KA cs d) a"
    "f \<noteq> t \<Longrightarrow> a \<noteq> t \<Longrightarrow> bspend KA b' a d = bspend KA b a d - at_addr f (amt_of KA cs d) a"
    "bkGetSupply (bk KA) b' d = bkGetSupply (bk KA) b d"
    if "cIsValid (api KA) cs" "bkSendCoins (bk KA) b f t cs = Ok b'"
    using KA_Ok(1) [OF that(2)] that(1) ref.send_bal ref.send_spend ref.send_supply by auto
  show "bkSendCoinsFromAccountToModule (bk KA) b f m cs =
      (case akGetModuleAccount (ak KA) m of None \<Rightarrow> Panic ErrUnknownAddress
       | Some acc \<Rightarrow> bkSendCoins (bk KA) b f (maAddress acc) cs)"
    "bkSendCoinsFromModuleToModule (bk KA) b m m' cs =
      (case akGetModuleAddress (ak KA) m of None \<Rightarrow> Panic ErrUnknownAddress
       | Some a \<Rightarrow> (case akGetModuleAccount (ak KA) m' of None \<Rightarrow> Panic ErrUnknownAddress
           | Some acc \<Rightarrow> bkSendCoins (bk KA) b a (maAddress acc) cs))"
    unfolding KA_modules KA_sel(2) ref_sel by (rule refl)+
  show "has_perm KA m Minter \<Longrightarrow> cIsValid (api KA) cs \<Longrightarrow> is_ok (bkMintCoins (bk KA) b m cs)"
    using ref.mint_ok by (simp del: is_ok_iff)
  show "bbal KA b' a d = bbal KA b a d + at_addr t (amt_of KA cs d) a"
    if "bkMintCoins (bk KA) b m cs = Ok b'" "cIsValid (api KA) cs" "akGetModuleAddress (ak KA) m = Some t"
    using KA_Ok(2) [OF that(1)] that(2,3) ref.mint_bal by auto
  show "bkGetSupply (bk KA) b' d = bkGetSupply (bk KA) b d + amt_of KA cs d"
    if "bkMintCoins (bk KA) b m cs = Ok b'" "cIsValid (api KA) cs"
    using KA_Ok(2) [OF that(1)] that(2) ref.mint_supply by auto
  show "is_ok (bkBurnCoins (bk KA) b m cs) \<longleftrightarrow> (\<forall>d. amt_of KA cs d \<le> bbal KA b f d)"
    if "has_perm KA m Burner" "cIsValid (api KA) cs" "akGetModuleAddress (ak KA) m = Some f"
    using ref.burn_ok_iff that by (simp del: is_ok_iff)
  show "has_perm KA m Burner \<Longrightarrow> cIsValid (api KA) cs \<Longrightarrow> bkBurnCoins (bk KA) b m cs = Err e \<Longrightarrow> isInsufficientFunds e"
    using ref.burn_err by simp
  show "has_perm KA m Burner \<Longrightarrow> cIsValid (api KA) cs \<Longrightarrow> bkBurnCoins (bk KA) b m cs \<noteq> Panic e"
    using ref.burn_no_panic by simp
  show "bbal KA b' a d = bbal KA b a d - at_addr f (amt_of KA cs d) a"
    if "bkBurnCoins (bk KA) b m cs = Ok b'" "cIsValid (api KA) cs" "akGetModuleAddress (ak KA) m = Some f"
    using KA_Ok(3) [OF that(1)] that(2,3) ref.burn_bal by auto
  show "bkGetSupply (bk KA) b' d = bkGetSupply (bk KA) b d - amt_of KA cs d"
    if "bkBurnCoins (bk KA) b m cs = Ok b'" "cIsValid (api KA) cs"
    using KA_Ok(3) [OF that(1)] that(2) ref.burn_supply by auto
qed

interpretation refA: vm_coin KA
proof unfold_locales
  show "Decimals_Validate (eciDecimals (info KA)) = None" "cValidDenom (api KA) (eciDenom (info KA))"
    using ref6.decimals_valid ref6.integer_denom_valid by simp_all
  show "has_perm KA ModuleName Minter" "has_perm KA ModuleName Burner"
    using ref6.reserve_minter ref6.reserve_burner by simp_all
  show "cValidDenom (api KA) (ExtendedCoinDenom KA)"
    by (simp add: ExtendedCoinDenom_def sixDecimals_def refValidDenom_def)
  show "has_perm KA evmModuleName Minter" "has_perm KA evmModuleName Burner"
    by (simp_all add: ref_perm refModuleAccount_def refModules_def evmModuleName_def)
  show "cIsZero (api KA) []" by (simp add: KA_def refApi_def)
  show "cSort (api KA) [c] = [c]" "cIsZero (api KA) [c] \<longleftrightarrow> Amount c = 0" for c
    by (simp_all add: KA_def refApi_def)
qed

section \<open>The environment\<close>

definition raBase :: "refAcct \<Rightarrow> bool" where
  "raBase k \<longleftrightarrow> raLocked k = []"

definition raGet :: "ref_abank \<Rightarrow> AccAddress \<Rightarrow> refAcct option" where
  "raGet b a = (case kv_get (abAccounts b) a of None \<Rightarrow> None | Some k \<Rightarrow> Some \<lparr>raAddr = a, raSeq = raSeq k, raLocked = raLocked k\<rparr>)"

definition raNew :: "ref_abank \<Rightarrow> AccAddress \<Rightarrow> refAcct \<times> ref_abank" where
  "raNew b a = (\<lparr>raAddr = a, raSeq = 0, raLocked = []\<rparr>, b)"

definition raSet :: "ref_abank \<Rightarrow> refAcct \<Rightarrow> ref_abank" where
  "raSet b k = \<lparr>abBal = abBal b, abSupply = abSupply b, abAccounts = kv_set (raAddr k) k (abAccounts b)\<rparr>"

definition raRemove :: "ref_abank \<Rightarrow> refAcct \<Rightarrow> ref_abank" where
  "raRemove b k = \<lparr>abBal = abBal b, abSupply = abSupply b, abAccounts = kv_delete (raAddr k) (abAccounts b)\<rparr>"

definition raSetSequence :: "refAcct \<Rightarrow> 64 word \<Rightarrow> refAcct res" where
  "raSetSequence k n = Ok \<lparr>raAddr = raAddr k, raSeq = n, raLocked = raLocked k\<rparr>"

definition raBaseAccount :: "AccAddress \<Rightarrow> refAcct \<Rightarrow> refAcct" where
  "raBaseAccount a k = \<lparr>raAddr = a, raSeq = raSeq k, raLocked = []\<rparr>"

definition refKeccak :: "bytes \<Rightarrow> hash" where
  "refKeccak bs = word_of_nat (length bs) + 1"

definition refVm :: "(ref_abank, refAcct) vm_env" where
  "refVm = \<lparr>vpk = KA, vfe = feeEnv, vKeccak = refKeccak, vIsHexAddress = refIsHex, vHexToAddress = refHexTo, vAddrHex = refHex,
     vFromHex = (\<lambda>x. map (\<lambda>c. of_char c) x), vHex2Bytes = (\<lambda>x. map (\<lambda>c. of_char c) x),
     vBytes2Hex = map (\<lambda>b. char_of (unat b)), vHexToHash = (\<lambda>x. BytesToHash (map (\<lambda>c. of_char c) x)),
     vHashString = (\<lambda>h. map (\<lambda>b. char_of (unat b)) (Hash_Bytes h)), vValidEip = (\<lambda>n. n = 3855), vChannelValid = (\<lambda>x. x \<noteq> []),
     vPragueAddresses = [1, 2, 3, 4, 5, 6, 7, 8, 9, 10], vParseDelegation = (\<lambda>_. None), vAddressToDelegation = (\<lambda>_. []),
     vHistoryStorageAddress = 11, vIsLondon = (\<lambda>_. True), vCreateBloom = (\<lambda>ls. int (length ls)), vAuthority = ''gov'',
     vDefaultCoinInfo = sixDecimals, auGetAccount = raGet, auNewAccount = raNew, auSetAccount = raSet,
     auRemoveAccount = raRemove, auSequence = raSeq, auSetSequence = raSetSequence, auBaseAccount = raBaseAccount,
     vDenomMetaData = (\<lambda>_ _. None), skValidatorOperator = (\<lambda>_. Err ErrUnknownAddress),
     valAddressFromBech32 = (\<lambda>_. Err ErrInvalidAddress)\<rparr>"

lemma refVm_sel [simp]:
  "vpk refVm = KA" "vKeccak refVm = refKeccak" "auGetAccount refVm = raGet" "auNewAccount refVm = raNew"
  "auSetAccount refVm = raSet" "auRemoveAccount refVm = raRemove" "auSequence refVm = raSeq"
  "auSetSequence refVm = raSetSequence" "auBaseAccount refVm = raBaseAccount"
  by (simp_all add: refVm_def)

lemma raGet_simp: "raGet b a = map_option (\<lambda>k. k\<lparr>raAddr := a\<rparr>) (kv_get (abAccounts b) a)"
  by (simp add: raGet_def split: option.splits)

lemma KA_accounts:
  "bkSendCoins (bk KA) s f t cs = Ok s' \<Longrightarrow> raGet s' = raGet s"
  "bkSendCoinsFromAccountToModule (bk KA) s f m cs = Ok s' \<Longrightarrow> raGet s' = raGet s"
  "bkSendCoinsFromModuleToModule (bk KA) s m m' cs = Ok s' \<Longrightarrow> raGet s' = raGet s"
  "bkMintCoins (bk KA) s m cs = Ok s' \<Longrightarrow> raGet s' = raGet s"
  "bkBurnCoins (bk KA) s m cs = Ok s' \<Longrightarrow> raGet s' = raGet s"
  unfolding KA_modules fun_eq_iff raGet_simp by (auto dest!: KA_Ok split: option.splits simp del: KA_sel)

lemma KA_stable: "bank_stable KA (\<lambda>b. Q (raGet b))"
  unfolding bank_stable_def by (auto dest!: KA_accounts simp del: KA_sel)

interpretation refVm: vm_accounts refVm raAddr raBase
proof (intro vm_accounts.intro vm_accounts_axioms.intro, unfold refVm_sel)
  fix b b' :: ref_abank and x :: AccAddress and k k' :: refAcct and n :: "64 word" and d :: denom
  show "raGet b x = Some k \<Longrightarrow> raAddr k = x" by (auto simp: raGet_simp)
  show "raNew b x = (k, b') \<Longrightarrow> raAddr k = x \<and> raBase k \<and> raGet b' = raGet b \<and> bbal KA b' = bbal KA b \<and>
      bkGetSupply (bk KA) b' = bkGetSupply (bk KA) b" by (auto simp: raNew_def raBase_def)
  show "\<exists>k'. raSetSequence k n = Ok k' \<and> raAddr k' = raAddr k \<and> raBase k' \<and> raSeq k' = n" if "raBase k"
    using that by (simp add: raSetSequence_def raBase_def)
  show "raGet (raSet b k) = (raGet b)(raAddr k \<mapsto> k)" by (auto simp: raGet_simp raSet_def fun_eq_iff)
  show "bbal KA (raSet b k) = bbal KA b" "bkGetSupply (bk KA) (raSet b k) = bkGetSupply (bk KA) b"
    by (simp_all add: fun_eq_iff raSet_def ledgerOf_def)
  show "raAddr (raBaseAccount x k) = x" "raBase (raBaseAccount x k)" by (simp_all add: raBaseAccount_def raBase_def)
  show "raGet (raRemove b k) = (raGet b)(raAddr k := None)" by (auto simp: raGet_simp raRemove_def fun_eq_iff)
  show "bbal KA (raRemove b k) = bbal KA b" "bkGetSupply (bk KA) (raRemove b k) = bkGetSupply (bk KA) b"
    by (simp_all add: fun_eq_iff raRemove_def ledgerOf_def)
  show "raGet b x = Some k \<Longrightarrow> raBase k \<Longrightarrow> bspend KA b x d = bbal KA b x d"
    by (auto simp: raGet_simp raBase_def refSpendable_def ledgerOf_def lockedIn_def)
  show "bank_stable KA (\<lambda>b. raGet b x = Some k)" by (rule KA_stable)
  show "bank_stable KA (\<lambda>b. freeAt refVm raBase b x)" unfolding freeAt_def refVm_sel by (rule KA_stable)
qed (rule refA.vm_coin_axioms)

section \<open>The stores in a multi store\<close>

definition vmEmpty :: "ref_abank vm_state" where
  "vmEmpty = \<lparr>vmCode = [], vmStorage = [], vmCodeHash = [], vmParamsKey = None, vmCoinInfoKey = None, vmBloom = None,
     vmTxIndex = None, vmLogSize = None, vmGasUsed = None,
     vpb = \<lparr>bank = \<lparr>abBal = (\<lambda>_ _. 0), abSupply = (\<lambda>_. 0), abAccounts = []\<rparr>, fractional = [], remainderKey = None\<rparr>,
     vfm = feeState\<rparr>"

definition vmLoad :: "ref_abank vm_state multistore \<Rightarrow> ref_abank vm_state" where
  "vmLoad m = (case kv_get m ''evm'' of None \<Rightarrow> vmEmpty | Some s \<Rightarrow> s)"

definition vmSave :: "ref_abank vm_state multistore \<Rightarrow> ref_abank vm_state \<Rightarrow> ref_abank vm_state multistore" where
  "vmSave m s = kv_set ''evm'' s m"

definition refSdb :: "ref_abank vm_state sdbEnv" where
  "refSdb = \<lparr>keeper = vm_StateKeeper refVm vmLoad vmSave [''evm''], cacheOps = \<lparr>ckNew = (\<lambda>p. p), ckWrite = (\<lambda>c p. c)\<rparr>,
     keccak = refKeccak\<rparr>"

interpretation refSdb: vm_commit refVm raAddr raBase refSdb vmLoad vmSave "[''evm'']"
  by (intro vm_commit.intro vm_commit_axioms.intro refVm.vm_accounts_axioms) (simp_all add: vmLoad_def vmSave_def refSdb_def)

end
