(* ===== verification/VmGas.thy ===== *)
theory VmGas
  imports VmCommit
begin

text \<open>
  Gas and fees: what a message is charged, within which bounds, and what the sender and the fee collector hold after
  the purchase of the gas and the refund of what is left.
\<close>

section \<open>The charge\<close>

text \<open>The gas the interpreter reports: the refund never makes more gas left than the limit.\<close>

lemma GasToRefund_le: "GasToRefund av used q \<le> used div q"
  by (auto simp: GasToRefund_def Let_def)

lemma temporary_gas_bounds:
  fixes av fl :: "64 word"
  assumes "leftover \<le> limit" "isPrague (evmApi C) (cxHeight vctx) \<Longrightarrow> fl \<le> limit"
  defines "gc \<equiv> temporary_gas C vctx limit leftover av fl"
  defines "q \<equiv> (if vIsLondon (venv C) (cxHeight vctx) then RefundQuotientEIP3529 (evmApi C) else RefundQuotient (evmApi C))"
  shows "gcUsed gc \<le> gcMaxUsed gc" "gcMaxUsed gc \<le> limit" "gcLeftover gc = limit - gcUsed gc"
    "gcMaxUsed gc - gcMaxUsed gc div q \<le> gcUsed gc"
    "isPrague (evmApi C) (cxHeight vctx) \<Longrightarrow> fl \<le> gcUsed gc"
proof -
  let ?used = "limit - leftover" and ?ref = "GasToRefund av (limit - leftover) q"
  have r: "?ref \<le> ?used div q" "?used div q \<le> ?used" "?ref \<le> ?used"
    using GasToRefund_le [of av ?used q] div_le_dividend by (auto simp: word_le_nat_alt unat_div intro: order_trans)
  have u: "?used \<le> limit" using assms(1) by (simp add: word_le_nat_alt unat_sub)
  have l: "limit - (?used - ?ref) = leftover + ?ref" by simp
  have d: "?used - ?used div q \<le> ?used - ?ref" using r by (simp add: word_le_nat_alt unat_sub)
  have t: "?used - ?ref \<le> ?used" using r(3) by (simp add: word_le_nat_alt unat_sub)
  have fd: "fl - fl div q \<le> fl" by (simp add: word_le_nat_alt unat_div unat_sub)
  note e = gc_def temporary_gas_def Let_def q_def [symmetric]
  show "gcUsed gc \<le> gcMaxUsed gc" using t by (auto simp: e)
  show "gcMaxUsed gc \<le> limit" using u assms(2) by (auto simp: e)
  show "gcLeftover gc = limit - gcUsed gc" using l by (auto simp: e)
  show "gcMaxUsed gc - gcMaxUsed gc div q \<le> gcUsed gc" using d fd t by (auto simp: e)
  show "isPrague (evmApi C) (cxHeight vctx) \<Longrightarrow> fl \<le> gcUsed gc" by (auto simp: e)
qed

context legacy_dec
begin

lemma charge_gas_exact:
  assumes m: "0 \<le> m" "m \<le> decOne" and limit: "uint limit < 2 ^ 63" and gc: "gcUsed gc \<le> limit" "gcLeftover gc \<le> limit"
  shows "charge_gas D (Some m) limit gc internal =
    Ok (word_of_int (if internal then uint (gcUsed gc) else max (uint (gcUsed gc)) (uint limit * m div decOne)))"
    "uint limit * m div decOne \<le> uint limit"
proof -
  let ?L = "uint limit" and ?u = "uint (gcUsed gc)"
  have one: "0 < decOne" by simp
  have u: "0 \<le> ?u" "?u \<le> ?L" "0 \<le> ?L" using gc(1) by (simp_all add: word_le_def)
  have lm: "0 \<le> ?L * m" "?L * m \<le> ?L * decOne" using m u by (auto intro: mult_left_mono)
  show le: "?L * m div decOne \<le> ?L" using zdiv_mono1 [OF lm(2) one] one by simp
  have "signed_take_bit 63 ?u = ?u" using u limit by (intro signed_take_bit_int_eq_self; linarith)
  then have s: "sint (gcUsed gc) = ?u" by (simp add: sint_uint)
  have tr: "decTruncateInt D (?L * m) = ?L * m div decOne" using dec_truncate [OF lm(1)] .
  have nn: "0 \<le> ?L * m div decOne" using lm(1) one by (simp add: pos_imp_zdiv_nonneg_iff)
  have mx: "decTruncateInt D (max (LegacyNewDec ?u) (?L * m)) = max ?u (?L * m div decOne)"
  proof (cases "LegacyNewDec ?u \<le> ?L * m")
    case True
    then have "?u \<le> ?L * m div decOne" using zdiv_mono1 [OF True one] one by (simp add: LegacyNewDec_def)
    with True tr show ?thesis by simp
  next
    case False
    then have "?L * m div decOne \<le> ?u" using zdiv_mono1 [of "?L * m" "LegacyNewDec ?u" decOne] one by (simp add: LegacyNewDec_def)
    with False truncate_whole [OF u(1)] show ?thesis by simp
  qed
  have fits: "max ?u (?L * m div decOne) < 2 ^ 64" "?u < 2 ^ 64" using u le limit by auto
  show "charge_gas D (Some m) limit gc internal =
    Ok (word_of_int (if internal then ?u else max ?u (?L * m div decOne)))"
    using gc(2) le limit nn fits u m(1)
    by (simp add: charge_gas_def Let_def dec_mul_whole tr s mx truncate_whole Int_Uint64_def not_less [symmetric])
qed

end

lemma eff_success:
  "eff_bind m f = Ok (Inl r, s') \<longleftrightarrow> (\<exists>x s. m = Ok (Inl x, s) \<and> f x s = Ok (Inl r, s'))"
  "eff_read s q = Ok (Inl x, s') \<longleftrightarrow> q = Ok x \<and> s' = s"
  "(if c then eff_fail s e else n) = Ok (Inl r, s') \<longleftrightarrow> \<not> c \<and> n = Ok (Inl r, s')"
  by (auto simp: eff_bind_Ok eff_read_Ok)

text \<open>What is known of a message that was applied: the interpreter stayed within the limit, the calldata floor too,
  and the response reports the charge.\<close>

definition charged ::
    "('b, 'k, 'c, 'p) chain \<Rightarrow> vm_ctx \<Rightarrow> coreMessage \<Rightarrow> EVMConfig \<Rightarrow> bool \<Rightarrow> MsgEthereumTxResponse \<Rightarrow> 'c evmOutcome \<Rightarrow> 64 word \<Rightarrow> bool"
  where
  "charged C vctx msg cfg internal r out fl \<longleftrightarrow>
     (let gc = temporary_gas C vctx (mGasLimit msg) (eoLeftoverGas out) (refund (eoState out)) fl in
      charge_gas (fmDec (vfe (venv C))) (MinGasMultiplier (cfgFeeMarketParams cfg)) (mGasLimit msg) gc internal =
        Ok (rsGasUsed r) \<and> rsMaxUsedGas r = gcMaxUsed gc \<and> eoLeftoverGas out \<le> mGasLimit msg \<and>
      (isPrague (evmApi C) (cxHeight vctx) \<longrightarrow> FloorDataGas (evmApi C) (mData msg) = Ok fl \<and> fl \<le> mGasLimit msg))"

lemma chargedI:
  fixes C :: "('b, 'k, 'c, 'p) chain" and out :: "'c evmOutcome"
  assumes "charge_gas (fmDec (vfe (venv C))) (MinGasMultiplier (cfgFeeMarketParams cfg)) (mGasLimit msg)
      (temporary_gas C vctx (mGasLimit msg) (eoLeftoverGas out) (refund (eoState out)) fl) internal = Ok g"
    "r = \<lparr>rsGasUsed = g,
       rsMaxUsedGas = gcMaxUsed (temporary_gas C vctx (mGasLimit msg) (eoLeftoverGas out) (refund (eoState out)) fl),
       rsVmError = e, rsRet = b, rsLogs = ls, rsHash = h\<rparr>"
    "eoLeftoverGas out \<le> mGasLimit msg"
    "(if isPrague (evmApi C) (cxHeight vctx) then FloorDataGas (evmApi C) (mData msg) else Ok 0) = Ok fl"
    "\<not> (isPrague (evmApi C) (cxHeight vctx) \<and> mGasLimit msg < fl)"
  shows "\<exists>out fl. charged C vctx msg cfg internal r out fl"
  using assms by (intro exI [of _ out] exI [of _ fl]) (auto simp: charged_def Let_def)

lemma ApplyMessage_charged:
  assumes "ApplyMessageWithConfig C vctx ctx msg commit cfg txcfg internal ov = Ok (Inl r, ctx')"
  shows "\<exists>out fl. charged C vctx msg cfg internal r out fl"
  using assms
  by (simp only: ApplyMessageWithConfig_def Let_def eff_success split_def not_less eff_ret_Ok prod.inject sum.inject)
    (elim exE conjE, rule chargedI; assumption)

lemma charged_bounds:
  fixes C :: "('b, 'k, 'c, 'p) chain"
  assumes c: "charged C vctx msg cfg internal r out fl" and D: "legacy_dec (fmDec (vfe (venv C)))"
    and m: "MinGasMultiplier (cfgFeeMarketParams cfg) = Some m" "0 \<le> m" "m \<le> decOne" and L: "uint (mGasLimit msg) < 2 ^ 63"
  defines "q \<equiv> (if vIsLondon (venv C) (cxHeight vctx) then RefundQuotientEIP3529 (evmApi C) else RefundQuotient (evmApi C))"
  shows "rsGasUsed r \<le> mGasLimit msg" "rsMaxUsedGas r \<le> mGasLimit msg"
    "rsMaxUsedGas r - rsMaxUsedGas r div q \<le> rsGasUsed r"
    "internal \<Longrightarrow> rsGasUsed r \<le> rsMaxUsedGas r"
    "\<not> internal \<Longrightarrow> uint (mGasLimit msg) * m div decOne \<le> uint (rsGasUsed r)"
    "\<not> internal \<Longrightarrow> uint (rsGasUsed r) \<le> max (uint (rsMaxUsedGas r)) (uint (mGasLimit msg) * m div decOne)"
    "isPrague (evmApi C) (cxHeight vctx) \<Longrightarrow> fl \<le> rsGasUsed r \<and> FloorDataGas (evmApi C) (mData msg) = Ok fl"
proof -
  let ?L = "mGasLimit msg"
  define gc where "gc = temporary_gas C vctx ?L (eoLeftoverGas out) (refund (eoState out)) fl"
  note b = temporary_gas_bounds [where C = C and vctx = vctx and limit = ?L and leftover = "eoLeftoverGas out" and fl = fl
      and av = "refund (eoState out)", folded gc_def q_def]
  from c have c': "eoLeftoverGas out \<le> ?L" "isPrague (evmApi C) (cxHeight vctx) \<Longrightarrow> fl \<le> ?L"
    "charge_gas (fmDec (vfe (venv C))) (Some m) ?L gc internal = Ok (rsGasUsed r)" "rsMaxUsedGas r = gcMaxUsed gc"
    and f: "isPrague (evmApi C) (cxHeight vctx) \<Longrightarrow> FloorDataGas (evmApi C) (mData msg) = Ok fl"
    by (auto simp: charged_def Let_def gc_def m(1))
  note b = b [OF c'(1,2)]
  have le: "gcUsed gc \<le> ?L" "gcLeftover gc \<le> ?L"
    using b(1,2,3) by (auto simp: word_le_nat_alt unat_sub intro: order_trans)
  note x = legacy_dec.charge_gas_exact [OF D m(2,3) L le]
  let ?n = "if internal then uint (gcUsed gc) else max (uint (gcUsed gc)) (uint ?L * m div decOne)"
  have n: "uint (gcUsed gc) \<le> ?n" "?n \<le> uint ?L" "0 \<le> ?n" using x(2) le(1) by (auto simp: word_le_def le_max_iff_disj)
  have "rsGasUsed r = word_of_int ?n" using c'(3) x(1) [of internal] by simp
  then have g: "uint (rsGasUsed r) = ?n" using n(2,3) L by (simp add: uint_word_of_int_eq take_bit_int_eq_self)
  have u: "gcUsed gc \<le> rsGasUsed r" using g n(1) by (simp add: word_le_def)
  show "rsGasUsed r \<le> ?L" using g n(2) by (simp add: word_le_def)
  show "rsMaxUsedGas r \<le> ?L" using b(2) c'(4) by simp
  show "rsMaxUsedGas r - rsMaxUsedGas r div q \<le> rsGasUsed r" using b(4) u c'(4) by auto
  show "internal \<Longrightarrow> rsGasUsed r \<le> rsMaxUsedGas r" using g b(1) c'(4) by (simp add: word_le_def)
  show "\<not> internal \<Longrightarrow> uint ?L * m div decOne \<le> uint (rsGasUsed r)" using g by simp
  show "\<not> internal \<Longrightarrow> uint (rsGasUsed r) \<le> max (uint (rsMaxUsedGas r)) (uint ?L * m div decOne)"
    using g b(1) c'(4) by (auto simp: word_le_def)
  show "isPrague (evmApi C) (cxHeight vctx) \<Longrightarrow> fl \<le> rsGasUsed r \<and> FloorDataGas (evmApi C) (mData msg) = Ok fl"
    using b(5) u f by auto
qed

section \<open>Buying gas and refunding it\<close>

text \<open>What the fees rely on: the module finds in a multi store what it put there, the fee collector is a module account,
  and the fee deduction of x/auth moves valid fees to it.\<close>

locale vm_fees = vm_accounts "venv C" addrOf isBase
  for C :: "('b, 'k, 'c, 'p) chain" and addrOf :: "'k \<Rightarrow> AccAddress" and isBase :: "'k \<Rightarrow> bool" +
  assumes load_save: "loadVm C (saveVm C m s) = s"
    and collector: "akGetModuleAccount (ak (vpk (venv C))) FeeCollectorName \<noteq> None"
    and deduct_fees: "cIsValid (api (vpk (venv C))) fees \<Longrightarrow> send p a FeeCollectorName fees = Ok p' \<Longrightarrow>
      deductFees C send p a fees = Ok p'"
begin

abbreviation collectorAddr :: AccAddress where
  "collectorAddr \<equiv> moduleAddress K FeeCollectorName"

lemma collector_addr:
  "akGetModuleAddress (ak K) FeeCollectorName = Some collectorAddr" "plain K collectorAddr"
  "FeeCollectorName \<noteq> ModuleName"
  "\<exists>acc. akGetModuleAccount (ak K) FeeCollectorName = Some acc \<and> maAddress acc = collectorAddr"
proof -
  from collector obtain acc where acc: "akGetModuleAccount (ak K) FeeCollectorName = Some acc" by auto
  note a = module_account_address [OF acc]
  show m: "akGetModuleAddress (ak K) FeeCollectorName = Some collectorAddr" using a by (simp add: moduleAddress_def)
  show n: "FeeCollectorName \<noteq> ModuleName" by (simp add: FeeCollectorName_def ModuleName_def)
  show "plain K collectorAddr" by (rule plain_module [OF m n])
  show "\<exists>acc. akGetModuleAccount (ak K) FeeCollectorName = Some acc \<and> maAddress acc = collectorAddr"
    using acc a m by auto
qed

lemma convert_fees:
  "ConvertCoinsDenomToExtendedDenom (api K) (info K) [newCoin (eciDenom (info K)) n] = [extCoin n]"
  by (simp add: ConvertCoinsDenom_eq convertDenom_def sort_single newCoin_def ExtendedCoinDenom_def)

lemma collector_sends:
  assumes "0 < n"
  shows "Bank_SendCoinsFromAccountToModule K p a FeeCollectorName [newCoin (eciDenom (info K)) n] =
      SendCoins K p a collectorAddr [extCoin n]"
    "\<not> bkBlockedAddr (bk K) a \<Longrightarrow>
      Bank_SendCoinsFromModuleToAccount K p FeeCollectorName a [newCoin (eciDenom (info K)) n] =
      SendCoins K p collectorAddr a [extCoin n]"
  using assms collector_addr
  by (auto simp: Bank_SendCoinsFromAccountToModule_def Bank_SendCoinsFromModuleToAccount_def convert_fees zero_single
      SendCoinsFromAccountToModule_def SendCoinsFromModuleToAccount_def)

lemma Deduct_exact:
  assumes inv: "pb_inv K (vpb s)" and a: "usable K a" "AddrBytes a \<noteq> collectorAddr"
    and acct: "auGetAccount (venv C) (vm_bank s) (AddrBytes a) \<noteq> None"
    and n: "0 < n" "n \<le> extSpendable K (vpb s) (AddrBytes a)"
  shows "\<exists>s'. DeductTxCostsFromUserBalance C s [newCoin (eciDenom (info K)) n] a = Ok s' \<and> s' = s\<lparr>vpb := vpb s'\<rparr> \<and>
    pb_inv K (vpb s') \<and> extSupply K (vpb s') = extSupply K (vpb s) \<and>
    (\<forall>x. x \<noteq> reserveAddr K \<longrightarrow> extBalance K (vpb s') x =
       extBalance K (vpb s) x - at_addr (AddrBytes a) n x + at_addr collectorAddr n x) \<and>
    (\<forall>x k. auGetAccount (venv C) (vm_bank s) x = Some k \<longrightarrow> auGetAccount (venv C) (vm_bank s') x = Some k)"
proof -
  have v: "cIsValid (api K) [newCoin (eciDenom (info K)) n]"
    using n(1) integer_denom_valid by (simp add: coins_single_valid)
  from send_ext [OF inv _ collector_addr(2) a(2) n] usable_plain [OF a(1)] obtain p where
    p: "SendCoins K (vpb s) (AddrBytes a) collectorAddr [extCoin n] = Ok p" "pb_inv K p" "extSupply K p = extSupply K (vpb s)"
    "\<And>x. x \<noteq> reserveAddr K \<Longrightarrow> extBalance K p x =
       extBalance K (vpb s) x - at_addr (AddrBytes a) n x + at_addr collectorAddr n x" by blast
  from deduct_fees [OF v, of "Bank_SendCoinsFromAccountToModule K" "vpb s" "AddrBytes a" p] p(1) n(1) collector_sends(1)
  have "deductFees C (Bank_SendCoinsFromAccountToModule K) (vpb s) (AddrBytes a) [newCoin (eciDenom (info K)) n] = Ok p"
    by simp
  moreover have "auGetAccount (venv C) (bank p) x = Some k" if "auGetAccount (venv C) (vm_bank s) x = Some k" for x k
  proof -
    have "leaves (\<lambda>b. auGetAccount (venv C) b x = Some k)
        (Bank_SendCoinsFromAccountToModule K (vpb s) (AddrBytes a) FeeCollectorName [newCoin (eciDenom (info K)) n])"
      using that by (intro leaves_to_module [OF accounts_stay]) (simp add: vm_bank_def)
    from leavesD [OF this] p(1) n(1) collector_sends(1) show ?thesis by simp
  qed
  ultimately show ?thesis using acct p by (auto simp: DeductTxCostsFromUserBalance_def on_vpb_def vm_bank_def)
qed

lemma RefundGas_exact:
  assumes inv: "pb_inv K p0" and a: "usable K (mFrom msg)" "AddrBytes (mFrom msg) \<noteq> collectorAddr"
    and n: "uint left * mGasPrice msg = n" "0 \<le> n" "n \<le> extBalance K p0 collectorAddr"
  shows "\<exists>p. RefundGas K p0 msg left (eciDenom (info K)) = Ok p \<and> pb_inv K p \<and> extSupply K p = extSupply K p0 \<and>
    (\<forall>x. x \<noteq> reserveAddr K \<longrightarrow>
       extBalance K p x = extBalance K p0 x + at_addr (AddrBytes (mFrom msg)) n x - at_addr collectorAddr n x)"
proof (cases "n = 0")
  case True
  then show ?thesis using inv unfolding RefundGas_def n(1) Let_def by simp
next
  case False
  let ?A = "AddrBytes (mFrom msg)"
  from False n(2) have pos: "0 < n" by simp
  have "n \<le> extSpendable K p0 collectorAddr"
    using n(3) module_spend [OF collector_addr(1)] by (simp add: extSpendable_def extBalance_def)
  from send_ext [OF inv collector_addr(2) _ _ pos this, of ?A] usable_plain [OF a(1)] a(2) obtain p where
    "SendCoins K p0 collectorAddr ?A [extCoin n] = Ok p" "pb_inv K p" "extSupply K p = extSupply K p0"
    "\<And>x. x \<noteq> reserveAddr K \<Longrightarrow>
      extBalance K p x = extBalance K p0 x - at_addr collectorAddr n x + at_addr ?A n x" by metis
  with pos collector_sends(2) [OF pos] usable_plain [OF a(1)] integer_denom_valid show ?thesis
    unfolding RefundGas_def n(1) Let_def by simp
qed

lemma settle_exact:
  assumes inv: "pb_inv K (vpb (vm_of C ctx))" and a: "usable K (mFrom msg)" "AddrBytes (mFrom msg) \<noteq> collectorAddr"
    and price: "0 \<le> mGasPrice msg" and used: "rsGasUsed r \<le> mGasLimit msg"
  defines "n \<equiv> (uint (mGasLimit msg) - uint (rsGasUsed r)) * mGasPrice msg"
  assumes covers: "n \<le> extBalance K (vpb (vm_of C ctx)) collectorAddr"
  shows "\<exists>ctx'. settle_gas C ctx msg r = Ok ctx' \<and> txMeter ctx' = txMeter ctx \<and>
    vm_of C ctx' = (vm_of C ctx)\<lparr>vpb := vpb (vm_of C ctx')\<rparr> \<and> pb_inv K (vpb (vm_of C ctx')) \<and>
    extSupply K (vpb (vm_of C ctx')) = extSupply K (vpb (vm_of C ctx)) \<and>
    (\<forall>x. x \<noteq> reserveAddr K \<longrightarrow> extBalance K (vpb (vm_of C ctx')) x =
       extBalance K (vpb (vm_of C ctx)) x + at_addr (AddrBytes (mFrom msg)) n x - at_addr collectorAddr n x)"
proof -
  define left where "left = (if rsGasUsed r < mGasLimit msg then mGasLimit msg - rsGasUsed r else 0)"
  have "uint left = uint (mGasLimit msg) - uint (rsGasUsed r)"
    using used by (auto simp: left_def uint_sub_if' word_le_def word_less_def)
  then have l: "uint left * mGasPrice msg = n" by (simp add: n_def)
  have "0 \<le> n" using price used by (simp add: n_def word_le_def)
  from RefundGas_exact [OF inv a l this covers] obtain p where
    "RefundGas K (vpb (vm_of C ctx)) msg left (eciDenom (info K)) = Ok p" "pb_inv K p"
    "extSupply K p = extSupply K (vpb (vm_of C ctx))" "\<And>x. x \<noteq> reserveAddr K \<Longrightarrow> extBalance K p x =
      extBalance K (vpb (vm_of C ctx)) x + at_addr (AddrBytes (mFrom msg)) n x - at_addr collectorAddr n x" by blast
  then show ?thesis by (simp add: settle_gas_def left_def [symmetric] put_vm_def vm_of_def load_save Let_def)
qed

end

end
