(* ===== verification/VmTheorems.thy ===== *)
theory VmTheorems
  imports VmReference VmGas
begin

text \<open>
  The properties of x/vm's keeper and of its state transition, each with an instance on the chain of \<open>VmReference\<close>.
\<close>

section \<open>A chain\<close>

text \<open>An interpreter that uses half of the gas it is given, and the fee deduction of x/auth.\<close>

definition refRun :: "64 word \<Rightarrow> 'c StateDB \<Rightarrow> 'c evmOutcome" where
  "refRun gas s = \<lparr>eoRet = [], eoLeftoverGas = gas div 2, eoErr = None, eoReturnData = [], eoState = s\<rparr>"

definition refApi3 :: "(ref_abank vm_state, unit) evm_api" where
  "refApi3 = \<lparr>evmCreate = (\<lambda>ev s from data gas value. Ok (refRun gas s)),
     evmCall = (\<lambda>ev s from to data gas value. Ok (refRun gas s)),
     evm_api.ErrExecutionReverted = ErrMsg ''execution reverted'',
     IntrinsicGas = (\<lambda>data al auths create. Ok 21000), FloorDataGas = (\<lambda>data. Ok 21000),
     ethRules = (\<lambda>h. \<lparr>IsEIP2929 = True, IsEIP4762 = False, IsShanghai = True\<rparr>), isPrague = (\<lambda>h. True), gethPrecompiles = (\<lambda>h. []),
     activePrecompiles = (\<lambda>ev ps. []), recoverAuthority = (\<lambda>auth. Err (ErrMsg ''no signature'')),
     createAddr = (\<lambda>a n. a + ucast n), chainID = 1, RefundQuotient = 2, RefundQuotientEIP3529 = 5,
     CallNewAccountGas = 25000, TxAuthTupleGas = 12500\<rparr>"

definition refDeduct ::
    "(ref_abank pstate \<Rightarrow> AccAddress \<Rightarrow> string \<Rightarrow> coins \<Rightarrow> ref_abank pstate res) \<Rightarrow> ref_abank pstate \<Rightarrow> AccAddress \<Rightarrow>
      coins \<Rightarrow> ref_abank pstate res" where
  "refDeduct send p a fees =
     (if \<not> refIsValid fees then Err (ErrMsg ''invalid fee amount'')
      else res_map_err (ErrWrapped ''insufficient funds'') (send p a FeeCollectorName fees))"

definition refC :: "(ref_abank, refAcct, ref_abank vm_state, unit) chain" where
  "refC = \<lparr>venv = refVm, senv = refSdb, evmApi = refApi3, loadVm = vmLoad, saveVm = vmSave, vmHooks = None,
     blockGasLimit = 30000000, deductFees = refDeduct\<rparr>"

lemma refC_sel [simp]:
  "venv refC = refVm" "senv refC = refSdb" "evmApi refC = refApi3" "loadVm refC = vmLoad" "saveVm refC = vmSave"
  "deductFees refC = refDeduct"
  by (simp_all add: refC_def)

interpretation refC: vm_fees refC raAddr raBase
proof (intro vm_fees.intro vm_fees_axioms.intro, unfold refC_sel refVm_sel)
  show "vm_accounts refVm raAddr raBase" by (rule refVm.vm_accounts_axioms)
  show "vmLoad (vmSave m s) = s" for m s by (rule refSdb.load_save)
  show "akGetModuleAccount (ak KA) FeeCollectorName \<noteq> None"
    by (simp add: refModuleAccount_def refModules_def FeeCollectorName_def)
  show "refDeduct send p a fees = Ok p'" if "cIsValid (api KA) fees" "send p a FeeCollectorName fees = Ok p'"
    for send p a fees p'
    using that by (simp add: refDeduct_def)
qed

text \<open>One account with five of the integer coin.\<close>

definition oneBal :: "AccAddress \<Rightarrow> denom \<Rightarrow> nat" where
  "oneBal a d = (if a = AddrBytes 1 \<and> d = ''utoken'' then 5 else 0)"

definition vmOne :: "ref_abank vm_state" where
  "vmOne = \<lparr>vmCode = [], vmStorage = [], vmCodeHash = [], vmParamsKey = None, vmCoinInfoKey = None, vmBloom = None,
     vmTxIndex = None, vmLogSize = None, vmGasUsed = None,
     vpb = \<lparr>bank = \<lparr>abBal = oneBal, abSupply = (\<lambda>_. 5), abAccounts = [(AddrBytes 1, \<lparr>raAddr = AddrBytes 1, raSeq = 3, raLocked = []\<rparr>)]\<rparr>,
            fractional = [], remainderKey = None\<rparr>,
     vfm = feeState\<rparr>"

lemma usable_KA: "usable KA a"
proof -
  have "AddrBytes a \<noteq> x" if "length x < 20" for x using that AddrBytes_length [of a] by auto
  then show ?thesis
    by (simp add: usable_def moduleAddress_def refModuleAddress_def refModules_def evmModuleName_def ModuleName_def)
qed

lemma AddrBytes_not_module: "length m < 20 \<Longrightarrow> AddrBytes a \<noteq> m"
  using AddrBytes_length [of a] by auto

lemma vmOne_inv: "pb_inv KA (vpb vmOne)"
  by (simp add: pb_inv_def frac_ok_def vmOne_def GetRemainderAmount_def total_sum_eq moduleAddress_def
      refModuleAddress_def refModules_def ModuleName_def ledgerOf_def oneBal_def AddrBytes_not_module [THEN not_sym])

lemma vmOne_base: "baseAt refVm raBase vmOne 1" "extBalance KA (vpb vmOne) (AddrBytes 1) = 5 * ConversionFactor KA"
    "extSpendable KA (vpb vmOne) (AddrBytes 1) = 5 * ConversionFactor KA"
  by (simp_all add: baseAt_def vm_bank_def vmOne_def raGet_def kv_get_def raBase_def extBalance_def extSpendable_def
      IntegerCoinDenom_def sixDecimals_def ledgerOf_def oneBal_def GetFractionalBalance_num kv_num_def refSpendable_def lockedIn_def
      refModules_def AddrBytes_not_module)

lemma KA_factor: "ConversionFactor KA = 10 ^ 12"
  by (simp add: ConversionFactor_def sixDecimals_def) (code_simp)

section \<open>Gas\<close>

text \<open>C14: A message that is applied is charged within bounds, whatever the interpreter did: never more than its gas limit, never
  less than the gas it used minus the capped refund, for a user's message at least the configured share of the limit and
  at most the larger of that share and the gas used, for an internal message at most the gas used, and from Prague on at
  least the floor price of its calldata. The gas limit is below 2^63, where the signed conversion of the code is exact.\<close>

theorem ApplyMessage_gas_bounds:
  fixes C :: "('b, 'k, 'c, 'p) chain"
  assumes "ApplyMessageWithConfig C vctx ctx msg commit cfg txcfg internal overrides = Ok (Inl r, ctx')"
    "legacy_dec (fmDec (vfe (venv C)))" "Params_Validate (cfgFeeMarketParams cfg) = Ok ()" "uint (mGasLimit msg) < 2 ^ 63"
  shows "\<exists>m. MinGasMultiplier (cfgFeeMarketParams cfg) = Some m \<and>
    rsGasUsed r \<le> mGasLimit msg \<and> rsMaxUsedGas r \<le> mGasLimit msg \<and>
    rsMaxUsedGas r - rsMaxUsedGas r div (if vIsLondon (venv C) (cxHeight vctx) then RefundQuotientEIP3529 (evmApi C)
      else RefundQuotient (evmApi C)) \<le> rsGasUsed r \<and>
    (if internal then rsGasUsed r \<le> rsMaxUsedGas r
     else uint (mGasLimit msg) * m div decOne \<le> uint (rsGasUsed r) \<and>
       uint (rsGasUsed r) \<le> max (uint (rsMaxUsedGas r)) (uint (mGasLimit msg) * m div decOne)) \<and>
    (isPrague (evmApi C) (cxHeight vctx) \<longrightarrow>
       (\<exists>fl. FloorDataGas (evmApi C) (mData msg) = Ok fl \<and> fl \<le> rsGasUsed r))"
proof -
  from ApplyMessage_charged [OF assms(1)] obtain out fl where c: "charged C vctx msg cfg internal r out fl" by blast
  from assms(3) obtain m where
    m: "MinGasMultiplier (cfgFeeMarketParams cfg) = Some m" "0 \<le> m" "m \<le> decOne" by (auto simp: Params_Validate_iff)
  from charged_bounds [OF c assms(2) m assms(4)] m(1) show ?thesis by auto
qed

definition refMsg :: coreMessage where
  "refMsg = \<lparr>mFrom = 1, mTo = Some 2, mNonce = 3, mValue = 0, mGasLimit = 100000, mGasPrice = 7, mData = [], mAccessList = [],
     mAuthorizations = []\<rparr>"

definition refVctx :: vm_ctx where
  "refVctx = \<lparr>cxHeight = 10, cxHeaderHash = [], cxComputedHash = None, cxProposer = []\<rparr>"

definition refCfg :: EVMConfig where
  "refCfg = \<lparr>cfgParams = Vm_zeroParams, cfgFeeMarketParams = DefaultParams feeEnv, cfgCoinBase = 0, cfgBaseFee = Some 1\<rparr>"

definition refCtx :: "ref_abank vm_state tx_ctx" where
  "refCtx = \<lparr>txStore = [(''evm'', vmOne)], txMeter = NewInfiniteGasMeterWithLimit 100000\<rparr>"

lemma refApi3_sel [simp]:
  "evmCall refApi3 ev s f to data gas value = Ok (refRun gas s)" "IntrinsicGas refApi3 data al auths create = Ok 21000"
  "FloorDataGas refApi3 data = Ok 21000" "ethRules refApi3 h = \<lparr>IsEIP2929 = True, IsEIP4762 = False, IsShanghai = True\<rparr>"
  "isPrague refApi3 h" "activePrecompiles refApi3 ev ps = []" "RefundQuotientEIP3529 refApi3 = 5"
  "vIsLondon refVm h" "vParseDelegation refVm c = None" "vfe refVm = feeEnv"
  by (simp_all add: refApi3_def refVm_def)

lemma getStateObject_absent:
  assumes "kv_get (stateObjects s) a = None" "Vm_GetAccount refVm (vmLoad (ctxStore s)) a = None"
  shows "getStateObject refSdb s a = (None, s)"
  using assms by (simp add: getStateObject_def refSdb_def vm_StateKeeper_def)

lemma vmOne_absent: "Vm_GetAccount refVm vmOne 2 = None"
  by (simp add: Vm_GetAccount_def GetAccountWithoutBalance_def vm_bank_def vmOne_def raGet_def kv_get_def)

lemma refCharge:
  "charge_gas (fmDec feeEnv) (MinGasMultiplier (cfgFeeMarketParams refCfg)) 100000
     (temporary_gas refC refVctx 100000 39500 0 21000) False = Ok 60500"
  "gcMaxUsed (temporary_gas refC refVctx 100000 39500 0 21000) = 60500"
proof -
  have g: "temporary_gas refC refVctx 100000 39500 0 21000 = \<lparr>gcMaxUsed = 60500, gcUsed = 60500, gcLeftover = 39500\<rparr>"
    by (simp add: temporary_gas_def Let_def GasToRefund_def)
  show "gcMaxUsed (temporary_gas refC refVctx 100000 39500 0 21000) = 60500" by (simp add: g)
  show "charge_gas (fmDec feeEnv) (MinGasMultiplier (cfgFeeMarketParams refCfg)) 100000
     (temporary_gas refC refVctx 100000 39500 0 21000) False = Ok 60500"
    using legacyDec.charge_gas_exact(1) [of 500000000000000000 100000 "\<lparr>gcMaxUsed = 60500, gcUsed = 60500, gcLeftover = 39500\<rparr>" False]
    by (simp add: g feeEnv_def refCfg_def DefaultParams_def)
qed

lemma refCall_runs:
  "\<exists>r ctx'. ApplyMessageWithConfig refC refVctx refCtx refMsg False refCfg NewEmptyTxConfig False None = Ok (Inl r, ctx') \<and>
     rsMaxUsedGas r = 60500"
  by (simp add: ApplyMessageWithConfig_def Let_def eff_bind_def eff_read_def eff_ret_def GetEthIntrinsicGas_def
      refMsg_def refCtx_def Prepare_def New_def run_call_def GetCode_def Uint256FromBigInt_def
      getStateObject_absent vmLoad_def kv_get_def vmOne_absent refRun_def refCharge)

theorem ApplyMessage_gas_bounds_witness:
  "\<exists>r ctx'. ApplyMessageWithConfig refC refVctx refCtx refMsg False refCfg NewEmptyTxConfig False None = Ok (Inl r, ctx') \<and>
     50000 \<le> uint (rsGasUsed r) \<and> uint (rsGasUsed r) \<le> 60500 \<and> 21000 \<le> rsGasUsed r \<and> rsGasUsed r \<le> 100000"
proof -
  from refCall_runs obtain r ctx' where r: "ApplyMessageWithConfig refC refVctx refCtx refMsg False refCfg NewEmptyTxConfig
      False None = Ok (Inl r, ctx')" "rsMaxUsedGas r = 60500" by blast
  have "Params_Validate (cfgFeeMarketParams refCfg) = Ok ()" "MinGasMultiplier (cfgFeeMarketParams refCfg) = Some 500000000000000000"
    by (simp_all add: refCfg_def DefaultParams_def Params_Validate_iff feeEnv_def LegacyNewDec_def)
  with ApplyMessage_gas_bounds [OF r(1)] legacyDec.legacy_dec_axioms r show ?thesis
    by (auto simp: refMsg_def feeEnv_def)
qed

text \<open>C12: Gas is paid for exactly. The purchase of the whole gas limit moves its price from the sender to the fee collector
  and changes no other balance and no supply. After any execution that leaves the collector at least what it had, the
  refund of the unused gas succeeds and moves exactly its price back, so the sender has paid the gas used times the
  price.\<close>

theorem gas_is_bought_and_refunded:
  fixes C :: "('b, 'k, 'c, 'p) chain"
  assumes "vm_fees C addrOf isBase" "pb_inv (vpk (venv C)) (vpb s)" "usable (vpk (venv C)) (mFrom msg)"
    "AddrBytes (mFrom msg) \<noteq> moduleAddress (vpk (venv C)) FeeCollectorName"
    "auGetAccount (venv C) (vm_bank s) (AddrBytes (mFrom msg)) \<noteq> None" "0 < mGasPrice msg" "0 < mGasLimit msg"
    "uint (mGasLimit msg) * mGasPrice msg \<le> extSpendable (vpk (venv C)) (vpb s) (AddrBytes (mFrom msg))"
  shows "\<exists>s1. DeductTxCostsFromUserBalance C s
      [newCoin (eciDenom (info (vpk (venv C)))) (uint (mGasLimit msg) * mGasPrice msg)] (mFrom msg) = Ok s1 \<and>
    pb_inv (vpk (venv C)) (vpb s1) \<and> extSupply (vpk (venv C)) (vpb s1) = extSupply (vpk (venv C)) (vpb s) \<and>
    (\<forall>x. x \<noteq> reserveAddr (vpk (venv C)) \<longrightarrow> extBalance (vpk (venv C)) (vpb s1) x = extBalance (vpk (venv C)) (vpb s) x
       - at_addr (AddrBytes (mFrom msg)) (uint (mGasLimit msg) * mGasPrice msg) x
       + at_addr (moduleAddress (vpk (venv C)) FeeCollectorName) (uint (mGasLimit msg) * mGasPrice msg) x) \<and>
    (\<forall>ctx r. pb_inv (vpk (venv C)) (vpb (vm_of C ctx)) \<longrightarrow> rsGasUsed r \<le> mGasLimit msg \<longrightarrow>
       extBalance (vpk (venv C)) (vpb s1) (moduleAddress (vpk (venv C)) FeeCollectorName) \<le>
         extBalance (vpk (venv C)) (vpb (vm_of C ctx)) (moduleAddress (vpk (venv C)) FeeCollectorName) \<longrightarrow>
       (\<exists>ctx'. settle_gas C ctx msg r = Ok ctx' \<and> pb_inv (vpk (venv C)) (vpb (vm_of C ctx')) \<and>
          extSupply (vpk (venv C)) (vpb (vm_of C ctx')) = extSupply (vpk (venv C)) (vpb (vm_of C ctx)) \<and>
          (\<forall>x. x \<noteq> reserveAddr (vpk (venv C)) \<longrightarrow>
             extBalance (vpk (venv C)) (vpb (vm_of C ctx')) x = extBalance (vpk (venv C)) (vpb (vm_of C ctx)) x
             + at_addr (AddrBytes (mFrom msg)) ((uint (mGasLimit msg) - uint (rsGasUsed r)) * mGasPrice msg) x
             - at_addr (moduleAddress (vpk (venv C)) FeeCollectorName)
                 ((uint (mGasLimit msg) - uint (rsGasUsed r)) * mGasPrice msg) x)))"
proof -
  let ?K = "vpk (venv C)" and ?coll = "moduleAddress (vpk (venv C)) FeeCollectorName"
    and ?n = "uint (mGasLimit msg) * mGasPrice msg"
  note F = vm_fees.Deduct_exact [OF assms(1)] vm_fees.settle_exact [OF assms(1)] vm_fees.collector_addr(2) [OF assms(1)]
  have n: "0 < ?n" using assms(6,7) by (simp add: word_less_def)
  from F(1) [OF assms(2-5) n assms(8)] obtain s1 where
    s1: "DeductTxCostsFromUserBalance C s [newCoin (eciDenom (info ?K)) ?n] (mFrom msg) = Ok s1"
    "pb_inv ?K (vpb s1)" "extSupply ?K (vpb s1) = extSupply ?K (vpb s)"
    "\<And>x. x \<noteq> reserveAddr ?K \<Longrightarrow> extBalance ?K (vpb s1) x =
      extBalance ?K (vpb s) x - at_addr (AddrBytes (mFrom msg)) ?n x + at_addr ?coll ?n x" by blast
  have "0 \<le> extBalance ?K (vpb s) ?coll"
    using vm_coin.extBalance_nonneg [OF vm_accounts.axioms(1) [OF vm_fees.axioms(1) [OF assms(1)]] assms(2)] .
  then have coll: "?n \<le> extBalance ?K (vpb s1) ?coll" using s1(4) [of ?coll] F(3) assms(4) by (simp add: plain_def)
  have le: "(uint (mGasLimit msg) - uint (rsGasUsed r)) * mGasPrice msg \<le> ?n" for r using assms(6) by simp
  have "\<exists>ctx'. settle_gas C ctx msg r = Ok ctx' \<and> pb_inv ?K (vpb (vm_of C ctx')) \<and>
      extSupply ?K (vpb (vm_of C ctx')) = extSupply ?K (vpb (vm_of C ctx)) \<and>
      (\<forall>x. x \<noteq> reserveAddr ?K \<longrightarrow> extBalance ?K (vpb (vm_of C ctx')) x = extBalance ?K (vpb (vm_of C ctx)) x
         + at_addr (AddrBytes (mFrom msg)) ((uint (mGasLimit msg) - uint (rsGasUsed r)) * mGasPrice msg) x
         - at_addr ?coll ((uint (mGasLimit msg) - uint (rsGasUsed r)) * mGasPrice msg) x)"
    if "pb_inv ?K (vpb (vm_of C ctx))" "rsGasUsed r \<le> mGasLimit msg"
      "extBalance ?K (vpb s1) ?coll \<le> extBalance ?K (vpb (vm_of C ctx)) ?coll" for ctx r
    using F(2) [OF that(1) assms(3,4) less_imp_le [OF assms(6)] that(2)] coll le [of r] that(3) by force
  with s1 show ?thesis by blast
qed

theorem gas_is_bought_and_refunded_witness:
  "\<exists>s1. DeductTxCostsFromUserBalance refC vmOne [newCoin ''utoken'' 700000] 1 = Ok s1 \<and>
     extBalance KA (vpb s1) (AddrBytes 1) = 4999999300000"
proof -
  have c: "AddrBytes 1 \<noteq> moduleAddress KA FeeCollectorName"
    by (rule AddrBytes_not_module) (simp add: moduleAddress_def refModuleAddress_def refModules_def FeeCollectorName_def)
  have r: "AddrBytes 1 \<noteq> reserveAddr KA" using usable_KA [of 1] by (simp add: usable_def)
  have a: "auGetAccount refVm (vm_bank vmOne) (AddrBytes 1) \<noteq> None"
    using vmOne_base(1) by (auto simp: baseAt_def split: option.splits)
  from gas_is_bought_and_refunded [OF refC.vm_fees_axioms, of vmOne refMsg] vmOne_inv usable_KA a c r vmOne_base(2,3) KA_factor
  show ?thesis by (auto simp: refMsg_def sixDecimals_def)
qed

section \<open>Accounts\<close>

text \<open>C22: Deleting an account. Without an account nothing happens, an account that is not a contract is refused, and a contract
  loses exactly its whole balance, which leaves the supply, its account, and every slot of its storage, while the code,
  every slot of another address and every other account without locked coins stay as they were.\<close>

theorem DeleteAccount_clears:
  fixes E :: "('b, 'k) vm_env"
  assumes "vm_accounts E addrOf isBase" "pb_inv (vpk E) (vpb s)" "usable (vpk E) a"
  shows "case auGetAccount E (vm_bank s) (AddrBytes a) of
      None \<Rightarrow> Vm_DeleteAccount E s a = Ok s
    | Some _ \<Rightarrow>
        if \<not> IsContract E s a then Vm_DeleteAccount E s a = Err (ErrMsg ''only smart contracts can be self-destructed'')
        else (\<exists>s'. Vm_DeleteAccount E s a = Ok s' \<and> pb_inv (vpk E) (vpb s') \<and> Vm_GetAccount E s' a = None \<and>
          vbal E s' a = 0 \<and> extSupply (vpk E) (vpb s') = extSupply (vpk E) (vpb s) - vbal E s a \<and> vmCode s' = vmCode s \<and>
          (\<forall>b k. Vm_GetState s' b k = (if b = a then 0 else Vm_GetState s b k)) \<and>
          (\<forall>b. b \<noteq> a \<longrightarrow> AddrBytes b \<noteq> reserveAddr (vpk E) \<longrightarrow> baseAt E isBase s b \<longrightarrow>
             Vm_GetAccount E s' b = Vm_GetAccount E s b))"
  using vm_accounts.DeleteAccount_exact [OF assms] by (auto simp: Vm_DeleteAccount_def split: option.splits)

text \<open>A contract at address one with a slot.\<close>

definition vmContract :: "ref_abank vm_state" where
  "vmContract = \<lparr>vmCode = [(9, [1, 2])], vmStorage = [((1, 4), [7])], vmCodeHash = [(1, 9)], vmParamsKey = None, vmCoinInfoKey = None,
     vmBloom = None, vmTxIndex = None, vmLogSize = None, vmGasUsed = None, vpb = vpb vmOne, vfm = feeState\<rparr>"

theorem DeleteAccount_clears_witness:
  "\<exists>s'. Vm_DeleteAccount refVm vmContract 1 = Ok s' \<and> Vm_GetAccount refVm s' 1 = None \<and> Vm_GetState s' 1 4 = 0 \<and>
     Vm_GetState vmContract 1 4 = 7"
proof -
  have a: "auGetAccount refVm (vm_bank vmContract) (AddrBytes 1) \<noteq> None"
    using vmOne_base(1) by (auto simp: baseAt_def vm_bank_def vmContract_def split: option.splits)
  have c: "IsContract refVm vmContract 1"
    by (simp add: IsContract_def Vm_GetCode_def Vm_GetCodeHash_def vmContract_def kv_get_def)
  have i: "pb_inv (vpk refVm) (vpb vmContract)" using vmOne_inv by (simp add: vmContract_def)
  have g: "Vm_GetState vmContract 1 4 = 7" by (simp add: Vm_GetState_def vmContract_def kv_get_def BytesToHash_def)
  from DeleteAccount_clears [OF refVm.vm_accounts_axioms i, of 1] a c g usable_KA show ?thesis by (auto split: option.splits)
qed






end
