(* ===== verification/VmPrecompiles.thy ===== *)
theory VmPrecompiles
  imports VmMessage
begin

text \<open>
  How the interpreter finds the precompiles (\<open>src/x/vm/keeper/precompiles.go\<close>) and the hooks it is created with
  (\<open>NewEVMWithOverridePrecompiles\<close> of \<open>keeper/state_transition.go\<close>). The instance lookup of x/erc20 is passed as
  an optional function, as the keeper of x/erc20 is optional; the address a precompile reports is a parameter.
\<close>

record ('c, 'p) evmRun =
  erPrecompiles :: "(address, 'p) kv"
  erState :: "'c StateDB"

record 'p Precompiles =
  pcMap :: "(address, 'p) kv"
  pcAddresses :: "address list"

definition GetPrecompileInstance ::
    "('b, 'k) vm_env \<Rightarrow> 'b vm_state \<Rightarrow> 'p precompileMap \<Rightarrow> (address \<Rightarrow> 'p option res) option \<Rightarrow> ('p \<Rightarrow> address) \<Rightarrow>
      address \<Rightarrow> 'p Precompiles option res" where
  "GetPrecompileInstance E s statics erc20 addressOf a =
     res_bind (GetStaticPrecompileInstance E statics (Vm_GetParams s) a) (\<lambda>static.
       case static of
         Some p \<Rightarrow> Ok (Some \<lparr>pcMap = [(a, p)], pcAddresses = [addressOf p]\<rparr>)
       | None \<Rightarrow>
           (case erc20 of
              None \<Rightarrow> Ok None
            | Some inst \<Rightarrow>
                res_bind (inst a) (\<lambda>dynamic.
                  Ok (map_option (\<lambda>p. \<lparr>pcMap = [(a, p)], pcAddresses = [addressOf p]\<rparr>) dynamic))))"

definition GetPrecompilesCallHook ::
    "('b, 'k) vm_env \<Rightarrow> 'b vm_state \<Rightarrow> 'p precompileMap \<Rightarrow> (address \<Rightarrow> 'p option res) option \<Rightarrow> ('p \<Rightarrow> address) \<Rightarrow>
      ('c, 'p) evmRun \<Rightarrow> address \<Rightarrow> address \<Rightarrow> (unit, ('c, 'p) evmRun) eff" where
  "GetPrecompilesCallHook E s statics erc20 addressOf run caller recipient =
     eff_bind (eff_read run (GetPrecompileInstance E s statics erc20 addressOf recipient)) (\<lambda>found run.
       case found of
         None \<Rightarrow> eff_ret run ()
       | Some ps \<Rightarrow>
           eff_ret \<lparr>erPrecompiles = pcMap ps, erState = AddAddressToAccessList (erState run) recipient\<rparr> ())"

text \<open>With state overrides, the precompiles the interpreter holds come first and the static ones are not looked up.\<close>

definition GetPrecompileRecipientCallHook ::
    "(address \<Rightarrow> 'p option res) option \<Rightarrow> ('c, 'p) evmRun \<Rightarrow> address \<Rightarrow> address \<Rightarrow> (unit, ('c, 'p) evmRun) eff" where
  "GetPrecompileRecipientCallHook erc20 run caller recipient =
     (if kv_get (erPrecompiles run) recipient \<noteq> None
      then eff_ret (run\<lparr>erState := AddAddressToAccessList (erState run) recipient\<rparr>) ()
      else
        (case erc20 of
           None \<Rightarrow> eff_ret run ()
         | Some inst \<Rightarrow>
             eff_bind (eff_read run (inst recipient)) (\<lambda>dynamic run.
               case dynamic of
                 None \<Rightarrow> eff_ret run ()
               | Some p \<Rightarrow>
                   eff_ret \<lparr>erPrecompiles = [(recipient, p)],
                     erState = AddAddressToAccessList (erState run) recipient\<rparr> ())))"

text \<open>The hooks of an interpreter: the permission policy is asked before a precompile is looked up.\<close>

definition policy_hook :: "error option \<Rightarrow> 's \<Rightarrow> (unit, 's) eff" where
  "policy_hook e s = (case e of None \<Rightarrow> eff_ret s () | Some e \<Rightarrow> eff_fail s e)"

definition evm_hooks ::
    "('b, 'k) vm_env \<Rightarrow> 'b vm_state \<Rightarrow> 'p precompileMap \<Rightarrow> (address \<Rightarrow> 'p option res) option \<Rightarrow> ('p \<Rightarrow> address) \<Rightarrow>
      AccessControl \<Rightarrow> address \<Rightarrow> bool \<Rightarrow> (('c, 'p) evmRun) OpCodesHooks" where
  "evm_hooks E s statics erc20 addressOf ac signer overridePrecompiles =
     (let policy = NewRestrictedPermissionPolicy E ac signer;
          h1 = AddCreateHooks NewDefaultOpCodesHooks [\<lambda>run caller. policy_hook (GetCreateHook policy signer caller) run];
          h2 = AddCallHooks h1 [\<lambda>run caller recipient. policy_hook (GetCallHook policy signer caller recipient) run]
      in if overridePrecompiles
         then AddCallHooks h2 [GetPrecompilesCallHook E s statics erc20 addressOf]
         else AddCallHooks h2 [GetPrecompileRecipientCallHook erc20])"

end
