(* ===== verification/EvmAnte.thy ===== *)
theory EvmAnte
  imports VmMessage
begin

text \<open>
  The ante handler of Ethereum transactions (\<open>src/ante/evm\<close>): the checks a transaction passes before it is executed, in
  the order \<open>MonoDecorator.AnteHandle\<close> makes them, and the parts of \<open>MsgEthereumTx\<close> they read
  (\<open>src/x/vm/types/msg.go\<close>, \<open>tx.go\<close>, \<open>utils.go\<close>).

  A transaction of the SDK is what its decoder gives: the fields of its body and its authentication, the interfaces it
  implements, and its messages. \<open>txpool.ValidateTransaction\<close> of go-ethereum and the recovery of a signature are
  parameters. The context holds the module's stores, the gas meter and the priority; events and the listener of pending
  transactions are not modelled. A step that fails returns its error only: the SDK drops what a failing ante handler wrote.
\<close>

section \<open>Ethereum messages (x/vm/types)\<close>

record anteTx = ethTx +
  etType :: nat
  etNonce :: "64 word"
  etValue :: int
  etGasPrice :: int
  etGasTipCap :: int

record MsgEthereumTx =
  meFrom :: AccAddress
  meRaw :: "anteTx option"

text \<open>The messages a transaction may carry: an Ethereum transaction, the execution of messages by a grantee and a grant of x/authz, with
  what their accessors return, and any other by its type URL.\<close>

datatype sdkMsg = EthMsg MsgEthereumTx | ExecMsg "sdkMsg list res" | GrantMsg "string res" | OtherMsg string

record feeMessage = coreMessage +
  mGasFeeCap :: int
  mGasTipCap :: int

definition GetFee :: "anteTx \<Rightarrow> int" where
  "GetFee tx = uint (etGas tx) * etGasPrice tx"

definition GetEffectiveFee :: "anteTx \<Rightarrow> int \<Rightarrow> int" where
  "GetEffectiveFee tx baseFee = uint (etGas tx) * (etEffectiveGasTip tx (Some baseFee) + baseFee)"

definition GetSender :: "MsgEthereumTx \<Rightarrow> address" where
  "GetSender msg = BytesToAddress (meFrom msg)"

definition AsMessage :: "MsgEthereumTx \<Rightarrow> anteTx \<Rightarrow> int option \<Rightarrow> feeMessage" where
  "AsMessage msg tx baseFee =
     \<lparr>mFrom = GetSender msg, mTo = etTo tx, mNonce = etNonce tx, mValue = etValue tx, mGasLimit = etGas tx,
      mGasPrice = (case baseFee of
                     None \<Rightarrow> etGasPrice tx
                   | Some bf \<Rightarrow> let p = etGasTipCap tx + bf in if etGasFeeCap tx < p then etGasFeeCap tx else p),
      mData = etData tx, mAccessList = etAccessList tx, mAuthorizations = etAuthorizations tx,
      mGasFeeCap = etGasFeeCap tx, mGasTipCap = etGasTipCap tx\<rparr>"

definition VerifySender :: "MsgEthereumTx \<Rightarrow> anteTx \<Rightarrow> unit res" where
  "VerifySender msg tx =
     res_bind (etSender tx) (\<lambda>from.
       if meFrom msg \<noteq> AddrBytes from then Err (ErrMsg ''sender verification failed'') else Ok ())"

definition UnpackEthMsg :: "sdkMsg \<Rightarrow> (MsgEthereumTx \<times> anteTx option) res" where
  "UnpackEthMsg m = (case m of EthMsg msg \<Rightarrow> Ok (msg, meRaw msg) | _ \<Rightarrow> Err (ErrMsg ''invalid message type''))"

definition DefaultPriorityReduction :: int where "DefaultPriorityReduction = 1000000"

text \<open>\<open>big.Int.Quo\<close> truncates towards zero; a quotient outside of 64 bits gives the largest priority.\<close>

definition GetTxPriority :: "anteTx \<Rightarrow> int option \<Rightarrow> int" where
  "GetTxPriority tx baseFee =
     (let p = quo (etEffectiveGasTip tx baseFee) DefaultPriorityReduction in
      if - (2 ^ 63) \<le> p \<and> p < 2 ^ 63 then p else 2 ^ 63 - 1)"

definition types_GetBaseFee :: "('b, 'k) vm_env \<Rightarrow> int \<Rightarrow> Params \<Rightarrow> int option res" where
  "types_GetBaseFee E height p =
     (if \<not> vIsLondon E height then Ok None
      else if NoBaseFee p then Ok (Some 0)
      else (case BaseFee p of
              None \<Rightarrow> nilDeref
            | Some bf \<Rightarrow>
                if bf = 0 then Ok (Some 0)
                else res_bind (ConvertAmountTo18DecimalsLegacy (vfe E) bf)
                       (\<lambda>c. Ok (Some (decTruncateInt (fmDec (vfe E)) c)))))"

section \<open>Transactions and contexts of the SDK\<close>

record txFee =
  feeAmount :: coins
  feeGasLimit :: "64 word"
  feePayer :: string
  feeGranter :: string

text \<open>An extension option, with the maximal priority price of a dynamic fee.\<close>

datatype extOption = OptionsEthereumTx | OptionDynamicFeeTx "int option" | OtherOption string

record sdkTx =
  tvBasic :: "error option"
  tvNoSignatures :: bool
  tIsProtoTx :: bool
  tIsGasTx :: bool
  tIsFeeTx :: bool
  tMemo :: string
  tTimeoutHeight :: "64 word"
  tNonCriticalOptions :: nat
  tHasExtensions :: bool
  tExtensionOptions :: "extOption list"
  tSignerInfos :: nat
  tSignatures :: nat
  tFee :: txFee
  tMsgs :: "sdkMsg list"

record 'b ante_ctx =
  anVm :: "'b vm_state"
  anHeight :: int
  anCheckTx :: bool
  anReCheckTx :: bool
  anMinGasPrices :: "denom \<Rightarrow> int"
  anBlockGasMeter :: "64 word option"
  anMaxGas :: "int option"
  anMeter :: gasMeter
  anPriority :: int

definition BlockGasLimit :: "'b ante_ctx \<Rightarrow> 64 word" where
  "BlockGasLimit ctx =
     (let limit = (case anBlockGasMeter ctx of None \<Rightarrow> 0 | Some l \<Rightarrow> l) in
      if limit \<noteq> 0 then limit
      else (case anMaxGas ctx of
              None \<Rightarrow> 0
            | Some maxGas \<Rightarrow> if maxGas = - 1 then - 1 else if 0 < maxGas then word_of_int maxGas else 0))"

text \<open>The limits and the parameters a decorator is created with.\<close>

record mono_decorator =
  mdMaxGasWanted :: "64 word"
  mdEvmParams :: VmParams
  mdFeemarketParams :: Params

section \<open>The checks\<close>

definition ValidateTx :: "sdkTx \<Rightarrow> txFee res" where
  "ValidateTx tx =
     (if tvBasic tx \<noteq> None \<and> \<not> tvNoSignatures tx then Err (ErrWrapped ''tx basic validation failed'' (the (tvBasic tx)))
      else if \<not> tIsProtoTx tx then Err (ErrMsg ''invalid tx type'')
      else if tMemo tx \<noteq> [] \<or> tTimeoutHeight tx \<noteq> 0 \<or> tNonCriticalOptions tx > 0
      then Err (ErrMsg ''for eth tx body Memo TimeoutHeight NonCriticalExtensionOptions should be empty'')
      else if length (tExtensionOptions tx) \<noteq> 1 then Err (ErrMsg ''for eth tx length of ExtensionOptions should be 1'')
      else if tSignerInfos tx > 0 then Err (ErrMsg ''for eth tx AuthInfo SignerInfos should be empty'')
      else if feePayer (tFee tx) \<noteq> [] \<or> feeGranter (tFee tx) \<noteq> []
      then Err (ErrMsg ''for eth tx AuthInfo Fee payer and granter should be empty'')
      else if tSignatures tx > 0 then Err (ErrMsg ''for eth tx Signatures should be empty'')
      else Ok (tFee tx))"

text \<open>The SDK's unbounded meter reports the largest word as its limit.\<close>

definition SetupContextAndResetTransientGas :: "'b ante_ctx \<Rightarrow> sdkTx \<Rightarrow> 'b ante_ctx res" where
  "SetupContextAndResetTransientGas ctx tx =
     (if \<not> tIsGasTx tx then Err (ErrMsg ''invalid transaction type, expected GasTx'')
      else Ok (ctx\<lparr>anMeter := \<lparr>gmConsumed = 0, gmLimit = - 1, gmBounded = False\<rparr>,
                   anVm := ResetTransientGasUsed (anVm ctx)\<rparr>))"

record DecoratorUtils =
  duEvmParams :: VmParams
  duIsLondon :: bool
  duBaseFee :: "int option"
  duMempoolMinGasPrice :: int
  duGlobalMinGasPrice :: "int option"

definition NewMonoDecoratorUtils :: "('b, 'k) vm_env \<Rightarrow> 'b ante_ctx \<Rightarrow> VmParams \<Rightarrow> Params \<Rightarrow> DecoratorUtils res" where
  "NewMonoDecoratorUtils E ctx evmParams feemarketParams =
     (let isLondon = vIsLondon E (anHeight ctx) in
      res_bind (types_GetBaseFee E (anHeight ctx) feemarketParams) (\<lambda>baseFee.
      if isLondon \<and> baseFee = None
      then Err (ErrMsg ''base fee is supported but evm block context value is nil'')
      else
        res_bind (ConvertAmountTo18DecimalsLegacy (vfe E) (anMinGasPrices ctx (eciDenom (info (vpk E))))) (\<lambda>mempoolMin.
        Ok \<lparr>duEvmParams = evmParams, duIsLondon = isLondon, duBaseFee = baseFee, duMempoolMinGasPrice = mempoolMin,
            duGlobalMinGasPrice = MinGasPrice feemarketParams\<rparr>)))"

definition CheckMempoolFee :: "dec_ops \<Rightarrow> int \<Rightarrow> int \<Rightarrow> int \<Rightarrow> bool \<Rightarrow> error option" where
  "CheckMempoolFee D fee mempoolMinGasPrice gasLimit isLondon =
     (if isLondon then None
      else if fee < decMul D mempoolMinGasPrice gasLimit then Some (ErrMsg ''insufficient fee'') else None)"

definition CheckGlobalFee :: "dec_ops \<Rightarrow> int \<Rightarrow> int option \<Rightarrow> int \<Rightarrow> unit res" where
  "CheckGlobalFee D fee globalMinGasPrice gasLimit =
     (case globalMinGasPrice of
        None \<Rightarrow> nilDeref
      | Some p \<Rightarrow>
          if p = 0 then Ok ()
          else if fee < decMul D p gasLimit then Err (ErrMsg ''provided fee < minimum global fee'') else Ok ())"

definition checkDisabledCreateCall :: "anteTx \<Rightarrow> AccessControl \<Rightarrow> error option" where
  "checkDisabledCreateCall tx permissions =
     (if accessType (acCreate permissions) = AccessTypeRestricted \<and> etTo tx = None
      then Some (ErrMsg ''failed to create new contract'')
      else if accessType (acCall permissions) = AccessTypeRestricted \<and> etTo tx \<noteq> None
      then Some (ErrMsg ''failed to perform a call'')
      else None)"

definition SignatureVerification :: "MsgEthereumTx \<Rightarrow> anteTx \<Rightarrow> unit res" where
  "SignatureVerification msg tx = res_map_err (ErrWrapped ''signature verification failed'') (VerifySender msg tx)"

text \<open>An unknown sender gets an account; a balance that is no 256-bit number is a nil pointer.\<close>

definition VerifyAccountBalance ::
    "('b, 'k) vm_env \<Rightarrow> 'b vm_state \<Rightarrow> address \<Rightarrow> anteTx \<Rightarrow> 'b vm_state res" where
  "VerifyAccountBalance E s from tx =
     (let account = Vm_GetAccount E s from in
      if (case account of
            None \<Rightarrow> False
          | Some acct \<Rightarrow> CodeHash acct \<noteq> Some (Vm_EmptyCodeHash E) \<and>
              (let c = Vm_GetCode s (case CodeHash acct of None \<Rightarrow> 0 | Some h \<Rightarrow> h) in
               (case c of None \<Rightarrow> False | Some bs \<Rightarrow> bs \<noteq> []) \<and> vParseDelegation E c = None))
      then Err (ErrMsg ''the sender is not EOA'')
      else
        let (s1, balance) =
          (case account of
             Some acct \<Rightarrow> (s, Balance acct)
           | None \<Rightarrow> (case auNewAccount E (vm_bank s) (AddrBytes from) of (acc, b) \<Rightarrow>
               (set_vm_bank s (auSetAccount E b acc), Some 0)))
        in (case balance of
              None \<Rightarrow> nilDeref
            | Some w \<Rightarrow>
                (case CheckSenderBalance (uint w) (ethTx.truncate tx) of
                   Some e \<Rightarrow> Err (ErrWrapped ''failed to check sender balance'' e)
                 | None \<Rightarrow> Ok s1)))"

definition CanTransfer :: "('b, 'k) vm_env \<Rightarrow> 'b vm_state \<Rightarrow> feeMessage \<Rightarrow> int option \<Rightarrow> bool \<Rightarrow> unit res" where
  "CanTransfer E s msg baseFee isLondon =
     (if isLondon \<and> baseFee = None then nilDeref
      else if isLondon \<and> mGasFeeCap msg < the baseFee then Err (ErrMsg ''max fee per gas less than block base fee'')
      else
        res_bind (Uint256FromBigInt (mValue msg)) (\<lambda>convertedValue.
          if 0 < mValue msg then
            (case Vm_GetAccount E s (mFrom msg) of
               None \<Rightarrow> nilDeref
             | Some acct \<Rightarrow>
                 (case Balance acct of
                    None \<Rightarrow> nilDeref
                  | Some w \<Rightarrow> if w < convertedValue then Err (ErrMsg ''failed to transfer'') else Ok ()))
          else Ok ()))"

definition UpdateCumulativeGasWanted :: "bool \<Rightarrow> 64 word \<Rightarrow> 64 word \<Rightarrow> 64 word \<Rightarrow> 64 word" where
  "UpdateCumulativeGasWanted isCheckTx msgGasWanted maxTxGasWanted cumulativeGasWanted =
     (if isCheckTx \<and> maxTxGasWanted \<noteq> 0
      then (if maxTxGasWanted < msgGasWanted then cumulativeGasWanted + maxTxGasWanted else cumulativeGasWanted + msgGasWanted)
      else cumulativeGasWanted + msgGasWanted)"

definition ante_deductFees ::
    "('b, 'k, 'c, 'p) chain \<Rightarrow> 'b vm_state \<Rightarrow> coins \<Rightarrow> AccAddress \<Rightarrow> 'b vm_state res" where
  "ante_deductFees C s fees payer =
     (if cIsZero (api (vpk (venv C))) fees then Ok s
      else res_map_err (ErrWrapped ''failed to deduct transaction costs from user balance'')
        (DeductTxCostsFromUserBalance C s fees (BytesToAddress payer)))"

definition GetMsgPriority :: "anteTx \<Rightarrow> int \<Rightarrow> int option \<Rightarrow> int" where
  "GetMsgPriority tx minPriority baseFee =
     (let priority = GetTxPriority tx baseFee in if priority < minPriority then priority else minPriority)"

definition CheckBlockGasLimit :: "'b ante_ctx \<Rightarrow> 64 word \<Rightarrow> int \<Rightarrow> 'b ante_ctx res" where
  "CheckBlockGasLimit ctx gasWanted minPriority =
     (if BlockGasLimit ctx < gasWanted then Err (ErrMsg ''tx gas exceeds block gas limit'')
      else Ok (ctx\<lparr>anMeter := NewInfiniteGasMeterWithLimit gasWanted, anPriority := minPriority\<rparr>))"

definition IncrementNonce :: "('b, 'k) vm_env \<Rightarrow> 'b vm_state \<Rightarrow> 'k \<Rightarrow> 64 word \<Rightarrow> 'b vm_state res" where
  "IncrementNonce E s account txNonce =
     (let accountNonce = auSequence E account in
      if accountNonce < txNonce then Err (ErrMsg ''tx nonce is higher than account nonce'')
      else if txNonce < accountNonce then Err (ErrMsg ''tx nonce is lower than account nonce'')
      else if accountNonce = - 1 then Err (ErrMsg ''nonce overflow'')
      else
        res_bind (res_map_err (ErrWrapped ''failed to set sequence'') (auSetSequence E account (accountNonce + 1))) (\<lambda>account.
          Ok (set_vm_bank s (auSetAccount E (vm_bank s) account))))"

definition CheckGasWanted :: "'b ante_ctx \<Rightarrow> sdkTx \<Rightarrow> bool \<Rightarrow> Params \<Rightarrow> 'b ante_ctx res" where
  "CheckGasWanted ctx tx isLondon feemarketParams =
     (if \<not> isLondon \<or> \<not> tIsFeeTx tx then Ok ctx
      else
        let gasWanted = feeGasLimit (tFee tx) in
        if BlockGasLimit ctx < gasWanted then Err (ErrMsg ''tx gas exceeds block gas limit'')
        else if \<not> IsBaseFeeEnabled feemarketParams (anHeight ctx) then Ok ctx
        else
          let s = anVm ctx; (_, fm) = AddTransientGasWanted (vfm s) gasWanted
          in Ok (ctx\<lparr>anVm := s\<lparr>vfm := fm\<rparr>\<rparr>))"

definition CheckTxFee :: "'b Keeper \<Rightarrow> txFee option \<Rightarrow> int \<Rightarrow> 64 word \<Rightarrow> unit res" where
  "CheckTxFee K txFeeInfo txFee txGasLimit =
     (case txFeeInfo of
        None \<Rightarrow> Ok ()
      | Some fee \<Rightarrow>
          if 2 ^ 256 \<le> \<bar>txFee\<bar> then Panic (ErrMsg ''NewIntFromBigInt() out of bound'')
          else if amt_of K (feeAmount fee) (eciExtendedDenom (info K)) \<noteq> txFee
          then Err (ErrMsg ''invalid AuthInfo Fee Amount'')
          else if feeGasLimit fee \<noteq> txGasLimit then Err (ErrMsg ''invalid AuthInfo Fee GasLimit'')
          else Ok ())"

section \<open>The handler\<close>

definition check :: "error option \<Rightarrow> unit res" where
  "check e = (case e of None \<Rightarrow> Ok () | Some e \<Rightarrow> Err e)"

text \<open>The fee a transaction is checked with: the effective fee for the types that have one and a base fee to compute it
  with.\<close>

definition checked_fee :: "anteTx \<Rightarrow> int option \<Rightarrow> int" where
  "checked_fee tx baseFee =
     (case baseFee of None \<Rightarrow> GetFee tx | Some bf \<Rightarrow> if 2 \<le> etType tx then GetEffectiveFee tx bf else GetFee tx)"

text \<open>The part of the handler that works on the one message.\<close>

definition ante_message ::
    "('b, 'k, 'c, 'p) chain \<Rightarrow> (int \<Rightarrow> int option \<Rightarrow> anteTx \<Rightarrow> error option) \<Rightarrow> mono_decorator \<Rightarrow> 'b ante_ctx \<Rightarrow> sdkTx \<Rightarrow> bool \<Rightarrow>
      txFee option \<Rightarrow> DecoratorUtils \<Rightarrow> MsgEthereumTx \<Rightarrow> anteTx \<Rightarrow> 'b ante_ctx res" where
  "ante_message C ValidateTransaction md ctx stx simulate txFeeInfo du msg tx =
     (let E = venv C; K = vpk E; D = fmDec (vfe E); gasLimit = LegacyNewDec (uint (etGas tx)); from = meFrom msg in
      res_bind (check (ValidateTransaction (anHeight ctx) (duBaseFee du) tx)) (\<lambda>_.
      res_bind (check (if anCheckTx ctx \<and> \<not> simulate
                       then CheckMempoolFee D (LegacyNewDec (GetFee tx)) (duMempoolMinGasPrice du) gasLimit (duIsLondon du)
                       else None)) (\<lambda>_.
      res_bind (CheckGlobalFee D (LegacyNewDec (checked_fee tx (duBaseFee du))) (duGlobalMinGasPrice du) gasLimit) (\<lambda>_.
      res_bind (check (checkDisabledCreateCall tx (accessControl (duEvmParams du)))) (\<lambda>_.
      res_bind (SignatureVerification msg tx) (\<lambda>_.
      res_bind (VerifyAccountBalance E (anVm ctx) (BytesToAddress from) tx) (\<lambda>s1.
      res_bind (CanTransfer E s1 (AsMessage msg tx (duBaseFee du)) (duBaseFee du) (duIsLondon du)) (\<lambda>_.
      res_bind (VerifyFee (evmApi C) (ethTx.truncate tx) (eciDenom (info K)) (duBaseFee du) (anCheckTx ctx)) (\<lambda>msgFees.
      res_bind (ante_deductFees C s1 msgFees from) (\<lambda>s2.
      res_bind (case auGetAccount E (vm_bank s2) from of
                  None \<Rightarrow> Err (ErrWrapped ''account does not exist'' ErrUnknownAddress)
                | Some acc \<Rightarrow> IncrementNonce E s2 acc (etNonce tx)) (\<lambda>s3.
      res_bind (CheckGasWanted (ctx\<lparr>anVm := s3\<rparr>) stx (duIsLondon du) (mdFeemarketParams md)) (\<lambda>ctx.
      res_bind (CheckTxFee K txFeeInfo (GetFee tx) (etGas tx)) (\<lambda>_.
      CheckBlockGasLimit ctx (UpdateCumulativeGasWanted (anCheckTx ctx) (etGas tx) (mdMaxGasWanted md) 0)
        (GetMsgPriority tx (2 ^ 63 - 1) (duBaseFee du)))))))))))))))"

definition AnteHandle ::
    "('b, 'k, 'c, 'p) chain \<Rightarrow> (int \<Rightarrow> int option \<Rightarrow> anteTx \<Rightarrow> error option) \<Rightarrow> mono_decorator \<Rightarrow> 'b ante_ctx \<Rightarrow> sdkTx \<Rightarrow> bool \<Rightarrow>
      'b ante_ctx res" where
  "AnteHandle C ValidateTransaction md ctx stx simulate =
     res_bind (if anReCheckTx ctx then Ok None else res_bind (ValidateTx stx) (\<lambda>fee. Ok (Some fee))) (\<lambda>txFeeInfo.
     res_bind (SetupContextAndResetTransientGas ctx stx) (\<lambda>ctx.
     res_bind (NewMonoDecoratorUtils (venv C) ctx (mdEvmParams md) (mdFeemarketParams md)) (\<lambda>du.
     case tMsgs stx of
       [m] \<Rightarrow>
         res_bind (UnpackEthMsg m) (\<lambda>(msg, raw).
           case raw of
             None \<Rightarrow> nilDeref
           | Some tx \<Rightarrow> ante_message C ValidateTransaction md ctx stx simulate txFeeInfo du msg tx)
     | _ \<Rightarrow> Err (ErrMsg ''expected 1 message''))))"

text \<open>The decorator is created with the parameters of the context it handles (\<open>newMonoEVMAnteHandler\<close> of \<open>ante/evm.go\<close>).\<close>

definition newMonoEVMAnteHandler ::
    "('b, 'k, 'c, 'p) chain \<Rightarrow> (int \<Rightarrow> int option \<Rightarrow> anteTx \<Rightarrow> error option) \<Rightarrow> 64 word \<Rightarrow> 'b ante_ctx \<Rightarrow> sdkTx \<Rightarrow> bool \<Rightarrow>
      'b ante_ctx res" where
  "newMonoEVMAnteHandler C ValidateTransaction maxTxGasWanted ctx stx simulate =
     AnteHandle C ValidateTransaction
       \<lparr>mdMaxGasWanted = maxTxGasWanted, mdEvmParams = Vm_GetParams (anVm ctx),
        mdFeemarketParams = GetParams (vfe (venv C)) (vfm (anVm ctx))\<rparr> ctx stx simulate"

end
