(* ===== verification/CosmosAnte.thy ===== *)
theory CosmosAnte
  imports EvmAnte
begin

text \<open>
  The ante handler of Cosmos transactions and the choice between the two handlers (\<open>src/ante/ante.go\<close>, \<open>cosmos.go\<close>,
  \<open>sigverify.go\<close>, \<open>src/ante/cosmos\<close> and \<open>src/ante/evm/fee_checker.go\<close>): which messages are refused, the minimum gas price,
  the dynamic fee of a Cosmos transaction and the gas of its signatures.

  The decorators of the SDK and of IBC that the chain of \<open>newCosmosAnteHandler\<close> also runs are parameters, and so are the
  comparisons of coin sets. An absent fee is the empty list, and the denominations of the node's gas prices are valid.
\<close>

section \<open>Messages that are refused (cosmos/reject\_msgs.go, cosmos/authz.go)\<close>

definition MsgEthereumTxURL :: string where "MsgEthereumTxURL = ''/cosmos.evm.vm.v1.MsgEthereumTx''"

definition MsgCreateVestingAccountURL :: string where
  "MsgCreateVestingAccountURL = ''/cosmos.vesting.v1beta1.MsgCreateVestingAccount''"

definition RejectMessages :: "sdkTx \<Rightarrow> error option" where
  "RejectMessages tx =
     (if list_ex (\<lambda>m. case m of EthMsg _ \<Rightarrow> True | _ \<Rightarrow> False) (tMsgs tx)
      then Some (ErrMsg ''MsgEthereumTx needs to be contained within a tx with ExtensionOptionsEthereumTx option'') else None)"

definition maxNestedMsgs :: nat where "maxNestedMsgs = 7"

definition isDisabledMsg :: "string list \<Rightarrow> string \<Rightarrow> bool" where
  "isDisabledMsg disabled url \<longleftrightarrow> url \<in> set disabled"

text \<open>The loop of \<open>checkDisabledMsgs\<close>; the level is a local variable of the call that every execution message of the list
  increments, and the test at the entry of the recursive call is made before the inner loop.\<close>

fun disabled_loop :: "string list \<Rightarrow> sdkMsg list \<Rightarrow> bool \<Rightarrow> nat \<Rightarrow> unit res" where
  "disabled_loop disabled [] inner lvl = Ok ()"
| "disabled_loop disabled (ExecMsg r # ms) inner lvl =
     (case r of
        Err e \<Rightarrow> Err e
      | Panic e \<Rightarrow> Panic e
      | Ok innerMsgs \<Rightarrow>
          if maxNestedMsgs \<le> lvl + 1 then Err (ErrMsg ''found more nested msgs than permitted'')
          else (case disabled_loop disabled innerMsgs True (lvl + 1) of
                  Err e \<Rightarrow> Err e
                | Panic e \<Rightarrow> Panic e
                | Ok _ \<Rightarrow> disabled_loop disabled ms inner (lvl + 1)))"
| "disabled_loop disabled (GrantMsg r # ms) inner lvl =
     (case r of
        Err e \<Rightarrow> Err e
      | Panic e \<Rightarrow> Panic e
      | Ok url \<Rightarrow>
          if isDisabledMsg disabled url then Err (ErrMsg ''found disabled msg type'') else disabled_loop disabled ms inner lvl)"
| "disabled_loop disabled (EthMsg _ # ms) inner lvl =
     (if inner \<and> isDisabledMsg disabled MsgEthereumTxURL then Err (ErrMsg ''found disabled msg type'')
      else disabled_loop disabled ms inner lvl)"
| "disabled_loop disabled (OtherMsg url # ms) inner lvl =
     (if inner \<and> isDisabledMsg disabled url then Err (ErrMsg ''found disabled msg type'')
      else disabled_loop disabled ms inner lvl)"

definition checkDisabledMsgs :: "string list \<Rightarrow> sdkMsg list \<Rightarrow> bool \<Rightarrow> nat \<Rightarrow> unit res" where
  "checkDisabledMsgs disabled msgs isAuthzInnerMsg nestedLvl =
     (if maxNestedMsgs \<le> nestedLvl then Err (ErrMsg ''found more nested msgs than permitted'')
      else disabled_loop disabled msgs isAuthzInnerMsg nestedLvl)"

definition AuthzLimiter :: "string list \<Rightarrow> sdkTx \<Rightarrow> unit res" where
  "AuthzLimiter disabled tx = res_map_err (ErrWrapped ''unauthorized'') (checkDisabledMsgs disabled (tMsgs tx) False 1)"

section \<open>Fees (cosmos/min\_gas\_price.go, evm/fee\_checker.go)\<close>

text \<open>What the checks use of the SDK's coins, and the decorators of the SDK and of IBC in the chain.\<close>

type_synonym 'b decorator = "'b ante_ctx \<Rightarrow> sdkTx \<Rightarrow> bool \<Rightarrow> 'b ante_ctx res"

type_synonym 'b tx_fee_checker = "'b ante_ctx \<Rightarrow> sdkTx \<Rightarrow> (coins \<times> int) res"

record 'b cosmos_sdk =
  csIsAnyGTE :: "coins \<Rightarrow> coins \<Rightarrow> bool"
  csAmountOfNoDenomValidation :: "coins \<Rightarrow> denom \<Rightarrow> int"
  csMinGasPrices :: "'b ante_ctx \<Rightarrow> (denom \<times> int) list"
  csDefaultBondDenom :: denom
  csSetUpContext :: "'b decorator"
  csExtensionOptions :: "'b decorator"
  csValidateBasic :: "'b decorator"
  csTxTimeoutHeight :: "'b decorator"
  csValidateMemo :: "'b decorator"
  csConsumeGasForTxSize :: "'b decorator"
  csDeductFee :: "'b tx_fee_checker option \<Rightarrow> 'b decorator"
  csSetPubKey :: "'b decorator"
  csValidateSigCount :: "'b decorator"
  csSigGasConsume :: "'b decorator"
  csSigVerification :: "'b decorator"
  csIncrementSequence :: "'b decorator"
  csRedundantRelay :: "'b decorator"

definition MinGasPriceCheck :: "'b cosmos_sdk \<Rightarrow> dec_ops \<Rightarrow> denom \<Rightarrow> Params \<Rightarrow> sdkTx \<Rightarrow> bool \<Rightarrow> unit res" where
  "MinGasPriceCheck S D evmDenom feemarketParams tx simulate =
     (if \<not> tIsFeeTx tx then Err (ErrMsg ''invalid transaction type, expected sdk.FeeTx'')
      else
        let feeCoins = feeAmount (tFee tx);
            validFees = (case feeCoins of [] \<Rightarrow> True | [c] \<Rightarrow> Denom c \<in> {evmDenom, csDefaultBondDenom S} | _ \<Rightarrow> False)
        in if \<not> validFees \<and> \<not> simulate then Err (ErrMsg ''expected only native token for fee'')
        else (case MinGasPrice feemarketParams of
                None \<Rightarrow> nilDeref
              | Some minGasPrice \<Rightarrow>
                  if minGasPrice = 0 \<or> simulate then Ok ()
                  else
                    let fee = decCeilInt D (decMul D minGasPrice (LegacyNewDec (uint (feeGasLimit (tFee tx)))));
                        requiredFees = (if 0 < fee then [newCoin evmDenom fee] else [])
                    in if feeCoins = [] then Err (ErrMsg ''fee not provided'')
                       else if \<not> csIsAnyGTE S feeCoins requiredFees then Err (ErrMsg ''provided fee < minimum global fee'')
                       else Ok ()))"

text \<open>\<open>Quo\<close> by a gas of zero panics; the gas is read as a signed word.\<close>

fun getTxPriority :: "coins \<Rightarrow> int \<Rightarrow> int \<Rightarrow> int res" where
  "getTxPriority [] gas priority = Ok priority"
| "getTxPriority (fee # fees) gas priority =
     (if gas = 0 then Panic (ErrMsg ''division by zero'')
      else
        let amt = quo (quo (Amount fee) gas) DefaultPriorityReduction;
            p = (if - (2 ^ 63) \<le> amt \<and> amt < 2 ^ 63 then amt else 2 ^ 63 - 1)
        in getTxPriority fees gas (if priority = 0 \<or> p < priority then p else priority))"

text \<open>\<open>sdk.NewCoin\<close> panics on a negative amount, which a negative gas gives.\<close>

fun required_fees :: "dec_ops \<Rightarrow> (denom \<times> int) list \<Rightarrow> int \<Rightarrow> coins res" where
  "required_fees D [] glDec = Ok []"
| "required_fees D ((d, p) # ps) glDec =
     (let fee = decCeilInt D (decMul D p glDec) in
      if fee < 0 then Panic (ErrMsg ''negative coin amount'')
      else res_bind (required_fees D ps glDec) (\<lambda>cs. Ok (newCoin d fee # cs)))"

definition checkTxFeeWithValidatorMinGasPrices :: "'b cosmos_sdk \<Rightarrow> dec_ops \<Rightarrow> 'b tx_fee_checker" where
  "checkTxFeeWithValidatorMinGasPrices S D ctx tx =
     (let feeCoins = feeAmount (tFee tx); minGasPrices = csMinGasPrices S ctx; gas = sint (feeGasLimit (tFee tx)) in
      res_bind
        (if anCheckTx ctx \<and> \<not> list_all (\<lambda>(d, p). p = 0) minGasPrices
         then res_bind (required_fees D minGasPrices (LegacyNewDec gas)) (\<lambda>requiredFees.
           if \<not> csIsAnyGTE S feeCoins requiredFees then Err (ErrMsg ''insufficient fees'') else Ok ())
         else Ok ())
        (\<lambda>_. res_bind (getTxPriority feeCoins gas 0) (\<lambda>priority. Ok (feeCoins, priority))))"

definition effectiveGasPriceLegacyDec :: "int \<Rightarrow> int \<Rightarrow> int \<Rightarrow> int" where
  "effectiveGasPriceLegacyDec baseFee feeCap tipCap = min (tipCap + baseFee) feeCap"

text \<open>The tip cap of the first dynamic fee option, zero when it has none, and the largest 64-bit price without an option.\<close>

definition max_priority_price :: "sdkTx \<Rightarrow> int" where
  "max_priority_price tx =
     (if \<not> tHasExtensions tx then LegacyNewDec (2 ^ 63 - 1)
      else (case find (\<lambda>opt. case opt of OptionDynamicFeeTx _ \<Rightarrow> True | _ \<Rightarrow> False) (tExtensionOptions tx) of
              Some (OptionDynamicFeeTx p) \<Rightarrow> (case p of None \<Rightarrow> 0 | Some x \<Rightarrow> x)
            | _ \<Rightarrow> LegacyNewDec (2 ^ 63 - 1)))"

definition FeeChecker ::
    "'b cosmos_sdk \<Rightarrow> ('b, 'k) vm_env \<Rightarrow> Params \<Rightarrow> denom \<Rightarrow> 'b tx_fee_checker" where
  "FeeChecker S E feemarketParams denom ctx tx =
     (let D = fmDec (vfe E) in
      if \<not> vIsLondon E (anHeight ctx) then checkTxFeeWithValidatorMinGasPrices S D ctx tx
      else
        let baseFee = (if IsBaseFeeEnabled feemarketParams (anHeight ctx)
                       then (case BaseFee feemarketParams of None \<Rightarrow> 0 | Some b \<Rightarrow> b) else 0);
            maxPriorityPrice = max_priority_price tx;
            gas = uint (feeGasLimit (tFee tx))
        in if maxPriorityPrice < 0 then Err (ErrMsg ''max priority price cannot be negative'')
        else if gas = 0 then Err (ErrMsg ''gas cannot be zero'')
        else
          let feeCap = decQuoInt D (LegacyNewDec (csAmountOfNoDenomValidation S (feeAmount (tFee tx)) denom)) gas
          in if feeCap < baseFee then Err (ErrMsg ''gas prices too low'')
          else
            let effectivePrice = effectiveGasPriceLegacyDec baseFee feeCap maxPriorityPrice;
                effectiveFee = [newCoin denom (decCeilInt D (decMulInt D effectivePrice gas))];
                priorityInt = decTruncateInt D (decQuoInt D (effectivePrice - baseFee) DefaultPriorityReduction)
            in Ok (effectiveFee, if - (2 ^ 63) \<le> priorityInt \<and> priorityInt < 2 ^ 63 then priorityInt else 2 ^ 63 - 1))"

definition NewDynamicFeeChecker :: "'b cosmos_sdk \<Rightarrow> ('b, 'k) vm_env \<Rightarrow> Params \<Rightarrow> 'b tx_fee_checker" where
  "NewDynamicFeeChecker S E feemarketParams ctx tx =
     (if \<not> tIsFeeTx tx then Err (ErrMsg ''Tx must be a FeeTx'')
      else if anHeight ctx = 0 then checkTxFeeWithValidatorMinGasPrices S (fmDec (vfe E)) ctx tx
      else FeeChecker S E feemarketParams (eciDenom (info (vpk E))) ctx tx)"

section \<open>The handlers (cosmos.go, ante.go)\<close>

definition checked :: "unit res \<Rightarrow> 'b ante_ctx \<Rightarrow> 'b ante_ctx res" where
  "checked r ctx = res_bind r (\<lambda>_. Ok ctx)"

fun ChainAnteDecorators :: "'b decorator list \<Rightarrow> 'b decorator" where
  "ChainAnteDecorators [] ctx tx simulate = Ok ctx"
| "ChainAnteDecorators (d # ds) ctx tx simulate =
     res_bind (d ctx tx simulate) (\<lambda>ctx. ChainAnteDecorators ds ctx tx simulate)"

definition GasWantedDecorator :: "('b, 'k) vm_env \<Rightarrow> Params \<Rightarrow> 'b decorator" where
  "GasWantedDecorator E feemarketParams ctx tx simulate = CheckGasWanted ctx tx (vIsLondon E (anHeight ctx)) feemarketParams"

definition newCosmosAnteHandler :: "'b cosmos_sdk \<Rightarrow> ('b, 'k) vm_env \<Rightarrow> bool \<Rightarrow> 'b decorator" where
  "newCosmosAnteHandler S E dynamicFeeChecker ctx tx simulate =
     (let feemarketParams = GetParams (vfe E) (vfm (anVm ctx));
          txFeeChecker = (if dynamicFeeChecker then Some (NewDynamicFeeChecker S E feemarketParams) else None)
      in ChainAnteDecorators
           [\<lambda>ctx tx sim. checked (check (RejectMessages tx)) ctx,
            \<lambda>ctx tx sim. checked (AuthzLimiter [MsgEthereumTxURL, MsgCreateVestingAccountURL] tx) ctx,
            csSetUpContext S, csExtensionOptions S, csValidateBasic S, csTxTimeoutHeight S, csValidateMemo S,
            \<lambda>ctx tx sim. checked (MinGasPriceCheck S (fmDec (vfe E)) (eciDenom (info (vpk E))) feemarketParams tx sim) ctx,
            csConsumeGasForTxSize S, csDeductFee S txFeeChecker, csSetPubKey S, csValidateSigCount S, csSigGasConsume S,
            csSigVerification S, csIncrementSequence S, csRedundantRelay S, GasWantedDecorator E feemarketParams]
           ctx tx simulate)"

definition NewAnteHandler ::
    "('b, 'k, 'c, 'p) chain \<Rightarrow> 'b cosmos_sdk \<Rightarrow> (int \<Rightarrow> int option \<Rightarrow> anteTx \<Rightarrow> error option) \<Rightarrow> 64 word \<Rightarrow> bool \<Rightarrow> 'b decorator" where
  "NewAnteHandler C S ValidateTransaction maxTxGasWanted dynamicFeeChecker ctx tx simulate =
     (case (if tHasExtensions tx then tExtensionOptions tx else []) of
        [] \<Rightarrow> newCosmosAnteHandler S (venv C) dynamicFeeChecker ctx tx simulate
      | OptionsEthereumTx # _ \<Rightarrow> newMonoEVMAnteHandler C ValidateTransaction maxTxGasWanted ctx tx simulate
      | OptionDynamicFeeTx _ # _ \<Rightarrow> newCosmosAnteHandler S (venv C) dynamicFeeChecker ctx tx simulate
      | OtherOption _ # _ \<Rightarrow> Err (ErrMsg ''rejecting tx with unsupported extension option''))"

section \<open>The gas of signatures (sigverify.go)\<close>

datatype pubKey = EthSecp256k1 | Secp256k1 | Ed25519 | MultisigKey "pubKey list" | OtherKey

datatype sigData = SingleSignature | MultiSignature "bool list" "sigData list"

record auth_params =
  SigVerifyCostSecp256k1 :: "64 word"
  SigVerifyCostED25519 :: "64 word"

definition Secp256k1VerifyCost :: "64 word" where "Secp256k1VerifyCost = 21000"

definition meter_consume :: "gasMeter \<Rightarrow> 64 word \<Rightarrow> (unit, gasMeter) eff" where
  "meter_consume g n = res_bind (ConsumeGas g n) (\<lambda>g. Ok (Inl (), g))"

text \<open>The keys and the signatures are indexed: an index out of range panics.\<close>

fun SigVerificationGasConsumer :: "auth_params \<Rightarrow> gasMeter \<Rightarrow> pubKey \<Rightarrow> sigData \<Rightarrow> (unit, gasMeter) eff"
  and ConsumeMultisignatureVerificationGas ::
    "auth_params \<Rightarrow> gasMeter \<Rightarrow> bool list \<Rightarrow> pubKey list \<Rightarrow> sigData list \<Rightarrow> (unit, gasMeter) eff" where
  "SigVerificationGasConsumer p g EthSecp256k1 sd = meter_consume g Secp256k1VerifyCost"
| "SigVerificationGasConsumer p g Secp256k1 sd = meter_consume g (SigVerifyCostSecp256k1 p)"
| "SigVerificationGasConsumer p g Ed25519 sd =
     eff_bind (meter_consume g (SigVerifyCostED25519 p)) (\<lambda>_ g. eff_fail g (ErrMsg ''ED25519 public keys are unsupported''))"
| "SigVerificationGasConsumer p g (MultisigKey ks) (MultiSignature bits sigs) =
     ConsumeMultisignatureVerificationGas p g bits ks sigs"
| "SigVerificationGasConsumer p g (MultisigKey ks) SingleSignature = eff_fail g (ErrMsg ''expected MultiSignatureData'')"
| "SigVerificationGasConsumer p g OtherKey sd = eff_fail g (ErrMsg ''unrecognized/unsupported public key type'')"
| "ConsumeMultisignatureVerificationGas p g [] ks sigs = eff_ret g ()"
| "ConsumeMultisignatureVerificationGas p g (False # bits) ks sigs = ConsumeMultisignatureVerificationGas p g bits (tl ks) sigs"
| "ConsumeMultisignatureVerificationGas p g (True # bits) [] sigs = Panic (ErrMsg ''index out of range'')"
| "ConsumeMultisignatureVerificationGas p g (True # bits) (k # ks) [] = Panic (ErrMsg ''index out of range'')"
| "ConsumeMultisignatureVerificationGas p g (True # bits) (k # ks) (sd # sigs) =
     eff_bind (SigVerificationGasConsumer p g k sd) (\<lambda>_ g. ConsumeMultisignatureVerificationGas p g bits ks sigs)"

end
