(* ===== verification/EvmAnteProps.thy ===== *)
theory EvmAnteProps
  imports EvmAnte VmGas FeeMarketProps
begin

text \<open>
  What the ante handler of Ethereum transactions guarantees: the steps an accepted transaction has passed, and what they
  did to the sender's account and to the balances.
\<close>

lemma word_less_Suc: "w \<noteq> - 1 \<Longrightarrow> w < w + 1" for w :: "64 word"
  using unatSuc [of w] by (simp add: word_less_nat_alt add.commute add_eq_0_iff)

section \<open>The steps of an accepted transaction\<close>

text \<open>The context the checks run in.\<close>

definition ante_setup :: "'b ante_ctx \<Rightarrow> 'b ante_ctx" where
  "ante_setup ctx = ctx\<lparr>anMeter := \<lparr>gmConsumed = 0, gmLimit = - 1, gmBounded = False\<rparr>,
     anVm := ResetTransientGasUsed (anVm ctx)\<rparr>"

lemma reset_keeps [simp]:
  "vpb (ResetTransientGasUsed s) = vpb s" "vmStorage (ResetTransientGasUsed s) = vmStorage s"
  "vmCode (ResetTransientGasUsed s) = vmCode s" "vmCodeHash (ResetTransientGasUsed s) = vmCodeHash s"
  "vm_bank (ResetTransientGasUsed s) = vm_bank s"
  by (simp_all add: ResetTransientGasUsed_def vm_bank_def)

lemma check_Ok [simp]: "check e = Ok u \<longleftrightarrow> e = None"
  by (simp add: check_def split: option.splits)

lemma Setup_ok: "SetupContextAndResetTransientGas ctx stx = Ok ctx0 \<longleftrightarrow> tIsGasTx stx \<and> ctx0 = ante_setup ctx"
  by (auto simp: SetupContextAndResetTransientGas_def ante_setup_def)

lemma AnteHandle_ok:
  assumes "AnteHandle C V md ctx stx simulate = Ok ctx'"
  obtains msg tx du fi where "tMsgs stx = [EthMsg msg]" "meRaw msg = Some tx"
    "NewMonoDecoratorUtils (venv C) (ante_setup ctx) (mdEvmParams md) (mdFeemarketParams md) = Ok du"
    "ante_message C V md (ante_setup ctx) stx simulate fi du msg tx = Ok ctx'"
    "\<not> anReCheckTx ctx \<Longrightarrow> ValidateTx stx = Ok (the fi) \<and> fi \<noteq> None"
proof -
  from assms obtain fi du where f: "(if anReCheckTx ctx then Ok None else res_bind (ValidateTx stx) (\<lambda>fee. Ok (Some fee))) = Ok fi"
    "NewMonoDecoratorUtils (venv C) (ante_setup ctx) (mdEvmParams md) (mdFeemarketParams md) = Ok du"
    and m: "(case tMsgs stx of [m] \<Rightarrow> res_bind (UnpackEthMsg m) (\<lambda>(msg, raw). case raw of None \<Rightarrow> nilDeref
        | Some tx \<Rightarrow> ante_message C V md (ante_setup ctx) stx simulate fi du msg tx)
      | _ \<Rightarrow> Err (ErrMsg ''expected 1 message'')) = Ok ctx'"
    unfolding AnteHandle_def res_bind_Ok Setup_ok by blast
  from m obtain msg tx where "tMsgs stx = [EthMsg msg]" "meRaw msg = Some tx"
    "ante_message C V md (ante_setup ctx) stx simulate fi du msg tx = Ok ctx'"
    by (auto simp: UnpackEthMsg_def res_bind_Ok split: list.splits sdkMsg.splits option.splits)
  with f that show thesis by (auto simp: res_bind_Ok split: if_splits)
qed

lemma ante_message_ok:
  assumes "ante_message C V md ctx stx simulate fi du msg tx = Ok ctx'"
  obtains s1 fees s2 acc s3 ctx2 where
    "CheckGlobalFee (fmDec (vfe (venv C))) (LegacyNewDec (checked_fee tx (duBaseFee du))) (duGlobalMinGasPrice du)
       (LegacyNewDec (uint (etGas tx))) = Ok ()"
    "checkDisabledCreateCall tx (accessControl (duEvmParams du)) = None"
    "VerifySender msg tx = Ok ()"
    "VerifyAccountBalance (venv C) (anVm ctx) (BytesToAddress (meFrom msg)) tx = Ok s1"
    "CanTransfer (venv C) s1 (AsMessage msg tx (duBaseFee du)) (duBaseFee du) (duIsLondon du) = Ok ()"
    "VerifyFee (evmApi C) (ethTx.truncate tx) (eciDenom (info (vpk (venv C)))) (duBaseFee du) (anCheckTx ctx) = Ok fees"
    "ante_deductFees C s1 fees (meFrom msg) = Ok s2" "auGetAccount (venv C) (vm_bank s2) (meFrom msg) = Some acc"
    "IncrementNonce (venv C) s2 acc (etNonce tx) = Ok s3"
    "CheckGasWanted (ctx\<lparr>anVm := s3\<rparr>) stx (duIsLondon du) (mdFeemarketParams md) = Ok ctx2"
    "CheckTxFee (vpk (venv C)) fi (GetFee tx) (etGas tx) = Ok ()"
    "CheckBlockGasLimit ctx2 (UpdateCumulativeGasWanted (anCheckTx ctx2) (etGas tx) (mdMaxGasWanted md) 0)
       (GetMsgPriority tx (2 ^ 63 - 1) (duBaseFee du)) = Ok ctx'"
  using assms
  unfolding ante_message_def Let_def res_bind_Ok SignatureVerification_def res_map_err_Ok check_Ok
  by (auto split: option.splits)

lemma VerifySender_ok: "VerifySender msg tx = Ok () \<longleftrightarrow> (\<exists>a. etSender tx = Ok a \<and> meFrom msg = AddrBytes a)"
  by (auto simp: VerifySender_def res_bind_Ok split: if_splits)

lemma IncrementNonce_ok:
  "IncrementNonce E s acc n = Ok s' \<longleftrightarrow> auSequence E acc = n \<and> n \<noteq> - 1 \<and>
     (\<exists>acc'. auSetSequence E acc (n + 1) = Ok acc' \<and> s' = set_vm_bank s (auSetAccount E (vm_bank s) acc'))"
  by (auto simp: IncrementNonce_def Let_def res_bind_Ok)

lemma CheckGasWanted_ok:
  assumes "CheckGasWanted ctx stx isLondon p = Ok ctx2"
  shows "\<exists>fm. ctx2 = ctx\<lparr>anVm := (anVm ctx)\<lparr>vfm := fm\<rparr>\<rparr>"
    "isLondon \<Longrightarrow> tIsFeeTx stx \<Longrightarrow> feeGasLimit (tFee stx) \<le> BlockGasLimit ctx"
proof -
  have same: "\<exists>fm. ctx = ctx\<lparr>anVm := (anVm ctx)\<lparr>vfm := fm\<rparr>\<rparr>" by (rule exI [of _ "vfm (anVm ctx)"]) simp
  from assms same show "\<exists>fm. ctx2 = ctx\<lparr>anVm := (anVm ctx)\<lparr>vfm := fm\<rparr>\<rparr>"
    unfolding CheckGasWanted_def Let_def split_def by (simp split: if_splits; blast)
  show "isLondon \<Longrightarrow> tIsFeeTx stx \<Longrightarrow> feeGasLimit (tFee stx) \<le> BlockGasLimit ctx"
    using assms by (auto simp: CheckGasWanted_def Let_def split: if_splits)
qed

lemma CheckBlockGasLimit_ok:
  "CheckBlockGasLimit ctx g p = Ok ctx' \<longleftrightarrow> g \<le> BlockGasLimit ctx \<and>
     ctx' = ctx\<lparr>anMeter := NewInfiniteGasMeterWithLimit g, anPriority := p\<rparr>"
  by (auto simp: CheckBlockGasLimit_def)

section \<open>Prices\<close>

text \<open>What go-ethereum documents of a decoded transaction: its numbers are unsigned, the gas price of a transaction is its
  fee cap, its cost is the price of its whole gas and its value, and the tip that is paid is capped by what the fee cap
  leaves above the base fee.\<close>

definition geth_tx :: "anteTx \<Rightarrow> bool" where
  "geth_tx tx \<longleftrightarrow> 0 \<le> etValue tx \<and> 0 \<le> etGasTipCap tx \<and> 0 \<le> etGasFeeCap tx \<and> etGasPrice tx = etGasFeeCap tx \<and>
     etCost tx = uint (etGas tx) * etGasPrice tx + etValue tx \<and>
     (\<forall>bf. etEffectiveGasTip tx (Some bf) = min (etGasTipCap tx) (etGasFeeCap tx - bf))"

definition effective_price :: "anteTx \<Rightarrow> int \<Rightarrow> int" where
  "effective_price tx bf = min (etGasTipCap tx + bf) (etGasFeeCap tx)"

lemma effective_price:
  assumes "geth_tx tx" "0 \<le> bf"
  shows "etEffectiveGasTip tx (Some bf) + bf = effective_price tx bf" "0 \<le> effective_price tx bf"
    "uint (etGas tx) * effective_price tx bf \<le> etCost tx" "0 \<le> uint (etGas tx) * effective_price tx bf"
proof -
  show "etEffectiveGasTip tx (Some bf) + bf = effective_price tx bf" "0 \<le> effective_price tx bf"
    using assms by (auto simp: geth_tx_def effective_price_def)
  then show "0 \<le> uint (etGas tx) * effective_price tx bf" by simp
  have "uint (etGas tx) * effective_price tx bf \<le> uint (etGas tx) * etGasFeeCap tx"
    by (intro mult_left_mono) (auto simp: effective_price_def)
  with assms(1) show "uint (etGas tx) * effective_price tx bf \<le> etCost tx" by (auto simp: geth_tx_def)
qed

lemma VerifyFee_ok:
  assumes "VerifyFee A (ethTx.truncate tx) d bfo isCheck = Ok fees"
  obtains bf where "bfo = Some bf" "bf \<le> etGasFeeCap tx"
    "geth_tx tx \<Longrightarrow> 0 \<le> bf \<Longrightarrow>
       fees = (if uint (etGas tx) * effective_price tx bf = 0 then [] else [newCoin d (uint (etGas tx) * effective_price tx bf)])"
proof -
  from assms obtain bf where bf: "bfo = Some bf" by (auto simp: VerifyFee_def res_bind_Ok split: option.splits if_splits)
  from assms bf show thesis
    by (intro that [OF bf]) (auto simp: VerifyFee_def res_bind_Ok Let_def ethTx.defs effective_price(1) split: if_splits)
qed

lemma NewMonoDecoratorUtils_ok:
  assumes "NewMonoDecoratorUtils E ctx ep p = Ok du"
  shows "duEvmParams du = ep" "duIsLondon du = vIsLondon E (anHeight ctx)" "duGlobalMinGasPrice du = MinGasPrice p"
    "types_GetBaseFee E (anHeight ctx) p = Ok (duBaseFee du)"
  using assms by (auto simp: NewMonoDecoratorUtils_def Let_def res_bind_Ok split: if_splits)

lemma base_fee_nonneg:
  assumes "types_GetBaseFee E h p = Ok (Some bf)" "legacy_dec (fmDec (vfe E))" "Params_Validate p = Ok ()"
  shows "0 \<le> bf"
proof -
  have f: "0 \<le> f" if "Decimals_ConversionFactor d = Some f" for d f
    using map_of_SomeD [of ConversionFactorMap d f] that
    by (auto simp: Decimals_ConversionFactor_def ConversionFactorMap_def)
  from assms(1,3) obtain b where "bf = 0 \<or> (\<exists>f. Decimals_ConversionFactor (eciDecimals (fmCoin (vfe E))) = Some f \<and> 0 \<le> b \<and>
      bf = decTruncateInt (fmDec (vfe E)) (decMulInt (fmDec (vfe E)) b f))"
    by (auto simp: types_GetBaseFee_def Params_Validate_iff res_bind_Ok ConvertAmountTo18DecimalsLegacy_def
        split: if_splits option.splits)
  then show ?thesis
    using f legacy_dec.dec_mul_int [OF assms(2)] legacy_dec.dec_truncate [OF assms(2)]
    by (auto simp: pos_imp_zdiv_nonneg_iff)
qed

section \<open>Limits\<close>

lemma global_fee_ok:
  assumes "CheckGlobalFee D fee (Some p) (LegacyNewDec (uint g)) = Ok ()" "legacy_dec D" "0 \<le> p"
  shows "p = 0 \<or> p * uint g \<le> fee"
  using assms legacy_dec.dec_mul_commute [OF assms(2), of p] legacy_dec.dec_mul_whole [OF assms(2), of "uint g" p]
  by (auto simp: CheckGlobalFee_def not_less mult.commute split: if_splits)

lemma disabled_ok:
  "checkDisabledCreateCall tx ac = None \<longleftrightarrow>
     accessType (if etTo tx = None then acCreate ac else acCall ac) \<noteq> AccessTypeRestricted"
  by (auto simp: checkDisabledCreateCall_def)

definition gas_wanted :: "mono_decorator \<Rightarrow> 'b ante_ctx \<Rightarrow> anteTx \<Rightarrow> 64 word" where
  "gas_wanted md ctx tx = (if anCheckTx ctx \<and> mdMaxGasWanted md \<noteq> 0 then min (etGas tx) (mdMaxGasWanted md) else etGas tx)"

lemma limit_steps:
  assumes "CheckGasWanted (c\<lparr>anVm := s3\<rparr>) stx l p = Ok ctx2" "c = ante_setup ctx"
    "CheckBlockGasLimit ctx2 (UpdateCumulativeGasWanted (anCheckTx ctx2) (etGas tx) (mdMaxGasWanted md) 0) pr = Ok ctx'"
  shows "anMeter ctx' = NewInfiniteGasMeterWithLimit (gas_wanted md ctx tx) \<and> gas_wanted md ctx tx \<le> BlockGasLimit ctx"
proof -
  from CheckGasWanted_ok(1) [OF assms(1)] obtain s where c2: "ctx2 = c\<lparr>anVm := s\<rparr>" by auto
  have b: "BlockGasLimit ctx2 = BlockGasLimit ctx" "anCheckTx ctx2 = anCheckTx ctx"
    by (simp_all add: c2 assms(2) ante_setup_def BlockGasLimit_def cong: if_cong)
  have "UpdateCumulativeGasWanted (anCheckTx ctx) (etGas tx) (mdMaxGasWanted md) 0 = gas_wanted md ctx tx"
    by (auto simp: UpdateCumulativeGasWanted_def gas_wanted_def min_def)
  with assms(3) b show ?thesis by (auto simp: CheckBlockGasLimit_ok)
qed

lemma CheckTxFee_ok:
  "CheckTxFee K (Some fee) n g = Ok () \<Longrightarrow> amt_of K (feeAmount fee) (eciExtendedDenom (info K)) = n \<and> feeGasLimit fee = g"
  by (auto simp: CheckTxFee_def split: if_splits)

lemma ValidateTx_ok: "ValidateTx stx = Ok fee \<Longrightarrow> fee = tFee stx \<and> tSignatures stx = 0 \<and> feePayer fee = [] \<and> feeGranter fee = []"
  by (auto simp: ValidateTx_def split: if_splits)

section \<open>The sender\<close>

text \<open>What an accepted transaction did: its nonce was the sender's sequence and is now used up, the sender paid \<open>n\<close> to the fee
  collector, and nothing else changed.\<close>

definition accepted ::
    "('b, 'k, 'c, 'p) chain \<Rightarrow> ('k \<Rightarrow> bool) \<Rightarrow> 'b vm_state \<Rightarrow> 'b vm_state \<Rightarrow> address \<Rightarrow> anteTx \<Rightarrow> int \<Rightarrow> bool" where
  "accepted C isBase s s' a tx n \<longleftrightarrow>
     (\<forall>k. auGetAccount (venv C) (vm_bank s) (AddrBytes a) = Some k \<longrightarrow> auSequence (venv C) k = etNonce tx) \<and>
     etNonce tx \<noteq> - 1 \<and>
     (\<exists>k. auGetAccount (venv C) (vm_bank s') (AddrBytes a) = Some k \<and> isBase k \<and> auSequence (venv C) k = etNonce tx + 1) \<and>
     pb_inv (vpk (venv C)) (vpb s') \<and> extSupply (vpk (venv C)) (vpb s') = extSupply (vpk (venv C)) (vpb s) \<and>
     (\<forall>x. x \<noteq> reserveAddr (vpk (venv C)) \<longrightarrow> extBalance (vpk (venv C)) (vpb s') x =
        extBalance (vpk (venv C)) (vpb s) x - at_addr (AddrBytes a) n x
        + at_addr (moduleAddress (vpk (venv C)) FeeCollectorName) n x) \<and>
     vmStorage s' = vmStorage s \<and> vmCode s' = vmCode s \<and> vmCodeHash s' = vmCodeHash s"

context vm_fees
begin

text \<open>The balance check leaves an account at the sender that covers the cost, and moves no coins.\<close>

lemma VerifyAccountBalance_ok:
  assumes ok: "VerifyAccountBalance (venv C) s a tx = Ok s1" and inv: "pb_inv K (vpb s)"
    and u: "usable K a" and free: "freeAt (venv C) isBase (vm_bank s) (AddrBytes a)"
  shows "same_funds s s1 \<and> s1 = s\<lparr>vpb := vpb s1\<rparr> \<and> baseAt (venv C) isBase s1 a \<and>
    etCost tx \<le> extSpendable K (vpb s1) (AddrBytes a) \<and>
    (\<forall>x k. auGetAccount (venv C) (vm_bank s) x = Some k \<longrightarrow> auGetAccount (venv C) (vm_bank s1) x = Some k)"
proof (cases "auGetAccount (venv C) (vm_bank s) (AddrBytes a)")
  case None
  then have g: "Vm_GetAccount (venv C) s a = None" by (simp add: Vm_GetAccount_def GetAccountWithoutBalance_def)
  obtain k b where k: "auNewAccount (venv C) (vm_bank s) (AddrBytes a) = (k, b)" by fastforce
  note n = new_account [OF k]
  from ok g k have s1: "s1 = set_vm_bank s (auSetAccount (venv C) b k)" and c: "etCost tx \<le> 0"
    by (auto simp: VerifyAccountBalance_def Let_def CheckSenderBalance_def ethTx.defs split: if_splits)
  have f: "same_funds s s1" using n by (simp add: s1 same_funds_def set_vm_bank_def vm_bank_def set_account_bank)
  have acc: "auGetAccount (venv C) (vm_bank s1) = (auGetAccount (venv C) (vm_bank s))(AddrBytes a \<mapsto> k)"
    using n by (simp add: s1 set_vm_bank_def vm_bank_def set_account)
  have b1: "baseAt (venv C) isBase s1 a" using n by (simp add: baseAt_def acc)
  have "0 \<le> extSpendable K (vpb s1) (AddrBytes a)"
    using base_extSpendable [OF b1] extBalance_nonneg [of "vpb s1"] inv same_funds(1) [OF f] by (simp add: vbal_def)
  with c f b1 acc None show ?thesis by (auto simp: s1 set_vm_bank_def)
next
  case (Some k)
  then have b: "baseAt (venv C) isBase s a" using free by (simp add: baseAt_def freeAt_def)
  from Some ok have s1: "s1 = s" and w: "\<exists>w. Vm_SpendableCoin (venv C) s a = Some w \<and> etCost tx \<le> uint w"
    by (auto simp: VerifyAccountBalance_def Let_def CheckSenderBalance_def ethTx.defs Vm_GetAccount_def
        GetAccountWithoutBalance_def split: if_splits option.splits)
  from w Vm_SpendableCoin_base [OF b _ inv] u extBalance_nonneg [OF inv, of "AddrBytes a"]
  have "etCost tx \<le> vbal (venv C) s a"
    by (auto simp: usable_def vbal_def uint_word_of_int_eq take_bit_int_eq_self split: if_splits)
  with b base_extSpendable [OF b] show ?thesis by (simp add: s1 same_funds_def)
qed

lemma ante_deductFees_ok:
  assumes ok: "ante_deductFees C s fees (AddrBytes a) = Ok s2" and inv: "pb_inv K (vpb s)"
    and u: "usable K a" "AddrBytes a \<noteq> collectorAddr" and b: "baseAt (venv C) isBase s a"
    and n: "fees = (if n = 0 then [] else [newCoin (eciDenom (info K)) n])" "0 \<le> n" "n \<le> extSpendable K (vpb s) (AddrBytes a)"
  shows "s2 = s\<lparr>vpb := vpb s2\<rparr> \<and> pb_inv K (vpb s2) \<and> extSupply K (vpb s2) = extSupply K (vpb s) \<and>
    (\<forall>x. x \<noteq> reserveAddr K \<longrightarrow> extBalance K (vpb s2) x =
       extBalance K (vpb s) x - at_addr (AddrBytes a) n x + at_addr collectorAddr n x) \<and>
    (\<forall>x k. auGetAccount (venv C) (vm_bank s) x = Some k \<longrightarrow> auGetAccount (venv C) (vm_bank s2) x = Some k)"
proof (cases "n = 0")
  case True
  with ok n(1) inv show ?thesis by (simp add: ante_deductFees_def zero_none)
next
  case False
  with n have n': "0 < n" by simp
  have acc: "auGetAccount (venv C) (vm_bank s) (AddrBytes a) \<noteq> None" using b by (auto simp: baseAt_def split: option.splits)
  from False ok n(1) have "DeductTxCostsFromUserBalance C s [newCoin (eciDenom (info K)) n] a = Ok s2"
    by (simp add: ante_deductFees_def zero_single newCoin_def)
  with Deduct_exact [OF inv u acc n' n(3)] show ?thesis by (metis res.inject(1))
qed

lemma IncrementNonce_exact:
  assumes ok: "IncrementNonce (venv C) s acc n = Ok s3" and acc: "auGetAccount (venv C) (vm_bank s) x = Some acc" "isBase acc"
  shows "auSequence (venv C) acc = n \<and> n \<noteq> - 1 \<and> same_funds s s3 \<and> s3 = s\<lparr>vpb := vpb s3\<rparr> \<and>
    (\<exists>k. auGetAccount (venv C) (vm_bank s3) = (auGetAccount (venv C) (vm_bank s))(x \<mapsto> k) \<and> isBase k \<and>
       auSequence (venv C) k = n + 1)"
proof -
  from ok obtain k where k: "auSequence (venv C) acc = n" "n \<noteq> - 1" "auSetSequence (venv C) acc (n + 1) = Ok k"
    "s3 = set_vm_bank s (auSetAccount (venv C) (vm_bank s) k)" by (auto simp: IncrementNonce_ok)
  from set_sequence [OF acc(2), of "n + 1"] k(3) get_addr [OF acc(1)]
  have "addrOf k = x" "isBase k" "auSequence (venv C) k = n + 1" by auto
  with k show ?thesis
    by (auto simp: same_funds_def set_vm_bank_def vm_bank_def set_account set_account_bank)
qed

lemma accepted_steps:
  assumes v: "VerifyAccountBalance (venv C) s a tx = Ok s1" and d: "ante_deductFees C s1 fees (AddrBytes a) = Ok s2"
    and i: "auGetAccount (venv C) (vm_bank s2) (AddrBytes a) = Some acc" "IncrementNonce (venv C) s2 acc (etNonce tx) = Ok s3"
    and inv: "pb_inv K (vpb s)" and u: "usable K a" "AddrBytes a \<noteq> collectorAddr"
    and free: "freeAt (venv C) isBase (vm_bank s) (AddrBytes a)"
    and n: "fees = (if n = 0 then [] else [newCoin (eciDenom (info K)) n])" "0 \<le> n" "n \<le> etCost tx"
  shows "accepted C isBase s s3 a tx n"
proof -
  note 1 = VerifyAccountBalance_ok [OF v inv u(1) free]
  note f1 = same_funds [OF conjunct1 [OF 1]]
  from 1 obtain k1 where k1: "auGetAccount (venv C) (vm_bank s1) (AddrBytes a) = Some k1" "isBase k1"
    by (auto simp: baseAt_def split: option.splits)
  have "n \<le> extSpendable K (vpb s1) (AddrBytes a)" using 1 n(3) by linarith
  from ante_deductFees_ok [OF d _ u _ n(1,2) this] 1 f1 inv
  have 2: "s2 = s1\<lparr>vpb := vpb s2\<rparr>" "pb_inv K (vpb s2)" "extSupply K (vpb s2) = extSupply K (vpb s1)"
    "\<And>x. x \<noteq> reserveAddr K \<Longrightarrow> extBalance K (vpb s2) x =
       extBalance K (vpb s1) x - at_addr (AddrBytes a) n x + at_addr collectorAddr n x"
    "\<And>x k. auGetAccount (venv C) (vm_bank s1) x = Some k \<Longrightarrow> auGetAccount (venv C) (vm_bank s2) x = Some k"
    by simp_all
  have acc: "acc = k1" using 2(5) [OF k1(1)] i(1) by simp
  note 3 = IncrementNonce_exact [OF i(2,1) k1(2) [folded acc]]
  note f3 = same_funds [OF conjunct1 [OF conjunct2 [OF conjunct2 [OF 3]]]]
  from 1 3 have e1: "s1 = s\<lparr>vpb := vpb s1\<rparr>" and e3: "s3 = s2\<lparr>vpb := vpb s3\<rparr>" by blast+
  have "auSequence (venv C) k = etNonce tx" if "auGetAccount (venv C) (vm_bank s) (AddrBytes a) = Some k" for k
    using that 1 k1(1) 3 acc by simp
  moreover have "vmStorage s3 = vmStorage s" "vmCode s3 = vmCode s" "vmCodeHash s3 = vmCodeHash s"
    using vpb_only [OF e1] vpb_only [OF 2(1)] vpb_only [OF e3] by simp_all
  ultimately show ?thesis using 2 3 f1 f3 by (auto simp: accepted_def)
qed

lemma AnteHandle_accepted:
  assumes D: "legacy_dec (fmDec (vfe (venv C)))" and p: "Params_Validate (mdFeemarketParams md) = Ok ()"
    and ok: "AnteHandle C V md ctx stx simulate = Ok ctx'"
    and m: "tMsgs stx = [EthMsg msg]" "meRaw msg = Some tx" and g: "geth_tx tx" and inv: "pb_inv K (vpb (anVm ctx))"
    and u: "usable K (GetSender msg)" "AddrBytes (GetSender msg) \<noteq> collectorAddr"
    and free: "freeAt (venv C) isBase (vm_bank (anVm ctx)) (AddrBytes (GetSender msg))"
  shows "etSender tx = Ok (GetSender msg) \<and> meFrom msg = AddrBytes (GetSender msg) \<and>
    (\<exists>bf. types_GetBaseFee (venv C) (anHeight ctx) (mdFeemarketParams md) = Ok (Some bf) \<and> bf \<le> etGasFeeCap tx \<and>
       accepted C isBase (anVm ctx) (anVm ctx') (GetSender msg) tx (uint (etGas tx) * effective_price tx bf))"
proof -
  obtain du fi where
    du: "NewMonoDecoratorUtils (venv C) (ante_setup ctx) (mdEvmParams md) (mdFeemarketParams md) = Ok du"
    and msg: "ante_message C V md (ante_setup ctx) stx simulate fi du msg tx = Ok ctx'"
    by (rule AnteHandle_ok [OF ok]) (use m in auto)
  from ante_message_ok [OF msg] obtain s1 fees s2 acc s3 ctx2 where
    s: "VerifySender msg tx = Ok ()" "VerifyAccountBalance (venv C) (anVm (ante_setup ctx)) (BytesToAddress (meFrom msg)) tx = Ok s1"
    "VerifyFee (evmApi C) (ethTx.truncate tx) (eciDenom (info K)) (duBaseFee du) (anCheckTx (ante_setup ctx)) = Ok fees"
    "ante_deductFees C s1 fees (meFrom msg) = Ok s2" "auGetAccount (venv C) (vm_bank s2) (meFrom msg) = Some acc"
    "IncrementNonce (venv C) s2 acc (etNonce tx) = Ok s3"
    "CheckGasWanted ((ante_setup ctx)\<lparr>anVm := s3\<rparr>) stx (duIsLondon du) (mdFeemarketParams md) = Ok ctx2"
    "CheckBlockGasLimit ctx2 (UpdateCumulativeGasWanted (anCheckTx ctx2) (etGas tx) (mdMaxGasWanted md) 0)
       (GetMsgPriority tx (2 ^ 63 - 1) (duBaseFee du)) = Ok ctx'" by metis
  from s(1) have sender: "etSender tx = Ok (GetSender msg)" "meFrom msg = AddrBytes (GetSender msg)"
    by (auto simp: VerifySender_ok GetSender_def)
  from VerifyFee_ok [OF s(3)] obtain bf where bf: "duBaseFee du = Some bf" "bf \<le> etGasFeeCap tx"
    "0 \<le> bf \<Longrightarrow> fees = (if uint (etGas tx) * effective_price tx bf = 0 then []
       else [newCoin (eciDenom (info K)) (uint (etGas tx) * effective_price tx bf)])" using g by metis
  have base: "types_GetBaseFee (venv C) (anHeight ctx) (mdFeemarketParams md) = Ok (Some bf)"
    using NewMonoDecoratorUtils_ok(4) [OF du] bf(1) by (simp add: ante_setup_def)
  note nn = base_fee_nonneg [OF base D p]
  note s' = s(2,4,5,6) [unfolded GetSender_def [symmetric] sender(2)]
  have "accepted C isBase (anVm (ante_setup ctx)) s3 (GetSender msg) tx (uint (etGas tx) * effective_price tx bf)"
    using accepted_steps [of _ "GetSender msg", OF _ s'(2-4) _ u _ bf(3) effective_price(4,3)] s'(1) inv free nn g
    by (simp add: ante_setup_def GetSender_def)
  moreover obtain fm where "anVm ctx' = s3\<lparr>vfm := fm\<rparr>"
    using CheckGasWanted_ok(1) [OF s(7)] s(8) by (auto simp: CheckBlockGasLimit_ok)
  ultimately show ?thesis using sender base bf(2) by (auto simp: accepted_def ante_setup_def vm_bank_def)
qed

end

end
