(* ===== verification/EvmAnteTheorems.thy ===== *)
theory EvmAnteTheorems
  imports EvmAnteProps VmTheorems
begin

text \<open>
  The properties of the ante handler of Ethereum transactions, each with an instance on the chain of \<open>VmReference\<close>.
\<close>

section \<open>A transaction\<close>

text \<open>The account of \<open>vmOne\<close> sends a value of three with 100000 gas, a fee cap of seven and a tip of one, at a base fee of five
  and a minimum gas price of three.\<close>

definition anteRefTx :: anteTx where
  "anteRefTx = \<lparr>etHash = 0, etTo = Some 2, etGas = 100000, etData = [], etAccessList = [], etAuthorizations = [], etGasFeeCap = 7,
     etCost = 700003, etEffectiveGasTip = (\<lambda>bf. case bf of None \<Rightarrow> 1 | Some b \<Rightarrow> min 1 (7 - b)),
     etSender = Ok 1, etMessage = (\<lambda>_. Err (ErrMsg ''not signed'')), etType = 2, etNonce = 3, etValue = 3, etGasPrice = 7,
     etGasTipCap = 1\<rparr>"

definition anteRefMsg :: MsgEthereumTx where
  "anteRefMsg = \<lparr>meFrom = AddrBytes 1, meRaw = Some anteRefTx\<rparr>"

definition anteRefStx :: sdkTx where
  "anteRefStx = \<lparr>tvBasic = None, tvNoSignatures = False, tIsProtoTx = True, tIsGasTx = True, tIsFeeTx = True, tMemo = [],
     tTimeoutHeight = 0, tNonCriticalOptions = 0, tHasExtensions = True, tExtensionOptions = [OptionsEthereumTx], tSignerInfos = 0, tSignatures = 0,
     tFee = \<lparr>feeAmount = [newCoin ''atoken'' 700000], feeGasLimit = 100000, feePayer = [], feeGranter = []\<rparr>,
     tMsgs = [EthMsg anteRefMsg]\<rparr>"

definition anteRefCtx :: "ref_abank ante_ctx" where
  "anteRefCtx = \<lparr>anVm = vmOne, anHeight = 10, anCheckTx = False, anReCheckTx = False, anMinGasPrices = (\<lambda>_. 0),
     anBlockGasMeter = Some 30000000, anMaxGas = None, anMeter = NewInfiniteGasMeterWithLimit 0, anPriority = 0\<rparr>"

definition anteRefMd :: mono_decorator where
  "anteRefMd = \<lparr>mdMaxGasWanted = 0, mdEvmParams = Vm_zeroParams, mdFeemarketParams =
     (DefaultParams feeEnv)\<lparr>BaseFee := Some 5000000, MinGasPrice := Some (LegacyNewDec 3)\<rparr>\<rparr>"

definition anteRefDu :: DecoratorUtils where
  "anteRefDu = \<lparr>duEvmParams = Vm_zeroParams, duIsLondon = True, duBaseFee = Some 5, duMempoolMinGasPrice = 0,
     duGlobalMinGasPrice = Some (LegacyNewDec 3)\<rparr>"

lemma anteRefTx_geth: "geth_tx anteRefTx" "effective_price anteRefTx 5 = 6"
  by (simp_all add: geth_tx_def anteRefTx_def effective_price_def)

lemma anteRef_params: "Params_Validate (mdFeemarketParams anteRefMd) = Ok ()"
  by (simp add: anteRefMd_def Params_Validate_iff DefaultParams_def feeEnv_def LegacyNewDec_def)

lemma anteRef_base_fee: "types_GetBaseFee refVm h (mdFeemarketParams anteRefMd) = Ok (Some 5)"
proof -
  have f: "Decimals_ConversionFactor 6 = Some 1000000000000" by code_simp
  have t: "decTruncateInt legacyDec 5000000000000000000 = 5" using legacyDec.truncate_whole [of 5] by (simp add: LegacyNewDec_def)
  show ?thesis
    by (simp add: types_GetBaseFee_def anteRefMd_def DefaultParams_def ConvertAmountTo18DecimalsLegacy_def feeEnv_def f t
        legacyDec.dec_mul_int)
qed

lemma anteRef_du:
  "NewMonoDecoratorUtils refVm (ante_setup anteRefCtx) (mdEvmParams anteRefMd) (mdFeemarketParams anteRefMd) = Ok anteRefDu"
proof -
  have f: "Decimals_ConversionFactor 6 = Some 1000000000000" by code_simp
  show ?thesis
    by (simp add: NewMonoDecoratorUtils_def anteRef_base_fee anteRefDu_def ConvertAmountTo18DecimalsLegacy_def feeEnv_def f
        legacyDec.dec_mul_int anteRefCtx_def ante_setup_def) (simp add: anteRefMd_def)
qed

text \<open>The account as the keeper reads it.\<close>

lemma sender_account:
  assumes "vpb s = vpb vmOne" "vmCodeHash s = []"
  shows "\<exists>acct. Vm_GetAccount refVm s 1 = Some acct \<and> Balance acct = Some 5000000000000 \<and>
    CodeHash acct = Some (Vm_EmptyCodeHash refVm)"
proof -
  have b: "baseAt refVm raBase s 1" using vmOne_base(1) assms(1) by (simp add: baseAt_def vm_bank_def)
  have r: "AddrBytes 1 \<noteq> reserveAddr KA" using usable_KA [of 1] by (simp add: usable_def)
  have "vbal refVm s 1 = 5000000000000" using vmOne_base(2) KA_factor assms(1) by (simp add: vbal_def)
  with refVm.Vm_SpendableCoin_base [OF b] r vmOne_inv assms(1) have "Vm_SpendableCoin refVm s 1 = Some 5000000000000" by simp
  with b assms(2) show ?thesis
    by (auto simp: Vm_GetAccount_def GetAccountWithoutBalance_def Vm_GetCodeHash_def baseAt_def kv_get_def split: option.splits)
qed

lemma anteRef_paid:
  fixes s :: "ref_abank vm_state"
  assumes "vpb s = vpb vmOne"
  shows "\<exists>s2 acc s3. ante_deductFees refC s [newCoin ''utoken'' 600000] (AddrBytes 1) = Ok s2 \<and>
    raGet (vm_bank s2) (AddrBytes 1) = Some acc \<and> IncrementNonce refVm s2 acc 3 = Ok s3"
proof -
  have c: "AddrBytes 1 \<noteq> moduleAddress KA FeeCollectorName"
    by (rule AddrBytes_not_module) (simp add: moduleAddress_def refModuleAddress_def refModules_def FeeCollectorName_def)
  have k: "raGet (vm_bank s) (AddrBytes 1) = Some \<lparr>raAddr = AddrBytes 1, raSeq = 3, raLocked = []\<rparr>"
    using assms by (simp add: raGet_def vm_bank_def vmOne_def kv_get_def)
  from refC.Deduct_exact [of s 1 600000] vmOne_inv usable_KA c k vmOne_base(3) KA_factor assms obtain s2 where
    "DeductTxCostsFromUserBalance refC s [newCoin ''utoken'' 600000] 1 = Ok s2"
    "raGet (vm_bank s2) (AddrBytes 1) = Some \<lparr>raAddr = AddrBytes 1, raSeq = 3, raLocked = []\<rparr>" by (auto simp: sixDecimals_def)
  then show ?thesis
    using refA.zero_single by (auto simp: ante_deductFees_def IncrementNonce_ok raSetSequence_def newCoin_def)
qed

lemma anteRef_checks:
  "CheckGlobalFee legacyDec (LegacyNewDec (checked_fee anteRefTx (Some 5))) (Some (LegacyNewDec 3)) (LegacyNewDec 100000) = Ok ()"
  "VerifyFee refApi3 (ethTx.truncate anteRefTx) ''utoken'' (Some 5) False = Ok [newCoin ''utoken'' 600000]"
  "GetFee anteRefTx = 700000"
proof -
  have "decMul legacyDec (LegacyNewDec 3) (LegacyNewDec 100000) = LegacyNewDec 300000"
    using legacyDec.dec_mul_whole [of 3 "LegacyNewDec 100000"] by (simp add: LegacyNewDec_def)
  then show "CheckGlobalFee legacyDec (LegacyNewDec (checked_fee anteRefTx (Some 5))) (Some (LegacyNewDec 3))
      (LegacyNewDec 100000) = Ok ()"
    by (simp add: CheckGlobalFee_def checked_fee_def GetEffectiveFee_def anteRefTx_def LegacyNewDec_def)
  show "VerifyFee refApi3 (ethTx.truncate anteRefTx) ''utoken'' (Some 5) False = Ok [newCoin ''utoken'' 600000]"
    by (simp add: VerifyFee_def ethTx.defs anteRefTx_def)
  show "GetFee anteRefTx = 700000" by (simp add: GetFee_def anteRefTx_def)
qed

lemma anteRef_sender:
  fixes s :: "ref_abank vm_state"
  assumes "vpb s = vpb vmOne" "vmCodeHash s = []"
  shows "VerifyAccountBalance refVm s 1 anteRefTx = Ok s"
    "CanTransfer refVm s (AsMessage anteRefMsg anteRefTx (Some 5)) (Some 5) True = Ok ()"
proof -
  from sender_account [OF assms] obtain acct where a: "Vm_GetAccount refVm s 1 = Some acct" "Balance acct = Some 5000000000000"
    "CodeHash acct = Some (Vm_EmptyCodeHash refVm)" by blast
  then show "VerifyAccountBalance refVm s 1 anteRefTx = Ok s"
    by (simp add: VerifyAccountBalance_def CheckSenderBalance_def ethTx.defs anteRefTx_def)
  from a show "CanTransfer refVm s (AsMessage anteRefMsg anteRefTx (Some 5)) (Some 5) True = Ok ()"
    by (simp add: CanTransfer_def AsMessage_def GetSender_def anteRefMsg_def anteRefTx_def Uint256FromBigInt_def)
qed

lemma anteRef_runs: "\<exists>ctx'. AnteHandle refC (\<lambda>_ _ _. None) anteRefMd anteRefCtx anteRefStx False = Ok ctx'"
proof -
  let ?s = "ResetTransientGasUsed vmOne"
  have s: "vpb ?s = vpb vmOne" "vmCodeHash ?s = []" by (simp_all add: vmOne_def)
  from anteRef_paid [OF s(1)] obtain s2 acc s3 where
    p: "ante_deductFees refC ?s [newCoin ''utoken'' 600000] (AddrBytes 1) = Ok s2" "raGet (vm_bank s2) (AddrBytes 1) = Some acc"
    "IncrementNonce refVm s2 acc 3 = Ok s3" by blast
  have sel: "etGas anteRefTx = 100000" "etNonce anteRefTx = 3" "meFrom anteRefMsg = AddrBytes 1" "meRaw anteRefMsg = Some anteRefTx"
    "eciDenom sixDecimals = ''utoken''" "fmDec feeEnv = legacyDec" "anVm (ante_setup anteRefCtx) = ?s" "\<not> anCheckTx (ante_setup anteRefCtx)"
    by (simp_all add: anteRefTx_def anteRefMsg_def sixDecimals_def feeEnv_def ante_setup_def anteRefCtx_def)
  have du: "duEvmParams anteRefDu = Vm_zeroParams" "duIsLondon anteRefDu" "duBaseFee anteRefDu = Some 5"
    "duGlobalMinGasPrice anteRefDu = Some (LegacyNewDec 3)" by (simp_all add: anteRefDu_def)
  have v: "VerifySender anteRefMsg anteRefTx = Ok ()" "checkDisabledCreateCall anteRefTx (accessControl Vm_zeroParams) = None"
    by (simp_all add: VerifySender_def anteRefMsg_def anteRefTx_def checkDisabledCreateCall_def Vm_zeroParams_def Vm_NewParams_def
      DefaultAccessControl_def)
  have g: "\<exists>ctx2. CheckGasWanted ((ante_setup anteRefCtx)\<lparr>anVm := s3\<rparr>) anteRefStx True p = Ok ctx2 \<and>
      BlockGasLimit ctx2 = 30000000 \<and> \<not> anCheckTx ctx2" for p
    by (simp add: CheckGasWanted_def BlockGasLimit_def ante_setup_def anteRefCtx_def anteRefStx_def split_def Let_def)
  have f: "CheckTxFee KA (Some (tFee anteRefStx)) 700000 100000 = Ok ()"
    by (simp add: CheckTxFee_def anteRefStx_def newCoin_def sixDecimals_def)
  from g obtain ctx2 where c2: "CheckGasWanted ((ante_setup anteRefCtx)\<lparr>anVm := s3\<rparr>) anteRefStx True (mdFeemarketParams anteRefMd) =
      Ok ctx2" "BlockGasLimit ctx2 = 30000000" "\<not> anCheckTx ctx2" by blast
  have "\<exists>ctx'. ante_message refC (\<lambda>_ _ _. None) anteRefMd (ante_setup anteRefCtx) anteRefStx False (Some (tFee anteRefStx)) anteRefDu
      anteRefMsg anteRefTx = Ok ctx'"
    using p v c2 f anteRef_checks anteRef_sender [OF s]
    by (simp add: ante_message_def Let_def sel du check_def SignatureVerification_def CheckBlockGasLimit_def UpdateCumulativeGasWanted_def)
  moreover have "ValidateTx anteRefStx = Ok (tFee anteRefStx)" "tMsgs anteRefStx = [EthMsg anteRefMsg]" "tIsGasTx anteRefStx"
    "\<not> anReCheckTx anteRefCtx" by (simp_all add: ValidateTx_def anteRefStx_def anteRefCtx_def)
  moreover have "SetupContextAndResetTransientGas anteRefCtx anteRefStx = Ok (ante_setup anteRefCtx)"
    using calculation(4) by (simp add: Setup_ok)
  ultimately show ?thesis by (simp add: AnteHandle_def anteRef_du UnpackEthMsg_def sel)
qed

section \<open>Properties\<close>

text \<open>C9: An accepted transaction was signed by the account it names as its sender. Its nonce is the sender's sequence, which goes
  up by one without wrapping, and the sender pays exactly the gas limit times the effective price
  \<open>min (tip + base fee) (fee cap)\<close> to the fee collector: every other balance, the supply, the contracts' code and storage are
  unchanged, and the base fee is within the fee cap. The sender has no locked coins and is not a module account.\<close>

theorem AnteHandle_accepts:
  fixes C :: "('b, 'k, 'c, 'p) chain"
  assumes "vm_fees C addrOf isBase" "legacy_dec (fmDec (vfe (venv C)))" "Params_Validate (mdFeemarketParams md) = Ok ()"
    "AnteHandle C ValidateTransaction md ctx stx simulate = Ok ctx'" "tMsgs stx = [EthMsg msg]" "meRaw msg = Some tx" "geth_tx tx"
    "pb_inv (vpk (venv C)) (vpb (anVm ctx))" "usable (vpk (venv C)) (GetSender msg)"
    "AddrBytes (GetSender msg) \<noteq> moduleAddress (vpk (venv C)) FeeCollectorName"
    "freeAt (venv C) isBase (vm_bank (anVm ctx)) (AddrBytes (GetSender msg))"
  shows "etSender tx = Ok (GetSender msg) \<and> meFrom msg = AddrBytes (GetSender msg) \<and>
    (\<exists>bf. types_GetBaseFee (venv C) (anHeight ctx) (mdFeemarketParams md) = Ok (Some bf) \<and> bf \<le> etGasFeeCap tx \<and>
       accepted C isBase (anVm ctx) (anVm ctx') (GetSender msg) tx (uint (etGas tx) * effective_price tx bf))"
  using vm_fees.AnteHandle_accepted [OF assms] .

lemmas anteRef_facts = anteRefTx_geth(1) vmOne_inv usable_KA anteRef_params refC.vm_fees_axioms legacyDec.legacy_dec_axioms

lemma anteRef_sel:
  "tMsgs anteRefStx = [EthMsg anteRefMsg]" "meRaw anteRefMsg = Some anteRefTx" "GetSender anteRefMsg = 1" "anVm anteRefCtx = vmOne"
  "fmDec feeEnv = legacyDec" "freeAt refVm raBase (vm_bank vmOne) (AddrBytes 1)"
  "AddrBytes a \<noteq> moduleAddress KA FeeCollectorName"
proof -
  show "AddrBytes a \<noteq> moduleAddress KA FeeCollectorName"
    by (rule AddrBytes_not_module) (simp add: moduleAddress_def refModuleAddress_def refModules_def FeeCollectorName_def)
  show "freeAt refVm raBase (vm_bank vmOne) (AddrBytes 1)"
    using vmOne_base(1) by (simp add: freeAt_def baseAt_def split: option.splits)
qed (simp_all add: anteRefStx_def anteRefMsg_def GetSender_def anteRefCtx_def feeEnv_def)

theorem AnteHandle_accepts_witness:
  "\<exists>ctx'. AnteHandle refC (\<lambda>_ _ _. None) anteRefMd anteRefCtx anteRefStx False = Ok ctx' \<and>
     extBalance KA (vpb (anVm ctx')) (AddrBytes 1) = 5000000000000 - 600000 \<and>
     (\<exists>k. raGet (vm_bank (anVm ctx')) (AddrBytes 1) = Some k \<and> raSeq k = 4)"
proof -
  from anteRef_runs obtain ctx' where r: "AnteHandle refC (\<lambda>_ _ _. None) anteRefMd anteRefCtx anteRefStx False = Ok ctx'" ..
  have n: "AddrBytes 1 \<noteq> reserveAddr KA" using usable_KA [of 1] by (simp add: usable_def)
  have "accepted refC raBase vmOne (anVm ctx') 1 anteRefTx 600000"
    using AnteHandle_accepts [OF refC.vm_fees_axioms _ anteRef_params r anteRef_sel(1,2) anteRefTx_geth(1)] anteRef_facts
      anteRef_sel anteRef_base_fee anteRefTx_geth(2) by (auto simp: anteRefTx_def)
  with r n anteRef_sel(7) vmOne_base(2) KA_factor show ?thesis by (auto simp: accepted_def anteRefTx_def)
qed

text \<open>C20: What an accepted transaction respects: the minimum gas price of the fee market parameters, taken as they are stored, on the
  fee it is checked with; the access control of calls and creations; the gas it declares to the SDK and its fee amount, which
  are those of the Ethereum transaction; and the block's gas limit, under which its gas meter is set up.\<close>

theorem AnteHandle_limits:
  fixes C :: "('b, 'k, 'c, 'p) chain"
  assumes "legacy_dec (fmDec (vfe (venv C)))" "Params_Validate (mdFeemarketParams md) = Ok ()"
    "AnteHandle C ValidateTransaction md ctx stx simulate = Ok ctx'" "tMsgs stx = [EthMsg msg]" "meRaw msg = Some tx"
  shows "\<exists>bf p. types_GetBaseFee (venv C) (anHeight ctx) (mdFeemarketParams md) = Ok bf \<and>
    MinGasPrice (mdFeemarketParams md) = Some p \<and> (p = 0 \<or> p * uint (etGas tx) \<le> LegacyNewDec (checked_fee tx bf)) \<and>
    accessType ((if etTo tx = None then acCreate else acCall) (accessControl (mdEvmParams md))) \<noteq> AccessTypeRestricted \<and>
    (anReCheckTx ctx \<or> amt_of (vpk (venv C)) (feeAmount (tFee stx)) (eciExtendedDenom (info (vpk (venv C)))) = GetFee tx \<and>
       feeGasLimit (tFee stx) = etGas tx \<and> tSignatures stx = 0) \<and>
    anMeter ctx' = NewInfiniteGasMeterWithLimit (gas_wanted md ctx tx) \<and> gas_wanted md ctx tx \<le> BlockGasLimit ctx"
proof -
  obtain du fi where du: "NewMonoDecoratorUtils (venv C) (ante_setup ctx) (mdEvmParams md) (mdFeemarketParams md) = Ok du"
    and msg: "ante_message C ValidateTransaction md (ante_setup ctx) stx simulate fi du msg tx = Ok ctx'"
    and fi: "anReCheckTx ctx \<or> ValidateTx stx = Ok (the fi) \<and> fi \<noteq> None"
    by (rule AnteHandle_ok [OF assms(3)]) (use assms(4,5) in auto)
  from ante_message_ok [OF msg] obtain s3 ctx2 where
    s: "CheckGlobalFee (fmDec (vfe (venv C))) (LegacyNewDec (checked_fee tx (duBaseFee du))) (duGlobalMinGasPrice du)
       (LegacyNewDec (uint (etGas tx))) = Ok ()" "checkDisabledCreateCall tx (accessControl (duEvmParams du)) = None"
    "CheckGasWanted ((ante_setup ctx)\<lparr>anVm := s3\<rparr>) stx (duIsLondon du) (mdFeemarketParams md) = Ok ctx2"
    "CheckTxFee (vpk (venv C)) fi (GetFee tx) (etGas tx) = Ok ()"
    "CheckBlockGasLimit ctx2 (UpdateCumulativeGasWanted (anCheckTx ctx2) (etGas tx) (mdMaxGasWanted md) 0)
       (GetMsgPriority tx (2 ^ 63 - 1) (duBaseFee du)) = Ok ctx'" by metis
  note d = NewMonoDecoratorUtils_ok [OF du]
  from assms(2) obtain p where p: "MinGasPrice (mdFeemarketParams md) = Some p" "0 \<le> p" by (auto simp: Params_Validate_iff)
  have "anReCheckTx ctx \<or> amt_of (vpk (venv C)) (feeAmount (tFee stx)) (eciExtendedDenom (info (vpk (venv C)))) = GetFee tx \<and>
      feeGasLimit (tFee stx) = etGas tx \<and> tSignatures stx = 0"
    using fi s(4) CheckTxFee_ok ValidateTx_ok by fastforce
  moreover have "accessType ((if etTo tx = None then acCreate else acCall) (accessControl (mdEvmParams md))) \<noteq> AccessTypeRestricted"
    using s(2) d(1) by (auto simp: disabled_ok split: if_splits)
  moreover have "types_GetBaseFee (venv C) (anHeight ctx) (mdFeemarketParams md) = Ok (duBaseFee du)"
    using d(4) by (simp add: ante_setup_def)
  ultimately show ?thesis
    using p(1) global_fee_ok [OF s(1) [unfolded d(3) p(1)] assms(1) p(2)] limit_steps [OF s(3) refl s(5)] by blast
qed

theorem AnteHandle_limits_witness:
  "\<exists>ctx'. AnteHandle refC (\<lambda>_ _ _. None) anteRefMd anteRefCtx anteRefStx False = Ok ctx' \<and>
     anMeter ctx' = NewInfiniteGasMeterWithLimit 100000 \<and> LegacyNewDec 3 * 100000 \<le> LegacyNewDec (checked_fee anteRefTx (Some 5))"
proof -
  from anteRef_runs obtain ctx' where r: "AnteHandle refC (\<lambda>_ _ _. None) anteRefMd anteRefCtx anteRefStx False = Ok ctx'" ..
  have "MinGasPrice (mdFeemarketParams anteRefMd) = Some (LegacyNewDec 3)" "gas_wanted anteRefMd anteRefCtx anteRefTx = 100000"
    "etGas anteRefTx = 100000" by (simp_all add: anteRefMd_def gas_wanted_def anteRefCtx_def anteRefTx_def)
  with AnteHandle_limits [OF _ anteRef_params r anteRef_sel(1,2)] legacyDec.legacy_dec_axioms anteRef_sel(5) anteRef_base_fee r
  show ?thesis by (auto simp: LegacyNewDec_def)
qed

text \<open>C10: No transaction is accepted twice. After a transaction was accepted, in every later state in which the sender's account still
  has at least the sequence it has then, no transaction with the same message is accepted, whatever the block, the parameters
  and the mode.\<close>

theorem replay_rejected:
  fixes C :: "('b, 'k, 'c, 'p) chain"
  assumes "vm_fees C addrOf isBase" "legacy_dec (fmDec (vfe (venv C)))" "Params_Validate (mdFeemarketParams md) = Ok ()"
    "Params_Validate (mdFeemarketParams md2) = Ok ()"
    "AnteHandle C V md ctx stx simulate = Ok ctx'" "tMsgs stx = [EthMsg msg]" "meRaw msg = Some tx" "geth_tx tx"
    "pb_inv (vpk (venv C)) (vpb (anVm ctx))" "pb_inv (vpk (venv C)) (vpb (anVm ctx2))" "usable (vpk (venv C)) (GetSender msg)"
    "AddrBytes (GetSender msg) \<noteq> moduleAddress (vpk (venv C)) FeeCollectorName"
    "freeAt (venv C) isBase (vm_bank (anVm ctx)) (AddrBytes (GetSender msg))"
    "auGetAccount (venv C) (vm_bank (anVm ctx')) (AddrBytes (GetSender msg)) = Some k"
    "auGetAccount (venv C) (vm_bank (anVm ctx2)) (AddrBytes (GetSender msg)) = Some k2" "isBase k2"
    "auSequence (venv C) k \<le> auSequence (venv C) k2" "tMsgs stx2 = tMsgs stx"
  shows "\<not> is_ok (AnteHandle C V2 md2 ctx2 stx2 simulate2)"
proof
  assume "is_ok (AnteHandle C V2 md2 ctx2 stx2 simulate2)"
  then obtain ctx3 where r: "AnteHandle C V2 md2 ctx2 stx2 simulate2 = Ok ctx3" by auto
  have m2: "tMsgs stx2 = [EthMsg msg]" and f2: "freeAt (venv C) isBase (vm_bank (anVm ctx2)) (AddrBytes (GetSender msg))"
    using assms(6,15,16,18) by (simp_all add: freeAt_def)
  note h = vm_fees.AnteHandle_accepted [OF assms(1,2)]
  from h [OF assms(3,5-9,11-13)] assms(14) have "etNonce tx \<noteq> - 1" "auSequence (venv C) k = etNonce tx + 1"
    by (auto simp: accepted_def)
  moreover from h [OF assms(4) r m2 assms(7,8,10-12) f2] assms(15) have "auSequence (venv C) k2 = etNonce tx"
    by (auto simp: accepted_def)
  ultimately show False using assms(17) word_less_Suc [of "etNonce tx"] by simp
qed

theorem replay_rejected_witness:
  "\<exists>ctx'. AnteHandle refC (\<lambda>_ _ _. None) anteRefMd anteRefCtx anteRefStx False = Ok ctx' \<and>
     \<not> is_ok (AnteHandle refC (\<lambda>_ _ _. None) anteRefMd ctx' anteRefStx False)"
proof -
  let ?V = "\<lambda>_ _ _. None"
  from anteRef_runs obtain ctx' where r: "AnteHandle refC ?V anteRefMd anteRefCtx anteRefStx False = Ok ctx'" ..
  have "accepted refC raBase vmOne (anVm ctx') 1 anteRefTx 600000"
    using vm_fees.AnteHandle_accepted [OF refC.vm_fees_axioms _ anteRef_params r anteRef_sel(1,2) anteRefTx_geth(1)] anteRef_facts
      anteRef_sel anteRef_base_fee anteRefTx_geth(2) by (auto simp: anteRefTx_def)
  then obtain k where k: "raGet (vm_bank (anVm ctx')) (AddrBytes 1) = Some k" "raBase k" "pb_inv KA (vpb (anVm ctx'))"
    by (auto simp: accepted_def)
  have "\<not> is_ok (AnteHandle refC ?V anteRefMd ctx' anteRefStx False)"
    using replay_rejected [OF refC.vm_fees_axioms _ anteRef_params anteRef_params r anteRef_sel(1,2) anteRefTx_geth(1),
        of ctx' k k anteRefStx ?V False] k anteRef_facts anteRef_sel by simp
  with r show ?thesis by blast
qed

end
