(* ===== verification/CosmosAnteTheorems.thy ===== *)
theory CosmosAnteTheorems
  imports CosmosAnte EvmAnteTheorems
begin

text \<open>
  The properties of the ante handler of Cosmos transactions: which messages it lets through, and what a dynamic fee is.
\<close>

section \<open>Nested messages\<close>

text \<open>The messages inside of the execution messages of a list, at every depth, and how deep they nest.\<close>

fun nested :: "sdkMsg list \<Rightarrow> sdkMsg list" where
  "nested [] = []"
| "nested (ExecMsg (Ok inner) # ms) = inner @ nested inner @ nested ms"
| "nested (m # ms) = nested ms"

fun exec_depth :: "sdkMsg list \<Rightarrow> nat" where
  "exec_depth [] = 0"
| "exec_depth (ExecMsg (Ok inner) # ms) = max (Suc (exec_depth inner)) (exec_depth ms)"
| "exec_depth (m # ms) = exec_depth ms"

definition msg_url :: "sdkMsg \<Rightarrow> string option" where
  "msg_url m = (case m of EthMsg _ \<Rightarrow> Some MsgEthereumTxURL | OtherMsg url \<Rightarrow> Some url | _ \<Rightarrow> None)"

text \<open>A message that an execution may contain, and one that may stand in a transaction.\<close>

definition grant_allowed :: "string list \<Rightarrow> sdkMsg \<Rightarrow> bool" where
  "grant_allowed disabled m = (case m of GrantMsg r \<Rightarrow> \<exists>url. r = Ok url \<and> url \<notin> set disabled | _ \<Rightarrow> True)"

definition exec_allowed :: "string list \<Rightarrow> sdkMsg \<Rightarrow> bool" where
  "exec_allowed disabled m = (case msg_url m of None \<Rightarrow> True | Some url \<Rightarrow> url \<notin> set disabled)"

lemma disabled_loop_ok:
  assumes "disabled_loop disabled ms inner lvl = Ok ()" "lvl < maxNestedMsgs"
  shows "list_all (grant_allowed disabled) (ms @ nested ms) \<and> list_all (exec_allowed disabled) (nested ms) \<and>
    (inner \<longrightarrow> list_all (exec_allowed disabled) ms) \<and> lvl + exec_depth ms < maxNestedMsgs"
  using assms
  by (induction disabled ms inner lvl rule: disabled_loop.induct)
    (auto simp: grant_allowed_def exec_allowed_def msg_url_def isDisabledMsg_def split: res.splits if_splits)

lemma nested_no_eth: "list_all (exec_allowed [MsgEthereumTxURL, u]) ms \<Longrightarrow> EthMsg x \<notin> set ms"
  by (auto simp: list_all_iff exec_allowed_def msg_url_def)

lemma reject_ok: "RejectMessages tx = None \<Longrightarrow> EthMsg x \<notin> set (tMsgs tx)"
  by (force simp: RejectMessages_def list_ex_iff split: if_splits)

lemma newCosmosAnteHandler_ok:
  assumes "newCosmosAnteHandler S E dyn ctx tx simulate = Ok ctx'"
  shows "RejectMessages tx = None"
    "disabled_loop [MsgEthereumTxURL, MsgCreateVestingAccountURL] (tMsgs tx) False 1 = Ok ()"
    "MinGasPriceCheck S (fmDec (vfe E)) (eciDenom (info (vpk E))) (GetParams (vfe E) (vfm (anVm ctx))) tx simulate = Ok ()"
  using assms
  by (auto simp: newCosmosAnteHandler_def Let_def res_bind_Ok checked_def check_def AuthzLimiter_def checkDisabledMsgs_def maxNestedMsgs_def
      split: option.splits)

section \<open>Fees\<close>

lemma ceil_bounds:
  fixes d m :: int
  assumes "0 < m"
  shows "d \<le> ((d + m - 1) div m) * m" "d \<le> n * m \<Longrightarrow> (d + m - 1) div m \<le> n"
proof -
  have "(d + m - 1) div m * m = d + m - 1 - (d + m - 1) mod m" by (simp add: minus_mod_eq_div_mult)
  moreover have "(d + m - 1) mod m < m" using assms by simp
  ultimately show "d \<le> ((d + m - 1) div m) * m" by linarith
  assume "d \<le> n * m"
  then have "(d + m - 1) div m \<le> ((m - 1) + n * m) div m" using assms by (intro zdiv_mono1) simp_all
  also have "\<dots> = n" using assms by (simp add: div_pos_pos_trivial)
  finally show "(d + m - 1) div m \<le> n" .
qed

lemma FeeChecker_London:
  assumes ok: "FeeChecker S E p d ctx tx = Ok (fees, priority)" and l: "vIsLondon E (anHeight ctx)"
    and D: "legacy_dec (fmDec (vfe E))" and v: "Params_Validate p = Ok ()"
  defines "g \<equiv> uint (feeGasLimit (tFee tx))" and "amount \<equiv> csAmountOfNoDenomValidation S (feeAmount (tFee tx)) d"
    and "base \<equiv> (if IsBaseFeeEnabled p (anHeight ctx) then the (BaseFee p) else 0)"
  assumes nn: "0 \<le> amount"
  shows "\<exists>price n. fees = [newCoin d n] \<and> price = min (max_priority_price tx + base) (LegacyNewDec amount div g) \<and> 0 < g \<and>
    base \<le> price \<and> price * g \<le> LegacyNewDec n \<and> (\<forall>m. price * g \<le> LegacyNewDec m \<longrightarrow> n \<le> m) \<and> n \<le> amount \<and> 0 \<le> priority"
proof -
  note L = legacy_dec.dec_quo_int [OF D] legacy_dec.dec_mul_int [OF D] legacy_dec.dec_ceil [OF D] legacy_dec.dec_truncate [OF D]
  have b: "0 \<le> base" "(if IsBaseFeeEnabled p (anHeight ctx) then (case BaseFee p of None \<Rightarrow> 0 | Some b \<Rightarrow> b) else 0) = base"
    using v by (auto simp: base_def Params_Validate_iff)
  define cap where "cap = LegacyNewDec amount div g"
  define price where "price = min (max_priority_price tx + base) cap"
  define n where "n = decCeilInt (fmDec (vfe E)) (decMulInt (fmDec (vfe E)) price g)"
  have "g \<noteq> 0" using ok l unfolding FeeChecker_def Let_def g_def [symmetric] by (simp split: if_splits)
  then have g: "0 < g" by (simp add: g_def order_less_le)
  have amt: "0 \<le> LegacyNewDec amount" using nn by (simp add: LegacyNewDec_def)
  have q: "decQuoInt (fmDec (vfe E)) (LegacyNewDec amount) g = cap" using L(1) [OF amt g] by (simp add: cap_def)
  note f = ok [unfolded FeeChecker_def Let_def b(2) g_def [symmetric] amount_def [symmetric] q effectiveGasPriceLegacyDec_def
      price_def [symmetric] n_def [symmetric]]
  from f l have c: "0 \<le> max_priority_price tx" "base \<le> cap" "fees = [newCoin d n]"
    and pr: "priority = (let i = decTruncateInt (fmDec (vfe E)) (decQuoInt (fmDec (vfe E)) (price - base) DefaultPriorityReduction) in
      if - (2 ^ 63) \<le> i \<and> i < 2 ^ 63 then i else 2 ^ 63 - 1)" by (auto simp: Let_def split: if_splits)
  have price: "base \<le> price" "0 \<le> price" using c b(1) by (simp_all add: price_def)
  have pg: "0 \<le> price * g" using price(2) g by simp
  have n: "n = (price * g + decOne - 1) div decOne" using L(2,3) pg by (simp add: n_def)
  have "price * g \<le> cap * g" using g by (simp add: price_def)
  also have "\<dots> \<le> LegacyNewDec amount" using g by (simp add: cap_def minus_mod_eq_div_mult [symmetric])
  finally have le: "price * g \<le> amount * decOne" by (simp add: LegacyNewDec_def)
  have "0 \<le> priority" using L(1) [of "price - base" DefaultPriorityReduction] L(4) price(1)
    by (simp add: pr Let_def DefaultPriorityReduction_def pos_imp_zdiv_nonneg_iff)
  with c(3) g price(1) ceil_bounds [of decOne "price * g"] le n show ?thesis
    by (auto simp: price_def cap_def LegacyNewDec_def)
qed

section \<open>Properties\<close>

text \<open>Decorators that let everything pass, and a Cosmos transaction with an execution of x/authz and a tip of two.\<close>

definition refSdkC :: "'b cosmos_sdk" where
  "refSdkC = \<lparr>csIsAnyGTE = (\<lambda>a b. b \<noteq> [] \<and> list_ex (\<lambda>c. Amount c \<le> refAmountOf a (Denom c)) b), csAmountOfNoDenomValidation = refAmountOf,
     csMinGasPrices = (\<lambda>_. []), csDefaultBondDenom = ''stake'', csSetUpContext = (\<lambda>c t s. Ok c), csExtensionOptions = (\<lambda>c t s. Ok c),
     csValidateBasic = (\<lambda>c t s. Ok c), csTxTimeoutHeight = (\<lambda>c t s. Ok c), csValidateMemo = (\<lambda>c t s. Ok c),
     csConsumeGasForTxSize = (\<lambda>c t s. Ok c), csDeductFee = (\<lambda>_ c t s. Ok c), csSetPubKey = (\<lambda>c t s. Ok c),
     csValidateSigCount = (\<lambda>c t s. Ok c), csSigGasConsume = (\<lambda>c t s. Ok c), csSigVerification = (\<lambda>c t s. Ok c),
     csIncrementSequence = (\<lambda>c t s. Ok c), csRedundantRelay = (\<lambda>c t s. Ok c)\<rparr>"

definition cosmosRefTx :: sdkTx where
  "cosmosRefTx = anteRefStx\<lparr>tExtensionOptions := [OptionDynamicFeeTx (Some (LegacyNewDec 2))],
     tFee := \<lparr>feeAmount = [newCoin ''utoken'' 1000000], feeGasLimit = 100000, feePayer = [], feeGranter = []\<rparr>,
     tMsgs := [ExecMsg (Ok [OtherMsg ''/send'', ExecMsg (Ok [OtherMsg ''/vote''])]), OtherMsg ''/vote'']\<rparr>"

text \<open>C13: Ethereum messages stand alone. A transaction that the ante handler accepts either is an Ethereum transaction, by its first
  extension option, with a single message that is an Ethereum message, or it has no Ethereum message anywhere, neither among
  its messages nor inside of an execution of x/authz at any depth. In the second case no execution contains a message of a
  disabled type, no grant at any depth gives the right to send one, and executions nest at most five deep.\<close>

theorem eth_messages_stand_alone:
  fixes C :: "('b, 'k, 'c, 'p) chain"
  assumes "NewAnteHandler C S ValidateTransaction maxTxGasWanted dynamicFeeChecker ctx tx simulate = Ok ctx'"
  shows "if tHasExtensions tx \<and> take 1 (tExtensionOptions tx) = [OptionsEthereumTx] then \<exists>msg. tMsgs tx = [EthMsg msg]
    else (\<forall>msg. EthMsg msg \<notin> set (tMsgs tx @ nested (tMsgs tx))) \<and>
      list_all (exec_allowed [MsgEthereumTxURL, MsgCreateVestingAccountURL]) (nested (tMsgs tx)) \<and>
      list_all (grant_allowed [MsgEthereumTxURL, MsgCreateVestingAccountURL]) (tMsgs tx @ nested (tMsgs tx)) \<and>
      exec_depth (tMsgs tx) \<le> 5"
proof (cases "tHasExtensions tx \<and> take 1 (tExtensionOptions tx) = [OptionsEthereumTx]")
  case True
  then obtain os where "tExtensionOptions tx = OptionsEthereumTx # os" by (cases "tExtensionOptions tx") auto
  with True assms have "\<exists>md. AnteHandle C ValidateTransaction md ctx tx simulate = Ok ctx'"
    by (auto simp: NewAnteHandler_def newMonoEVMAnteHandler_def)
  with True show ?thesis by (auto elim: AnteHandle_ok)
next
  case False
  then have "newCosmosAnteHandler S (venv C) dynamicFeeChecker ctx tx simulate = Ok ctx'"
    using assms by (auto simp: NewAnteHandler_def split: list.splits extOption.splits if_splits)
  note o = newCosmosAnteHandler_ok [OF this]
  note d = disabled_loop_ok [OF o(2)]
  have "EthMsg msg \<notin> set (tMsgs tx @ nested (tMsgs tx))" for msg
    using reject_ok [OF o(1)] d nested_no_eth by (auto simp: maxNestedMsgs_def)
  with False d show ?thesis by (auto simp: maxNestedMsgs_def)
qed

theorem eth_messages_stand_alone_witness:
  "is_ok (NewAnteHandler refC refSdkC (\<lambda>_ _ _. None) 0 True anteRefCtx cosmosRefTx False) \<and> exec_depth (tMsgs cosmosRefTx) \<le> 5 \<and>
     exec_allowed [MsgEthereumTxURL, MsgCreateVestingAccountURL] (OtherMsg ''/send'')"
proof -
  have f: "MinGasPrice (GetParams feeEnv (vfm vmOne)) = Some 0" by (simp add: GetParams_def vmOne_def feeState_def DefaultParams_def)
  have "is_ok (NewAnteHandler refC refSdkC (\<lambda>_ _ _. None) 0 True anteRefCtx cosmosRefTx False)"
    by (simp add: NewAnteHandler_def newCosmosAnteHandler_def cosmosRefTx_def anteRefStx_def anteRefCtx_def checked_def check_def Let_def
        RejectMessages_def AuthzLimiter_def checkDisabledMsgs_def maxNestedMsgs_def isDisabledMsg_def MsgEthereumTxURL_def
        MsgCreateVestingAccountURL_def MinGasPriceCheck_def f newCoin_def sixDecimals_def refSdkC_def GasWantedDecorator_def
        CheckGasWanted_def BlockGasLimit_def split_def)
  moreover from this obtain ctx' where
    "NewAnteHandler refC refSdkC (\<lambda>_ _ _. None) 0 True anteRefCtx cosmosRefTx False = Ok ctx'" by auto
  ultimately show ?thesis using eth_messages_stand_alone [of refC refSdkC "\<lambda>_ _ _. None" 0 True anteRefCtx cosmosRefTx False ctx']
    by (simp add: cosmosRefTx_def)
qed

text \<open>C21: The dynamic fee of a Cosmos transaction. Its price is the base fee with the tip that the transaction allows, capped by what the
  offered fee pays per unit of gas, and never below the base fee. The fee that is taken is the smallest whole amount that
  pays this price for the whole gas limit, it never exceeds the fee that was offered, and the priority is not negative.\<close>

theorem dynamic_fee_is_bounded:
  fixes E :: "('b, 'k) vm_env"
  assumes "FeeChecker S E p d ctx tx = Ok (fees, priority)" "vIsLondon E (anHeight ctx)" "legacy_dec (fmDec (vfe E))"
    "Params_Validate p = Ok ()" "0 \<le> csAmountOfNoDenomValidation S (feeAmount (tFee tx)) d"
  shows "\<exists>price base n. base = (if IsBaseFeeEnabled p (anHeight ctx) then the (BaseFee p) else 0) \<and>
    price = min (max_priority_price tx + base)
      (LegacyNewDec (csAmountOfNoDenomValidation S (feeAmount (tFee tx)) d) div uint (feeGasLimit (tFee tx))) \<and>
    base \<le> price \<and> fees = [newCoin d n] \<and> price * uint (feeGasLimit (tFee tx)) \<le> LegacyNewDec n \<and>
    (\<forall>m. price * uint (feeGasLimit (tFee tx)) \<le> LegacyNewDec m \<longrightarrow> n \<le> m) \<and>
    n \<le> csAmountOfNoDenomValidation S (feeAmount (tFee tx)) d \<and> 0 \<le> priority"
  using FeeChecker_London [OF assms] by blast

theorem dynamic_fee_is_bounded_witness:
  "\<exists>n priority. FeeChecker refSdkC refVm ((DefaultParams feeEnv)\<lparr>BaseFee := Some (LegacyNewDec 5)\<rparr>) ''utoken'' anteRefCtx cosmosRefTx =
     Ok ([newCoin ''utoken'' n], priority) \<and> n = 700000 \<and> 0 \<le> priority"
proof -
  let ?p = "(DefaultParams feeEnv)\<lparr>BaseFee := Some (LegacyNewDec 5)\<rparr>"
  have sel: "feeAmount (tFee cosmosRefTx) = [newCoin ''utoken'' 1000000]" "feeGasLimit (tFee cosmosRefTx) = 100000"
    "csAmountOfNoDenomValidation refSdkC = refAmountOf" "max_priority_price cosmosRefTx = LegacyNewDec 2" "fmDec feeEnv = legacyDec"
    by (simp_all add: cosmosRefTx_def anteRefStx_def refSdkC_def max_priority_price_def feeEnv_def)
  have en: "IsBaseFeeEnabled ?p (anHeight anteRefCtx)" by (simp add: IsBaseFeeEnabled_def DefaultParams_def anteRefCtx_def)
  have v: "Params_Validate ?p = Ok ()" by (simp add: Params_Validate_iff DefaultParams_def feeEnv_def LegacyNewDec_def)
  have q: "decQuoInt legacyDec (LegacyNewDec 1000000) 100000 = LegacyNewDec 10"
    using legacyDec.dec_quo_int [of "LegacyNewDec 1000000" 100000] by (simp add: LegacyNewDec_def)
  obtain fees priority where r: "FeeChecker refSdkC refVm ?p ''utoken'' anteRefCtx cosmosRefTx = Ok (fees, priority)"
    using en q by (auto simp: FeeChecker_def Let_def sel newCoin_def LegacyNewDec_def)
  from dynamic_fee_is_bounded [OF r] v legacyDec.legacy_dec_axioms en obtain n where
    n: "fees = [newCoin ''utoken'' n]" "LegacyNewDec 7 * 100000 \<le> LegacyNewDec n"
      "\<And>m. LegacyNewDec 7 * 100000 \<le> LegacyNewDec m \<Longrightarrow> n \<le> m" "0 \<le> priority"
    by (auto simp: sel newCoin_def LegacyNewDec_def)
  from n(2) n(3) [of 700000] have "n = 700000" by (simp add: LegacyNewDec_def)
  with n r show ?thesis by blast
qed

end
