(* ===== verification/Spec2Isabelle.thy ===== *)
theory Spec2Isabelle
  imports PreciseBankTheorems FeeMarketTheorems StateDBTheorems EvmTxTheorems Erc20Theorems VmTheorems VmPrecompiles CosmosAnteTheorems
begin

text \<open>
  A verification of the EVM modules of the Integra chain, a Cosmos SDK chain that runs the Ethereum virtual machine.

  \<^bold>\<open>The program.\<close> A transaction enters through the ante handler (\<open>src/ante\<close>), which checks it, takes its fee and uses up
  its nonce. An Ethereum transaction is then run by x/vm (\<open>src/x/vm/keeper\<close>): the keeper loads accounts into an EVM
  state (\<open>src/x/vm/statedb\<close>), go-ethereum interprets the message over that state, a precompile called on the way works
  on the module stores through a stack of snapshots (\<open>src/x/vm/store\<close>, \<open>src/precompiles/common\<close>), the dirty part of the
  state is committed back to the keeper, and the gas that is left is refunded. Balances of the EVM have 18 decimals; a
  coin with fewer is extended by x/precisebank (\<open>src/x/precisebank\<close>), which keeps the fractions and holds a reserve
  for them in x/bank. x/feemarket (\<open>src/x/feemarket\<close>) sets the base fee of each block. x/erc20 (\<open>src/x/erc20\<close>) ties
  ERC-20 contracts to bank denominations and converts between the two.

  \<^bold>\<open>How it is modelled.\<close> A function of Go becomes a HOL function of the same name, with a prefix where two modules use one
  name (\<open>Vm_GetParams\<close>, \<open>Bank_SpendableCoin\<close>). Its state is passed explicitly; an error return and a panic are values of
  the type \<open>res\<close>, and where the state of a failed call is observable the result is an \<open>eff\<close>, an error or a value with the
  state. A store is an association list ordered by key. Machine integers are words where they can wrap (gas, nonces,
  256-bit balances, the 8-bit counter of precompile calls) and \<open>sdkmath.Int\<close>, \<open>big.Int\<close> and the mantissas of \<open>LegacyDec\<close>
  are integers. The panic of \<open>sdkmath.Int\<close> beyond 256 bits is modelled where a fee of a user can reach it
  (\<open>VerifyFee\<close>, \<open>CheckTxFee\<close>), and not in the ledgers, whose sums the supply bounds. Loops are structural recursions or
  have a termination proof, so no definition uses fuel.

  Code that the repository does not contain is a field of a record that the definitions take: the bank, the accounts
  and the coin sets of the SDK (\<open>SdkApi\<close>), its decimals (\<open>dec_ops\<close>), the hash functions, accounts and chain rules x/vm
  uses (\<open>vm_env\<close>), the interpreter (\<open>evm_api\<close>), the ABI and the contracts of x/erc20, and the decorators of the SDK
  (\<open>cosmos_sdk\<close>). What the code relies on is stated in locales: \<open>sdk_bank\<close>, \<open>legacy_dec\<close>, \<open>bech32\<close>, \<open>cachekv\<close>,
  \<open>erc20_codec\<close>, \<open>erc20_evm\<close>, \<open>honest_token\<close>, \<open>vm_coin\<close>, \<open>vm_accounts\<close>, \<open>vm_commit\<close>, \<open>vm_fees\<close>. Each is interpreted on
  definitions that satisfy it: a ledger with locked coins and module accounts (\<open>RefLedger\<close>), the same with the accounts
  of x/auth (\<open>VmReference\<close>), a token contract (\<open>Erc20Reference\<close>), the SDK's rounding (\<open>SdkApi\<close>). The instances of the
  properties are evaluated there.

  \<^bold>\<open>The theories.\<close>

  \<^item> \<open>Prelude\<close>: results, ordered stores and the lemmas on both. \<open>SdkApi\<close>: the interfaces of the SDK. \<open>EvmDenom\<close>: the EVM
    coin and its decimals (\<open>x/vm/types/denom.go\<close>, \<open>denom_config.go\<close>, \<open>scaling.go\<close>).

  \<^item> x/precisebank. \<open>PreciseBank\<close> holds the keeper and the genesis functions. \<open>PreciseBankProps\<close>, \<open>PreciseBankMintBurn\<close> and
    \<open>PreciseBankHandlers\<close> show that every operation keeps the reserve invariant \<open>pb_inv\<close> and acts on the extended
    balances as a plain ledger. \<open>PreciseBankGenesis\<close> is on import and export, \<open>PreciseBankRun\<close> on histories as an
    inductive relation, and \<open>PreciseBankTheorems\<close> has the properties.

  \<^item> x/feemarket. \<open>FeeMarket\<close> holds parameters, the base fee formula, the block hooks and the wrapper. \<open>FeeMarketProps\<close> and
    \<open>FeeMarketTheorems\<close> show that the formula is the one of EIP-1559, how far a block moves the fee, and that any number
    of blocks keeps the fee above its floor.

  \<^item> The EVM state. \<open>AccessList\<close>, \<open>SnapshotStore\<close>, \<open>StateDB\<close> and \<open>StateDBOps\<close> hold the definitions, \<open>Precompile\<close> the base of
    the precompiles. \<open>StateDBRevert\<close>, \<open>StateDBUndo\<close> and \<open>StateDBHistory\<close> show that every operation leaves journal entries
    that undo it, and that a revert restores the state through any history. \<open>StateDBTheorems\<close> and \<open>EvmTxTheorems\<close> have the
    properties, and the histories in which a precompile call in a reverted frame makes the state wrong.

  \<^item> x/erc20. \<open>Erc20\<close>, \<open>Erc20Register\<close> and \<open>Erc20Convert\<close> hold the registry, the calls into the EVM, the conversions and the
    IBC callbacks. \<open>Erc20Props\<close> and \<open>Erc20History\<close> show that the registry stays one to one, \<open>Erc20Backing\<close> that the
    conversions keep the escrowed tokens and the issued coins in balance. \<open>Erc20Theorems\<close> has the properties.

  \<^item> x/vm. \<open>VmParams\<close> holds parameters, permissions and opcode hooks, \<open>VmKeeper\<close> the stores, the bank wrapper and the
    account operations, \<open>VmModule\<close> coin info, block values, block hashes, preinstalls and genesis, \<open>VmTransition\<close> gas,
    fees, state overrides and authorizations, \<open>VmMessage\<close> the run of a message and of a transaction, \<open>VmPrecompiles\<close> the
    precompile hooks. \<open>VmBank\<close> and \<open>VmAccounts\<close> show that \<open>SetBalance\<close> sets exactly one balance and that \<open>SetAccount\<close> is
    read back. \<open>VmCommit\<close> shows that a commit publishes the EVM state, \<open>VmGas\<close> what a message is charged. \<open>VmTheorems\<close>
    has the properties.

  \<^item> The ante handlers. \<open>EvmAnte\<close> holds the decorator of Ethereum transactions and the parts of \<open>MsgEthereumTx\<close> it reads,
    \<open>CosmosAnte\<close> the handler of Cosmos transactions, the dynamic fee and the choice between the two. \<open>EvmAnteProps\<close>,
    \<open>EvmAnteTheorems\<close> and \<open>CosmosAnteTheorems\<close> show what an accepted transaction has paid, that it cannot be replayed, and
    that Ethereum messages do not hide in other transactions.

  \<^bold>\<open>How the components meet.\<close> x/vm moves coins only through x/precisebank, so the theorems on accounts, commit, gas and the
    ante handler carry the invariant \<open>pb_inv\<close> and are stated on extended balances. \<open>vm_StateKeeper\<close> gives the keeper of
    x/vm to the EVM state. The ante handler reads the parameters of x/feemarket and takes fees with the same function
    whose refund \<open>VmGas\<close> settles.

  \<^bold>\<open>Bounds.\<close> The charge of a message is exact for gas limits below \<open>2^63\<close>, where the signed conversion of the code is.
  Base fee and gas target of a block are those of 64-bit gas. The theorems on accounts are for addresses that are no
  module accounts, are not blocked and have no locked coins.

  \<^bold>\<open>Not modelled.\<close> Events, telemetry, logging and tracing. The gRPC queries of x/vm, which estimate gas with floating point
  and simulate calls. The interpreter of go-ethereum. The single precompiles, which translate ABI values into messages of
  the SDK. The mempool, which is concurrent code around the pool of go-ethereum. The IBC applications other than what x/erc20 does in
  them. JSON-RPC, server, indexer, command line, application wiring, cryptography and generated code.
\<close>

end
